(* ===== verification/Prelude.thy ===== *)
theory Prelude
  imports Main "HOL-Library.Word" "HOL-Library.State_Monad"
begin

text \<open>
  Shared by every component: Go's fixed-width integers, \<open>error\<close> values and panics; the
  state monad in which the handlers are written, with its ghost trace of the effects on the
  outside world; the trace logic \<open>gives\<close> with its composition rules; and generic facts
  on lists and on decimal numerals.
\<close>

named_theorems run_simps \<open>one-step equations of the primitive effects under \<open>run_state\<close>\<close>
named_theorems gives_intros \<open>composition rules of the trace logic\<close>

section \<open>Integers and strings of Go\<close>

text \<open>Go's \<open>int32\<close> and (on the 64-bit targets of the images) \<open>int\<close>.\<close>

type_synonym int32 = "32 word"
type_synonym goint = "64 word"

text \<open>\<open>int32(n)\<close> of an \<open>int\<close>: the low 32 bits.\<close>

definition to_int32 :: "goint \<Rightarrow> int32" where
  "to_int32 n = ucast n"

text \<open>\<open>int(n)\<close> of an \<open>int32\<close>: sign extension.\<close>

definition to_int :: "int32 \<Rightarrow> goint" where
  "to_int n = scast n"

text \<open>\<open>len(xs)\<close> is an \<open>int\<close>.\<close>

definition go_len :: "'a list \<Rightarrow> goint" where
  "go_len xs = of_nat (length xs)"

definition digitChar :: "nat \<Rightarrow> char" where
  "digitChar d = ''0123456789'' ! d"

fun nat_digits :: "nat \<Rightarrow> string" where
  "nat_digits n =
     (if n < 10 then [digitChar n] else nat_digits (n div 10) @ [digitChar (n mod 10)])"

declare nat_digits.simps [simp del]

text \<open>The decimal text of \<open>strconv.Itoa\<close> and of the verb \<open>%d\<close>.\<close>

definition itoa :: "int \<Rightarrow> string" where
  "itoa i = (if i < 0 then ''-'' @ nat_digits (nat (- i)) else nat_digits (nat i))"

definition formatBool :: "bool \<Rightarrow> string" where
  "formatBool b = (if b then ''true'' else ''false'')"

text \<open>Widening keeps the value, narrowing keeps the low bits.\<close>

lemma sint_to_int32: "sint (to_int32 m) = signed_take_bit 31 (sint m)"
  unfolding to_int32_def sint_uint [of m] by (simp add: signed_ucast_eq signed_take_bit_signed_take_bit)

lemma sint_to_int: "sint (to_int n) = sint n"
  using sint_ge [of n] sint_lt [of n] by (simp add: to_int_def signed_scast_eq signed_take_bit_int_eq_self)

lemma to_int32_to_int: "to_int32 (to_int n) = n"
proof (rule signed_word_eqI)
  show "sint (to_int32 (to_int n)) = sint n"
    using sint_ge [of n] sint_lt [of n]
    by (simp add: sint_to_int32 sint_to_int signed_take_bit_int_eq_self)
qed

section \<open>Errors and panics\<close>

text \<open>
  A non-nil Go \<open>error\<close>: the text of \<open>Error()\<close> and whether
  \<open>apierrors.IsNotFound\<close> accepts it. \<open>errors.New\<close> and \<open>fmt.Errorf\<close> with \<open>%s\<close>
  make a fresh error, \<open>%w\<close> keeps the wrapped one visible.
\<close>

record error =
  isNotFound :: bool
  errMsg :: string

definition newError :: "string \<Rightarrow> error" where
  "newError msg = \<lparr>isNotFound = False, errMsg = msg\<rparr>"

definition errorf_s :: "string \<Rightarrow> error \<Rightarrow> error" where
  "errorf_s prefix e = \<lparr>isNotFound = False, errMsg = prefix @ errMsg e\<rparr>"

definition errorf_w :: "string \<Rightarrow> error \<Rightarrow> error" where
  "errorf_w prefix e = \<lparr>isNotFound = isNotFound e, errMsg = prefix @ errMsg e\<rparr>"

lemma error_sel [simp]:
  "isNotFound (newError m) = False" "errMsg (newError m) = m"
  "isNotFound (errorf_s p e) = False" "errMsg (errorf_s p e) = p @ errMsg e"
  "isNotFound (errorf_w p e) = isNotFound e" "errMsg (errorf_w p e) = p @ errMsg e"
  by (simp_all add: newError_def errorf_s_def errorf_w_def)

text \<open>
  A nil dereference ends the call of the whole reconcile; nothing in the repository recovers
  from it. \<open>Panic\<close> is therefore kept apart from the returned errors.
\<close>

datatype 'a outcome = Ret 'a | Panic

section \<open>State and effects\<close>

text \<open>
  \<open>world\<close> is everything outside the program (API server, network, clock), of an arbitrary
  type: the handlers reach it only through functions they are given. \<open>trace\<close> is a ghost
  record of the calls made, which no handler reads.
\<close>

record ('w, 'e) sys =
  world :: 'w
  trace :: "'e list"

abbreviation ret :: "'a \<Rightarrow> ('s, 'a) state" where
  "ret \<equiv> State_Monad.return"

text \<open>Run a function of the outside world and record the call with its answer.\<close>

definition call :: "('r \<Rightarrow> 'e) \<Rightarrow> ('w \<Rightarrow> 'r \<times> 'w) \<Rightarrow> (('w, 'e) sys, 'r) state" where
  "call mk f = State (\<lambda>s. case f (world s) of
     (r, w) \<Rightarrow> (r, s\<lparr>world := w, trace := trace s @ [mk r]\<rparr>))"

text \<open>Record an effect that has no answer.\<close>

definition emit :: "'e \<Rightarrow> (('w, 'e) sys, unit) state" where
  "emit e = State (\<lambda>s. ((), s\<lparr>trace := trace s @ [e]\<rparr>))"

text \<open>Sequencing with a step that may panic: a panic ends the computation.\<close>

definition andThen ::
  "('s, 'a outcome) state \<Rightarrow> ('a \<Rightarrow> ('s, 'b outcome) state) \<Rightarrow> ('s, 'b outcome) state" where
  "andThen m f = do { x \<leftarrow> m; case x of Panic \<Rightarrow> ret Panic | Ret v \<Rightarrow> f v }"

lemma run_call [run_simps]:
  "run_state (call mk f) s =
     (case f (world s) of (r, w) \<Rightarrow> (r, s\<lparr>world := w, trace := trace s @ [mk r]\<rparr>))"
  by (simp add: call_def)

lemma run_Let [run_simps]: "run_state (let x = a in f x) s = run_state (f a) s"
  by simp

lemma case_Let [run_simps]:
  "(case Let a h of (x, y) \<Rightarrow> g x y) = (case h a of (x, y) \<Rightarrow> g x y)"
  "(case Let a k of Ret v \<Rightarrow> p v | Panic \<Rightarrow> q) = (case k a of Ret v \<Rightarrow> p v | Panic \<Rightarrow> q)"
  "(case Let a l of Inl e \<Rightarrow> b e | Inr v \<Rightarrow> c v) = (case l a of Inl e \<Rightarrow> b e | Inr v \<Rightarrow> c v)"
  by (simp_all add: Let_def)

lemma run_emit [run_simps]:
  "run_state (emit e) s = ((), s\<lparr>trace := trace s @ [e]\<rparr>)"
  by (simp add: emit_def)

lemma run_andThen [run_simps]:
  "run_state (andThen m f) s =
     (case run_state m s of (x, s') \<Rightarrow>
        (case x of Panic \<Rightarrow> (Panic, s') | Ret v \<Rightarrow> run_state (f v) s'))"
  by (simp add: andThen_def split: prod.splits outcome.splits)

lemma andThen_ret [simp]:
  "andThen (ret (Ret v)) f = f v" "andThen (ret Panic) f = ret Panic"
  by (simp_all add: andThen_def)

lemma andThen_assoc: "andThen (andThen m f) g = andThen m (\<lambda>x. andThen (f x) g)"
  by (rule state_ext) (simp add: run_andThen split: prod.split outcome.split)

lemma andThen_cong:
  "(\<And>v. f v = g v) \<Longrightarrow> andThen m f = andThen m g"
  by (drule ext) simp

section \<open>The trace logic\<close>

text \<open>
  \<open>gives m Q\<close>: from any state, \<open>m\<close> only appends to the trace, and what it returns and
  what it appended are related by \<open>Q\<close>.
\<close>

definition gives :: "(('w, 'e) sys, 'a) state \<Rightarrow> ('a \<Rightarrow> 'e list \<Rightarrow> bool) \<Rightarrow> bool" where
  "gives m Q \<longleftrightarrow>
     (\<forall>s r s'. run_state m s = (r, s') \<longrightarrow> (\<exists>t. trace s' = trace s @ t \<and> Q r t))"

lemma gives_weaken: "gives m Q \<Longrightarrow> (\<And>r t. Q r t \<Longrightarrow> R r t) \<Longrightarrow> gives m R"
  unfolding gives_def by blast

lemma gives_conj: "gives m P \<Longrightarrow> gives m Q \<Longrightarrow> gives m (\<lambda>r t. P r t \<and> Q r t)"
  unfolding gives_def by (metis same_append_eq)

lemma gives_return [gives_intros]: "Q x [] \<Longrightarrow> gives (ret x) Q"
  unfolding gives_def by simp

lemma gives_emit [gives_intros]: "Q () [e] \<Longrightarrow> gives (emit e) Q"
  unfolding gives_def by (simp add: run_simps)

lemma gives_call [gives_intros]: "(\<And>r. Q r [mk r]) \<Longrightarrow> gives (call mk f) Q"
  unfolding gives_def by (auto simp: run_simps Let_def split: prod.splits)

text \<open>The same, with what the called function can answer.\<close>

lemma gives_call_of: "(\<And>w r w'. f w = (r, w') \<Longrightarrow> Q r [mk r]) \<Longrightarrow> gives (call mk f) Q"
  unfolding gives_def by (auto simp: run_simps split: prod.splits)

lemma gives_bind:
  assumes m: "gives m P"
    and f: "\<And>x t1. P x t1 \<Longrightarrow> gives (f x) (\<lambda>r t2. Q r (t1 @ t2))"
  shows "gives (State_Monad.bind m f) Q"
  unfolding gives_def
proof (intro allI impI)
  fix s r s'
  assume run: "run_state (State_Monad.bind m f) s = (r, s')"
  obtain x u where mx: "run_state m s = (x, u)" by (cases "run_state m s")
  from m mx obtain t1 where t1: "trace u = trace s @ t1" "P x t1"
    unfolding gives_def by blast
  from run mx have "run_state (f x) u = (r, s')" by simp
  with f [OF t1(2)] obtain t2 where "trace s' = trace u @ t2" "Q r (t1 @ t2)"
    unfolding gives_def by blast
  with t1 show "\<exists>t. trace s' = trace s @ t \<and> Q r t" by auto
qed

lemma gives_andThen:
  assumes m: "gives m P"
    and panic: "\<And>t. P Panic t \<Longrightarrow> Q Panic t"
    and f: "\<And>v t1. P (Ret v) t1 \<Longrightarrow> gives (f v) (\<lambda>r t2. Q r (t1 @ t2))"
  shows "gives (andThen m f) Q"
  unfolding andThen_def
  by (rule gives_bind [OF m]) (auto split: outcome.splits intro!: gives_return panic f)

lemma gives_bind_call [gives_intros]:
  "(\<And>x. gives (f x) (\<lambda>r t. Q r (mk x # t))) \<Longrightarrow> gives (State_Monad.bind (call mk g) f) Q"
  by (rule gives_bind [where P = "\<lambda>x t. t = [mk x]"]) (auto intro: gives_call)

lemma gives_bind_emit [gives_intros]:
  "gives (f ()) (\<lambda>r t. Q r (e # t)) \<Longrightarrow> gives (State_Monad.bind (emit e) f) Q"
  by (rule gives_bind [where P = "\<lambda>x t. t = [e]"]) (auto intro: gives_emit)

lemma gives_if [gives_intros]:
  "(b \<Longrightarrow> gives m Q) \<Longrightarrow> (\<not> b \<Longrightarrow> gives n Q) \<Longrightarrow> gives (if b then m else n) Q"
  by simp

lemma gives_case_sum [gives_intros]:
  "(\<And>e. x = Inl e \<Longrightarrow> gives (f e) Q) \<Longrightarrow> (\<And>v. x = Inr v \<Longrightarrow> gives (g v) Q) \<Longrightarrow>
   gives (case x of Inl e \<Rightarrow> f e | Inr v \<Rightarrow> g v) Q"
  by (cases x) auto

lemma gives_case_option [gives_intros]:
  "(x = None \<Longrightarrow> gives m Q) \<Longrightarrow> (\<And>v. x = Some v \<Longrightarrow> gives (f v) Q) \<Longrightarrow>
   gives (case x of None \<Rightarrow> m | Some v \<Rightarrow> f v) Q"
  by (cases x) auto

lemma gives_case_outcome [gives_intros]:
  "(\<And>v. x = Ret v \<Longrightarrow> gives (f v) Q) \<Longrightarrow> (x = Panic \<Longrightarrow> gives m Q) \<Longrightarrow>
   gives (case x of Ret v \<Rightarrow> f v | Panic \<Rightarrow> m) Q"
  by (cases x) auto

lemma gives_case_list [gives_intros]:
  "(x = [] \<Longrightarrow> gives m Q) \<Longrightarrow> (\<And>y ys. x = y # ys \<Longrightarrow> gives (f y ys) Q) \<Longrightarrow>
   gives (case x of [] \<Rightarrow> m | y # ys \<Rightarrow> f y ys) Q"
  by (cases x) auto

lemma gives_case_prod [gives_intros]:
  "(\<And>a b. x = (a, b) \<Longrightarrow> gives (f a b) Q) \<Longrightarrow> gives (case x of (a, b) \<Rightarrow> f a b) Q"
  by (cases x) auto

lemma gives_Let [gives_intros]: "gives (f x) Q \<Longrightarrow> gives (let y = x in f y) Q"
  by simp

text \<open>A postcondition for every value of a parameter.\<close>

lemma gives_all: "(\<And>x. gives m (Q x)) \<Longrightarrow> gives m (\<lambda>r t. \<forall>x. Q x r t)"
  unfolding gives_def by (metis same_append_eq)

lemma gives_run:
  "gives m Q \<Longrightarrow> run_state m s = (r, s') \<Longrightarrow> \<exists>t. trace s' = trace s @ t \<and> Q r t"
  unfolding gives_def by blast

section \<open>Order in a trace\<close>

text \<open>
  Every effect of the kind \<open>rel\<close> finds the condition \<open>P\<close> met by what precedes it:
  \<open>pre\<close> is the trace so far.
\<close>

fun onlyAfter :: "('e \<Rightarrow> bool) \<Rightarrow> ('e list \<Rightarrow> bool) \<Rightarrow> 'e list \<Rightarrow> 'e list \<Rightarrow> bool" where
  "onlyAfter rel P pre [] = True"
| "onlyAfter rel P pre (e # t) = ((rel e \<longrightarrow> P pre) \<and> onlyAfter rel P (pre @ [e]) t)"

lemma onlyAfter_append [simp]:
  "onlyAfter rel P pre (t1 @ t2) \<longleftrightarrow> onlyAfter rel P pre t1 \<and> onlyAfter rel P (pre @ t1) t2"
  by (induction t1 arbitrary: pre) auto

lemma onlyAfter_none: "\<forall>e \<in> set t. \<not> rel e \<Longrightarrow> onlyAfter rel P pre t"
  by (induction t arbitrary: pre) auto

lemma onlyAfter_iff:
  "onlyAfter rel P pre t \<longleftrightarrow> (\<forall>t1 e t2. t = t1 @ e # t2 \<longrightarrow> rel e \<longrightarrow> P (pre @ t1))"
proof (induction t arbitrary: pre)
  case Nil
  then show ?case by simp
next
  case (Cons x t)
  show ?case
    by (auto simp: Cons.IH Cons_eq_append_conv)
qed

text \<open>A condition on what has happened stays met.\<close>

lemma onlyAfter_weaken:
  "onlyAfter rel P pre t \<Longrightarrow> set pre \<subseteq> set pre' \<Longrightarrow>
   (\<And>u v. P u \<Longrightarrow> set u \<subseteq> set v \<Longrightarrow> set pre' \<subseteq> set v \<Longrightarrow> Q v) \<Longrightarrow> onlyAfter rel Q pre' t"
proof (induction t arbitrary: pre pre')
  case Nil
  then show ?case by simp
next
  case (Cons x t)
  have "onlyAfter rel Q (pre' @ [x]) t"
    by (rule Cons.IH [of "pre @ [x]"]) (use Cons.prems in auto)
  moreover have "rel x \<longrightarrow> Q pre'" using Cons.prems by auto
  ultimately show ?case by simp
qed

lemma onlyAfter_prefix:
  "onlyAfter rel P pre t \<Longrightarrow> (\<And>v. P v \<Longrightarrow> Q (u @ v)) \<Longrightarrow> onlyAfter rel Q (u @ pre) t"
  by (induction t arbitrary: pre) fastforce+

lemma onlyAfter_Cons:
  assumes "onlyAfter rel P [] t" and "\<And>v. P v \<Longrightarrow> Q (e # v)"
  shows "onlyAfter rel Q [e] t"
  using onlyAfter_prefix [OF assms(1), of Q "[e]"] assms(2) by simp

lemma onlyAfter_met:
  "P pre \<Longrightarrow> (\<And>u v. P u \<Longrightarrow> set u \<subseteq> set v \<Longrightarrow> P v) \<Longrightarrow> onlyAfter rel P pre t"
proof (induction t arbitrary: pre)
  case Nil
  then show ?case by simp
next
  case (Cons x t)
  have "P (pre @ [x])" by (rule Cons.prems(2) [OF Cons.prems(1)]) auto
  with Cons show ?case by auto
qed

text \<open>
  The condition may speak of the effect itself: \<open>only rel e\<close> are the occurrences of the effect
  \<open>e\<close>, if it is of the kind \<open>rel\<close>.
\<close>

abbreviation only :: "('e \<Rightarrow> bool) \<Rightarrow> 'e \<Rightarrow> 'e \<Rightarrow> bool" where
  "only rel e \<equiv> \<lambda>e'. e' = e \<and> rel e"

lemma onlyAfter_each:
  "(\<forall>e. onlyAfter (only rel e) (P e) pre t) \<Longrightarrow> (\<And>e v. P e v \<Longrightarrow> Q v) \<Longrightarrow> onlyAfter rel Q pre t"
  unfolding onlyAfter_iff by blast

lemma onlyAfter_each_Cons:
  "\<forall>e. onlyAfter (only rel e) (P e) [] t \<Longrightarrow> (\<And>e v. P e v \<Longrightarrow> Q e (x # v)) \<Longrightarrow>
   \<forall>e. onlyAfter (only rel e) (Q e) [x] t"
  by (blast intro: onlyAfter_Cons)

text \<open>The form in which a property reads it off a run.\<close>

lemma gives_each_run:
  assumes "gives m (\<lambda>r t. \<forall>e. onlyAfter (only rel e) (P e) [] t)" and "run_state m s = (r, s')"
  shows "\<exists>t. trace s' = trace s @ t \<and> (\<forall>t1 e t2. t = t1 @ e # t2 \<longrightarrow> rel e \<longrightarrow> P e t1)"
  using gives_run [OF assms] by (auto simp: onlyAfter_iff)

lemma gives_onlyAfter_run:
  assumes "gives m (\<lambda>r t. onlyAfter rel P [] t)" and "run_state m s = (r, s')"
  shows "\<exists>t. trace s' = trace s @ t \<and> (\<forall>t1 e t2. t = t1 @ e # t2 \<longrightarrow> rel e \<longrightarrow> P t1)"
  using gives_run [OF assms] by (auto simp: onlyAfter_iff)

end
