(* ===== verification/ApiTypes.thy ===== *)
theory ApiTypes
  imports Prelude
begin

text \<open>
  The custom resources of \<open>operator/api/v1alpha1\<close> and the parts of the Kubernetes
  objects the operator reads or writes. Records carry the source's field names. A pointer
  field is an \<open>option\<close>; a Go map that may be nil is an optional partial function; a nil
  and an empty slice are both \<open>[]\<close>, since an object read from the API never holds an empty
  non-nil one. The fields of pods and containers that the operator only copies are one
  opaque text each.
\<close>

section \<open>Time\<close>

text \<open>An instant, in nanoseconds; \<open>metav1.Time.Before\<close> and \<open>time.Time.After\<close> compare it.\<close>

datatype time = Time (nanos: int)

instantiation time :: linorder
begin

definition less_eq_time :: "time \<Rightarrow> time \<Rightarrow> bool" where
  "less_eq_time t u \<longleftrightarrow> nanos t \<le> nanos u"

definition less_time :: "time \<Rightarrow> time \<Rightarrow> bool" where
  "less_time t u \<longleftrightarrow> nanos t < nanos u"

instance
  by standard (auto simp: less_eq_time_def less_time_def time.expand)

end

type_synonym duration = int

definition addDuration :: "time \<Rightarrow> duration \<Rightarrow> time" where
  "addDuration t d = Time (nanos t + d)"

lemma time_less_iff [simp]: "Time a < Time b \<longleftrightarrow> a < b" "Time a \<le> Time b \<longleftrightarrow> a \<le> b"
  by (simp_all add: less_time_def less_eq_time_def)

section \<open>Object metadata\<close>

type_synonym labels = "(string \<rightharpoonup> string) option"

record ownerReference =
  RefKind :: string
  RefName :: string
  RefUID :: string

record objectMeta =
  Name :: string
  GenerateName :: string
  Namespace :: string
  UID :: string
  ResourceVersion :: nat
  Labels :: labels
  Finalizers :: "string list"
  OwnerReferences :: "ownerReference list"
  CreationTimestamp :: time
  DeletionTimestamp :: "time option"

definition newMeta :: objectMeta where
  "newMeta = \<lparr>Name = [], GenerateName = [], Namespace = [], UID = [], ResourceVersion = 0,
     Labels = None, Finalizers = [], OwnerReferences = [], CreationTimestamp = Time 0,
     DeletionTimestamp = None\<rparr>"

text \<open>Reading a key of a map: a nil map has no keys.\<close>

definition lookupLabel :: "labels \<Rightarrow> string \<Rightarrow> string option" where
  "lookupLabel l k = (case l of None \<Rightarrow> None | Some m \<Rightarrow> m k)"

text \<open>\<open>if labels == nil then a fresh map\<close>, followed by one store.\<close>

definition withLabel :: "labels \<Rightarrow> string \<Rightarrow> string \<Rightarrow> labels" where
  "withLabel l k v = Some ((case l of None \<Rightarrow> Map.empty | Some m \<Rightarrow> m)(k \<mapsto> v))"

text \<open>
  What such a store does to the object that owned the map: a non-nil map is shared, so the
  object sees the store; a nil one was replaced by a fresh map the object does not hold.
\<close>

definition storeShared :: "labels \<Rightarrow> string \<Rightarrow> string \<Rightarrow> labels" where
  "storeShared l k v = (case l of None \<Rightarrow> None | Some m \<Rightarrow> Some (m(k \<mapsto> v)))"

lemma lookup_withLabel [simp]:
  "lookupLabel (withLabel l k v) k' = (if k' = k then Some v else lookupLabel l k')"
  by (simp add: lookupLabel_def withLabel_def split: option.split)

lemma lookup_storeShared:
  "lookupLabel (storeShared l k v) k' =
     (if k' = k \<and> l \<noteq> None then Some v else lookupLabel l k')"
  by (simp add: lookupLabel_def storeShared_def split: option.split)

record condition =
  CondType :: string
  CondStatus :: string
  LastTransitionTime :: time
  CondReason :: string
  CondMessage :: string

section \<open>Pods\<close>

record objectFieldSelector =
  FieldPath :: string
  FieldAPIVersion :: string

record envVar =
  EnvName :: string
  EnvValue :: string
  ValueFrom :: "objectFieldSelector option"

record containerPort =
  PortName :: string
  ContainerPort :: int32

record container =
  ContainerName :: string
  Image :: string
  Ports :: "containerPort list"
  Env :: "envVar list"
  ImagePullPolicy :: string
  ContainerRest :: string

record podSpec =
  Containers :: "container list"
  ImagePullSecrets :: "string list"
  PodSpecRest :: string

record pod =
  pod_meta :: objectMeta
  pod_spec :: podSpec
  Phase :: string
  PodIP :: string

section \<open>Server\<close>

record gameInfo =
  Capacity :: "goint option"

record sidecarSettings =
  Port :: "goint option"
  SidecarImage :: "string option"
  LogDebug :: bool

record serverSpec =
  Pod :: podSpec
  TimeOut :: "duration option"
  AllowForceDelete :: bool
  SidecarSettings :: "sidecarSettings option"
  GameInfo :: "gameInfo option"

record server =
  server_meta :: objectMeta
  server_spec :: serverSpec
  server_conditions :: "condition list"

section \<open>Fleet\<close>

type_synonym priority = string

definition OldestFirst :: priority where "OldestFirst = ''oldest_first''"
definition NewestFirst :: priority where "NewestFirst = ''newest_first''"

text \<open>The values the validation marker of \<open>AgePriority\<close> lets through.\<close>

definition crdPriorities :: "priority list" where
  "crdPriorities = [''oldest_first'', ''smallest_first'']"

record fleetScaling =
  Replicas :: int32
  PrioritizeAllowed :: bool
  AgePriority :: priority

record fleetSpec =
  ServerSpec :: serverSpec
  Scaling :: fleetScaling

record fleetStatus =
  FleetConditions :: "condition list"
  CurrentReplicas :: int32

record fleet =
  fleet_meta :: objectMeta
  fleet_spec :: fleetSpec
  fleet_status :: fleetStatus

text \<open>\<open>reflect.DeepEqual\<close> on the two pod specs.\<close>

definition AreFleetsPodsEqual :: "fleetSpec \<Rightarrow> fleetSpec \<Rightarrow> bool" where
  "AreFleetsPodsEqual f1 f2 \<longleftrightarrow> Pod (ServerSpec f1) = Pod (ServerSpec f2)"

section \<open>GameType\<close>

record gameTypeStatus =
  GameTypeConditions :: "condition list"
  CurrentFleetName :: string
  CurrentFleetReplicas :: int32

record gameType =
  gametype_meta :: objectMeta
  FleetSpec :: fleetSpec
  gametype_status :: gameTypeStatus

section \<open>GameTypeAutoscaler\<close>

definition Webhook :: string where "Webhook = ''webhook''"
definition FixedInterval :: string where "FixedInterval = ''fixedinterval''"

record service =
  ServiceName :: string
  ServiceNamespace :: string
  ServicePort :: goint

record webhookAutoscalerSpec =
  Url :: "string option"
  Path :: "string option"
  Service :: "service option"

record autoscalePolicy =
  PolicyType :: string
  WebhookSpec :: webhookAutoscalerSpec

record sync =
  SyncType :: string
  SyncTime :: "duration option"

record gameTypeAutoscaler =
  autoscaler_meta :: objectMeta
  GameTypeName :: string
  AutoscalePolicy :: autoscalePolicy
  Sync :: sync

end
