(* ===== verification/Client.thy ===== *)
theory Client
  imports ApiTypes
begin

text \<open>
  Everything the operator calls outside its own source, as records of functions the handlers
  take as an argument: the Kubernetes client of controller-runtime (\<open>api\<close>), its pure
  helpers on metadata (\<open>lib\<close>), HTTP, the clock and the environment (\<open>ext\<close>). Each call
  is wrapped so that it appears, with its answer, in the trace. The documented behaviour a
  property relies on is a named predicate at the end of the theory.
\<close>

section \<open>JSON and HTTP\<close>

text \<open>
  A JSON document as \<open>encoding/json\<close> sees it after scanning; a number keeps its literal.
\<close>

datatype json =
    JNull
  | JBool bool
  | JNum string
  | JStr string
  | JArr "json list"
  | JObj "(string \<times> json) list"

text \<open>A request; no body document means a body that does not scan as JSON (or none).\<close>

record httpRequest =
  Method :: string
  RequestUrl :: string
  RequestBody :: "json option"

text \<open>
  A response: \<open>BodyRead\<close> is what reading the body to its end gives, \<open>BodyJson\<close> the
  document it scans as.
\<close>

record httpResponse =
  StatusCode :: nat
  Status :: string
  BodyRead :: "error + string"
  BodyJson :: "error + json"

section \<open>The functions called\<close>

datatype kind = KServer | KPod | KFleet | KGameType | KAutoscaler

text \<open>\<open>types.NamespacedName\<close>: namespace and name.\<close>

type_synonym nsname = "string \<times> string"

record 'w api =
  apiGetServer :: "nsname \<Rightarrow> 'w \<Rightarrow> (error + server) \<times> 'w"
  apiGetPod :: "nsname \<Rightarrow> 'w \<Rightarrow> (error + pod) \<times> 'w"
  apiGetFleet :: "nsname \<Rightarrow> 'w \<Rightarrow> (error + fleet) \<times> 'w"
  apiGetGameType :: "nsname \<Rightarrow> 'w \<Rightarrow> (error + gameType) \<times> 'w"
  apiGetAutoscaler :: "nsname \<Rightarrow> 'w \<Rightarrow> (error + gameTypeAutoscaler) \<times> 'w"
  apiListServers :: "string option \<Rightarrow> string \<times> string \<Rightarrow> 'w \<Rightarrow> (error + server list) \<times> 'w"
  apiListFleets :: "string option \<Rightarrow> string \<times> string \<Rightarrow> 'w \<Rightarrow> (error + fleet list) \<times> 'w"
  apiCreateServer :: "server \<Rightarrow> 'w \<Rightarrow> (error + server) \<times> 'w"
  apiCreatePod :: "pod \<Rightarrow> 'w \<Rightarrow> (error + pod) \<times> 'w"
  apiCreateFleet :: "fleet \<Rightarrow> 'w \<Rightarrow> (error + fleet) \<times> 'w"
  apiUpdateServer :: "server \<Rightarrow> 'w \<Rightarrow> (error + server) \<times> 'w"
  apiUpdatePod :: "pod \<Rightarrow> 'w \<Rightarrow> (error + pod) \<times> 'w"
  apiUpdateFleet :: "fleet \<Rightarrow> 'w \<Rightarrow> (error + fleet) \<times> 'w"
  apiUpdateGameType :: "gameType \<Rightarrow> 'w \<Rightarrow> (error + gameType) \<times> 'w"
  apiStatusServer :: "server \<Rightarrow> 'w \<Rightarrow> (error + server) \<times> 'w"
  apiStatusFleet :: "fleet \<Rightarrow> 'w \<Rightarrow> (error + fleet) \<times> 'w"
  apiStatusGameType :: "gameType \<Rightarrow> 'w \<Rightarrow> (error + gameType) \<times> 'w"
  apiDeleteServer :: "server \<Rightarrow> 'w \<Rightarrow> (error + unit) \<times> 'w"
  apiDeletePod :: "pod \<Rightarrow> 'w \<Rightarrow> (error + unit) \<times> 'w"
  apiDeleteFleet :: "fleet \<Rightarrow> 'w \<Rightarrow> (error + unit) \<times> 'w"

record lib =
  ContainsFinalizer :: "objectMeta \<Rightarrow> string \<Rightarrow> bool"
  AddFinalizer :: "objectMeta \<Rightarrow> string \<Rightarrow> objectMeta"
  RemoveFinalizer :: "objectMeta \<Rightarrow> string \<Rightarrow> objectMeta"
  NewControllerRef :: "objectMeta \<Rightarrow> string \<Rightarrow> ownerReference"
  SetControllerReference :: "objectMeta \<Rightarrow> string \<Rightarrow> objectMeta \<Rightarrow> error + objectMeta"
  SetStatusCondition :: "condition list \<Rightarrow> condition \<Rightarrow> condition list"
  sprintPointer :: "string option \<Rightarrow> string"

record 'w ext =
  api :: "'w api"
  lib :: lib
  httpDo :: "httpRequest \<Rightarrow> 'w \<Rightarrow> (error + httpResponse) \<times> 'w"
  timeNow :: "'w \<Rightarrow> time \<times> 'w"
  getenv :: "string \<Rightarrow> string"

section \<open>Effects\<close>

datatype obj = ServerObj server | PodObj pod | FleetObj fleet | GameTypeObj gameType

datatype verb = Create | Update | UpdateStatus | Delete

text \<open>
  A trace shows each read with its answer, and each write with its argument and its error.
\<close>

datatype effect =
    ReadServer nsname "error + server"
  | ReadPod nsname "error + pod"
  | ReadFleet nsname "error + fleet"
  | ReadGameType nsname "error + gameType"
  | ReadAutoscaler nsname "error + gameTypeAutoscaler"
  | ListedServers "string option" "string \<times> string" "error + server list"
  | ListedFleets "string option" "string \<times> string" "error + fleet list"
  | Write verb obj "error option"
  | Http httpRequest "error + httpResponse"
  | Clock time
  | Event kind nsname string string string

fun isWrite :: "effect \<Rightarrow> bool" where
  "isWrite (Write _ _ _) = True"
| "isWrite _ = False"

text \<open>The writes of a trace, in order.\<close>

abbreviation writes :: "effect list \<Rightarrow> effect list" where
  "writes \<equiv> filter isWrite"

type_synonym 'w op = "('w, effect) sys"

fun errOf :: "error + 'a \<Rightarrow> error option" where
  "errOf (Inl e) = Some e"
| "errOf (Inr _) = None"

lemma errOf_eq_Some [simp]: "errOf r = Some e \<longleftrightarrow> r = Inl e"
  by (cases r) auto

lemma errOf_eq_None [simp]: "errOf r = None \<longleftrightarrow> (\<exists>x. r = Inr x)"
  by (cases r) auto

text \<open>What a call that went wrong leaves in the trace.\<close>

fun failed :: "effect \<Rightarrow> bool" where
  "failed (ReadServer _ r) = (errOf r \<noteq> None)"
| "failed (ReadPod _ r) = (errOf r \<noteq> None)"
| "failed (ReadFleet _ r) = (errOf r \<noteq> None)"
| "failed (ReadGameType _ r) = (errOf r \<noteq> None)"
| "failed (ReadAutoscaler _ r) = (errOf r \<noteq> None)"
| "failed (ListedServers _ _ r) = (errOf r \<noteq> None)"
| "failed (ListedFleets _ _ r) = (errOf r \<noteq> None)"
| "failed (Write _ _ err) = (err \<noteq> None)"
| "failed (Http _ r) = (errOf r \<noteq> None)"
| "failed (Clock _) = False"
| "failed (Event _ _ _ _ _) = False"

definition nsOf :: "objectMeta \<Rightarrow> nsname" where
  "nsOf m = (Namespace m, Name m)"

abbreviation GetServer :: "'w ext \<Rightarrow> nsname \<Rightarrow> ('w op, error + server) state" where
  "GetServer X k \<equiv> call (ReadServer k) (apiGetServer (api X) k)"

abbreviation GetPod :: "'w ext \<Rightarrow> nsname \<Rightarrow> ('w op, error + pod) state" where
  "GetPod X k \<equiv> call (ReadPod k) (apiGetPod (api X) k)"

abbreviation GetFleet :: "'w ext \<Rightarrow> nsname \<Rightarrow> ('w op, error + fleet) state" where
  "GetFleet X k \<equiv> call (ReadFleet k) (apiGetFleet (api X) k)"

abbreviation GetGameType :: "'w ext \<Rightarrow> nsname \<Rightarrow> ('w op, error + gameType) state" where
  "GetGameType X k \<equiv> call (ReadGameType k) (apiGetGameType (api X) k)"

abbreviation GetAutoscaler :: "'w ext \<Rightarrow> nsname \<Rightarrow> ('w op, error + gameTypeAutoscaler) state" where
  "GetAutoscaler X k \<equiv> call (ReadAutoscaler k) (apiGetAutoscaler (api X) k)"

abbreviation ListServers ::
  "'w ext \<Rightarrow> string option \<Rightarrow> string \<times> string \<Rightarrow> ('w op, error + server list) state" where
  "ListServers X ns sel \<equiv> call (ListedServers ns sel) (apiListServers (api X) ns sel)"

abbreviation ListFleets ::
  "'w ext \<Rightarrow> string option \<Rightarrow> string \<times> string \<Rightarrow> ('w op, error + fleet list) state" where
  "ListFleets X ns sel \<equiv> call (ListedFleets ns sel) (apiListFleets (api X) ns sel)"

abbreviation CreateServer :: "'w ext \<Rightarrow> server \<Rightarrow> ('w op, error + server) state" where
  "CreateServer X x \<equiv> call (\<lambda>r. Write Create (ServerObj x) (errOf r)) (apiCreateServer (api X) x)"

abbreviation CreatePod :: "'w ext \<Rightarrow> pod \<Rightarrow> ('w op, error + pod) state" where
  "CreatePod X x \<equiv> call (\<lambda>r. Write Create (PodObj x) (errOf r)) (apiCreatePod (api X) x)"

abbreviation CreateFleet :: "'w ext \<Rightarrow> fleet \<Rightarrow> ('w op, error + fleet) state" where
  "CreateFleet X x \<equiv> call (\<lambda>r. Write Create (FleetObj x) (errOf r)) (apiCreateFleet (api X) x)"

abbreviation UpdateServer :: "'w ext \<Rightarrow> server \<Rightarrow> ('w op, error + server) state" where
  "UpdateServer X x \<equiv> call (\<lambda>r. Write Update (ServerObj x) (errOf r)) (apiUpdateServer (api X) x)"

abbreviation UpdatePod :: "'w ext \<Rightarrow> pod \<Rightarrow> ('w op, error + pod) state" where
  "UpdatePod X x \<equiv> call (\<lambda>r. Write Update (PodObj x) (errOf r)) (apiUpdatePod (api X) x)"

abbreviation UpdateFleet :: "'w ext \<Rightarrow> fleet \<Rightarrow> ('w op, error + fleet) state" where
  "UpdateFleet X x \<equiv> call (\<lambda>r. Write Update (FleetObj x) (errOf r)) (apiUpdateFleet (api X) x)"

abbreviation UpdateGameType :: "'w ext \<Rightarrow> gameType \<Rightarrow> ('w op, error + gameType) state" where
  "UpdateGameType X x \<equiv>
     call (\<lambda>r. Write Update (GameTypeObj x) (errOf r)) (apiUpdateGameType (api X) x)"

abbreviation StatusServer :: "'w ext \<Rightarrow> server \<Rightarrow> ('w op, error + server) state" where
  "StatusServer X x \<equiv>
     call (\<lambda>r. Write UpdateStatus (ServerObj x) (errOf r)) (apiStatusServer (api X) x)"

abbreviation StatusFleet :: "'w ext \<Rightarrow> fleet \<Rightarrow> ('w op, error + fleet) state" where
  "StatusFleet X x \<equiv>
     call (\<lambda>r. Write UpdateStatus (FleetObj x) (errOf r)) (apiStatusFleet (api X) x)"

abbreviation StatusGameType :: "'w ext \<Rightarrow> gameType \<Rightarrow> ('w op, error + gameType) state" where
  "StatusGameType X x \<equiv>
     call (\<lambda>r. Write UpdateStatus (GameTypeObj x) (errOf r)) (apiStatusGameType (api X) x)"

abbreviation DeleteServer :: "'w ext \<Rightarrow> server \<Rightarrow> ('w op, error + unit) state" where
  "DeleteServer X x \<equiv> call (\<lambda>r. Write Delete (ServerObj x) (errOf r)) (apiDeleteServer (api X) x)"

abbreviation DeletePod :: "'w ext \<Rightarrow> pod \<Rightarrow> ('w op, error + unit) state" where
  "DeletePod X x \<equiv> call (\<lambda>r. Write Delete (PodObj x) (errOf r)) (apiDeletePod (api X) x)"

abbreviation DeleteFleet :: "'w ext \<Rightarrow> fleet \<Rightarrow> ('w op, error + unit) state" where
  "DeleteFleet X x \<equiv> call (\<lambda>r. Write Delete (FleetObj x) (errOf r)) (apiDeleteFleet (api X) x)"

abbreviation HttpDo :: "'w ext \<Rightarrow> httpRequest \<Rightarrow> ('w op, error + httpResponse) state" where
  "HttpDo X q \<equiv> call (Http q) (httpDo X q)"

abbreviation Now :: "'w ext \<Rightarrow> ('w op, time) state" where
  "Now X \<equiv> call Clock (timeNow X)"

section \<open>Events and results\<close>

definition Normal :: string where "Normal = ''Normal''"
definition Warning :: string where "Warning = ''Warning''"

text \<open>\<open>emitEvent\<close> and \<open>emitEventf\<close> of the reconcilers, with the message already formatted.\<close>

definition emitEvent ::
  "kind \<Rightarrow> objectMeta \<Rightarrow> string \<Rightarrow> string \<Rightarrow> string \<Rightarrow> ('w op, unit) state" where
  "emitEvent k m eventtype reason message = emit (Event k (nsOf m) eventtype reason message)"

lemma gives_bind_emitEvent [gives_intros]:
  "gives (f ()) (\<lambda>r t. Q r (Event k (nsOf m) ty why msg # t)) \<Longrightarrow>
   gives (State_Monad.bind (emitEvent k m ty why msg) f) Q"
  unfolding emitEvent_def by (rule gives_bind_emit)

lemma run_emitEvent [run_simps]:
  "run_state (emitEvent k m ty why msg) s =
     ((), s\<lparr>trace := trace s @ [Event k (nsOf m) ty why msg]\<rparr>)"
  by (simp add: emitEvent_def run_simps)

text \<open>\<open>ctrl.Result\<close>, and what a reconcile returns: a result and an error, or a panic.\<close>

record result =
  Requeue :: bool
  RequeueAfter :: duration

definition noRequeue :: result where
  "noRequeue = \<lparr>Requeue = False, RequeueAfter = 0\<rparr>"

definition doRequeue :: result where
  "doRequeue = \<lparr>Requeue = True, RequeueAfter = 0\<rparr>"

definition requeueAfter :: "duration \<Rightarrow> result" where
  "requeueAfter d = \<lparr>Requeue = False, RequeueAfter = d\<rparr>"

type_synonym reconciled = "(result \<times> error option) outcome"

definition finish :: "result \<Rightarrow> ('w op, reconciled) state" where
  "finish r = ret (Ret (r, None))"

definition fail :: "result \<Rightarrow> error \<Rightarrow> ('w op, reconciled) state" where
  "fail r e = ret (Ret (r, Some e))"

lemma gives_finish [gives_intros]: "Q (Ret (r, None)) [] \<Longrightarrow> gives (finish r) Q"
  unfolding finish_def by (rule gives_return)

lemma gives_fail [gives_intros]: "Q (Ret (r, Some e)) [] \<Longrightarrow> gives (fail r e) Q"
  unfolding fail_def by (rule gives_return)

lemma run_finish [run_simps]: "run_state (finish r) s = (Ret (r, None), s)"
  by (simp add: finish_def)

lemma run_fail [run_simps]: "run_state (fail r e) s = (Ret (r, Some e), s)"
  by (simp add: fail_def)

section \<open>Documented behaviour of the helpers\<close>

text \<open>
  What \<open>controllerutil\<close> documents of its finalizer helpers: they change nothing but the
  finalizers, and those as sets.
\<close>

definition finalizer_laws :: "lib \<Rightarrow> bool" where
  "finalizer_laws L \<longleftrightarrow>
     (\<forall>m f. ContainsFinalizer L m f \<longleftrightarrow> f \<in> set (Finalizers m)) \<and>
     (\<forall>m f. \<exists>fs. AddFinalizer L m f = m\<lparr>Finalizers := fs\<rparr> \<and> set fs = insert f (set (Finalizers m))) \<and>
     (\<forall>m f. \<exists>fs. RemoveFinalizer L m f = m\<lparr>Finalizers := fs\<rparr> \<and> set fs = set (Finalizers m) - {f})"

lemma addFinalizer_in: "finalizer_laws L \<Longrightarrow> f \<in> set (Finalizers (AddFinalizer L m f))"
  unfolding finalizer_laws_def by (metis insertI1 objectMeta.simps(7) objectMeta.surjective
      objectMeta.update_convs(7))

text \<open>
  What controller-runtime promises of \<open>SetControllerReference\<close>: it writes the owner references of
  the object only, and leaves them as they are when they are the reference it would set.
\<close>

definition controller_law :: "lib \<Rightarrow> bool" where
  "controller_law L \<longleftrightarrow> (\<forall>own kd m m'. SetControllerReference L own kd m = Inr m' \<longrightarrow>
     (\<exists>rs. m' = m\<lparr>OwnerReferences := rs\<rparr> \<and> (OwnerReferences m = [NewControllerRef L own kd] \<longrightarrow> rs = OwnerReferences m)))"

lemma controller_kept:
  "controller_law L \<Longrightarrow> SetControllerReference L own kd m = Inr m' \<Longrightarrow> OwnerReferences m = [NewControllerRef L own kd] \<Longrightarrow> m' = m"
  unfolding controller_law_def by (metis objectMeta.surjective objectMeta.update_convs(8))

lemma controller_frame:
  assumes "controller_law L" and "SetControllerReference L own kd m = Inr m'"
  shows "nsOf m' = nsOf m"
  using assms unfolding controller_law_def nsOf_def by fastforce

text \<open>The answer to a status update is the object that was named in it.\<close>

definition status_laws :: "'w api \<Rightarrow> bool" where
  "status_laws A \<longleftrightarrow> (\<forall>g w g' w'. apiStatusGameType A g w = (Inr g', w') \<longrightarrow>
     nsOf (gametype_meta g') = nsOf (gametype_meta g))"

lemma Finalizers_has: "finalizer_laws L \<Longrightarrow> ContainsFinalizer L m f \<longleftrightarrow> f \<in> set (Finalizers m)"
  by (simp add: finalizer_laws_def)

lemma gives_bind_StatusGameType:
  assumes "status_laws (api X)"
    and "\<And>r. \<forall>g'. r = Inr g' \<longrightarrow> nsOf (gametype_meta g') = nsOf (gametype_meta g) \<Longrightarrow>
      gives (k r) (\<lambda>a t. Q a (Write UpdateStatus (GameTypeObj g) (errOf r) # t))"
  shows "gives (State_Monad.bind (StatusGameType X g) k) Q"
proof (rule gives_bind)
  show "gives (StatusGameType X g) (\<lambda>r t. t = [Write UpdateStatus (GameTypeObj g) (errOf r)] \<and>
      (\<forall>g'. r = Inr g' \<longrightarrow> nsOf (gametype_meta g') = nsOf (gametype_meta g)))"
    using assms(1) by (intro gives_call_of) (auto simp: status_laws_def)
qed (use assms(2) in auto)

end
