(* ===== verification/Json.thy ===== *)
theory Json
  imports Client
begin

text \<open>
  The part of \<open>encoding/json\<close> the three modules use: decoding a document into a struct of
  Boolean and integer fields. Go accepts null for the whole struct and for a field, ignores
  unknown members, lets the last of several equal members win, compares names ignoring case
  (the model folds ASCII letters), and reports a member of the wrong type only after the rest
  has been decoded.
\<close>

definition asciiLower :: "char \<Rightarrow> char" where
  "asciiLower c =
     (let n = of_char c :: nat in if 65 \<le> n \<and> n \<le> 90 then char_of (n + 32) else c)"

definition sameField :: "string \<Rightarrow> string \<Rightarrow> bool" where
  "sameField a b \<longleftrightarrow> map asciiLower a = map asciiLower b"

definition typeError :: error where
  "typeError = newError ''json: cannot unmarshal''"

text \<open>One field over the members of an object; \<open>bad\<close> is the saved type error.\<close>

fun decodeMembers ::
  "(json \<Rightarrow> 'a option) \<Rightarrow> string \<Rightarrow> (string \<times> json) list \<Rightarrow> 'a \<Rightarrow> bool \<Rightarrow> error + 'a" where
  "decodeMembers conv f [] acc bad = (if bad then Inl typeError else Inr acc)"
| "decodeMembers conv f ((k, v) # ms) acc bad =
     (if \<not> sameField k f \<or> v = JNull then decodeMembers conv f ms acc bad
      else case conv v of
          None \<Rightarrow> decodeMembers conv f ms acc True
        | Some x \<Rightarrow> decodeMembers conv f ms x bad)"

fun decodeField :: "(json \<Rightarrow> 'a option) \<Rightarrow> string \<Rightarrow> 'a \<Rightarrow> json \<Rightarrow> error + 'a" where
  "decodeField conv f zero JNull = Inr zero"
| "decodeField conv f zero (JObj ms) = decodeMembers conv f ms zero False"
| "decodeField conv f zero _ = Inl typeError"

fun asBool :: "json \<Rightarrow> bool option" where
  "asBool (JBool b) = Some b"
| "asBool _ = None"

text \<open>\<open>strconv.ParseInt\<close> with base 10 and 64 bits on a number literal.\<close>

definition isDigit :: "char \<Rightarrow> bool" where
  "isDigit c \<longleftrightarrow> 48 \<le> (of_char c :: nat) \<and> (of_char c :: nat) \<le> 57"

definition digitsValue :: "string \<Rightarrow> nat" where
  "digitsValue cs = foldl (\<lambda>n c. 10 * n + (of_char c - 48)) 0 cs"

definition parseInt64 :: "string \<Rightarrow> goint option" where
  "parseInt64 cs =
     (let neg = (take 1 cs = ''-'');
          ds = (if neg \<or> take 1 cs = ''+'' then drop 1 cs else cs);
          v = (if neg then - int (digitsValue ds) else int (digitsValue ds))
      in if ds \<noteq> [] \<and> list_all isDigit ds \<and> - (2 ^ 63) \<le> v \<and> v < 2 ^ 63
         then Some (word_of_int v) else None)"

fun asInt :: "json \<Rightarrow> goint option" where
  "asInt (JNum cs) = parseInt64 cs"
| "asInt _ = None"

section \<open>What decoding a struct with one Boolean field gives\<close>

definition encodeBool :: "string \<Rightarrow> bool \<Rightarrow> json" where
  "encodeBool f b = JObj [(f, JBool b)]"

lemma sameField_refl [simp]: "sameField f f"
  by (simp add: sameField_def)

lemma decode_encodeBool [simp]: "decodeField asBool f z (encodeBool f b) = Inr b"
  by (simp add: encodeBool_def)

lemma decodeMembers_bad [simp]: "decodeMembers conv f ms acc True = Inl typeError"
  by (induction ms arbitrary: acc) (auto split: option.splits)

lemma decodeMembers_ok_iff:
  "(\<exists>x. decodeMembers conv f ms acc False = Inr x) \<longleftrightarrow>
   (\<forall>(k, v) \<in> set ms. sameField k f \<longrightarrow> v \<noteq> JNull \<longrightarrow> conv v \<noteq> None)"
proof (induction ms arbitrary: acc)
  case Nil
  then show ?case by simp
next
  case (Cons m ms)
  obtain k v where m: "m = (k, v)" by (cases m)
  then show ?case using Cons.IH by (auto split: option.splits)
qed

section \<open>Decimal texts\<close>

lemma digit_cases: "d < 10 \<Longrightarrow> isDigit (digitChar d) \<and> of_char (digitChar d) = 48 + d"
proof -
  assume "d < 10"
  then have "d \<in> {0, 1, 2, 3, 4, 5, 6, 7, 8, 9}" by auto
  then show ?thesis by (auto simp: digitChar_def isDigit_def)
qed

lemma digitsValue_snoc: "digitsValue (cs @ [c]) = 10 * digitsValue cs + (of_char c - 48)"
  by (simp add: digitsValue_def)

lemma nat_digits_value: "digitsValue (nat_digits n) = n \<and> list_all isDigit (nat_digits n) \<and> nat_digits n \<noteq> []"
proof (induction n rule: nat_digits.induct)
  case (1 n)
  show ?case
  proof (cases "n < 10")
    case True
    then show ?thesis
      by (simp add: nat_digits.simps [of n] digit_cases digitsValue_def)
  next
    case False
    with 1 show ?thesis
      by (simp add: nat_digits.simps [of n] digitsValue_snoc digit_cases)
  qed
qed

lemma digits_no_sign: "list_all isDigit ds \<Longrightarrow> ds \<noteq> [] \<Longrightarrow> take 1 ds \<noteq> ''-'' \<and> take 1 ds \<noteq> ''+''"
  by (cases ds) (auto simp: isDigit_def)

text \<open>Reading back what \<open>strconv.Itoa\<close> and \<open>%d\<close> print of an \<open>int\<close>.\<close>

lemma parse_itoa: "parseInt64 (itoa (sint n)) = Some n" for n :: goint
proof -
  have range: "- (2 ^ 63) \<le> sint n" "sint n < 2 ^ 63"
    using sint_ge [of n] sint_lt [of n] by simp_all
  show ?thesis
  proof (cases "sint n < 0")
    case True
    then show ?thesis
      using nat_digits_value [of "nat (- sint n)"] range
      by (simp add: itoa_def parseInt64_def)
  next
    case False
    then show ?thesis
      using nat_digits_value [of "nat (sint n)"] digits_no_sign [of "nat_digits (nat (sint n))"] range
      by (simp add: itoa_def parseInt64_def)
  qed
qed

end
