(* ===== verification/HttpServer.thy ===== *)
theory HttpServer
  imports Json
begin

text \<open>
  The server side of \<open>net/http\<close> as the handlers of the sidecar and of the service use it: a
  \<open>ResponseWriter\<close>, of which the first status written is the one sent, and the
  method-and-path patterns of \<open>ServeMux\<close>, on paths the mux has already cleaned.
\<close>

record incoming =
  InMethod :: string
  InPath :: string
  InBody :: "error + json"

text \<open>
  \<open>sentStatus\<close> is the status once one has been written; \<open>broken\<close> says that the peer is
  gone, so that writing the body fails.
\<close>

record writer =
  ContentType :: "string option"
  sentStatus :: "nat option"
  sentBody :: "json list"
  broken :: bool

definition newWriter :: "bool \<Rightarrow> writer" where
  "newWriter b = \<lparr>ContentType = None, sentStatus = None, sentBody = [], broken = b\<rparr>"

text \<open>Headers set after the status has been sent have no effect.\<close>

definition setContentType :: "string \<Rightarrow> writer \<Rightarrow> writer" where
  "setContentType ct w = (if sentStatus w = None then w\<lparr>ContentType := Some ct\<rparr> else w)"

text \<open>A second \<open>WriteHeader\<close> is superfluous: it is logged and ignored.\<close>

definition WriteHeader :: "nat \<Rightarrow> writer \<Rightarrow> writer" where
  "WriteHeader code w = (if sentStatus w = None then w\<lparr>sentStatus := Some code\<rparr> else w)"

text \<open>\<open>Write\<close> sends status 200 first if none was sent; the result says whether it failed.\<close>

definition WriteBody :: "json \<Rightarrow> writer \<Rightarrow> bool \<times> writer" where
  "WriteBody v w =
     (let w1 = WriteHeader 200 w
      in if broken w then (False, w1) else (True, w1\<lparr>sentBody := sentBody w1 @ [v]\<rparr>))"

text \<open>What the client receives when the handler has returned.\<close>

definition finalStatus :: "writer \<Rightarrow> nat" where
  "finalStatus w = (case sentStatus w of None \<Rightarrow> 200 | Some c \<Rightarrow> c)"

definition StatusOK :: nat where "StatusOK = 200"
definition StatusBadRequest :: nat where "StatusBadRequest = 400"
definition StatusInternalServerError :: nat where "StatusInternalServerError = 500"

section \<open>Patterns\<close>

text \<open>A pattern has an optional method and an exact path; GET also serves HEAD.\<close>

type_synonym pattern = "string option \<times> string"

definition methodMatches :: "string option \<Rightarrow> string \<Rightarrow> bool" where
  "methodMatches pm m \<longleftrightarrow>
     (case pm of None \<Rightarrow> True | Some p \<Rightarrow> m = p \<or> (p = ''GET'' \<and> m = ''HEAD''))"

text \<open>
  The handler whose pattern matches; without one, 405 when another method of the path is
  registered and 404 when the path is unknown.
\<close>

fun route :: "(pattern \<times> 'h) list \<Rightarrow> string \<Rightarrow> string \<Rightarrow> nat + 'h" where
  "route [] m p = Inl 404"
| "route (((pm, pp), h) # rs) m p =
     (if pp = p \<and> methodMatches pm m then Inr h
      else case route rs m p of
          Inr h' \<Rightarrow> Inr h'
        | Inl c \<Rightarrow> Inl (if pp = p then 405 else c))"

section \<open>Facts on the writer\<close>

lemma sent_once [simp]:
  "sentStatus (WriteHeader c w) = (case sentStatus w of None \<Rightarrow> Some c | Some d \<Rightarrow> Some d)"
  by (simp add: WriteHeader_def split: option.split)

lemma writer_frame [simp]:
  "sentStatus (setContentType ct w) = sentStatus w" "sentBody (setContentType ct w) = sentBody w"
  "sentBody (WriteHeader c w) = sentBody w" "broken (WriteHeader c w) = broken w"
  "broken (setContentType ct w) = broken w"
  by (simp_all add: setContentType_def WriteHeader_def)

lemma new_writer [simp]:
  "sentStatus (newWriter b) = None" "sentBody (newWriter b) = []" "broken (newWriter b) = b"
  by (simp_all add: newWriter_def)

lemma WriteBody_status [simp]:
  "sentStatus (snd (WriteBody v w)) = (case sentStatus w of None \<Rightarrow> Some 200 | Some d \<Rightarrow> Some d)"
  by (simp add: WriteBody_def Let_def)

lemma WriteBody_body [simp]:
  "sentBody (snd (WriteBody v w)) = (if broken w then sentBody w else sentBody w @ [v])"
  "fst (WriteBody v w) = (\<not> broken w)"
  by (simp_all add: WriteBody_def Let_def)

lemma route_404: "p \<notin> (snd \<circ> fst) ` set rs \<Longrightarrow> route rs m p = Inl 404"
  by (induction rs m p rule: route.induct) auto

lemma route_Inr: "route rs m p = Inr h \<Longrightarrow> \<exists>pm. ((pm, p), h) \<in> set rs \<and> methodMatches pm m"
  by (induction rs m p rule: route.induct) (auto split: if_splits sum.splits)

lemma route_Inl: "route rs m p = Inl c \<Longrightarrow> c = 404 \<or> c = 405"
  by (induction rs m p arbitrary: c rule: route.induct) (auto split: if_splits sum.splits)

end
