(* ===== verification/Sidecar.thy ===== *)
theory Sidecar
  imports HttpServer
begin

text \<open>
  The sidecar module: the process that runs beside the game server in its pod and holds two
  flags, whether the operator has requested the shutdown and whether the game server allows
  the deletion. \<open>app/app.go\<close> is the state, \<open>handlers/*.go\<close> the handlers,
  \<open>routes/routes.go\<close> the table, \<open>app/logging.go\<close> the logging wrapper.
\<close>

record app =
  DeleteAllowed :: bool
  ShutdownRequested :: bool
  AppPort :: goint

text \<open>\<open>main\<close>: the flags start cleared; an unset PORT means 8080, a bad one ends the program.\<close>

definition sidecarMain :: "(string \<Rightarrow> string) \<Rightarrow> app option" where
  "sidecarMain env =
     (let portStr = (if env ''PORT'' = [] then ''8080'' else env ''PORT'')
      in map_option (\<lambda>p. \<lparr>DeleteAllowed = False, ShutdownRequested = False, AppPort = p\<rparr>)
           (parseInt64 portStr))"

definition isDebug :: "(string \<Rightarrow> string) \<Rightarrow> bool" where
  "isDebug env = (if env ''DEBUG'' = ''true'' then True else False)"

section \<open>Handlers\<close>

type_synonym handler = "app \<Rightarrow> incoming \<Rightarrow> writer \<Rightarrow> app \<times> writer"

text \<open>\<open>GET /allow_delete\<close>: the operator asks whether the pod may go.\<close>

definition IsDeleteAllowedHandler :: handler where
  "IsDeleteAllowedHandler a r w =
     (let w1 = setContentType ''application/json'' w;
          (ok, w2) = WriteBody (encodeBool ''allowed'' (DeleteAllowed a)) w1
      in if \<not> ok then (a, WriteHeader StatusBadRequest w2) else (a, w2))"

text \<open>\<open>POST /allow_delete\<close>: the game server allows or forbids its deletion.\<close>

definition SetDeleteAllowedHandler :: handler where
  "SetDeleteAllowedHandler a r w =
     (case InBody r of
        Inl e \<Rightarrow> (a, WriteHeader StatusBadRequest w)
      | Inr doc \<Rightarrow>
         (case decodeField asBool ''allowed'' False doc of
            Inl e \<Rightarrow> (a, WriteHeader StatusBadRequest w)
          | Inr allowed \<Rightarrow>
              (let a1 = a\<lparr>DeleteAllowed := allowed\<rparr>;
                   w1 = setContentType ''application/json'' w;
                   (ok, w2) = WriteBody (encodeBool ''allowed'' allowed) w1
               in if \<not> ok then (a1, WriteHeader StatusInternalServerError w2) else (a1, w2))))"

text \<open>\<open>GET /shutdown\<close>: the game server polls for the operator's request.\<close>

definition IsShutdownRequestedHandler :: handler where
  "IsShutdownRequestedHandler a r w =
     (let w1 = setContentType ''application/json'' w;
          (ok, w2) = WriteBody (encodeBool ''shutdown'' (ShutdownRequested a)) w1
      in if \<not> ok then (a, WriteHeader StatusBadRequest w2) else (a, w2))"

text \<open>\<open>POST /shutdown\<close>: the operator requests the shutdown.\<close>

definition SetShutdownRequestedHandler :: handler where
  "SetShutdownRequestedHandler a r w =
     (case InBody r of
        Inl e \<Rightarrow> (a, WriteHeader StatusBadRequest w)
      | Inr doc \<Rightarrow>
         (case decodeField asBool ''shutdown'' False doc of
            Inl e \<Rightarrow> (a, WriteHeader StatusBadRequest w)
          | Inr shutdown \<Rightarrow>
              (let a1 = a\<lparr>ShutdownRequested := shutdown\<rparr>;
                   w1 = setContentType ''application/json'' w;
                   (ok, w2) = WriteBody (encodeBool ''shutdown'' shutdown) w1
               in if \<not> ok then (a1, WriteHeader StatusInternalServerError w2) else (a1, w2))))"

definition Health :: handler where
  "Health a r w = (a, WriteHeader StatusOK w)"

section \<open>Routes\<close>

definition sidecarRoutes :: "(pattern \<times> handler) list" where
  "sidecarRoutes =
     [((Some ''GET'', ''/allow_delete''), IsDeleteAllowedHandler),
      ((Some ''POST'', ''/allow_delete''), SetDeleteAllowedHandler),
      ((Some ''GET'', ''/shutdown''), IsShutdownRequestedHandler),
      ((Some ''POST'', ''/shutdown''), SetShutdownRequestedHandler),
      ((None, ''/health''), Health)]"

definition muxServe :: handler where
  "muxServe a r w =
     (case route sidecarRoutes (InMethod r) (InPath r) of
        Inl code \<Rightarrow> (a, WriteHeader code w)
      | Inr h \<Rightarrow> h a r w)"

text \<open>
  \<open>LogRoute\<close>: the recorder starts at 200 and would be told of a status by its own
  \<open>WriteHeader\<close>, but the wrapped handler is given the plain writer. The third component is
  the status the debug line reports.
\<close>

record responseRecorder =
  statusCode :: nat

definition recorderWriteHeader :: "nat \<Rightarrow> responseRecorder \<Rightarrow> writer \<Rightarrow> responseRecorder \<times> writer" where
  "recorderWriteHeader code rr w = (rr\<lparr>statusCode := code\<rparr>, WriteHeader code w)"

definition LogRoute :: "handler \<Rightarrow> app \<Rightarrow> incoming \<Rightarrow> writer \<Rightarrow> app \<times> writer \<times> nat" where
  "LogRoute next a r w =
     (let recorder = \<lparr>statusCode = StatusOK\<rparr>;
          (a', w') = next a r w
      in (a', w', statusCode recorder))"

text \<open>One request served from start to end.\<close>

definition serve :: "app \<Rightarrow> incoming \<Rightarrow> bool \<Rightarrow> app \<times> writer" where
  "serve a r b = (let (a', w, _) = LogRoute muxServe a r (newWriter b) in (a', w))"

fun serveAll :: "app \<Rightarrow> incoming list \<Rightarrow> app" where
  "serveAll a [] = a"
| "serveAll a (r # rs) = serveAll (fst (serve a r False)) rs"

section \<open>Histories of requests\<close>

lemma finalStatus_simps [simp]:
  "finalStatus (WriteHeader c w) = (case sentStatus w of None \<Rightarrow> c | Some d \<Rightarrow> d)"
  "finalStatus (snd (WriteBody v w)) = (case sentStatus w of None \<Rightarrow> 200 | Some d \<Rightarrow> d)"
  by (simp_all add: finalStatus_def split: option.split)

text \<open>The value a request stores in a flag, if it is accepted.\<close>

definition stores :: "string \<Rightarrow> string \<Rightarrow> incoming \<Rightarrow> bool option" where
  "stores path field r =
     (if InMethod r = ''POST'' \<and> InPath r = path
      then (case InBody r of Inl _ \<Rightarrow> None
            | Inr doc \<Rightarrow> (case decodeField asBool field False doc of Inl _ \<Rightarrow> None | Inr b \<Rightarrow> Some b))
      else None)"

text \<open>The last value stored, or the one before them all.\<close>

fun lastStored :: "bool \<Rightarrow> bool option list \<Rightarrow> bool" where
  "lastStored b [] = b"
| "lastStored b (x # xs) = lastStored (case x of None \<Rightarrow> b | Some c \<Rightarrow> c) xs"

lemmas route_defs = serve_def LogRoute_def muxServe_def sidecarRoutes_def methodMatches_def

lemmas handler_defs = IsDeleteAllowedHandler_def SetDeleteAllowedHandler_def
  IsShutdownRequestedHandler_def SetShutdownRequestedHandler_def Health_def

lemma handler_states:
  "fst (IsDeleteAllowedHandler a r w) = a" "fst (IsShutdownRequestedHandler a r w) = a"
  "fst (Health a r w) = a"
  "fst (SetDeleteAllowedHandler a r w) = a\<lparr>DeleteAllowed := (case InBody r of Inl _ \<Rightarrow> DeleteAllowed a
     | Inr doc \<Rightarrow> (case decodeField asBool ''allowed'' False doc of Inl _ \<Rightarrow> DeleteAllowed a | Inr c \<Rightarrow> c))\<rparr>"
  "fst (SetShutdownRequestedHandler a r w) = a\<lparr>ShutdownRequested := (case InBody r of Inl _ \<Rightarrow> ShutdownRequested a
     | Inr doc \<Rightarrow> (case decodeField asBool ''shutdown'' False doc of Inl _ \<Rightarrow> ShutdownRequested a | Inr c \<Rightarrow> c))\<rparr>"
  by (simp_all add: handler_defs Let_def split: sum.split prod.split)

lemma serve_mux: "fst (serve a r b) = fst (muxServe a r (newWriter b))"
  by (simp add: serve_def LogRoute_def split: prod.split)

lemma serve_state:
  "fst (serve a r b) =
     a\<lparr>DeleteAllowed := (case stores ''/allow_delete'' ''allowed'' r of None \<Rightarrow> DeleteAllowed a | Some c \<Rightarrow> c),
       ShutdownRequested := (case stores ''/shutdown'' ''shutdown'' r of None \<Rightarrow> ShutdownRequested a | Some c \<Rightarrow> c)\<rparr>"
proof -
  consider "InPath r = ''/allow_delete''" | "InPath r = ''/shutdown''" | "InPath r = ''/health''"
    | "InPath r \<noteq> ''/allow_delete''" "InPath r \<noteq> ''/shutdown''" "InPath r \<noteq> ''/health''"
      "''/allow_delete'' \<noteq> InPath r" "''/shutdown'' \<noteq> InPath r" "''/health'' \<noteq> InPath r" by metis
  then show ?thesis
    by cases (simp_all add: serve_mux muxServe_def sidecarRoutes_def methodMatches_def stores_def
        handler_states split: sum.split)
qed

text \<open>
  C16. The sidecar is a pair of registers: after any sequence of requests each flag holds the
  value of the last accepted POST to its path, or its initial value; everything else (reads,
  rejected bodies, unknown paths and methods) leaves the state alone.
\<close>

theorem sidecar_history:
  "serveAll a rs =
     a\<lparr>DeleteAllowed := lastStored (DeleteAllowed a) (map (stores ''/allow_delete'' ''allowed'') rs),
       ShutdownRequested := lastStored (ShutdownRequested a) (map (stores ''/shutdown'' ''shutdown'') rs)\<rparr>"
proof (induction rs arbitrary: a)
  case Nil
  show ?case by simp
next
  case (Cons r rs)
  show ?case by (simp add: Cons.IH serve_state)
qed

text \<open>
  Reading a flag back: GET on a flag's path answers 200 with the current flag, in the member
  the operator and the game server look for; and a POST whose body is not an object with a
  Boolean there is answered 400, stores nothing, yet is logged with status 200, because the
  logging wrapper hands the plain writer to the handler.
\<close>

theorem sidecar_replies:
  "snd (serve a \<lparr>InMethod = ''GET'', InPath = ''/allow_delete'', InBody = body\<rparr> False) =
     \<lparr>ContentType = Some ''application/json'', sentStatus = Some 200,
      sentBody = [JObj [(''allowed'', JBool (DeleteAllowed a))]], broken = False\<rparr> \<and>
   snd (serve a \<lparr>InMethod = ''GET'', InPath = ''/shutdown'', InBody = body\<rparr> False) =
     \<lparr>ContentType = Some ''application/json'', sentStatus = Some 200,
      sentBody = [JObj [(''shutdown'', JBool (ShutdownRequested a))]], broken = False\<rparr> \<and>
   LogRoute muxServe a \<lparr>InMethod = ''POST'', InPath = ''/allow_delete'', InBody = Inl e\<rparr> (newWriter b) =
     (a, WriteHeader 400 (newWriter b), 200)"
  by (simp add: route_defs handler_defs setContentType_def WriteBody_def WriteHeader_def newWriter_def
      encodeBool_def StatusBadRequest_def StatusOK_def)

end
