(* ===== verification/Builders.thy ===== *)
theory Builders
  imports Client
begin

text \<open>
  The objects the operator creates: the pod of a server (\<open>internal/utils/pod.go\<close>), the
  server of a fleet (\<open>internal/utils/server.go\<close>) and the fleet of a game type
  (\<open>internal/utils/gametype.go\<close>). A builder that stores into the label map of the object it
  is given also returns that object, since a non-nil Go map is shared.
\<close>

section \<open>pod.go\<close>

definition addContainer :: "podSpec \<Rightarrow> container \<Rightarrow> podSpec" where
  "addContainer spec c = spec\<lparr>Containers := Containers spec @ [c]\<rparr>"

definition envValue :: "string \<Rightarrow> string \<Rightarrow> envVar" where
  "envValue n v = \<lparr>EnvName = n, EnvValue = v, ValueFrom = None\<rparr>"

definition envField :: "string \<Rightarrow> string \<Rightarrow> string \<Rightarrow> envVar" where
  "envField n path apiVersion =
     \<lparr>EnvName = n, EnvValue = [],
      ValueFrom = Some \<lparr>FieldPath = path, FieldAPIVersion = apiVersion\<rparr>\<rparr>"

definition sidecarContainer :: "string \<Rightarrow> goint \<Rightarrow> bool \<Rightarrow> container" where
  "sidecarContainer img port debug =
     \<lparr>ContainerName = ''fallernetes-sidecar'', Image = img,
      Ports = [\<lparr>PortName = ''http'', ContainerPort = 8080\<rparr>],
      Env = [envValue ''PORT'' (itoa (sint port)), envValue ''DEBUG'' (formatBool debug)],
      ImagePullPolicy = ''IfNotPresent'', ContainerRest = []\<rparr>"

definition labelEnv :: "server \<Rightarrow> string \<Rightarrow> string \<Rightarrow> envVar list" where
  "labelEnv s key n =
     (case lookupLabel (Labels (server_meta s)) key of
        Some v \<Rightarrow> [envValue n v]
      | None \<Rightarrow> [])"

definition capacityEnv :: "serverSpec \<Rightarrow> envVar list" where
  "capacityEnv spec =
     (case GameInfo spec of
        None \<Rightarrow> []
      | Some g \<Rightarrow>
          (case Capacity g of
             None \<Rightarrow> []
           | Some n \<Rightarrow> [envValue ''SERVER_CAPACITY'' (itoa (sint n))]))"

text \<open>One round of the loop over the containers.\<close>

definition addServerEnv :: "server \<Rightarrow> container \<Rightarrow> container" where
  "addServerEnv s c = c\<lparr>Env := Env c @
     [envValue ''CONTAINER_IMAGE'' (Image c), envValue ''SERVER_NAME'' (Name (server_meta s))] @
     labelEnv s ''fleet'' ''FLEET_NAME'' @ labelEnv s ''gametype'' ''GAME_NAME'' @
     [envField ''POD_IP'' ''status.podIP'' [], envField ''NODE_NAME'' ''spec.nodeName'' ''v1''] @
     capacityEnv (server_spec s)\<rparr>"

text \<open>
  \<open>getPodSpec\<close> dereferences the sidecar settings, their port and their image. The slices of
  the pod spec it appends to come from an API object, whose slices have no spare capacity, so
  the server keeps its own containers.
\<close>

definition getPodSpec :: "(string \<Rightarrow> string) \<Rightarrow> server \<Rightarrow> podSpec outcome" where
  "getPodSpec env s =
     (case SidecarSettings (server_spec s) of
        None \<Rightarrow> Panic
      | Some st \<Rightarrow>
          (case (Port st, SidecarImage st) of
             (Some port, Some img) \<Rightarrow>
               (let p = addContainer (Pod (server_spec s)) (sidecarContainer img port (LogDebug st));
                    p1 = p\<lparr>Containers := map (addServerEnv s) (Containers p)\<rparr>
                in Ret (p1\<lparr>ImagePullSecrets := ImagePullSecrets p1 @ [env ''IMAGE_PULL_SECRET_NAME'']\<rparr>))
           | _ \<Rightarrow> Panic))"

definition podName :: "server \<Rightarrow> string" where
  "podName s = Name (server_meta s) @ ''-pod''"

definition GetNewPod ::
  "lib \<Rightarrow> (string \<Rightarrow> string) \<Rightarrow> server \<Rightarrow> string \<Rightarrow> (pod \<times> server) outcome" where
  "GetNewPod L env s namespace =
     (case getPodSpec env s of
        Panic \<Rightarrow> Panic
      | Ret spec \<Rightarrow>
          (let m = server_meta s; name = Name m;
               m1 = m\<lparr>Labels := storeShared (Labels m) ''server'' name\<rparr>;
               pm = newMeta\<lparr>Name := podName s, Namespace := namespace,
                      Labels := withLabel (Labels m) ''server'' name,
                      OwnerReferences := [NewControllerRef L m1 ''Server'']\<rparr>
           in Ret (\<lparr>pod_meta = pm, pod_spec = spec, Phase = [], PodIP = []\<rparr>,
                   s\<lparr>server_meta := m1\<rparr>)))"

section \<open>server.go\<close>

definition CreateServerForFleet :: "lib \<Rightarrow> fleet \<Rightarrow> string \<Rightarrow> server \<times> fleet" where
  "CreateServerForFleet L f namespace =
     (let m = fleet_meta f; name = Name m;
          m1 = m\<lparr>Labels := storeShared (Labels m) ''fleet'' name\<rparr>;
          sm = newMeta\<lparr>GenerateName := name @ ''-'', Namespace := namespace,
                 Labels := withLabel (Labels m) ''fleet'' name,
                 OwnerReferences := [NewControllerRef L m1 ''Fleet'']\<rparr>
      in (\<lparr>server_meta = sm, server_spec = ServerSpec (fleet_spec f), server_conditions = []\<rparr>,
          f\<lparr>fleet_meta := m1\<rparr>))"

section \<open>gametype.go\<close>

definition GetFleetObjectForType :: "lib \<Rightarrow> gameType \<Rightarrow> fleet \<times> gameType" where
  "GetFleetObjectForType L g =
     (let m = gametype_meta g; name = Name m;
          m1 = m\<lparr>Labels := storeShared (Labels m) ''gametype'' name\<rparr>;
          fm = newMeta\<lparr>GenerateName := name @ ''-'', Namespace := Namespace m,
                 Labels := withLabel (Labels m) ''gametype'' name,
                 OwnerReferences := [NewControllerRef L m1 ''GameType'']\<rparr>
      in (\<lparr>fleet_meta = fm, fleet_spec = FleetSpec g,
           fleet_status = \<lparr>FleetConditions = [], CurrentReplicas = 0\<rparr>\<rparr>,
          g\<lparr>gametype_meta := m1\<rparr>))"

text \<open>The list of fleets: selected by label, in every namespace.\<close>

definition GetFleetsForType :: "'w ext \<Rightarrow> gameType \<Rightarrow> ('w op, error + fleet list) state" where
  "GetFleetsForType X g = ListFleets X None (''gametype'', Name (gametype_meta g))"

section \<open>Facts on the builders\<close>

lemma getPodSpec_Ret_iff:
  "(\<exists>p. getPodSpec env s = Ret p) \<longleftrightarrow>
   (\<exists>st port img. SidecarSettings (server_spec s) = Some st \<and> Port st = Some port \<and>
      SidecarImage st = Some img)"
  by (auto simp: getPodSpec_def Let_def split: option.splits)

lemma getPodSpec_containers:
  assumes "getPodSpec env s = Ret p"
  obtains st port img where "SidecarSettings (server_spec s) = Some st"
    and "Port st = Some port" and "SidecarImage st = Some img"
    and "Containers p = map (addServerEnv s)
           (Containers (Pod (server_spec s)) @ [sidecarContainer img port (LogDebug st)])"
    and "ImagePullSecrets p = ImagePullSecrets (Pod (server_spec s)) @ [env ''IMAGE_PULL_SECRET_NAME'']"
    and "PodSpecRest p = PodSpecRest (Pod (server_spec s))"
  using assms by (auto simp: getPodSpec_def Let_def addContainer_def split: option.splits)

lemma addServerEnv_frame [simp]:
  "ContainerName (addServerEnv s c) = ContainerName c" "Image (addServerEnv s c) = Image c"
  "Ports (addServerEnv s c) = Ports c" "ImagePullPolicy (addServerEnv s c) = ImagePullPolicy c"
  "ContainerRest (addServerEnv s c) = ContainerRest c"
  by (simp_all add: addServerEnv_def)

lemma GetNewPod_parts:
  assumes "GetNewPod L env s ns = Ret (p, s')"
  obtains spec where "getPodSpec env s = Ret spec" and "pod_spec p = spec"
    and "Name (pod_meta p) = podName s" and "Namespace (pod_meta p) = ns"
    and "Labels (pod_meta p) = withLabel (Labels (server_meta s)) ''server'' (Name (server_meta s))"
    and "Finalizers (pod_meta p) = []"
    and "s' = s\<lparr>server_meta := (server_meta s)
           \<lparr>Labels := storeShared (Labels (server_meta s)) ''server'' (Name (server_meta s))\<rparr>\<rparr>"
  using assms by (auto simp: GetNewPod_def Let_def newMeta_def split: outcome.splits)

lemma GetNewPod_panics: "GetNewPod L env s ns = Panic \<longleftrightarrow> getPodSpec env s = Panic"
  by (simp add: GetNewPod_def Let_def split: outcome.split)

end
