(* ===== verification/Store.thy ===== *)
theory Store
  imports Sidecar Builders "HOL-Library.AList"
begin

text \<open>
  A concrete outside world, used only to instantiate the parameters of the model in witnesses
  and closed runs: an in-memory API server with the documented behaviour the operator meets
  (names generated on creation, conflicts on stale versions, the status subresource, deletion
  that waits for finalizers), pods that reach the sidecar model over HTTP, and a clock. Nothing
  in the model refers to it.
\<close>

named_theorems store_simps \<open>evaluation of runs against the concrete world\<close>

record store =
  store_servers :: "(nsname \<times> server) list"
  store_pods :: "(nsname \<times> pod) list"
  store_fleets :: "(nsname \<times> fleet) list"
  store_gametypes :: "(nsname \<times> gameType) list"
  store_autoscalers :: "(nsname \<times> gameTypeAutoscaler) list"
  store_sidecars :: "(string \<times> app) list"
  clock :: int
  fresh :: nat

definition emptyStore :: store where
  "emptyStore = \<lparr>store_servers = [], store_pods = [], store_fleets = [], store_gametypes = [], store_autoscalers = [],
     store_sidecars = [], clock = 0, fresh = 0\<rparr>"

definition notFoundErr :: error where
  "notFoundErr = \<lparr>isNotFound = True, errMsg = ''not found''\<rparr>"

definition lookupObj :: "(nsname \<times> 'a) list \<Rightarrow> nsname \<Rightarrow> error + 'a" where
  "lookupObj xs k = (case map_of xs k of None \<Rightarrow> Inl notFoundErr | Some x \<Rightarrow> Inr x)"

definition selects :: "string option \<Rightarrow> string \<times> string \<Rightarrow> objectMeta \<Rightarrow> bool" where
  "selects ns sel m \<longleftrightarrow>
     (case ns of None \<Rightarrow> True | Some n \<Rightarrow> Namespace m = n) \<and>
     lookupLabel (Labels m) (fst sel) = Some (snd sel)"

text \<open>Metadata of an object as the API server stores it on creation.\<close>

definition admitMeta :: "store \<Rightarrow> objectMeta \<Rightarrow> objectMeta" where
  "admitMeta w m = m\<lparr>Name := (if Name m = [] then GenerateName m @ itoa (int (fresh w)) else Name m),
     UID := itoa (int (fresh w)), ResourceVersion := Suc (fresh w),
     CreationTimestamp := Time (clock w), DeletionTimestamp := None\<rparr>"

definition createObj ::
  "('a \<Rightarrow> objectMeta) \<Rightarrow> (objectMeta \<Rightarrow> 'a \<Rightarrow> 'a) \<Rightarrow> store \<Rightarrow> 'a \<Rightarrow> (nsname \<times> 'a) list \<Rightarrow>
     (error + 'a) \<times> (nsname \<times> 'a) list" where
  "createObj getM setM w x xs =
     (if map_of xs (nsOf (admitMeta w (getM x))) \<noteq> None then (Inl (newError ''already exists''), xs)
      else (Inr (setM (admitMeta w (getM x)) x),
            xs @ [(nsOf (admitMeta w (getM x)), setM (admitMeta w (getM x)) x)]))"

text \<open>
  A write of an existing object: \<open>merge old new\<close> says which parts the request may change. A
  deleted object whose last finalizer goes disappears.
\<close>

text \<open>A written object gets a new version and keeps the name it is stored under.\<close>

definition stamp :: "nat \<Rightarrow> nsname \<Rightarrow> objectMeta \<Rightarrow> objectMeta" where
  "stamp n k m = m\<lparr>ResourceVersion := Suc n, Namespace := fst k, Name := snd k\<rparr>"

definition bump :: "nat \<Rightarrow> objectMeta \<Rightarrow> objectMeta" where
  "bump n m = m\<lparr>ResourceVersion := Suc n\<rparr>"

definition commit ::
  "('a \<Rightarrow> objectMeta) \<Rightarrow> nsname \<Rightarrow> 'a \<Rightarrow> (nsname \<times> 'a) list \<Rightarrow> (error + 'a) \<times> (nsname \<times> 'a) list" where
  "commit getM k y xs =
     (Inr y, if DeletionTimestamp (getM y) \<noteq> None \<and> Finalizers (getM y) = []
             then AList.delete k xs else AList.update k y xs)"

definition writeObj ::
  "('a \<Rightarrow> objectMeta) \<Rightarrow> (objectMeta \<Rightarrow> 'a \<Rightarrow> 'a) \<Rightarrow> ('a \<Rightarrow> 'a \<Rightarrow> 'a) \<Rightarrow> 'a \<Rightarrow> (nsname \<times> 'a) list \<Rightarrow>
     (error + 'a) \<times> (nsname \<times> 'a) list" where
  "writeObj getM setM merge x xs =
     (case map_of xs (nsOf (getM x)) of
        None \<Rightarrow> (Inl notFoundErr, xs)
      | Some old \<Rightarrow>
          if ResourceVersion (getM x) \<noteq> ResourceVersion (getM old)
          then (Inl (newError ''conflict''), xs)
          else commit getM (nsOf (getM x))
                 (setM (stamp (ResourceVersion (getM old)) (nsOf (getM x)) (getM (merge old x))) (merge old x)) xs)"

definition deleteObj ::
  "('a \<Rightarrow> objectMeta) \<Rightarrow> (objectMeta \<Rightarrow> 'a \<Rightarrow> 'a) \<Rightarrow> store \<Rightarrow> 'a \<Rightarrow> (nsname \<times> 'a) list \<Rightarrow>
     (error + unit) \<times> (nsname \<times> 'a) list" where
  "deleteObj getM setM w x xs =
     (case map_of xs (nsOf (getM x)) of
        None \<Rightarrow> (Inl notFoundErr, xs)
      | Some old \<Rightarrow>
          if Finalizers (getM old) = [] then (Inr (), AList.delete (nsOf (getM x)) xs)
          else if DeletionTimestamp (getM old) \<noteq> None then (Inr (), xs)
          else (Inr (), AList.update (nsOf (getM x))
                  (setM (bump (ResourceVersion (getM old))
                     ((getM old)\<lparr>DeletionTimestamp := Some (Time (clock w))\<rparr>)) old) xs))"

abbreviation setServerMeta :: "objectMeta \<Rightarrow> server \<Rightarrow> server" where
  "setServerMeta m x \<equiv> x\<lparr>server_meta := m\<rparr>"

abbreviation setPodMeta :: "objectMeta \<Rightarrow> pod \<Rightarrow> pod" where
  "setPodMeta m x \<equiv> x\<lparr>pod_meta := m\<rparr>"

abbreviation setFleetMeta :: "objectMeta \<Rightarrow> fleet \<Rightarrow> fleet" where
  "setFleetMeta m x \<equiv> x\<lparr>fleet_meta := m\<rparr>"

abbreviation setGameTypeMeta :: "objectMeta \<Rightarrow> gameType \<Rightarrow> gameType" where
  "setGameTypeMeta m x \<equiv> x\<lparr>gametype_meta := m\<rparr>"

definition tick :: "store \<Rightarrow> store" where
  "tick w = w\<lparr>fresh := Suc (fresh w)\<rparr>"

definition storeApi :: "store api" where
  "storeApi = \<lparr>
     apiGetServer = (\<lambda>k w. (lookupObj (store_servers w) k, w)),
     apiGetPod = (\<lambda>k w. (lookupObj (store_pods w) k, w)),
     apiGetFleet = (\<lambda>k w. (lookupObj (store_fleets w) k, w)),
     apiGetGameType = (\<lambda>k w. (lookupObj (store_gametypes w) k, w)),
     apiGetAutoscaler = (\<lambda>k w. (lookupObj (store_autoscalers w) k, w)),
     apiListServers = (\<lambda>ns sel w. (Inr (filter (selects ns sel \<circ> server_meta) (map snd (store_servers w))), w)),
     apiListFleets = (\<lambda>ns sel w. (Inr (filter (selects ns sel \<circ> fleet_meta) (map snd (store_fleets w))), w)),
     apiCreateServer = (\<lambda>x w. case createObj server_meta setServerMeta w x (store_servers w) of
        (r, xs) \<Rightarrow> (r, tick (w\<lparr>store_servers := xs\<rparr>))),
     apiCreatePod = (\<lambda>x w. case createObj pod_meta setPodMeta w x (store_pods w) of
        (r, xs) \<Rightarrow> (r, tick (w\<lparr>store_pods := xs\<rparr>))),
     apiCreateFleet = (\<lambda>x w. case createObj fleet_meta setFleetMeta w x (store_fleets w) of
        (r, xs) \<Rightarrow> (r, tick (w\<lparr>store_fleets := xs\<rparr>))),
     apiUpdateServer = (\<lambda>x w. case writeObj server_meta setServerMeta
          (\<lambda>old new. new\<lparr>server_conditions := server_conditions old\<rparr>) x (store_servers w) of
        (r, xs) \<Rightarrow> (r, w\<lparr>store_servers := xs\<rparr>)),
     apiUpdatePod = (\<lambda>x w. case writeObj pod_meta setPodMeta
          (\<lambda>old new. new\<lparr>Phase := Phase old, PodIP := PodIP old\<rparr>) x (store_pods w) of
        (r, xs) \<Rightarrow> (r, w\<lparr>store_pods := xs\<rparr>)),
     apiUpdateFleet = (\<lambda>x w. case writeObj fleet_meta setFleetMeta
          (\<lambda>old new. new\<lparr>fleet_status := fleet_status old\<rparr>) x (store_fleets w) of
        (r, xs) \<Rightarrow> (r, w\<lparr>store_fleets := xs\<rparr>)),
     apiUpdateGameType = (\<lambda>x w. case writeObj gametype_meta setGameTypeMeta
          (\<lambda>old new. new\<lparr>gametype_status := gametype_status old\<rparr>) x (store_gametypes w) of
        (r, xs) \<Rightarrow> (r, w\<lparr>store_gametypes := xs\<rparr>)),
     apiStatusServer = (\<lambda>x w. case writeObj server_meta setServerMeta
          (\<lambda>old new. old\<lparr>server_conditions := server_conditions new\<rparr>) x (store_servers w) of
        (r, xs) \<Rightarrow> (r, w\<lparr>store_servers := xs\<rparr>)),
     apiStatusFleet = (\<lambda>x w. case writeObj fleet_meta setFleetMeta
          (\<lambda>old new. old\<lparr>fleet_status := fleet_status new\<rparr>) x (store_fleets w) of
        (r, xs) \<Rightarrow> (r, w\<lparr>store_fleets := xs\<rparr>)),
     apiStatusGameType = (\<lambda>x w. case writeObj gametype_meta setGameTypeMeta
          (\<lambda>old new. old\<lparr>gametype_status := gametype_status new\<rparr>) x (store_gametypes w) of
        (r, xs) \<Rightarrow> (r, w\<lparr>store_gametypes := xs\<rparr>)),
     apiDeleteServer = (\<lambda>x w. case deleteObj server_meta setServerMeta w x (store_servers w) of
        (r, xs) \<Rightarrow> (r, w\<lparr>store_servers := xs\<rparr>)),
     apiDeletePod = (\<lambda>x w. case deleteObj pod_meta setPodMeta w x (store_pods w) of
        (r, xs) \<Rightarrow> (r, w\<lparr>store_pods := xs\<rparr>)),
     apiDeleteFleet = (\<lambda>x w. case deleteObj fleet_meta setFleetMeta w x (store_fleets w) of
        (r, xs) \<Rightarrow> (r, w\<lparr>store_fleets := xs\<rparr>))\<rparr>"

definition storeLib :: lib where
  "storeLib = \<lparr>
     ContainsFinalizer = (\<lambda>m f. f \<in> set (Finalizers m)),
     AddFinalizer = (\<lambda>m f. if f \<in> set (Finalizers m) then m
        else m\<lparr>Finalizers := Finalizers m @ [f]\<rparr>),
     RemoveFinalizer = (\<lambda>m f. m\<lparr>Finalizers := filter (\<lambda>g. g \<noteq> f) (Finalizers m)\<rparr>),
     NewControllerRef = (\<lambda>m k. \<lparr>RefKind = k, RefName = Name m, RefUID = UID m\<rparr>),
     SetControllerReference = (\<lambda>owner k m. Inr (m\<lparr>OwnerReferences :=
        [\<lparr>RefKind = k, RefName = Name owner, RefUID = UID owner\<rparr>]\<rparr>)),
     SetStatusCondition = (\<lambda>cs c. filter (\<lambda>d. CondType d \<noteq> CondType c) cs @ [c]),
     sprintPointer = (\<lambda>_. ''%!s(*string=0xc000012040)'')\<rparr>"

text \<open>HTTP reaches the sidecar whose base address the URL starts with.\<close>

fun findSidecar :: "(string \<times> app) list \<Rightarrow> string \<Rightarrow> (string \<times> app) option" where
  "findSidecar [] url = None"
| "findSidecar ((b, a) # xs) url =
     (if take (length b) url = b then Some (b, a) else findSidecar xs url)"

definition storeHttp :: "httpRequest \<Rightarrow> store \<Rightarrow> (error + httpResponse) \<times> store" where
  "storeHttp q w =
     (case findSidecar (store_sidecars w) (RequestUrl q) of
        None \<Rightarrow> (Inl (newError ''connection refused''), w)
      | Some (b, a) \<Rightarrow>
          (let (a', wr) = serve a \<lparr>InMethod = Method q,
                   InPath = ''/'' @ drop (length b) (RequestUrl q),
                   InBody = (case RequestBody q of None \<Rightarrow> Inl (newError ''EOF'') | Some d \<Rightarrow> Inr d)\<rparr> False
           in (Inr \<lparr>StatusCode = finalStatus wr, Status = itoa (int (finalStatus wr)),
                 BodyRead = Inr [],
                 BodyJson = (case sentBody wr of [] \<Rightarrow> Inl (newError ''EOF'') | d # _ \<Rightarrow> Inr d)\<rparr>,
               w\<lparr>store_sidecars := AList.update b a' (store_sidecars w)\<rparr>)))"

definition storeExt :: "store ext" where
  "storeExt = \<lparr>api = storeApi, lib = storeLib, httpDo = storeHttp,
     timeNow = (\<lambda>w. (Time (clock w), w)), getenv = (\<lambda>_. [])\<rparr>"

lemma store_api [store_simps]:
  "apiGetServer (api storeExt) k w = (lookupObj (store_servers w) k, w)"
  "apiGetPod (api storeExt) k w = (lookupObj (store_pods w) k, w)"
  "apiGetFleet (api storeExt) k w = (lookupObj (store_fleets w) k, w)"
  "apiGetGameType (api storeExt) k w = (lookupObj (store_gametypes w) k, w)"
  "apiGetAutoscaler (api storeExt) k w = (lookupObj (store_autoscalers w) k, w)"
  "apiListServers (api storeExt) ns sel w = (Inr (filter (selects ns sel \<circ> server_meta) (map snd (store_servers w))), w)"
  "apiListFleets (api storeExt) ns sel w = (Inr (filter (selects ns sel \<circ> fleet_meta) (map snd (store_fleets w))), w)"
  "apiCreateServer (api storeExt) x w = (case createObj server_meta setServerMeta w x (store_servers w) of
        (r, xs) \<Rightarrow> (r, tick (w\<lparr>store_servers := xs\<rparr>)))"
  "apiCreatePod (api storeExt) p w = (case createObj pod_meta setPodMeta w p (store_pods w) of
        (r, xs) \<Rightarrow> (r, tick (w\<lparr>store_pods := xs\<rparr>)))"
  "apiCreateFleet (api storeExt) f w = (case createObj fleet_meta setFleetMeta w f (store_fleets w) of
        (r, xs) \<Rightarrow> (r, tick (w\<lparr>store_fleets := xs\<rparr>)))"
  "apiUpdateServer (api storeExt) x w = (case writeObj server_meta setServerMeta
          (\<lambda>old new. new\<lparr>server_conditions := server_conditions old\<rparr>) x (store_servers w) of
        (r, xs) \<Rightarrow> (r, w\<lparr>store_servers := xs\<rparr>))"
  "apiUpdatePod (api storeExt) p w = (case writeObj pod_meta setPodMeta
          (\<lambda>old new. new\<lparr>Phase := Phase old, PodIP := PodIP old\<rparr>) p (store_pods w) of
        (r, xs) \<Rightarrow> (r, w\<lparr>store_pods := xs\<rparr>))"
  "apiUpdateFleet (api storeExt) f w = (case writeObj fleet_meta setFleetMeta
          (\<lambda>old new. new\<lparr>fleet_status := fleet_status old\<rparr>) f (store_fleets w) of
        (r, xs) \<Rightarrow> (r, w\<lparr>store_fleets := xs\<rparr>))"
  "apiUpdateGameType (api storeExt) g w = (case writeObj gametype_meta setGameTypeMeta
          (\<lambda>old new. new\<lparr>gametype_status := gametype_status old\<rparr>) g (store_gametypes w) of
        (r, xs) \<Rightarrow> (r, w\<lparr>store_gametypes := xs\<rparr>))"
  "apiStatusServer (api storeExt) x w = (case writeObj server_meta setServerMeta
          (\<lambda>old new. old\<lparr>server_conditions := server_conditions new\<rparr>) x (store_servers w) of
        (r, xs) \<Rightarrow> (r, w\<lparr>store_servers := xs\<rparr>))"
  "apiStatusFleet (api storeExt) f w = (case writeObj fleet_meta setFleetMeta
          (\<lambda>old new. old\<lparr>fleet_status := fleet_status new\<rparr>) f (store_fleets w) of
        (r, xs) \<Rightarrow> (r, w\<lparr>store_fleets := xs\<rparr>))"
  "apiStatusGameType (api storeExt) g w = (case writeObj gametype_meta setGameTypeMeta
          (\<lambda>old new. old\<lparr>gametype_status := gametype_status new\<rparr>) g (store_gametypes w) of
        (r, xs) \<Rightarrow> (r, w\<lparr>store_gametypes := xs\<rparr>))"
  "apiDeleteServer (api storeExt) x w = (case deleteObj server_meta setServerMeta w x (store_servers w) of
        (r, xs) \<Rightarrow> (r, w\<lparr>store_servers := xs\<rparr>))"
  "apiDeletePod (api storeExt) p w = (case deleteObj pod_meta setPodMeta w p (store_pods w) of
        (r, xs) \<Rightarrow> (r, w\<lparr>store_pods := xs\<rparr>))"
  "apiDeleteFleet (api storeExt) f w = (case deleteObj fleet_meta setFleetMeta w f (store_fleets w) of
        (r, xs) \<Rightarrow> (r, w\<lparr>store_fleets := xs\<rparr>))"
  by (simp_all add: storeExt_def storeApi_def)

lemma store_ext [store_simps]:
  "lib storeExt = storeLib" "httpDo storeExt q w = storeHttp q w"
  "timeNow storeExt w = (Time (clock w), w)" "getenv storeExt k = []"
  by (simp_all add: storeExt_def)

lemma store_lib [store_simps]:
  "ContainsFinalizer storeLib m f = (f \<in> set (Finalizers m))"
  "AddFinalizer storeLib m f = (if f \<in> set (Finalizers m) then m
     else m\<lparr>Finalizers := Finalizers m @ [f]\<rparr>)"
  "RemoveFinalizer storeLib m f = m\<lparr>Finalizers := filter (\<lambda>g. g \<noteq> f) (Finalizers m)\<rparr>"
  "NewControllerRef storeLib m kd = \<lparr>RefKind = kd, RefName = Name m, RefUID = UID m\<rparr>"
  "SetControllerReference storeLib owner kd m = Inr (m\<lparr>OwnerReferences :=
     [\<lparr>RefKind = kd, RefName = Name owner, RefUID = UID owner\<rparr>]\<rparr>)"
  "SetStatusCondition storeLib cs c = filter (\<lambda>d. CondType d \<noteq> CondType c) cs @ [c]"
  "sprintPointer storeLib q = ''%!s(*string=0xc000012040)''"
  by (simp_all add: storeLib_def)

lemma storeLib_laws: "finalizer_laws storeLib"
proof -
  have "\<exists>fs. m = m\<lparr>Finalizers := fs\<rparr> \<and> set fs = insert f (set (Finalizers m))"
    if "f \<in> set (Finalizers m)" for m f
    using that by (intro exI [of _ "Finalizers m"]) auto
  then show ?thesis by (auto simp: finalizer_laws_def storeLib_def)
qed

lemma store_laws: "finalizer_laws (lib storeExt)"
  by (simp add: store_ext storeLib_laws)

lemma store_controller_law: "controller_law (lib storeExt)"
  by (auto simp: controller_law_def store_ext store_lib)

lemma store_status_laws: "status_laws (api storeExt)"
  by (auto simp: status_laws_def store_api writeObj_def commit_def stamp_def nsOf_def
      split: option.splits if_splits prod.splits)

section \<open>A small cluster\<close>

definition metaOf :: "string \<Rightarrow> string \<Rightarrow> objectMeta" where
  "metaOf ns n = newMeta\<lparr>Name := n, Namespace := ns\<rparr>"

definition plainPod :: podSpec where
  "plainPod = \<lparr>Containers = [\<lparr>ContainerName = ''game'', Image = ''img'', Ports = [], Env = [],
     ImagePullPolicy = [], ContainerRest = []\<rparr>], ImagePullSecrets = [], PodSpecRest = []\<rparr>"

definition plainSpec :: serverSpec where
  "plainSpec = \<lparr>Pod = plainPod, TimeOut = None, AllowForceDelete = False,
     SidecarSettings = Some \<lparr>Port = Some 8080, SidecarImage = Some ''sc'', LogDebug = False\<rparr>,
     GameInfo = None\<rparr>"

definition serverOf :: "objectMeta \<Rightarrow> server" where
  "serverOf m = \<lparr>server_meta = m, server_spec = plainSpec, server_conditions = []\<rparr>"

definition podOf :: "objectMeta \<Rightarrow> string \<Rightarrow> string \<Rightarrow> pod" where
  "podOf m ph ip = \<lparr>pod_meta = m, pod_spec = plainPod, Phase = ph, PodIP = ip\<rparr>"

definition fleetOf :: "objectMeta \<Rightarrow> int32 \<Rightarrow> bool \<Rightarrow> priority \<Rightarrow> fleet" where
  "fleetOf m n b pr = \<lparr>fleet_meta = m,
     fleet_spec = \<lparr>ServerSpec = plainSpec,
        Scaling = \<lparr>Replicas = n, PrioritizeAllowed = b, AgePriority = pr\<rparr>\<rparr>,
     fleet_status = \<lparr>FleetConditions = [], CurrentReplicas = 0\<rparr>\<rparr>"

text \<open>A server being deleted, its running pod, and the sidecar in it.\<close>

definition delServer :: server where
  "delServer = serverOf ((metaOf ''ns'' ''a'')\<lparr>DeletionTimestamp := Some (Time 5),
     Finalizers := [''server.falloria.com/finalizer'']\<rparr>)"

definition runPod :: pod where
  "runPod = podOf ((metaOf ''ns'' ''a-pod'')\<lparr>Finalizers := [''server.falloria.com/finalizer'']\<rparr>)
     ''Running'' ''1''"

definition demoStore :: "bool \<Rightarrow> store" where
  "demoStore b = emptyStore\<lparr>store_servers := [((''ns'', ''a''), delServer)],
     store_pods := [((''ns'', ''a-pod''), runPod)],
     store_sidecars := [(''http://1:8080/'', \<lparr>DeleteAllowed = b, ShutdownRequested = False, AppPort = 8080\<rparr>)]\<rparr>"

definition boot :: "store \<Rightarrow> store op" where
  "boot w = \<lparr>world = w, trace = []\<rparr>"

lemma itoa_8080 [store_simps]: "itoa (sint (8080 :: goint)) = ''8080''"
  by (simp add: itoa_def nat_digits.simps digitChar_def)

lemma itoa_port [store_simps]: "itoa 8080 = ''8080''"
  using itoa_8080 by simp

lemmas store_parts [store_simps] = storeHttp_def lookupObj_def writeObj_def deleteObj_def commit_def bump_def stamp_def
  createObj_def boot_def emptyStore_def tick_def admitMeta_def nsOf_def serverOf_def podOf_def
  fleetOf_def metaOf_def newMeta_def plainSpec_def notFoundErr_def selects_def
  delServer_def runPod_def demoStore_def

lemmas sidecar_parts [store_simps] = serve_def LogRoute_def muxServe_def sidecarRoutes_def
  methodMatches_def IsDeleteAllowedHandler_def SetDeleteAllowedHandler_def
  IsShutdownRequestedHandler_def SetShutdownRequestedHandler_def Health_def finalStatus_def
  StatusOK_def WriteBody_def WriteHeader_def setContentType_def newWriter_def

end
