(* ===== verification/SidecarClient.thy ===== *)
theory SidecarClient
  imports Sidecar Store
begin

text \<open>
  The operator's side of the sidecar protocol: the two requests of
  \<open>internal/utils/sidecar_requests.go\<close> and the decision of
  \<open>internal/utils/server_communication.go\<close> whether a server that is being deleted may
  lose its pod. The interface between operator and sidecar is the locale \<open>sidecar_api\<close>,
  interpreted at the end on the sidecar's own handlers.
\<close>

section \<open>The two requests\<close>

definition buildPodBaseAddress :: "pod \<Rightarrow> string \<Rightarrow> string" where
  "buildPodBaseAddress p port = ''http://'' @ PodIP p @ '':'' @ port @ ''/''"

text \<open>\<open>GET allow_delete\<close>, with the answer decoded into \<open>deleteRequest\<close>.\<close>

definition requestIsDeleteAllowed :: "'w ext \<Rightarrow> pod \<Rightarrow> string \<Rightarrow> ('w op, error + bool) state" where
  "requestIsDeleteAllowed X p port = do {
     resp \<leftarrow> HttpDo X \<lparr>Method = ''GET'', RequestUrl = buildPodBaseAddress p port @ ''allow_delete'',
                      RequestBody = None\<rparr>;
     ret (case resp of
            Inl e \<Rightarrow> Inl e
          | Inr resp \<Rightarrow>
              if StatusCode resp \<noteq> StatusOK
              then Inl (newError (''GET request returned: '' @ Status resp))
              else (case BodyJson resp of
                      Inl e \<Rightarrow> Inl e
                    | Inr doc \<Rightarrow> decodeField asBool ''allowed'' False doc))
   }"

text \<open>\<open>POST shutdown\<close>; \<open>None\<close> is a nil error.\<close>

definition RequestShutdown :: "'w ext \<Rightarrow> pod \<Rightarrow> string \<Rightarrow> ('w op, error option) state" where
  "RequestShutdown X p port = do {
     resp \<leftarrow> HttpDo X \<lparr>Method = ''POST'', RequestUrl = buildPodBaseAddress p port @ ''shutdown'',
                      RequestBody = Some (encodeBool ''shutdown'' True)\<rparr>;
     ret (case resp of
            Inl e \<Rightarrow> Some e
          | Inr resp \<Rightarrow>
              if StatusCode resp \<noteq> StatusOK
              then Some (newError (''POST request returned: '' @ Status resp))
              else None)
   }"

section \<open>ProdDeletionChecker.IsDeletionAllowed\<close>

definition PodRunning :: string where "PodRunning = ''Running''"

text \<open>\<open>*server.Spec.SidecarSettings.Port\<close>: two pointers that may be nil.\<close>

definition sidecarPort :: "serverSpec \<Rightarrow> goint outcome" where
  "sidecarPort spec =
     (case SidecarSettings spec of
        None \<Rightarrow> Panic
      | Some st \<Rightarrow> (case Port st of None \<Rightarrow> Panic | Some p \<Rightarrow> Ret p))"

text \<open>The last part: ask the sidecar to shut down, then whether it allows the deletion.\<close>

definition askSidecar :: "'w ext \<Rightarrow> server \<Rightarrow> pod \<Rightarrow> ('w op, (error + bool) outcome) state" where
  "askSidecar X s p =
     (case sidecarPort (server_spec s) of
        Panic \<Rightarrow> ret Panic
      | Ret portNo \<Rightarrow> do {
          let port = itoa (sint portNo);
          err \<leftarrow> RequestShutdown X p port;
          case err of
            Some e \<Rightarrow> ret (Ret (Inl e))
          | None \<Rightarrow> do { r \<leftarrow> requestIsDeleteAllowed X p port; ret (Ret r) }
        })"

definition IsDeletionAllowed :: "'w ext \<Rightarrow> server \<Rightarrow> pod \<Rightarrow> ('w op, (error + bool) outcome) state" where
  "IsDeletionAllowed X s p =
     (if Phase p \<noteq> PodRunning then ret (Ret (Inr True))
      else if AllowForceDelete (server_spec s) then ret (Ret (Inr True))
      else case TimeOut (server_spec s) of
          None \<Rightarrow> askSidecar X s p
        | Some d \<Rightarrow>
            (case DeletionTimestamp (server_meta s) of
               None \<Rightarrow> ret Panic
             | Some t \<Rightarrow> do {
                 now \<leftarrow> Now X;
                 if addDuration t d < now then ret (Ret (Inr True)) else askSidecar X s p
               }))"

section \<open>Traces\<close>

text \<open>The checker only talks HTTP to the pod and reads the clock: it never writes the cluster.\<close>

fun isProbe :: "effect \<Rightarrow> bool" where
  "isProbe (Http _ _) = True"
| "isProbe (Clock _) = True"
| "isProbe _ = False"

lemma gives_requestIsDeleteAllowed:
  "gives (requestIsDeleteAllowed X p port)
     (\<lambda>r t. \<exists>q a. t = [Http q a] \<and> Method q = ''GET'')"
  unfolding requestIsDeleteAllowed_def by (auto intro!: gives_intros)

lemma gives_RequestShutdown:
  "gives (RequestShutdown X p port)
     (\<lambda>r t. \<exists>q a. t = [Http q a] \<and> Method q = ''POST'')"
  unfolding RequestShutdown_def by (auto intro!: gives_intros)

lemma gives_askSidecar: "gives (askSidecar X s p) (\<lambda>r t. \<forall>e \<in> set t. isProbe e)"
  unfolding askSidecar_def
  by (auto split: outcome.split option.split simp: Let_def intro!: gives_return
      gives_bind [OF gives_RequestShutdown] gives_bind [OF gives_requestIsDeleteAllowed])

lemma gives_IsDeletionAllowed:
  "gives (IsDeletionAllowed X s p) (\<lambda>r t. \<forall>e \<in> set t. isProbe e)"
  unfolding IsDeletionAllowed_def
  by (auto split: option.split intro!: gives_intros gives_weaken [OF gives_askSidecar])

text \<open>
  The grounds on which the checker may answer yes, read off a trace: the pod does not run, the
  server may be deleted by force, its time-out has passed on a clock that was read, or the
  shutdown was requested and the sidecar then answered that deletion is allowed.
\<close>

definition sidecarAllows :: "server \<Rightarrow> pod \<Rightarrow> effect list \<Rightarrow> bool" where
  "sidecarAllows s p t \<longleftrightarrow>
     (\<exists>portNo shut ans doc. sidecarPort (server_spec s) = Ret portNo \<and>
        Http \<lparr>Method = ''POST'',
              RequestUrl = buildPodBaseAddress p (itoa (sint portNo)) @ ''shutdown'',
              RequestBody = Some (encodeBool ''shutdown'' True)\<rparr> (Inr shut) \<in> set t \<and>
        StatusCode shut = StatusOK \<and>
        Http \<lparr>Method = ''GET'',
              RequestUrl = buildPodBaseAddress p (itoa (sint portNo)) @ ''allow_delete'',
              RequestBody = None\<rparr> (Inr ans) \<in> set t \<and>
        StatusCode ans = StatusOK \<and> BodyJson ans = Inr doc \<and>
        decodeField asBool ''allowed'' False doc = Inr True)"

definition timedOut :: "server \<Rightarrow> effect list \<Rightarrow> bool" where
  "timedOut s t \<longleftrightarrow>
     (\<exists>d ts now. TimeOut (server_spec s) = Some d \<and>
        DeletionTimestamp (server_meta s) = Some ts \<and> Clock now \<in> set t \<and>
        addDuration ts d < now)"

definition deletionApproved :: "server \<Rightarrow> pod \<Rightarrow> effect list \<Rightarrow> bool" where
  "deletionApproved s p t \<longleftrightarrow>
     Phase p \<noteq> PodRunning \<or> AllowForceDelete (server_spec s) \<or> timedOut s t \<or> sidecarAllows s p t"

lemma deletionApproved_mono:
  "deletionApproved s p t \<Longrightarrow> set t \<subseteq> set u \<Longrightarrow> deletionApproved s p u"
  unfolding deletionApproved_def timedOut_def sidecarAllows_def by blast

lemma gives_requestIsDeleteAllowed_answer:
  "gives (requestIsDeleteAllowed X p port) (\<lambda>r t. \<exists>a. t =
     [Http \<lparr>Method = ''GET'', RequestUrl = buildPodBaseAddress p port @ ''allow_delete'',
            RequestBody = None\<rparr> a] \<and>
     (r = Inr True \<longrightarrow> (\<exists>resp doc. a = Inr resp \<and> StatusCode resp = StatusOK \<and>
        BodyJson resp = Inr doc \<and> decodeField asBool ''allowed'' False doc = Inr True)))"
  unfolding requestIsDeleteAllowed_def
  by (auto intro!: gives_intros split: sum.splits if_splits)

lemma gives_RequestShutdown_answer:
  "gives (RequestShutdown X p port) (\<lambda>r t. \<exists>a. t =
     [Http \<lparr>Method = ''POST'', RequestUrl = buildPodBaseAddress p port @ ''shutdown'',
            RequestBody = Some (encodeBool ''shutdown'' True)\<rparr> a] \<and>
     (r = None \<longrightarrow> (\<exists>resp. a = Inr resp \<and> StatusCode resp = StatusOK)))"
  unfolding RequestShutdown_def by (auto intro!: gives_intros split: sum.splits if_splits)

lemma gives_askSidecar_allowed:
  "gives (askSidecar X s p) (\<lambda>r t. (\<forall>e \<in> set t. isProbe e) \<and>
     (r = Ret (Inr True) \<longrightarrow> sidecarAllows s p t))"
  unfolding askSidecar_def sidecarAllows_def Let_def
  by (auto split: outcome.split option.split intro!: gives_return
      gives_bind [OF gives_RequestShutdown_answer]
      gives_bind [OF gives_requestIsDeleteAllowed_answer])

lemma gives_IsDeletionAllowed_approved:
  "gives (IsDeletionAllowed X s p) (\<lambda>r t. (\<forall>e \<in> set t. isProbe e) \<and>
     (r = Ret (Inr True) \<longrightarrow> deletionApproved s p t))"
  unfolding IsDeletionAllowed_def
  by (auto split: option.split intro!: gives_intros gives_weaken [OF gives_askSidecar_allowed]
      simp: deletionApproved_def timedOut_def sidecarAllows_def)

section \<open>The contract with the sidecar\<close>

text \<open>
  What the operator relies on: asking is answered with the flag and changes nothing, and a
  shutdown request is accepted, recorded, and does not touch the deletion flag.
\<close>

locale sidecar_api =
  fixes serve1 :: "'s \<Rightarrow> incoming \<Rightarrow> 's \<times> writer"
    and allowed :: "'s \<Rightarrow> bool"
    and requested :: "'s \<Rightarrow> bool"
  assumes ask: "serve1 s \<lparr>InMethod = ''GET'', InPath = ''/allow_delete'', InBody = b\<rparr> = (s', w) \<Longrightarrow>
      s' = s \<and> finalStatus w = StatusOK \<and> sentBody w = [encodeBool ''allowed'' (allowed s)]"
    and shut: "serve1 s \<lparr>InMethod = ''POST'', InPath = ''/shutdown'',
        InBody = Inr (encodeBool ''shutdown'' True)\<rparr> = (s', w) \<Longrightarrow>
      finalStatus w = StatusOK \<and> requested s' \<and> allowed s' = allowed s"

text \<open>
  The network brings every request for the pod's address to the process that listens there and
  its answer back: \<open>getS\<close> is that process's state in the world, \<open>putS\<close> replaces it.
\<close>

definition bodyOf :: "json option \<Rightarrow> error + json" where
  "bodyOf b = (case b of None \<Rightarrow> Inl (newError ''EOF'') | Some d \<Rightarrow> Inr d)"

definition answerOf :: "writer \<Rightarrow> httpResponse" where
  "answerOf w = \<lparr>StatusCode = finalStatus w, Status = itoa (int (finalStatus w)),
     BodyRead = Inr [], BodyJson = bodyOf (case sentBody w of [] \<Rightarrow> None | d # _ \<Rightarrow> Some d)\<rparr>"

definition delivers ::
  "'w ext \<Rightarrow> string \<Rightarrow> ('s \<Rightarrow> incoming \<Rightarrow> 's \<times> writer) \<Rightarrow> ('w \<Rightarrow> 's) \<Rightarrow> ('s \<Rightarrow> 'w \<Rightarrow> 'w) \<Rightarrow> bool" where
  "delivers X base srv getS putS \<longleftrightarrow>
     (\<forall>m path b w. httpDo X \<lparr>Method = m, RequestUrl = base @ path, RequestBody = b\<rparr> w =
        (let (s', wr) = srv (getS w) \<lparr>InMethod = m, InPath = ''/'' @ path, InBody = bodyOf b\<rparr>
         in (Inr (answerOf wr), putS s' w))) \<and>
     (\<forall>s w. getS (putS s w) = s)"

context sidecar_api
begin

lemma ask_answer:
  assumes d: "delivers X (buildPodBaseAddress p port) serve1 getS putS"
    and run: "run_state (requestIsDeleteAllowed X p port) st = (r, st')"
  shows "r = Inr (allowed (getS (world st))) \<and> getS (world st') = getS (world st)"
proof -
  let ?q = "\<lparr>InMethod = ''GET'', InPath = ''/allow_delete'', InBody = bodyOf None\<rparr>"
  obtain s' w where sv: "serve1 (getS (world st)) ?q = (s', w)" by fastforce
  have "httpDo X \<lparr>Method = ''GET'', RequestUrl = buildPodBaseAddress p port @ ''allow_delete'',
      RequestBody = None\<rparr> (world st) = (Inr (answerOf w), putS s' (world st))"
    using d sv unfolding delivers_def by (simp add: Let_def)
  moreover have "getS (putS s' (world st)) = s'" using d unfolding delivers_def by blast
  ultimately show ?thesis using run ask [OF sv]
    by (auto simp: requestIsDeleteAllowed_def run_simps Let_def answerOf_def bodyOf_def)
qed

lemma shut_answer:
  assumes d: "delivers X (buildPodBaseAddress p port) serve1 getS putS"
    and run: "run_state (RequestShutdown X p port) st = (r, st')"
  shows "r = None \<and> requested (getS (world st')) \<and>
         allowed (getS (world st')) = allowed (getS (world st))"
proof -
  let ?q = "\<lparr>InMethod = ''POST'', InPath = ''/shutdown'',
             InBody = bodyOf (Some (encodeBool ''shutdown'' True))\<rparr>"
  obtain s' w where sv: "serve1 (getS (world st)) ?q = (s', w)" by fastforce
  have "httpDo X \<lparr>Method = ''POST'', RequestUrl = buildPodBaseAddress p port @ ''shutdown'',
      RequestBody = Some (encodeBool ''shutdown'' True)\<rparr> (world st) =
      (Inr (answerOf w), putS s' (world st))"
    using d sv unfolding delivers_def by (simp add: Let_def)
  moreover have "getS (putS s' (world st)) = s'" using d unfolding delivers_def by blast
  ultimately show ?thesis using run shut [of "getS (world st)" s' w] sv
    by (auto simp: RequestShutdown_def run_simps Let_def answerOf_def bodyOf_def)
qed

lemma askSidecar_answer:
  assumes d: "delivers X (buildPodBaseAddress p (itoa (sint portNo))) serve1 getS putS"
    and port: "sidecarPort (server_spec s) = Ret portNo"
    and run: "run_state (askSidecar X s p) st = (r, st')"
  shows "r = Ret (Inr (allowed (getS (world st)))) \<and> requested (getS (world st')) \<and>
         allowed (getS (world st')) = allowed (getS (world st))"
proof -
  obtain r1 st1 where s1: "run_state (RequestShutdown X p (itoa (sint portNo))) st = (r1, st1)"
    by fastforce
  note a1 = shut_answer [OF d s1]
  obtain r2 st2 where s2: "run_state (requestIsDeleteAllowed X p (itoa (sint portNo))) st1 = (r2, st2)"
    by fastforce
  note a2 = ask_answer [OF d s2]
  from run a1 a2 s1 s2 port show ?thesis by (auto simp: askSidecar_def Let_def)
qed

end

text \<open>The sidecar's handlers, behind its routes and its logging wrapper, keep the contract.\<close>

definition sidecarServe :: "app \<Rightarrow> incoming \<Rightarrow> app \<times> writer" where
  "sidecarServe a r = serve a r False"

lemmas sidecar_defs = serve_def LogRoute_def muxServe_def sidecarRoutes_def methodMatches_def
  IsDeleteAllowedHandler_def SetDeleteAllowedHandler_def IsShutdownRequestedHandler_def
  SetShutdownRequestedHandler_def Health_def

interpretation sc: sidecar_api sidecarServe DeleteAllowed ShutdownRequested
  by unfold_locales
    (auto simp: sidecarServe_def sidecar_defs Let_def finalStatus_def StatusOK_def WriteBody_def
      setContentType_def WriteHeader_def newWriter_def)

section \<open>Properties\<close>

text \<open>
  C15. The operator and the sidecar work together: for a running server that is not forced and has
  no time-out, when the network brings the pod's requests to a sidecar, the operator's decision
  is the flag the game server last set there, and the sidecar then knows that the shutdown has
  been requested. The deletion flag itself is not touched.
\<close>

theorem running_server_decided_by_sidecar:
  assumes "delivers X (buildPodBaseAddress p (itoa (sint portNo))) sidecarServe getS putS"
    and "sidecarPort (server_spec s) = Ret portNo" and "Phase p = PodRunning"
    and "\<not> AllowForceDelete (server_spec s)" and "TimeOut (server_spec s) = None"
    and "run_state (IsDeletionAllowed X s p) st = (r, st')"
  shows "r = Ret (Inr (DeleteAllowed (getS (world st)))) \<and> ShutdownRequested (getS (world st')) \<and>
     DeleteAllowed (getS (world st')) = DeleteAllowed (getS (world st))"
  using sc.askSidecar_answer [OF assms(1,2), of st r st'] assms(3-)
  by (simp add: IsDeletionAllowed_def)

text \<open>A network that carries everything to the one sidecar stored under \<open>base\<close>.\<close>

definition podApp :: "string \<Rightarrow> store \<Rightarrow> app" where
  "podApp base w = (case map_of (store_sidecars w) base of Some a \<Rightarrow> a
     | None \<Rightarrow> \<lparr>DeleteAllowed = False, ShutdownRequested = False, AppPort = 8080\<rparr>)"

definition putApp :: "string \<Rightarrow> app \<Rightarrow> store \<Rightarrow> store" where
  "putApp base a w = w\<lparr>store_sidecars := AList.update base a (store_sidecars w)\<rparr>"

definition pipeHttp :: "string \<Rightarrow> httpRequest \<Rightarrow> store \<Rightarrow> (error + httpResponse) \<times> store" where
  "pipeHttp base q w =
     (let (a, wr) = sidecarServe (podApp base w) \<lparr>InMethod = Method q,
            InPath = ''/'' @ drop (length base) (RequestUrl q), InBody = bodyOf (RequestBody q)\<rparr>
      in (Inr (answerOf wr), putApp base a w))"

lemma pipe_delivers:
  "delivers (storeExt\<lparr>httpDo := pipeHttp base\<rparr>) base sidecarServe (podApp base) (putApp base)"
  by (simp add: delivers_def pipeHttp_def podApp_def putApp_def update_conv')

theorem running_server_decided_by_sidecar_witness:
  "\<exists>st. run_state (IsDeletionAllowed (storeExt\<lparr>httpDo := pipeHttp ''http://1:8080/''\<rparr>) delServer runPod)
       (boot (demoStore True)) = (Ret (Inr True), st) \<and>
     ShutdownRequested (podApp ''http://1:8080/'' (world st))"
proof -
  have base: "buildPodBaseAddress runPod (itoa (sint (8080 :: goint))) = ''http://1:8080/''"
    using itoa_8080 by (simp add: buildPodBaseAddress_def runPod_def podOf_def)
  obtain r st where run: "run_state (IsDeletionAllowed (storeExt\<lparr>httpDo := pipeHttp ''http://1:8080/''\<rparr>)
      delServer runPod) (boot (demoStore True)) = (r, st)" by fastforce
  have flag: "DeleteAllowed (podApp ''http://1:8080/'' (world (boot (demoStore True))))"
    by (simp add: podApp_def boot_def demoStore_def emptyStore_def)
  have facts: "sidecarPort (server_spec delServer) = Ret 8080" "Phase runPod = PodRunning"
    "\<not> AllowForceDelete (server_spec delServer)" "TimeOut (server_spec delServer) = None"
    by (simp_all add: sidecarPort_def delServer_def serverOf_def plainSpec_def runPod_def podOf_def PodRunning_def)
  have "delivers (storeExt\<lparr>httpDo := pipeHttp ''http://1:8080/''\<rparr>)
      (buildPodBaseAddress runPod (itoa (sint (8080 :: goint)))) sidecarServe
      (podApp ''http://1:8080/'') (putApp ''http://1:8080/'')"
    unfolding base by (rule pipe_delivers)
  from running_server_decided_by_sidecar [OF this facts run] run flag show ?thesis by auto
qed

text \<open>
  The time-out takes precedence over the sidecar: once the clock has passed the deletion
  time plus the time-out, the check says yes after reading the clock and sends nothing.
\<close>

theorem passed_timeout_allows:
  assumes "TimeOut (server_spec s) = Some d" and "DeletionTimestamp (server_meta s) = Some ts"
    and "timeNow X w = (now, w')" and "nanos ts + d < nanos now"
  shows "\<exists>u. run_state (IsDeletionAllowed X s p) \<lparr>world = w, trace = t\<rparr> = (Ret (Inr True), u) \<and>
     trace u = t @ (if Phase p = PodRunning \<and> \<not> AllowForceDelete (server_spec s) then [Clock now] else [])"
  using assms by (simp add: IsDeletionAllowed_def run_simps addDuration_def less_time_def)

theorem passed_timeout_allows_witness:
  "\<exists>u. run_state (IsDeletionAllowed storeExt
       (delServer\<lparr>server_spec := plainSpec\<lparr>TimeOut := Some 3\<rparr>\<rparr>) runPod)
     \<lparr>world = emptyStore\<lparr>clock := 9\<rparr>, trace = []\<rparr> = (Ret (Inr True), u) \<and> trace u = [Clock (Time 9)]"
  using passed_timeout_allows [of "delServer\<lparr>server_spec := plainSpec\<lparr>TimeOut := Some 3\<rparr>\<rparr>" 3 "Time 5" storeExt
      "emptyStore\<lparr>clock := 9\<rparr>" "Time 9" "emptyStore\<lparr>clock := 9\<rparr>" runPod "[]"]
  by (simp add: store_ext delServer_def serverOf_def plainSpec_def runPod_def podOf_def PodRunning_def)

end
