(* ===== verification/ServerController.thy ===== *)
theory ServerController
  imports SidecarClient Builders Store
begin

text \<open>
  \<open>internal/controller/server_controller.go\<close>: the reconciler of one Server. The deletion
  check is the interface \<open>utils.Deletion\<close>, a field of the reconciler.
\<close>

definition SERVER_FINALIZER :: string where
  "SERVER_FINALIZER = ''server.falloria.com/finalizer''"

record 'w serverReconciler =
  sr_ext :: "'w ext"
  ErrorOnNotAllowed :: bool
  DeletionAllowed :: "server \<Rightarrow> pod \<Rightarrow> ('w op, (error + bool) outcome) state"

definition podKey :: "server \<Rightarrow> nsname" where
  "podKey s = (Namespace (server_meta s), podName s)"

definition setCondition ::
  "'w ext \<Rightarrow> string \<Rightarrow> string \<Rightarrow> string \<Rightarrow> string \<Rightarrow> server \<Rightarrow> ('w op, server) state" where
  "setCondition X ty st reason msg s = do {
     now \<leftarrow> Now X;
     ret (s\<lparr>server_conditions := SetStatusCondition (lib X) (server_conditions s)
       \<lparr>CondType = ty, CondStatus = st, LastTransitionTime = now, CondReason = reason,
        CondMessage = msg\<rparr>\<rparr>)
   }"

text \<open>
  \<open>ensurePodExists\<close>: whether the pod was there, and the server as the call left it. The
  format verb \<open>%s\<close> is given the pointer to the image, not the image.
\<close>

definition ensurePodExists ::
  "'w ext \<Rightarrow> server \<Rightarrow> ('w op, ((error + bool) \<times> server) outcome) state" where
  "ensurePodExists X s = do {
     r \<leftarrow> GetPod X (podKey s);
     case r of
       Inr p \<Rightarrow> ret (Ret (Inr True, s))
     | Inl e \<Rightarrow>
         if \<not> isNotFound e
         then ret (Ret (Inl (errorf_w ''failed to get Pod resource: '' e), s))
         else (case GetNewPod (lib X) (getenv X) s (Namespace (server_meta s)) of
             Panic \<Rightarrow> ret Panic
           | Ret (newPod, s1) \<Rightarrow> do {
               emitEvent KServer (server_meta s1) Normal ''ServerInitialized''
                 (''Setting up sidecar with image '' @
                  sprintPointer (lib X) (Option.bind (SidecarSettings (server_spec s1)) SidecarImage));
               case SetControllerReference (lib X) (server_meta s1) ''Server'' (pod_meta newPod) of
                 Inl e \<Rightarrow> do {
                   emitEvent KServer (server_meta s1) Warning ''ServerInitialized''
                     (''failed to set pod owner reference: '' @ errMsg e);
                   ret (Ret (Inl (errorf_w ''failed to set controller reference on Pod: '' e), s1))
                 }
               | Inr pm \<Rightarrow> do {
                   c \<leftarrow> CreatePod X (newPod\<lparr>pod_meta := pm\<rparr>);
                   case c of
                     Inl e \<Rightarrow> do {
                       s2 \<leftarrow> setCondition X ''PodFailed'' ''False'' ''PodCreationFailed''
                               ''Failed to create the Pod'' s1;
                       emitEvent KServer (server_meta s2) Warning ''ServerPodCreationFailed''
                         (''Pod creation errored: '' @ errMsg e);
                       ret (Ret (Inl e, s2))
                     }
                   | Inr _ \<Rightarrow> do {
                       s2 \<leftarrow> setCondition X ''PodCreated'' ''True'' ''PodCreatedSuccessfully''
                               ''Pod has been successfully created'' s1;
                       emitEvent KServer (server_meta s2) Normal ''ServerInitialized''
                         ''Pod created successfully'';
                       ret (Ret (Inr False, s2))
                     }
                 }
             })
   }"

text \<open>The last part of \<open>handleDeletion\<close>: delete the pod and record it in the conditions.\<close>

definition deletePodOf :: "'w ext \<Rightarrow> server \<Rightarrow> pod \<Rightarrow> ('w op, (error option \<times> server) outcome) state" where
  "deletePodOf X s p = do {
     d \<leftarrow> DeletePod X p;
     case d of
       Inl e \<Rightarrow> ret (Ret (Some e, s))
     | Inr _ \<Rightarrow> do {
         s1 \<leftarrow> setCondition X ''Finalizing'' ''True'' ''PodDeleted''
                 ''Pod successfully deleted during finalization'' s;
         emitEvent KServer (server_meta s1) Normal ''ServerPodDeleted''
           ''Pod successfully deleted during finalization'';
         ret (Ret (None, s1))
       }
   }"

definition notAllowedMsg :: string where
  "notAllowedMsg = ''server deletion not allowed''"

definition releasePod :: "'w ext \<Rightarrow> server \<Rightarrow> pod \<Rightarrow> ('w op, (error option \<times> server) outcome) state" where
  "releasePod X s p =
     (if ContainsFinalizer (lib X) (pod_meta p) SERVER_FINALIZER
      then do {
        let p1 = p\<lparr>pod_meta := RemoveFinalizer (lib X) (pod_meta p) SERVER_FINALIZER\<rparr>;
        emitEvent KServer (server_meta s) Normal ''ServerDeletionAllowed'' ''Pod finalizer removed'';
        emitEvent KPod (pod_meta p1) Normal ''ServerDeletionAllowed'' ''Pod finalizer removed'';
        u \<leftarrow> UpdatePod X p1;
        case u of
          Inl e \<Rightarrow> ret (Ret (Some e, s))
        | Inr _ \<Rightarrow> do {
            g \<leftarrow> GetPod X (podKey s);
            case g of
              Inl e \<Rightarrow> ret (Ret (Some e, s))
            | Inr p2 \<Rightarrow> deletePodOf X s p2
          }
      }
      else deletePodOf X s p)"

definition server_handleDeletion ::
  "'w serverReconciler \<Rightarrow> server \<Rightarrow> ('w op, (error option \<times> server) outcome) state" where
  "server_handleDeletion R s = do {
     r \<leftarrow> GetPod (sr_ext R) (podKey s);
     case r of
       Inl e \<Rightarrow> ret (Ret (Some e, s))
     | Inr p \<Rightarrow> andThen (DeletionAllowed R s p) (\<lambda>a. case a of
           Inl e \<Rightarrow> do {
             emitEvent KPod (pod_meta p) Warning ''ServerDeletionNotAllowed''
               ''Deletion request did not succeed'';
             emitEvent KServer (server_meta s) Warning ''ServerDeletionNotAllowed''
               ''Deletion request did not succeed'';
             ret (Ret (Some (errorf_s ''failed to check for deletion for server: '' e), s))
           }
         | Inr allowed \<Rightarrow>
             if \<not> allowed then do {
               emitEvent KPod (pod_meta p) Normal ''ServerDeletionAllowed''
                 ''Server did not respond with allowed'';
               emitEvent KServer (server_meta s) Normal ''ServerDeletionAllowed''
                 ''Server did not respond with allowed'';
               ret (Ret (Some (newError notAllowedMsg), s))
             }
             else releasePod (sr_ext R) s p)
   }"

definition ensurePodFinalizer :: "'w ext \<Rightarrow> server \<Rightarrow> ('w op, error + bool) state" where
  "ensurePodFinalizer X s = do {
     r \<leftarrow> GetPod X (podKey s);
     case r of
       Inl e \<Rightarrow> ret (Inl e)
     | Inr p \<Rightarrow>
         if ContainsFinalizer (lib X) (pod_meta p) SERVER_FINALIZER then ret (Inr False)
         else do {
           let p1 = p\<lparr>pod_meta := AddFinalizer (lib X) (pod_meta p) SERVER_FINALIZER\<rparr>;
           emitEvent KServer (server_meta s) Normal ''ServerInitialized'' ''Pod finalizer added'';
           emitEvent KPod (pod_meta p1) Normal ''ServerInitialized'' ''Pod finalizer added'';
           u \<leftarrow> UpdatePod X p1;
           ret (case u of
                  Inl e \<Rightarrow> Inl (errorf_s ''failed to add finalizer to pod: '' e)
                | Inr _ \<Rightarrow> Inr True)
         }
   }"

section \<open>Reconcile\<close>

text \<open>The three phases of \<open>Reconcile\<close>, in the order of their guards.\<close>

definition server_initialize :: "'w ext \<Rightarrow> server \<Rightarrow> ('w op, reconciled) state" where
  "server_initialize X s = do {
     let s1 = s\<lparr>server_meta := AddFinalizer (lib X) (server_meta s) SERVER_FINALIZER\<rparr>;
     u \<leftarrow> UpdateServer X s1;
     case u of
       Inl e \<Rightarrow> do {
         emitEvent KServer (server_meta s1) Warning ''ServerUpdateFailed''
           (''failed to update server: '' @ errMsg e);
         fail noRequeue (errorf_s ''failed to update server for finalizer: '' e)
       }
     | Inr s2 \<Rightarrow> do {
         emitEvent KServer (server_meta s2) Normal ''ServerInitialized'' ''Finalizer added'';
         finish noRequeue
       }
   }"

definition server_finalize :: "'w serverReconciler \<Rightarrow> server \<Rightarrow> ('w op, reconciled) state" where
  "server_finalize R s = andThen (server_handleDeletion R s) (\<lambda>(err, s1).
     case err of
       Some e \<Rightarrow>
         if errMsg e = notAllowedMsg \<and> \<not> ErrorOnNotAllowed R then finish doRequeue
         else fail doRequeue (errorf_s ''failed to handle server deletion: '' e)
     | None \<Rightarrow> do {
         let X = sr_ext R;
         let s2 = s1\<lparr>server_meta := RemoveFinalizer (lib X) (server_meta s1) SERVER_FINALIZER\<rparr>;
         u \<leftarrow> UpdateServer X s2;
         case u of
           Inl e \<Rightarrow> do {
             emitEvent KServer (server_meta s2) Warning ''ServerDeletionAllowed''
               ''Failed to update server object'';
             fail doRequeue (errorf_w ''failed to remove finalizer: '' e)
           }
         | Inr s3 \<Rightarrow> do {
             emitEvent KServer (server_meta s3) Normal ''ServerDeletionAllowed'' ''Finalizer removed'';
             finish doRequeue
           }
       })"

definition server_run :: "'w ext \<Rightarrow> server \<Rightarrow> ('w op, reconciled) state" where
  "server_run X s = andThen (ensurePodExists X s) (\<lambda>(r, s1).
     case r of
       Inl e \<Rightarrow> do {
         u \<leftarrow> UpdateServer X s1;
         case u of
           Inl e' \<Rightarrow> fail noRequeue (errorf_w ''failed to update server: '' e')
         | Inr _ \<Rightarrow> fail noRequeue (errorf_w ''failed to ensure Pod exists for Server: '' e)
       }
     | Inr podExists \<Rightarrow>
         if \<not> podExists then finish doRequeue
         else do {
           f \<leftarrow> ensurePodFinalizer X s1;
           case f of
             Inl e \<Rightarrow> fail noRequeue e
           | Inr update \<Rightarrow>
               if update then finish noRequeue
               else do {
                 u \<leftarrow> StatusServer X s1;
                 case u of
                   Inl e \<Rightarrow> fail noRequeue (errorf_w ''failed to update Server resource: '' e)
                 | Inr _ \<Rightarrow> finish noRequeue
               }
         })"

definition server_Reconcile :: "'w serverReconciler \<Rightarrow> nsname \<Rightarrow> ('w op, reconciled) state" where
  "server_Reconcile R req = do {
     r \<leftarrow> GetServer (sr_ext R) req;
     case r of
       Inl e \<Rightarrow>
         if \<not> isNotFound e then fail noRequeue (errorf_w ''failed to get Server: '' e)
         else finish noRequeue
     | Inr s \<Rightarrow>
         if DeletionTimestamp (server_meta s) = None \<and>
            \<not> ContainsFinalizer (lib (sr_ext R)) (server_meta s) SERVER_FINALIZER
         then server_initialize (sr_ext R) s
         else if DeletionTimestamp (server_meta s) \<noteq> None then server_finalize R s
         else server_run (sr_ext R) s
   }"

text \<open>The reconciler \<open>main\<close> sets up.\<close>

definition prodServerReconciler :: "'w ext \<Rightarrow> 'w serverReconciler" where
  "prodServerReconciler X =
     \<lparr>sr_ext = X, ErrorOnNotAllowed = False, DeletionAllowed = IsDeletionAllowed X\<rparr>"

section \<open>Traces of the parts\<close>

text \<open>
  Grounds for letting go of a pod: it was read under the server's key, and the checker had
  approved. Grounds for letting go of a server: such a pod was deleted without an error.
\<close>

definition grounded ::
  "(server \<Rightarrow> pod \<Rightarrow> effect list \<Rightarrow> bool) \<Rightarrow> server \<Rightarrow> effect list \<Rightarrow> bool" where
  "grounded approved s t \<longleftrightarrow> (\<exists>p. ReadPod (podKey s) (Inr p) \<in> set t \<and> approved s p t)"

definition podGone :: "server \<Rightarrow> effect list \<Rightarrow> bool" where
  "podGone s t \<longleftrightarrow>
     (\<exists>p. ReadPod (podKey s) (Inr p) \<in> set t \<and> Write Delete (PodObj p) None \<in> set t)"

lemma podGone_mono: "podGone s t \<Longrightarrow> set t \<subseteq> set u \<Longrightarrow> podGone s u"
  unfolding podGone_def by blast

lemma gives_setCondition:
  "gives (setCondition X ty st reason msg s)
     (\<lambda>r t. \<exists>now cs. t = [Clock now] \<and> r = s\<lparr>server_conditions := cs\<rparr>)"
  unfolding setCondition_def by (auto intro!: gives_intros)

lemma gives_deletePodOf:
  "gives (deletePodOf X s p) (\<lambda>r t. \<exists>err s'. r = Ret (err, s') \<and>
     server_meta s' = server_meta s \<and> server_spec s' = server_spec s \<and> (\<exists>rest. t = Write Delete (PodObj p) err # rest \<and>
       (\<forall>e \<in> set rest. \<not> isWrite e)))"
  unfolding deletePodOf_def
  by (auto intro!: gives_intros gives_bind [OF gives_setCondition] split: sum.split)

section \<open>Releases\<close>

text \<open>
  The writes that let go of an object: deleting a pod, or updating a pod or a server to a
  version without the finalizer.
\<close>

fun releasesPod :: "effect \<Rightarrow> bool" where
  "releasesPod (Write Delete (PodObj p) _) = True"
| "releasesPod (Write Update (PodObj p) _) = (SERVER_FINALIZER \<notin> set (Finalizers (pod_meta p)))"
| "releasesPod _ = False"

fun releasesServer :: "effect \<Rightarrow> bool" where
  "releasesServer (Write Delete (ServerObj s) _) = True"
| "releasesServer (Write Update (ServerObj s) _) =
     (SERVER_FINALIZER \<notin> set (Finalizers (server_meta s)))"
| "releasesServer _ = False"

text \<open>Which server is let go of: \<open>s\<close> itself, with nothing but the finalizer (and its conditions) changed.\<close>

definition serverWithout :: "lib \<Rightarrow> server \<Rightarrow> effect \<Rightarrow> bool" where
  "serverWithout L s e \<longleftrightarrow> (\<exists>s' err. e = Write Update (ServerObj s') err \<and> server_spec s' = server_spec s \<and>
     server_meta s' = RemoveFinalizer L (server_meta s) SERVER_FINALIZER)"

text \<open>The live path keeps hold of both, and leaves the server's finalizers alone.\<close>

definition keepsHold :: "effect list \<Rightarrow> bool" where
  "keepsHold t \<longleftrightarrow> (\<forall>e \<in> set t. \<not> releasesPod e \<and> \<not> releasesServer e)"

lemma keepsHold_simps [simp]:
  "keepsHold []" "keepsHold (e # t) \<longleftrightarrow> \<not> releasesPod e \<and> \<not> releasesServer e \<and> keepsHold t"
  "keepsHold (t1 @ t2) \<longleftrightarrow> keepsHold t1 \<and> keepsHold t2"
  by (auto simp: keepsHold_def)

lemma gives_ensurePodExists:
  "gives (ensurePodExists X s) (\<lambda>r t. keepsHold t \<and>
     (\<forall>res s1. r = Ret (res, s1) \<longrightarrow> Finalizers (server_meta s1) = Finalizers (server_meta s) \<and>
        DeletionTimestamp (server_meta s1) = DeletionTimestamp (server_meta s)))"
  unfolding ensurePodExists_def
  by (intro gives_intros gives_bind [OF gives_setCondition]) (auto elim!: GetNewPod_parts)

lemma gives_ensurePodFinalizer:
  assumes "finalizer_laws (lib X)"
  shows "gives (ensurePodFinalizer X s) (\<lambda>r t. keepsHold t)"
  unfolding ensurePodFinalizer_def
  by (intro gives_intros) (auto simp: addFinalizer_in [OF assms])

lemma gives_server_run:
  assumes L: "finalizer_laws (lib X)" and f: "SERVER_FINALIZER \<in> set (Finalizers (server_meta s))"
  shows "gives (server_run X s) (\<lambda>r t. keepsHold t)"
  unfolding server_run_def
  by (intro gives_intros gives_andThen [OF gives_ensurePodExists]
      gives_bind [OF gives_ensurePodFinalizer [OF L]]) (use f in auto)

section \<open>The deletion check as an interface\<close>

text \<open>
  What the reconciler relies on: the checker only probes the pod, and when it says yes it has
  grounds the trace shows.
\<close>

locale deletion_checker =
  fixes check :: "server \<Rightarrow> pod \<Rightarrow> ('w op, (error + bool) outcome) state"
    and approved :: "server \<Rightarrow> pod \<Rightarrow> effect list \<Rightarrow> bool"
  assumes check_gives: "gives (check s p) (\<lambda>r t. (\<forall>e \<in> set t. isProbe e) \<and>
      (r = Ret (Inr True) \<longrightarrow> approved s p t))"
    and approved_mono: "approved s p t \<Longrightarrow> set t \<subseteq> set u \<Longrightarrow> approved s p u"
begin

lemma grounded_mono: "grounded approved s t \<Longrightarrow> set t \<subseteq> set u \<Longrightarrow> grounded approved s u"
  unfolding grounded_def by (blast intro: approved_mono)

lemma groundedI:
  assumes "approved s p t1"
  shows "grounded approved s (ReadPod (podKey s) (Inr p) # t1)"
    and "grounded approved s (ReadPod (podKey s) (Inr p) # t1 @ u)"
  unfolding grounded_def by (rule exI [of _ p], use assms in \<open>auto intro: approved_mono\<close>)+

lemma probe_no_release: "isProbe e \<Longrightarrow> \<not> releasesPod e \<and> \<not> releasesServer e"
  by (cases e) auto

lemma quiet_no_release: "\<not> isWrite e \<Longrightarrow> \<not> releasesPod e \<and> \<not> releasesServer e"
  by (cases e) auto

lemma handleDeletion_gated:
  assumes R: "DeletionAllowed R = check"
  shows "gives (server_handleDeletion R s) (\<lambda>r t.
     onlyAfter releasesPod (grounded approved s) [] t \<and> (\<forall>e \<in> set t. \<not> releasesServer e) \<and>
     (\<forall>err s1. r = Ret (err, s1) \<longrightarrow> server_meta s1 = server_meta s \<and> server_spec s1 = server_spec s \<and>
       (err = None \<longrightarrow> podGone s t)))"
  unfolding server_handleDeletion_def releasePod_def R
  by (intro gives_intros gives_andThen [OF check_gives] gives_weaken [OF gives_deletePodOf])
    (auto simp: probe_no_release quiet_no_release podGone_def groundedI onlyAfter_none)

lemma finalize_gated:
  assumes R: "DeletionAllowed R = check"
  shows "gives (server_finalize R s) (\<lambda>r t.
     onlyAfter releasesPod (grounded approved s) [] t \<and>
     (\<forall>e. onlyAfter (only releasesServer e) (\<lambda>pre. podGone s pre \<and> serverWithout (lib (sr_ext R)) s e) [] t))"
  unfolding server_finalize_def
  by (intro gives_intros gives_andThen [OF handleDeletion_gated [OF R]])
    (auto intro: onlyAfter_none simp: serverWithout_def)

text \<open>One reconcile of a server, whatever its phase.\<close>

lemma reconcile_gated:
  assumes R: "DeletionAllowed R = check" and L: "finalizer_laws (lib (sr_ext R))"
  shows "gives (server_Reconcile R req) (\<lambda>r t.
     onlyAfter releasesPod (\<lambda>pre. \<exists>s. ReadServer req (Inr s) \<in> set pre \<and>
       DeletionTimestamp (server_meta s) \<noteq> None \<and> grounded approved s pre) [] t \<and>
     (\<forall>e. onlyAfter (only releasesServer e) (\<lambda>pre. \<exists>s. ReadServer req (Inr s) \<in> set pre \<and>
       DeletionTimestamp (server_meta s) \<noteq> None \<and> podGone s pre \<and> serverWithout (lib (sr_ext R)) s e) [] t))"
proof -
  have add: "SERVER_FINALIZER \<in> set (Finalizers (AddFinalizer (lib (sr_ext R)) m SERVER_FINALIZER))"
    for m by (rule addFinalizer_in [OF L])
  have has: "ContainsFinalizer (lib (sr_ext R)) m f \<longleftrightarrow> f \<in> set (Finalizers m)" for m f
    using L by (simp add: finalizer_laws_def)
  have finalize: "gives (server_finalize R s) (\<lambda>r t.
     onlyAfter releasesPod (\<lambda>pre. \<exists>s. ReadServer req (Inr s) \<in> set pre \<and>
       DeletionTimestamp (server_meta s) \<noteq> None \<and> grounded approved s pre) [ReadServer req (Inr s)] t \<and>
     (\<forall>e. onlyAfter (only releasesServer e) (\<lambda>pre. \<exists>s. ReadServer req (Inr s) \<in> set pre \<and>
       DeletionTimestamp (server_meta s) \<noteq> None \<and> podGone s pre \<and> serverWithout (lib (sr_ext R)) s e)
       [ReadServer req (Inr s)] t))"
    if "DeletionTimestamp (server_meta s) \<noteq> None" for s
  proof (rule gives_weaken [OF finalize_gated [OF R]], elim conjE, intro conjI)
    fix r t
    have mono: "podGone s v \<Longrightarrow> podGone s (ReadServer req (Inr s) # v)"
      "grounded approved s v \<Longrightarrow> grounded approved s (ReadServer req (Inr s) # v)" for v
      by (auto elim: podGone_mono grounded_mono)
    show "onlyAfter releasesPod (\<lambda>pre. \<exists>s. ReadServer req (Inr s) \<in> set pre \<and>
        DeletionTimestamp (server_meta s) \<noteq> None \<and> grounded approved s pre) [ReadServer req (Inr s)] t"
      if "onlyAfter releasesPod (grounded approved s) [] t"
      by (rule onlyAfter_Cons [OF that]) (use \<open>DeletionTimestamp (server_meta s) \<noteq> None\<close> mono in auto)
    show "\<forall>e. onlyAfter (only releasesServer e) (\<lambda>pre. \<exists>s. ReadServer req (Inr s) \<in> set pre \<and>
        DeletionTimestamp (server_meta s) \<noteq> None \<and> podGone s pre \<and> serverWithout (lib (sr_ext R)) s e)
        [ReadServer req (Inr s)] t"
      if "\<forall>e. onlyAfter (only releasesServer e) (\<lambda>pre. podGone s pre \<and> serverWithout (lib (sr_ext R)) s e) [] t"
      by (rule onlyAfter_each_Cons [OF that]) (use \<open>DeletionTimestamp (server_meta s) \<noteq> None\<close> mono in auto)
  qed
  show ?thesis
    unfolding server_Reconcile_def server_initialize_def
    by (intro gives_intros gives_weaken [OF finalize] gives_weaken [OF gives_server_run [OF L]])
      (auto simp: add has keepsHold_def intro: onlyAfter_none)
qed

end

interpretation prod: deletion_checker "IsDeletionAllowed X" deletionApproved
  by unfold_locales (rule gives_IsDeletionAllowed_approved, rule deletionApproved_mono)


definition podGoesFreely :: "server \<Rightarrow> pod \<Rightarrow> bool" where
  "podGoesFreely s p \<longleftrightarrow> Phase p \<noteq> PodRunning \<or> AllowForceDelete (server_spec s)"

lemma free_check: "podGoesFreely s p \<Longrightarrow> IsDeletionAllowed X s p = ret (Ret (Inr True))"
  by (auto simp: podGoesFreely_def IsDeletionAllowed_def)

lemma gives_check_free:
  "gives (IsDeletionAllowed X s p) (\<lambda>r t. podGoesFreely s p \<longrightarrow> r = Ret (Inr True) \<and> t = [])"
  by (cases "podGoesFreely s p")
    (auto simp: free_check intro: gives_return gives_weaken [OF gives_IsDeletionAllowed])

text \<open>The deletion of the pod of \<open>s\<close>, in the version \<open>p\<close> or in one that was read again under its key.\<close>

definition deletedAsRead :: "server \<Rightarrow> pod \<Rightarrow> effect list \<Rightarrow> bool" where
  "deletedAsRead s p t \<longleftrightarrow>
     (\<exists>q. Write Delete (PodObj q) None \<in> set t \<and> (q = p \<or> ReadPod (podKey s) (Inr q) \<in> set t))"

lemma deletedAsRead_mono: "deletedAsRead s p t \<Longrightarrow> set t \<subseteq> set u \<Longrightarrow> deletedAsRead s p u"
  unfolding deletedAsRead_def by blast

lemma gives_releasePod_completes:
  "gives (releasePod X s p) (\<lambda>r t. (\<forall>e \<in> set t. \<not> failed e) \<longrightarrow>
     (\<exists>s1. r = Ret (None, s1) \<and> server_meta s1 = server_meta s) \<and>
     deletedAsRead s p t)"
  unfolding releasePod_def deletePodOf_def deletedAsRead_def
  by (intro gives_intros gives_bind [OF gives_setCondition]) auto

lemma gives_finalize_completes:
  assumes L: "finalizer_laws (lib X)"
  shows "gives (server_finalize (prodServerReconciler X) s) (\<lambda>r t. \<forall>p rest.
     t = ReadPod (podKey s) (Inr p) # rest \<longrightarrow> podGoesFreely s p \<longrightarrow> (\<forall>e \<in> set rest. \<not> failed e) \<longrightarrow>
     r = Ret (doRequeue, None) \<and> deletedAsRead s p rest \<and>
     (\<exists>s'. Write Update (ServerObj s') None \<in> set rest \<and> nsOf (server_meta s') = nsOf (server_meta s) \<and>
        SERVER_FINALIZER \<notin> set (Finalizers (server_meta s'))))"
proof -
  have frame: "nsOf (RemoveFinalizer (lib X) m f) = nsOf m" "f \<notin> set (Finalizers (RemoveFinalizer (lib X) m f))"
    for m f using L unfolding finalizer_laws_def nsOf_def
    by (metis Diff_iff insertI1 objectMeta.simps(1,3,7) objectMeta.surjective objectMeta.update_convs(7))+
  have ext: "sr_ext (prodServerReconciler X) = X" "DeletionAllowed (prodServerReconciler X) = IsDeletionAllowed X"
    by (simp_all add: prodServerReconciler_def)
  have deletion: "gives (server_handleDeletion (prodServerReconciler X) s) (\<lambda>r t. \<forall>p rest.
     t = ReadPod (podKey s) (Inr p) # rest \<longrightarrow> podGoesFreely s p \<longrightarrow> (\<forall>e \<in> set rest. \<not> failed e) \<longrightarrow>
     (\<exists>s1. r = Ret (None, s1) \<and> server_meta s1 = server_meta s) \<and>
     deletedAsRead s p rest)"
    unfolding server_handleDeletion_def ext
    by (intro gives_intros gives_andThen [OF gives_check_free] gives_weaken [OF gives_releasePod_completes])
      (auto simp: prodServerReconciler_def)
  show ?thesis
    unfolding server_finalize_def ext
    by (intro gives_intros gives_andThen [OF deletion])
      (auto simp: frame prodServerReconciler_def append_eq_Cons_conv deletedAsRead_def)
qed

lemma gives_reconcile_completes:
  assumes L: "finalizer_laws (lib X)"
  shows "gives (server_Reconcile (prodServerReconciler X) req) (\<lambda>r t. \<forall>s p rest.
     t = ReadServer req (Inr s) # ReadPod (podKey s) (Inr p) # rest \<longrightarrow>
     DeletionTimestamp (server_meta s) \<noteq> None \<longrightarrow> podGoesFreely s p \<longrightarrow> (\<forall>e \<in> set rest. \<not> failed e) \<longrightarrow>
     r = Ret (doRequeue, None) \<and> deletedAsRead s p rest \<and>
     (\<exists>s'. Write Update (ServerObj s') None \<in> set rest \<and> nsOf (server_meta s') = nsOf (server_meta s) \<and>
        SERVER_FINALIZER \<notin> set (Finalizers (server_meta s'))))"
proof -
  have ext: "sr_ext (prodServerReconciler X) = X" by (simp add: prodServerReconciler_def)
  have has: "ContainsFinalizer (lib X) m f \<longleftrightarrow> f \<in> set (Finalizers m)" for m f
    using L by (simp add: finalizer_laws_def)
  show ?thesis
    unfolding server_Reconcile_def server_initialize_def ext
    by (intro gives_intros gives_weaken [OF gives_finalize_completes [OF L]]
        gives_weaken [OF gives_server_run [OF L]]) (auto simp: has)
qed

section \<open>Properties\<close>

lemmas server_defs = server_Reconcile_def server_finalize_def server_handleDeletion_def
  releasePod_def deletePodOf_def prodServerReconciler_def IsDeletionAllowed_def askSidecar_def
  RequestShutdown_def requestIsDeleteAllowed_def setCondition_def podKey_def podName_def
  sidecarPort_def SERVER_FINALIZER_def PodRunning_def buildPodBaseAddress_def

abbreviation reconcileServer :: "'w ext \<Rightarrow> nsname \<Rightarrow> 'w op \<Rightarrow> reconciled \<times> 'w op" where
  "reconcileServer X req \<equiv> run_state (server_Reconcile (prodServerReconciler X) req)"

lemma gives_prod_released:
  assumes "finalizer_laws (lib X)"
  shows "gives (server_Reconcile (prodServerReconciler X) req) (\<lambda>r t.
     \<forall>e. onlyAfter (only releasesServer e) (\<lambda>pre. \<exists>s. ReadServer req (Inr s) \<in> set pre \<and>
       DeletionTimestamp (server_meta s) \<noteq> None \<and> podGone s pre \<and> serverWithout (lib X) s e) [] t)"
proof -
  have R: "DeletionAllowed (prodServerReconciler X) = IsDeletionAllowed X" "sr_ext (prodServerReconciler X) = X"
    by (simp_all add: prodServerReconciler_def)
  show ?thesis
    by (rule gives_weaken [OF prod.reconcile_gated [OF R(1)]]) (use assms in \<open>simp_all add: R(2)\<close>)
qed

lemma gives_prod_reconcile:
  assumes "finalizer_laws (lib X)"
  shows "gives (server_Reconcile (prodServerReconciler X) req) (\<lambda>r t.
     onlyAfter releasesPod (\<lambda>pre. \<exists>s. ReadServer req (Inr s) \<in> set pre \<and>
       DeletionTimestamp (server_meta s) \<noteq> None \<and> grounded deletionApproved s pre) [] t \<and>
     onlyAfter releasesServer (\<lambda>pre. \<exists>s. ReadServer req (Inr s) \<in> set pre \<and>
       DeletionTimestamp (server_meta s) \<noteq> None \<and> podGone s pre) [] t)"
proof -
  have R: "DeletionAllowed (prodServerReconciler X) = IsDeletionAllowed X" "sr_ext (prodServerReconciler X) = X"
    by (simp_all add: prodServerReconciler_def)
  show ?thesis
    by (rule gives_weaken [OF prod.reconcile_gated [OF R(1)]])
      (use assms in \<open>auto simp: R(2) elim!: onlyAfter_each\<close>)
qed

text \<open>
  C3. Whenever a reconcile deletes a pod, or takes the operator's finalizer off one, the server
  had been read and was being deleted, its pod had been read, and by then there were grounds:
  the pod does not run, force deletion is set, the time-out has passed, or the sidecar was told
  to shut down and answered that deletion is allowed.
\<close>

theorem pod_released_only_with_approval:
  assumes "finalizer_laws (lib X)" and "reconcileServer X req s0 = (r, s1)"
  shows "\<exists>t. trace s1 = trace s0 @ t \<and> (\<forall>t1 e t2. t = t1 @ e # t2 \<longrightarrow> releasesPod e \<longrightarrow>
     (\<exists>s p. ReadServer req (Inr s) \<in> set t1 \<and> DeletionTimestamp (server_meta s) \<noteq> None \<and>
        ReadPod (podKey s) (Inr p) \<in> set t1 \<and> deletionApproved s p t1))"
  using gives_onlyAfter_run [OF gives_weaken [OF gives_prod_reconcile [OF assms(1)] conjunct1] assms(2)]
  by (simp add: grounded_def)

lemma demo_releases:
  "\<exists>e \<in> set (trace (snd (reconcileServer storeExt (''ns'', ''a'') (boot (demoStore True))))). releasesPod e"
  by (simp add: server_defs run_simps store_simps)

theorem pod_released_only_with_approval_witness:
  "\<exists>t1 e t2 s p. trace (snd (reconcileServer storeExt (''ns'', ''a'') (boot (demoStore True)))) = t1 @ e # t2 \<and>
     releasesPod e \<and> ReadPod (podKey s) (Inr p) \<in> set t1 \<and> deletionApproved s p t1"
proof -
  let ?run = "reconcileServer storeExt (''ns'', ''a'') (boot (demoStore True))"
  obtain t where t: "trace (snd ?run) = t" "\<forall>t1 e t2. t = t1 @ e # t2 \<longrightarrow> releasesPod e \<longrightarrow>
      (\<exists>s p. ReadServer (''ns'', ''a'') (Inr s) \<in> set t1 \<and> DeletionTimestamp (server_meta s) \<noteq> None \<and>
        ReadPod (podKey s) (Inr p) \<in> set t1 \<and> deletionApproved s p t1)"
    using pod_released_only_with_approval [OF _ prod.collapse [symmetric],
        of storeExt "(''ns'', ''a'')" "boot (demoStore True)"]
    by (auto simp: storeLib_laws store_ext boot_def)
  from demo_releases obtain e where e: "e \<in> set t" "releasesPod e" unfolding t(1) by blast
  from split_list [OF e(1)] obtain t1 t2 where "t = t1 @ e # t2" by blast
  with t e(2) show ?thesis by blast
qed

text \<open>
  C4. Whenever a reconcile lets go of a server, it writes back the very server it had read under the
  requested name as being deleted, with the operator's finalizer removed and the rest of its
  metadata and its specification unchanged, and a pod read under that server's pod key had by
  then been deleted without an error.
\<close>

theorem server_released_only_after_pod:
  assumes "finalizer_laws (lib X)" and "reconcileServer X req s0 = (r, s1)"
  shows "\<exists>t. trace s1 = trace s0 @ t \<and> (\<forall>t1 e t2. t = t1 @ e # t2 \<longrightarrow> releasesServer e \<longrightarrow>
     (\<exists>s s' p err. ReadServer req (Inr s) \<in> set t1 \<and> DeletionTimestamp (server_meta s) \<noteq> None \<and>
        e = Write Update (ServerObj s') err \<and> server_spec s' = server_spec s \<and>
        server_meta s' = RemoveFinalizer (lib X) (server_meta s) SERVER_FINALIZER \<and>
        ReadPod (podKey s) (Inr p) \<in> set t1 \<and> Write Delete (PodObj p) None \<in> set t1))"
proof -
  from gives_each_run [OF gives_prod_released [OF assms(1)] assms(2)] obtain t where t: "trace s1 = trace s0 @ t"
    and rel: "\<forall>t1 e t2. t = t1 @ e # t2 \<longrightarrow> releasesServer e \<longrightarrow> (\<exists>s. ReadServer req (Inr s) \<in> set t1 \<and>
      DeletionTimestamp (server_meta s) \<noteq> None \<and> podGone s t1 \<and> serverWithout (lib X) s e)" by blast
  show ?thesis
    by (rule exI [of _ t]) (use t rel in \<open>simp add: podGone_def serverWithout_def; blast\<close>)
qed


definition stoppedStore :: store where
  "stoppedStore = (demoStore True)\<lparr>store_pods := [((''ns'', ''a-pod''), podOf (metaOf ''ns'' ''a-pod'') ''Failed'' ''1'')]\<rparr>"

lemma stopped_releases:
  "\<exists>e \<in> set (trace (snd (reconcileServer storeExt (''ns'', ''a'') (boot stoppedStore)))). releasesServer e"
  by (simp add: server_defs run_simps store_simps stoppedStore_def)

theorem server_released_only_after_pod_witness:
  "\<exists>t1 s s' err t2 p. trace (snd (reconcileServer storeExt (''ns'', ''a'') (boot stoppedStore))) =
       t1 @ Write Update (ServerObj s') err # t2 \<and> ReadServer (''ns'', ''a'') (Inr s) \<in> set t1 \<and>
     server_meta s' = RemoveFinalizer storeLib (server_meta s) SERVER_FINALIZER \<and> Write Delete (PodObj p) None \<in> set t1"
proof -
  let ?run = "reconcileServer storeExt (''ns'', ''a'') (boot stoppedStore)"
  obtain t where t: "trace (snd ?run) = t" "\<forall>t1 e t2. t = t1 @ e # t2 \<longrightarrow> releasesServer e \<longrightarrow>
      (\<exists>s s' p err. ReadServer (''ns'', ''a'') (Inr s) \<in> set t1 \<and> DeletionTimestamp (server_meta s) \<noteq> None \<and>
        e = Write Update (ServerObj s') err \<and> server_spec s' = server_spec s \<and>
        server_meta s' = RemoveFinalizer storeLib (server_meta s) SERVER_FINALIZER \<and>
        ReadPod (podKey s) (Inr p) \<in> set t1 \<and> Write Delete (PodObj p) None \<in> set t1)"
    using server_released_only_after_pod [OF _ prod.collapse [symmetric],
        of storeExt "(''ns'', ''a'')" "boot stoppedStore"]
    by (auto simp: storeLib_laws store_ext boot_def)
  from stopped_releases obtain e where e: "e \<in> set t" "releasesServer e" unfolding t(1) by blast
  from split_list [OF e(1)] obtain t1 t2 where split: "t = t1 @ e # t2" by blast
  with t(2) e(2) obtain s s' p err where "ReadServer (''ns'', ''a'') (Inr s) \<in> set t1"
    "e = Write Update (ServerObj s') err" "server_meta s' = RemoveFinalizer storeLib (server_meta s) SERVER_FINALIZER"
    "Write Delete (PodObj p) None \<in> set t1" by blast
  with split t(1) show ?thesis by blast
qed

text \<open>
  C5. The deletion completes: when a server being deleted may lose its pod at once (the pod does
  not run, or force deletion is set) and no call of the reconcile fails, that one reconcile
  returns without an error, has deleted the server's pod (in the version it read first, or in the
  one it read again under the same key), and has updated that server to a version without the
  operator's finalizer.
\<close>

theorem free_deletion_completes:
  assumes "finalizer_laws (lib X)" and "reconcileServer X req s0 = (r, s1)"
    and "trace s1 = trace s0 @ ReadServer req (Inr s) # ReadPod (podKey s) (Inr p) # rest"
    and "DeletionTimestamp (server_meta s) \<noteq> None" and "podGoesFreely s p"
    and "\<forall>e \<in> set rest. \<not> failed e"
  shows "r = Ret (doRequeue, None) \<and>
     (\<exists>q. Write Delete (PodObj q) None \<in> set rest \<and> (q = p \<or> ReadPod (podKey s) (Inr q) \<in> set rest)) \<and>
     (\<exists>s'. Write Update (ServerObj s') None \<in> set rest \<and> nsOf (server_meta s') = nsOf (server_meta s) \<and>
        SERVER_FINALIZER \<notin> set (Finalizers (server_meta s')))"
proof -
  have "gives (server_Reconcile (prodServerReconciler X) req) (\<lambda>r t. \<forall>s p rest.
     t = ReadServer req (Inr s) # ReadPod (podKey s) (Inr p) # rest \<longrightarrow>
     DeletionTimestamp (server_meta s) \<noteq> None \<longrightarrow> podGoesFreely s p \<longrightarrow> (\<forall>e \<in> set rest. \<not> failed e) \<longrightarrow>
     r = Ret (doRequeue, None) \<and> deletedAsRead s p rest \<and>
     (\<exists>s'. Write Update (ServerObj s') None \<in> set rest \<and> nsOf (server_meta s') = nsOf (server_meta s) \<and>
        SERVER_FINALIZER \<notin> set (Finalizers (server_meta s'))))"
    by (rule gives_reconcile_completes [OF assms(1)])
  from gives_run [OF this assms(2)] assms(3-) show ?thesis unfolding deletedAsRead_def by auto
qed

lemma stopped_run:
  "\<exists>r s1 p rest. reconcileServer storeExt (''ns'', ''a'') (boot stoppedStore) = (r, s1) \<and>
     trace s1 = ReadServer (''ns'', ''a'') (Inr delServer) # ReadPod (podKey delServer) (Inr p) # rest \<and>
     podGoesFreely delServer p \<and> (\<forall>e \<in> set rest. \<not> failed e)"
  by (simp add: server_defs run_simps store_simps stoppedStore_def podGoesFreely_def)

theorem free_deletion_completes_witness:
  "\<exists>s1 q. reconcileServer storeExt (''ns'', ''a'') (boot stoppedStore) = (Ret (doRequeue, None), s1) \<and>
     Write Delete (PodObj q) None \<in> set (trace s1) \<and> ReadPod (podKey delServer) (Inr q) \<in> set (trace s1)"
proof -
  obtain r s1 p rest where run: "reconcileServer storeExt (''ns'', ''a'') (boot stoppedStore) = (r, s1)"
    and tr: "trace s1 = ReadServer (''ns'', ''a'') (Inr delServer) # ReadPod (podKey delServer) (Inr p) # rest"
    and free: "podGoesFreely delServer p" and ok: "\<forall>e \<in> set rest. \<not> failed e"
    using stopped_run by blast
  have "r = Ret (doRequeue, None) \<and>
     (\<exists>q. Write Delete (PodObj q) None \<in> set rest \<and> (q = p \<or> ReadPod (podKey delServer) (Inr q) \<in> set rest))"
    using free_deletion_completes [OF _ run _ _ free ok] tr storeLib_laws
    by (simp add: store_ext boot_def delServer_def serverOf_def)
  with run tr show ?thesis by auto
qed

text \<open>
  C40. A server being deleted whose pod cannot be read (it is gone, for instance) is never let
  go: the reconcile ends with an error after the two reads, without a write, so the server
  keeps its finalizer.
\<close>

theorem missing_pod_blocks_deletion:
  assumes "apiGetServer (api X) req w = (Inr s, w1)" and "DeletionTimestamp (server_meta s) \<noteq> None"
    and "apiGetPod (api X) (podKey s) w1 = (Inl e, w2)" and "errMsg e \<noteq> notAllowedMsg"
  shows "reconcileServer X req \<lparr>world = w, trace = t\<rparr> =
     (Ret (doRequeue, Some (errorf_s ''failed to handle server deletion: '' e)),
      \<lparr>world = w2, trace = t @ [ReadServer req (Inr s), ReadPod (podKey s) (Inl e)]\<rparr>)"
  using assms
  by (auto simp: server_Reconcile_def server_finalize_def server_handleDeletion_def
      prodServerReconciler_def run_simps)

theorem missing_pod_blocks_deletion_witness:
  "writes (trace (snd (reconcileServer storeExt (''ns'', ''a'') (boot ((demoStore True)\<lparr>store_pods := []\<rparr>))))) = []"
  using missing_pod_blocks_deletion [of storeExt "(''ns'', ''a'')" "(demoStore True)\<lparr>store_pods := []\<rparr>" delServer
      "(demoStore True)\<lparr>store_pods := []\<rparr>" notFoundErr "(demoStore True)\<lparr>store_pods := []\<rparr>" "[]"]
  by (simp add: store_simps notAllowedMsg_def)

text \<open>
  A refusal is not an error: when the deletion check says no, the reconcile asks to be
  called again with no error, and all it adds to what the check did are two events.
\<close>

theorem refused_deletion_waits:
  assumes "apiGetServer (api X) req w = (Inr s, w1)" and "DeletionTimestamp (server_meta s) \<noteq> None"
    and "apiGetPod (api X) (podKey s) w1 = (Inr p, w2)"
    and "run_state (IsDeletionAllowed X s p)
           \<lparr>world = w2, trace = t @ [ReadServer req (Inr s), ReadPod (podKey s) (Inr p)]\<rparr> =
         (Ret (Inr False), \<lparr>world = w3, trace = u\<rparr>)"
  shows "reconcileServer X req \<lparr>world = w, trace = t\<rparr> = (Ret (doRequeue, None),
     \<lparr>world = w3, trace = u @
        [Event KPod (nsOf (pod_meta p)) Normal ''ServerDeletionAllowed'' ''Server did not respond with allowed'',
         Event KServer (nsOf (server_meta s)) Normal ''ServerDeletionAllowed''
           ''Server did not respond with allowed'']\<rparr>)"
  using assms
  by (auto simp: server_Reconcile_def server_finalize_def server_handleDeletion_def
      prodServerReconciler_def run_simps)

lemma refusing_check:
  "\<exists>w3 u. run_state (IsDeletionAllowed storeExt delServer runPod) \<lparr>world = demoStore False,
       trace = [ReadServer (''ns'', ''a'') (Inr delServer), ReadPod (podKey delServer) (Inr runPod)]\<rparr> =
     (Ret (Inr False), \<lparr>world = w3, trace = u\<rparr>) \<and> writes u = []"
  by (simp add: server_defs run_simps store_simps)

theorem refused_deletion_waits_witness:
  "\<exists>s1. reconcileServer storeExt (''ns'', ''a'') (boot (demoStore False)) = (Ret (doRequeue, None), s1) \<and>
     writes (trace s1) = []"
proof -
  obtain w3 u where chk: "run_state (IsDeletionAllowed storeExt delServer runPod) \<lparr>world = demoStore False,
       trace = [] @ [ReadServer (''ns'', ''a'') (Inr delServer), ReadPod (podKey delServer) (Inr runPod)]\<rparr> =
     (Ret (Inr False), \<lparr>world = w3, trace = u\<rparr>)" "writes u = []"
    using refusing_check by auto
  show ?thesis
    using refused_deletion_waits [OF _ _ _ chk(1), of "demoStore False" "demoStore False"] chk(2)
    by (simp add: store_simps podKey_def podName_def)
qed

text \<open>
  C35. Creating the pod: for a live server with the finalizer and no pod, whose settings the pod
  builder can use, a successful reconcile writes exactly one object, the pod that
  \<open>GetNewPod\<close> builds with the server as its controller, and asks to be called again. The
  condition \<open>PodCreated\<close> it sets is therefore never stored.
\<close>

theorem pod_creation_is_the_only_write:
  assumes "apiGetServer (api X) req w = (Inr s, w1)" and "DeletionTimestamp (server_meta s) = None"
    and "ContainsFinalizer (lib X) (server_meta s) SERVER_FINALIZER"
    and "apiGetPod (api X) (podKey s) w1 = (Inl e, w2)" and "isNotFound e"
    and "GetNewPod (lib X) (getenv X) s (Namespace (server_meta s)) = Ret (q, s')"
    and "SetControllerReference (lib X) (server_meta s') ''Server'' (pod_meta q) = Inr m"
    and "apiCreatePod (api X) (q\<lparr>pod_meta := m\<rparr>) w2 = (Inr c, w3)"
  shows "\<exists>s1 u. reconcileServer X req \<lparr>world = w, trace = t\<rparr> = (Ret (doRequeue, None), s1) \<and>
     trace s1 = t @ u \<and> writes u = [Write Create (PodObj (q\<lparr>pod_meta := m\<rparr>)) None]"
  using assms
  by (auto simp: server_Reconcile_def server_run_def ensurePodExists_def setCondition_def
      prodServerReconciler_def run_simps split: prod.split)

definition liveServer :: server where
  "liveServer = serverOf ((metaOf ''ns'' ''a'')\<lparr>Finalizers := [''server.falloria.com/finalizer'']\<rparr>)"

definition podlessStore :: store where
  "podlessStore = emptyStore\<lparr>store_servers := [((''ns'', ''a''), liveServer)]\<rparr>"

lemma podless_reads:
  "apiGetServer (api storeExt) (''ns'', ''a'') podlessStore = (Inr liveServer, podlessStore)"
  "apiGetPod (api storeExt) (podKey liveServer) podlessStore = (Inl notFoundErr, podlessStore)"
  "DeletionTimestamp (server_meta liveServer) = None"
  "ContainsFinalizer (lib storeExt) (server_meta liveServer) SERVER_FINALIZER"
  "Namespace (server_meta liveServer) = ''ns''" "isNotFound notFoundErr"
  by (simp_all add: store_simps podlessStore_def liveServer_def SERVER_FINALIZER_def)

lemma podless_writes:
  "\<exists>q s' m c w3. GetNewPod (lib storeExt) (getenv storeExt) liveServer ''ns'' = Ret (q, s') \<and>
     SetControllerReference (lib storeExt) (server_meta s') ''Server'' (pod_meta q) = Inr m \<and>
     apiCreatePod (api storeExt) (q\<lparr>pod_meta := m\<rparr>) podlessStore = (Inr c, w3)"
proof -
  have "\<exists>q s'. GetNewPod storeLib (getenv storeExt) liveServer ''ns'' = Ret (q, s')"
    by (simp add: GetNewPod_def getPodSpec_def liveServer_def serverOf_def plainSpec_def Let_def)
  then show ?thesis by (auto simp: store_simps podlessStore_def)
qed

theorem pod_creation_is_the_only_write_witness:
  "\<exists>q s1. reconcileServer storeExt (''ns'', ''a'') (boot podlessStore) = (Ret (doRequeue, None), s1) \<and>
     writes (trace s1) = [Write Create (PodObj q) None]"
  using pod_creation_is_the_only_write [where t = "[]", OF podless_reads(1,3,4,2,6)] podless_writes
  unfolding podless_reads(5) boot_def by fastforce

text \<open>What a created pod shows: it is the pod of the server that was read, and the label says so.\<close>

definition createsPod :: "effect \<Rightarrow> bool" where
  "createsPod e \<longleftrightarrow> (\<exists>q err. e = Write Create (PodObj q) err)"

lemma createsPod_simps [simp]:
  "createsPod (Write v ob err) \<longleftrightarrow> v = Create \<and> (\<exists>q. ob = PodObj q)"
  "\<not> createsPod (ReadPod k a)" "\<not> createsPod (ReadServer k b)" "\<not> createsPod (Clock now)"
  "\<not> createsPod (Event kd n ty why msg)" "\<not> createsPod (Http rq rs)"
  by (auto simp: createsPod_def)

definition wantsPod :: "nsname \<Rightarrow> effect \<Rightarrow> effect list \<Rightarrow> bool" where
  "wantsPod req c pre \<longleftrightarrow> (\<exists>s e q err. ReadServer req (Inr s) \<in> set pre \<and> DeletionTimestamp (server_meta s) = None \<and>
     SERVER_FINALIZER \<in> set (Finalizers (server_meta s)) \<and>
     ReadPod (podKey s) (Inl e) \<in> set pre \<and> isNotFound e \<and>
     c = Write Create (PodObj q) err \<and> nsOf (pod_meta q) = podKey s)"

lemma GetNewPod_key:
  assumes "controller_law L" and "GetNewPod L env s (Namespace (server_meta s)) = Ret (q, s')"
    and "SetControllerReference L own kd (pod_meta q) = Inr m"
  shows "nsOf m = podKey s"
  using controller_frame [OF assms(1,3)] assms(2) by (auto elim!: GetNewPod_parts simp: nsOf_def podKey_def)

lemma gives_ensurePodFinalizer_creates:
  "gives (ensurePodFinalizer X s) (\<lambda>r t. \<forall>e \<in> set t. \<not> createsPod e)"
  unfolding ensurePodFinalizer_def by (intro gives_intros) auto

lemma gives_run_creates:
  assumes f: "SERVER_FINALIZER \<in> set (Finalizers (server_meta s))"
    and l: "DeletionTimestamp (server_meta s) = None" and C: "controller_law (lib X)"
  shows "gives (server_run X s) (\<lambda>r t. \<forall>e. onlyAfter (only createsPod e) (wantsPod req e) [ReadServer req (Inr s)] t)"
proof -
  have create: "gives (ensurePodExists X s)
      (\<lambda>r t. \<forall>e. onlyAfter (only createsPod e) (wantsPod req e) [ReadServer req (Inr s)] t)"
    unfolding ensurePodExists_def
    by (intro gives_intros gives_bind [OF gives_setCondition])
      (use f l in \<open>auto simp: wantsPod_def dest!: GetNewPod_key [OF C]\<close>)
  show ?thesis
    unfolding server_run_def
    by (intro gives_intros gives_andThen [OF create] gives_bind [OF gives_ensurePodFinalizer_creates])
      (auto simp: onlyAfter_none)
qed

lemma probe_creates: "isProbe e \<Longrightarrow> \<not> createsPod e"
  by (cases e) auto

lemma gives_finalize_creates:
  "gives (server_finalize (prodServerReconciler X) s) (\<lambda>r t. \<forall>e \<in> set t. \<not> createsPod e)"
proof -
  have ext: "sr_ext (prodServerReconciler X) = X" "DeletionAllowed (prodServerReconciler X) = IsDeletionAllowed X"
    by (simp_all add: prodServerReconciler_def)
  have del: "gives (deletePodOf X s p) (\<lambda>r t. \<forall>e \<in> set t. \<not> createsPod e)" for p
    unfolding deletePodOf_def by (intro gives_intros gives_bind [OF gives_setCondition]) auto
  have "gives (server_handleDeletion (prodServerReconciler X) s) (\<lambda>r t. \<forall>e \<in> set t. \<not> createsPod e)"
    unfolding server_handleDeletion_def releasePod_def ext
    by (intro gives_intros gives_andThen [OF gives_IsDeletionAllowed] gives_weaken [OF del])
      (auto simp: probe_creates)
  then show ?thesis
    unfolding server_finalize_def by (intro gives_intros gives_andThen) auto
qed

lemma gives_reconcile_creates:
  assumes L: "finalizer_laws (lib X)" and C: "controller_law (lib X)"
  shows "gives (server_Reconcile (prodServerReconciler X) req)
    (\<lambda>r t. \<forall>e. onlyAfter (only createsPod e) (wantsPod req e) [] t)"
proof -
  have ext: "sr_ext (prodServerReconciler X) = X" by (simp add: prodServerReconciler_def)
  have has: "ContainsFinalizer (lib X) m f \<longleftrightarrow> f \<in> set (Finalizers m)" for m f
    using L by (simp add: finalizer_laws_def)
  show ?thesis
    unfolding server_Reconcile_def server_initialize_def ext
    by (intro gives_intros gives_weaken [OF gives_finalize_creates]
        gives_weaken [OF gives_run_creates [OF _ _ C]]) (auto simp: has onlyAfter_none)
qed

text \<open>
  C39. A reconcile creates a pod only for a server it has read as live and under its finalizer,
  after reading that the server's pod does not exist, and under the very key it has looked for.
  That is the key a deletion of the server looks under, so no pod is created that a
  deletion of its server could miss.
\<close>

theorem pod_created_only_under_finalizer:
  assumes "finalizer_laws (lib X)" and "controller_law (lib X)" and "reconcileServer X req s0 = (r, s1)"
  shows "\<exists>t. trace s1 = trace s0 @ t \<and> (\<forall>t1 q err t2. t = t1 @ Write Create (PodObj q) err # t2 \<longrightarrow>
     (\<exists>s e. ReadServer req (Inr s) \<in> set t1 \<and> DeletionTimestamp (server_meta s) = None \<and>
        SERVER_FINALIZER \<in> set (Finalizers (server_meta s)) \<and>
        ReadPod (podKey s) (Inl e) \<in> set t1 \<and> isNotFound e \<and> nsOf (pod_meta q) = podKey s))"
proof -
  from gives_each_run [OF gives_reconcile_creates [OF assms(1,2)] assms(3)] obtain t where t: "trace s1 = trace s0 @ t"
    and made: "\<forall>t1 e t2. t = t1 @ e # t2 \<longrightarrow> createsPod e \<longrightarrow> wantsPod req e t1" by blast
  have "wantsPod req (Write Create (PodObj q) err) t1" if "t = t1 @ Write Create (PodObj q) err # t2" for t1 q err t2
    using made that by simp
  with t show ?thesis by (intro exI [of _ t]) (fastforce simp: wantsPod_def)
qed

lemma podless_creates:
  "\<exists>q err. Write Create (PodObj q) err \<in> set (trace (snd (reconcileServer storeExt (''ns'', ''a'') (boot podlessStore))))"
  using podless_writes podless_reads
  by (auto simp: server_Reconcile_def server_run_def ensurePodExists_def setCondition_def
      prodServerReconciler_def run_simps boot_def store_ext(3))

theorem pod_created_only_under_finalizer_witness:
  "\<exists>t1 q err t2 s. trace (snd (reconcileServer storeExt (''ns'', ''a'') (boot podlessStore))) =
       t1 @ Write Create (PodObj q) err # t2 \<and>
     ReadServer (''ns'', ''a'') (Inr s) \<in> set t1 \<and> nsOf (pod_meta q) = podKey s"
proof -
  let ?run = "reconcileServer storeExt (''ns'', ''a'') (boot podlessStore)"
  have law: "controller_law (lib storeExt)" by (rule store_controller_law)
  obtain t where t: "trace (snd ?run) = t" "\<forall>t1 q err t2. t = t1 @ Write Create (PodObj q) err # t2 \<longrightarrow>
     (\<exists>s e. ReadServer (''ns'', ''a'') (Inr s) \<in> set t1 \<and> DeletionTimestamp (server_meta s) = None \<and>
        SERVER_FINALIZER \<in> set (Finalizers (server_meta s)) \<and>
        ReadPod (podKey s) (Inl e) \<in> set t1 \<and> isNotFound e \<and> nsOf (pod_meta q) = podKey s)"
    using pod_created_only_under_finalizer [OF store_laws law prod.collapse [symmetric],
        of "(''ns'', ''a'')" "boot podlessStore"]
    by (auto simp: boot_def)
  from podless_creates obtain q err where e: "Write Create (PodObj q) err \<in> set t" unfolding t(1) by blast
  from split_list [OF e] obtain t1 t2 where "t = t1 @ Write Create (PodObj q) err # t2" by blast
  with t show ?thesis by blast
qed

end
