(* ===== verification/Selection.thy ===== *)
theory Selection
  imports Main
begin

text \<open>
  Choosing one element of a list by a comparison, as the loops of the operator do for servers
  and for fleets: a running best that only a strictly better element replaces. The locale
  states what the comparison must satisfy and derives what is chosen.
\<close>

text \<open>The first of the elements that no other element beats.\<close>

fun firstBest :: "('a \<Rightarrow> 'a \<Rightarrow> bool) \<Rightarrow> 'a list \<Rightarrow> 'a option" where
  "firstBest beats [] = None"
| "firstBest beats (s # ss) =
     (case firstBest beats ss of
        None \<Rightarrow> Some s
      | Some b \<Rightarrow> if beats b s then Some b else Some s)"

definition beatsBest :: "('a \<Rightarrow> 'a \<Rightarrow> bool) \<Rightarrow> 'a \<Rightarrow> 'a option \<Rightarrow> bool" where
  "beatsBest beats s b = (case b of None \<Rightarrow> True | Some b \<Rightarrow> beats s b)"

definition keepBest ::
  "('a \<Rightarrow> 'a \<Rightarrow> bool) \<Rightarrow> 'a option \<Rightarrow> 'a list \<Rightarrow> 'a option" where
  "keepBest beats = foldl (\<lambda>b s. if beatsBest beats s b then Some s else b)"

lemma keepBest_simps [simp]:
  "keepBest beats b [] = b"
  "keepBest beats b (s # ss) = keepBest beats (if beatsBest beats s b then Some s else b) ss"
  by (simp_all add: keepBest_def)

lemma firstBest_None [simp]: "firstBest beats ss = None \<longleftrightarrow> ss = []"
  by (cases ss) (auto split: option.splits)

text \<open>The contract between a loop and the comparison it uses: a strict weak order.\<close>

locale age_order =
  fixes beats :: "'a \<Rightarrow> 'a \<Rightarrow> bool"
  assumes asym: "beats a b \<Longrightarrow> \<not> beats b a"
    and split: "beats a c \<Longrightarrow> beats a b \<or> beats b c"
begin

lemma trans: "beats a b \<Longrightarrow> beats b c \<Longrightarrow> beats a c"
  using asym split by blast

lemma firstBest_least: "firstBest beats ss = Some b \<Longrightarrow> b \<in> set ss \<and> (\<forall>x \<in> set ss. \<not> beats x b)"
proof (induction ss arbitrary: b)
  case Nil
  then show ?case by simp
next
  case (Cons s ss)
  show ?case
  proof (cases "firstBest beats ss")
    case None
    with Cons.prems asym show ?thesis by auto
  next
    case (Some c)
    from Cons.IH [OF Some] have c: "c \<in> set ss" "\<forall>x \<in> set ss. \<not> beats x c" by auto
    show ?thesis
    proof (cases "beats c s")
      case True
      with Some Cons.prems c asym [OF True] show ?thesis by auto
    next
      case False
      with c split have "\<forall>x \<in> set ss. \<not> beats x s" by blast
      with False Some Cons.prems asym show ?thesis by auto
    qed
  qed
qed

lemma firstBest_first:
  "firstBest beats ss = Some b \<Longrightarrow> \<exists>pre post. ss = pre @ b # post \<and> (\<forall>x \<in> set pre. beats b x)"
proof (induction ss arbitrary: b)
  case Nil
  then show ?case by simp
next
  case (Cons s ss)
  show ?case
  proof (cases "firstBest beats ss")
    case None
    with Cons.prems show ?thesis by (auto intro: exI [of _ "[]"])
  next
    case (Some c)
    show ?thesis
    proof (cases "beats c s")
      case True
      with Some Cons.prems have "b = c" by simp
      with Cons.IH [OF Some] True show ?thesis
        by (metis append_Cons set_ConsD)
    next
      case False
      with Some Cons.prems show ?thesis by (auto intro: exI [of _ "[]"])
    qed
  qed
qed

lemma firstBest_iff:
  "firstBest beats ss = Some b \<longleftrightarrow>
     (\<exists>pre post. ss = pre @ b # post \<and> (\<forall>x \<in> set pre. beats b x) \<and> (\<forall>x \<in> set post. \<not> beats x b))"
proof
  assume b: "firstBest beats ss = Some b"
  from firstBest_first [OF b] obtain pre post where "ss = pre @ b # post" "\<forall>x \<in> set pre. beats b x" by blast
  with firstBest_least [OF b] show "\<exists>pre post. ss = pre @ b # post \<and> (\<forall>x \<in> set pre. beats b x) \<and>
      (\<forall>x \<in> set post. \<not> beats x b)" by auto
next
  assume "\<exists>pre post. ss = pre @ b # post \<and> (\<forall>x \<in> set pre. beats b x) \<and> (\<forall>x \<in> set post. \<not> beats x b)"
  then obtain pre post where s: "ss = pre @ b # post" "\<forall>x \<in> set pre. beats b x" "\<forall>x \<in> set post. \<not> beats x b" by blast
  have "firstBest beats (b # post) = Some b"
    using s(3) by (auto split: option.split dest: firstBest_least)
  then have "firstBest beats (pre @ b # post) = Some b"
    using s(2) by (induction pre) auto
  then show "firstBest beats ss = Some b" by (simp add: s(1))
qed

lemma keepBest_Some:
  "keepBest beats (Some c) ss =
     (case firstBest beats ss of None \<Rightarrow> Some c | Some b \<Rightarrow> if beats b c then Some b else Some c)"
proof (induction ss arbitrary: c)
  case Nil
  then show ?case by simp
next
  case (Cons s ss)
  show ?case
  proof (cases "firstBest beats ss")
    case None
    then show ?thesis by (simp add: beatsBest_def)
  next
    case (Some b)
    have "beats b s \<Longrightarrow> beats s c \<Longrightarrow> beats b c" by (rule trans)
    moreover have "beats b c \<Longrightarrow> beats b s \<or> beats s c" by (rule split)
    ultimately show ?thesis using Some Cons.IH by (auto simp: beatsBest_def)
  qed
qed

lemma keepBest_firstBest: "keepBest beats None ss = firstBest beats ss"
  by (cases ss) (auto simp: beatsBest_def keepBest_Some)

end

end
