(* ===== verification/FleetDeletion.thy ===== *)
theory FleetDeletion
  imports SidecarClient Selection
begin

text \<open>
  \<open>internal/utils/fleet_deletion.go\<close>: which server of a fleet a scale-down deletes. The two
  loops are translated as written, over a checker that is a parameter (the source's interface
  \<open>FleetDeletionChecker\<close>); the library then shows that each loop is "ask about every server
  in order, then select", and what the selection is.
\<close>

section \<open>The loops\<close>

text \<open>The four variables of the loop: the current best server, and the best allowed one.\<close>

record pick =
  best :: "server option"
  bestAllowed :: "server option"

definition noPick :: pick where
  "noPick = \<lparr>best = None, bestAllowed = None\<rparr>"

definition created :: "server \<Rightarrow> time" where
  "created s = CreationTimestamp (server_meta s)"

text \<open>\<open>t == nil || server.CreationTimestamp.Before(t)\<close>, and the same with \<open>After\<close>.\<close>

definition isOlder :: "server \<Rightarrow> server option \<Rightarrow> bool" where
  "isOlder s b = (case b of None \<Rightarrow> True | Some b \<Rightarrow> created s < created b)"

definition isNewer :: "server \<Rightarrow> server option \<Rightarrow> bool" where
  "isNewer s b = (case b of None \<Rightarrow> True | Some b \<Rightarrow> created s > created b)"

type_synonym 'w fleetChecker = "server \<Rightarrow> ('w op, (error + bool) outcome) state"

fun oldestLoop ::
  "'w fleetChecker \<Rightarrow> bool \<Rightarrow> server list \<Rightarrow> pick \<Rightarrow> ('w op, (error + pick) outcome) state" where
  "oldestLoop check deleteFirst [] p = ret (Ret (Inr p))"
| "oldestLoop check deleteFirst (server # rest) p =
     (let p1 = (if isOlder server (best p) then p\<lparr>best := Some server\<rparr> else p)
      in if deleteFirst
         then andThen (check server) (\<lambda>r. case r of
                  Inl e \<Rightarrow> ret (Ret (Inl e))
                | Inr allowed \<Rightarrow>
                    oldestLoop check deleteFirst rest
                      (if allowed \<and> isOlder server (bestAllowed p1)
                       then p1\<lparr>bestAllowed := Some server\<rparr> else p1))
         else oldestLoop check deleteFirst rest p1)"

fun newestLoop ::
  "'w fleetChecker \<Rightarrow> bool \<Rightarrow> server list \<Rightarrow> pick \<Rightarrow> ('w op, (error + pick) outcome) state" where
  "newestLoop check deleteFirst [] p = ret (Ret (Inr p))"
| "newestLoop check deleteFirst (server # rest) p =
     (let p1 = (if isNewer server (best p) then p\<lparr>best := Some server\<rparr> else p)
      in if deleteFirst
         then andThen (check server) (\<lambda>r. case r of
                  Inl e \<Rightarrow> ret (Ret (Inl e))
                | Inr allowed \<Rightarrow>
                    newestLoop check deleteFirst rest
                      (if allowed \<and> isNewer server (bestAllowed p1)
                       then p1\<lparr>bestAllowed := Some server\<rparr> else p1))
         else newestLoop check deleteFirst rest p1)"

text \<open>What both functions do after their loop.\<close>

definition pickResult :: "pick \<Rightarrow> error + server" where
  "pickResult p =
     (case best p of
        None \<Rightarrow> Inl (newError ''no servers found'')
      | Some b \<Rightarrow> (case bestAllowed p of Some a \<Rightarrow> Inr a | None \<Rightarrow> Inr b))"

definition getOldestServer ::
  "'w fleetChecker \<Rightarrow> bool \<Rightarrow> server list \<Rightarrow> ('w op, (error + server) outcome) state" where
  "getOldestServer check deleteFirst servers =
     andThen (oldestLoop check deleteFirst servers noPick) (\<lambda>r. case r of
         Inl e \<Rightarrow> ret (Ret (Inl e))
       | Inr p \<Rightarrow> ret (Ret (pickResult p)))"

definition getNewestServer ::
  "'w fleetChecker \<Rightarrow> bool \<Rightarrow> server list \<Rightarrow> ('w op, (error + server) outcome) state" where
  "getNewestServer check deleteFirst servers =
     andThen (newestLoop check deleteFirst servers noPick) (\<lambda>r. case r of
         Inl e \<Rightarrow> ret (Ret (Inl e))
       | Inr p \<Rightarrow> ret (Ret (pickResult p)))"

definition FindDeleteServer ::
  "'w fleetChecker \<Rightarrow> fleet \<Rightarrow> server list \<Rightarrow> ('w op, (error + server) outcome) state" where
  "FindDeleteServer check fleet servers =
     (let strategy = AgePriority (Scaling (fleet_spec fleet));
          deleteFirst = PrioritizeAllowed (Scaling (fleet_spec fleet))
      in if strategy = OldestFirst then getOldestServer check deleteFirst servers
         else if strategy = NewestFirst then getNewestServer check deleteFirst servers
         else ret (Ret (Inl (newError (''invalid scaling strategy: '' @ strategy)))))"

text \<open>
  \<open>ProdDeletionChecker.isDeleteAllowed\<close>: an error reading the pod is returned, one from the
  sidecar counts as "not allowed".
\<close>

definition isDeleteAllowed :: "'w ext \<Rightarrow> 'w fleetChecker" where
  "isDeleteAllowed X s = do {
     r \<leftarrow> GetPod X (Namespace (server_meta s), Name (server_meta s) @ ''-pod'');
     case r of
       Inl e \<Rightarrow> ret (Ret (Inl e))
     | Inr p \<Rightarrow>
         (case sidecarPort (server_spec s) of
            Panic \<Rightarrow> ret Panic
          | Ret portNo \<Rightarrow> do {
              a \<leftarrow> requestIsDeleteAllowed X p (itoa (sint portNo));
              ret (Ret (Inr (case a of Inl e \<Rightarrow> False | Inr b \<Rightarrow> b)))
            })
   }"

section \<open>Ask, then select\<close>

text \<open>Asking about every server in order, up to the first error or panic.\<close>

fun askAll :: "'w fleetChecker \<Rightarrow> server list \<Rightarrow> ('w op, (error + bool list) outcome) state" where
  "askAll check [] = ret (Ret (Inr []))"
| "askAll check (s # ss) =
     andThen (check s) (\<lambda>r. case r of
         Inl e \<Rightarrow> ret (Ret (Inl e))
       | Inr b \<Rightarrow> andThen (askAll check ss) (\<lambda>r. case r of
             Inl e \<Rightarrow> ret (Ret (Inl e))
           | Inr bs \<Rightarrow> ret (Ret (Inr (b # bs)))))"

definition allowedOf :: "server list \<Rightarrow> bool list \<Rightarrow> server list" where
  "allowedOf ss bs = map fst (filter snd (zip ss bs))"

text \<open>The specification of a choice: among the allowed servers if there are any.\<close>

definition selectServer ::
  "(server \<Rightarrow> server \<Rightarrow> bool) \<Rightarrow> server list \<Rightarrow> server list \<Rightarrow> error + server" where
  "selectServer beats servers favoured =
     (case firstBest beats servers of
        None \<Rightarrow> Inl (newError ''no servers found'')
      | Some b \<Rightarrow> (case firstBest beats favoured of Some a \<Rightarrow> Inr a | None \<Rightarrow> Inr b))"

definition older :: "server \<Rightarrow> server \<Rightarrow> bool" where
  "older a b \<longleftrightarrow> created a < created b"

definition newer :: "server \<Rightarrow> server \<Rightarrow> bool" where
  "newer a b \<longleftrightarrow> created b < created a"

text \<open>Both loops are one loop over the order they compare with.\<close>

fun pickLoop ::
  "(server \<Rightarrow> server \<Rightarrow> bool) \<Rightarrow> 'w fleetChecker \<Rightarrow> bool \<Rightarrow> server list \<Rightarrow> pick \<Rightarrow>
     ('w op, (error + pick) outcome) state" where
  "pickLoop beats check deleteFirst [] p = ret (Ret (Inr p))"
| "pickLoop beats check deleteFirst (server # rest) p =
     (let p1 = (if beatsBest beats server (best p) then p\<lparr>best := Some server\<rparr> else p)
      in if deleteFirst
         then andThen (check server) (\<lambda>r. case r of
                  Inl e \<Rightarrow> ret (Ret (Inl e))
                | Inr allowed \<Rightarrow>
                    pickLoop beats check deleteFirst rest
                      (if allowed \<and> beatsBest beats server (bestAllowed p1)
                       then p1\<lparr>bestAllowed := Some server\<rparr> else p1))
         else pickLoop beats check deleteFirst rest p1)"

lemma isOlder_beats: "isOlder s b = beatsBest older s b"
  by (simp add: isOlder_def beatsBest_def older_def split: option.split)

lemma isNewer_beats: "isNewer s b = beatsBest newer s b"
  by (simp add: isNewer_def beatsBest_def newer_def split: option.split)

lemma oldestLoop_pickLoop: "oldestLoop check d ss p = pickLoop older check d ss p"
  by (induction ss arbitrary: p)
    (auto simp: isOlder_beats Let_def split: sum.split intro!: andThen_cong)

lemma newestLoop_pickLoop: "newestLoop check d ss p = pickLoop newer check d ss p"
  by (induction ss arbitrary: p)
    (auto simp: isNewer_beats Let_def split: sum.split intro!: andThen_cong)

lemma allowedOf_simps [simp]:
  "allowedOf [] bs = []" "allowedOf ss [] = []"
  "allowedOf (s # ss) (b # bs) = (if b then s # allowedOf ss bs else allowedOf ss bs)"
  by (simp_all add: allowedOf_def)

lemma pickLoop_asking:
  "pickLoop beats check True ss p =
     andThen (askAll check ss) (\<lambda>r. case r of
         Inl e \<Rightarrow> ret (Ret (Inl e))
       | Inr bs \<Rightarrow> ret (Ret (Inr \<lparr>best = keepBest beats (best p) ss,
           bestAllowed = keepBest beats (bestAllowed p) (allowedOf ss bs)\<rparr>)))"
proof (induction ss arbitrary: p)
  case Nil
  show ?case by (cases p) simp
next
  case (Cons s ss)
  show ?case
    by (auto simp: Cons.IH andThen_assoc Let_def split: sum.split intro!: andThen_cong)
qed

lemma pickLoop_silent:
  "pickLoop beats check False ss p = ret (Ret (Inr (p\<lparr>best := keepBest beats (best p) ss\<rparr>)))"
proof (induction ss arbitrary: p)
  case Nil
  show ?case by (cases p) simp
next
  case (Cons s ss)
  then show ?case by (auto simp: Let_def)
qed

section \<open>The order on creation times\<close>

text \<open>The loops compare servers; what they need of the comparison is the contract of \<open>age_order\<close>.\<close>

locale server_order = age_order beats for beats :: "server \<Rightarrow> server \<Rightarrow> bool"
begin

text \<open>The whole function, whichever comparison it uses.\<close>

lemma picks:
  "andThen (pickLoop beats check d ss noPick) (\<lambda>r. case r of
       Inl e \<Rightarrow> ret (Ret (Inl e))
     | Inr p \<Rightarrow> ret (Ret (pickResult p))) =
   (if d then andThen (askAll check ss) (\<lambda>r. case r of
         Inl e \<Rightarrow> ret (Ret (Inl e))
       | Inr bs \<Rightarrow> ret (Ret (selectServer beats ss (allowedOf ss bs))))
    else ret (Ret (selectServer beats ss [])))"
  by (auto simp: pickLoop_asking pickLoop_silent andThen_assoc noPick_def keepBest_firstBest
      pickResult_def selectServer_def split: sum.split option.split intro!: andThen_cong)

lemma selectServer_cases:
  assumes "selectServer beats ss favoured = Inr s"
  shows "(favoured \<noteq> [] \<and> firstBest beats favoured = Some s) \<or>
         (favoured = [] \<and> firstBest beats ss = Some s)"
  using assms by (auto simp: selectServer_def split: option.splits)

end

interpretation old: server_order older
  by unfold_locales (auto simp: older_def)

interpretation new: server_order newer
  by unfold_locales (auto simp: newer_def)

section \<open>The checker as an interface\<close>

text \<open>
  Choosing looks and does not touch: the contract says so of the checker's one operation, and
  the clients inside the locale say so of the choice.
\<close>

fun isPeek :: "effect \<Rightarrow> bool" where
  "isPeek (ReadPod _ _) = True"
| "isPeek (Http q _) = (Method q = ''GET'')"
| "isPeek _ = False"

lemma peek_no_write: "isPeek e \<Longrightarrow> \<not> isWrite e"
  by (cases e) auto

locale fleet_checker =
  fixes check :: "'w fleetChecker"
  assumes check_peeks: "gives (check s) (\<lambda>r t. \<forall>e \<in> set t. isPeek e)"
begin

lemma askAll_peeks: "gives (askAll check ss) (\<lambda>r t. \<forall>e \<in> set t. isPeek e)"
proof (induction ss)
  case Nil
  show ?case by (auto intro: gives_return)
next
  case (Cons s ss)
  show ?case
    unfolding askAll.simps
    by (intro gives_intros gives_andThen [OF check_peeks] gives_andThen [OF Cons.IH]) auto
qed

lemma pickLoop_peeks: "gives (pickLoop beats check d ss p) (\<lambda>r t. \<forall>e \<in> set t. isPeek e)"
proof (cases d)
  case True
  then have d: "d = True" by simp
  show ?thesis
    unfolding d pickLoop_asking
    by (intro gives_intros gives_andThen [OF askAll_peeks]) auto
next
  case False
  then show ?thesis by (auto simp: pickLoop_silent intro: gives_return)
qed

text \<open>A server that is found is one of those offered.\<close>

lemma pickLoop_member:
  "gives (pickLoop beats check d ss noPick) (\<lambda>r t. \<forall>p v. r = Ret (Inr p) \<longrightarrow> pickResult p = Inr v \<longrightarrow> v \<in> set ss)"
proof -
  have keep: "keepBest beats b xs = Some v \<Longrightarrow> v \<in> set xs \<or> b = Some v" for b xs and v :: server
    by (induction xs arbitrary: b) (auto split: if_splits)
  have sub: "v \<in> set (allowedOf ss bs) \<Longrightarrow> v \<in> set ss" for v bs
    by (auto simp: allowedOf_def dest: set_zip_leftD)
  show ?thesis
  proof (cases d)
    case True
    then have d: "d = True" by simp
    show ?thesis
      unfolding d pickLoop_asking
      by (intro gives_intros gives_andThen [OF askAll_peeks])
        (auto simp: pickResult_def noPick_def dest!: keep sub split: option.splits)
  next
    case False
    then show ?thesis
      by (auto simp: pickLoop_silent pickResult_def noPick_def dest!: keep split: option.splits
          intro!: gives_return)
  qed
qed

lemma find_peeks:
  "gives (FindDeleteServer check f ss) (\<lambda>r t. (\<forall>e \<in> set t. isPeek e) \<and> (\<forall>v. r = Ret (Inr v) \<longrightarrow> v \<in> set ss))"
  unfolding FindDeleteServer_def getOldestServer_def getNewestServer_def oldestLoop_pickLoop newestLoop_pickLoop
  by (intro gives_intros gives_andThen [OF gives_conj [OF pickLoop_peeks pickLoop_member]]) auto

end

lemma gives_isDeleteAllowed: "gives (isDeleteAllowed X s) (\<lambda>r t. \<forall>e \<in> set t. isPeek e)"
  unfolding isDeleteAllowed_def
  by (intro gives_intros gives_bind [OF gives_requestIsDeleteAllowed]) auto

interpretation fc: fleet_checker "isDeleteAllowed X"
  by unfold_locales (rule gives_isDeleteAllowed)

section \<open>Properties\<close>

text \<open>The specification: ask about every server if the fleet wants that, then choose purely.\<close>

definition chooseServer ::
  "(server \<Rightarrow> server \<Rightarrow> bool) \<Rightarrow> 'w fleetChecker \<Rightarrow> bool \<Rightarrow> server list \<Rightarrow> ('w op, (error + server) outcome) state" where
  "chooseServer beats check prioritize ss =
     (if prioritize
      then andThen (askAll check ss) (\<lambda>r. case r of
          Inl e \<Rightarrow> ret (Ret (Inl e))
        | Inr bs \<Rightarrow> ret (Ret (selectServer beats ss (allowedOf ss bs))))
      else ret (Ret (selectServer beats ss [])))"

lemma getOldest_choose: "getOldestServer check d ss = chooseServer older check d ss"
  unfolding getOldestServer_def oldestLoop_pickLoop chooseServer_def by (rule old.picks)

lemma getNewest_choose: "getNewestServer check d ss = chooseServer newer check d ss"
  unfolding getNewestServer_def newestLoop_pickLoop chooseServer_def by (rule new.picks)

text \<open>
  C14. The two loops, which interleave asking with selecting, compute the same as asking about
  every server in order first and selecting afterwards; they differ only in the order they
  compare ages with. Any other strategy is an error without a question asked.
\<close>

theorem find_is_ask_then_choose:
  "FindDeleteServer check f ss =
     (if AgePriority (Scaling (fleet_spec f)) = OldestFirst
      then chooseServer older check (PrioritizeAllowed (Scaling (fleet_spec f))) ss
      else if AgePriority (Scaling (fleet_spec f)) = NewestFirst
      then chooseServer newer check (PrioritizeAllowed (Scaling (fleet_spec f))) ss
      else ret (Ret (Inl (newError (''invalid scaling strategy: '' @ AgePriority (Scaling (fleet_spec f)))))))"
  by (simp add: FindDeleteServer_def getOldest_choose getNewest_choose Let_def)

definition candidates :: "bool \<Rightarrow> server list \<Rightarrow> bool list \<Rightarrow> server list" where
  "candidates prioritize ss bs = (if prioritize \<and> allowedOf ss bs \<noteq> [] then allowedOf ss bs else ss)"

lemma select_candidates:
  "selectServer beats ss (if d then allowedOf ss bs else []) = Inr v \<Longrightarrow>
   firstBest beats (candidates d ss bs) = Some v"
  by (auto simp: selectServer_def candidates_def split: option.splits if_splits)

lemma choose_run:
  assumes "run_state (chooseServer beats check d ss) s0 = (Ret (Inr v), s1)"
  shows "\<exists>bs. firstBest beats (candidates d ss bs) = Some v \<and>
     (if d then run_state (askAll check ss) s0 = (Ret (Inr bs), s1) else s1 = s0)"
proof (cases d)
  case True
  with assms show ?thesis
    using select_candidates [of beats ss True]
    by (auto simp: chooseServer_def run_simps split: prod.splits outcome.splits sum.splits)
next
  case False
  with assms show ?thesis
    using select_candidates [of beats ss False] by (auto simp: chooseServer_def)
qed

text \<open>
  C13. What a scale-down deletes: a server of the list, the oldest (or newest) one among those the
  sidecars allow if any is allowed and the fleet asks for that, among all of them otherwise;
  of several created at the same time, the first listed.
\<close>

theorem found_server_is_extremal:
  assumes "run_state (FindDeleteServer check f ss) s0 = (Ret (Inr v), s1)"
  shows "\<exists>bs pre post. candidates (PrioritizeAllowed (Scaling (fleet_spec f))) ss bs = pre @ v # post \<and>
     (if PrioritizeAllowed (Scaling (fleet_spec f))
      then run_state (askAll check ss) s0 = (Ret (Inr bs), s1) else s1 = s0) \<and>
     (if AgePriority (Scaling (fleet_spec f)) = OldestFirst
      then (\<forall>x \<in> set pre. created v < created x) \<and> (\<forall>x \<in> set post. created v \<le> created x)
      else AgePriority (Scaling (fleet_spec f)) = NewestFirst \<and>
        (\<forall>x \<in> set pre. created x < created v) \<and> (\<forall>x \<in> set post. created x \<le> created v))"
proof -
  let ?p = "PrioritizeAllowed (Scaling (fleet_spec f))"
  consider "AgePriority (Scaling (fleet_spec f)) = OldestFirst"
      "run_state (chooseServer older check ?p ss) s0 = (Ret (Inr v), s1)"
    | "AgePriority (Scaling (fleet_spec f)) \<noteq> OldestFirst" "AgePriority (Scaling (fleet_spec f)) = NewestFirst"
      "run_state (chooseServer newer check ?p ss) s0 = (Ret (Inr v), s1)"
    using assms by (auto simp: FindDeleteServer_def getOldest_choose getNewest_choose Let_def split: if_splits)
  then show ?thesis
  proof cases
    case 1
    from choose_run [OF 1(2)] obtain bs where bs: "firstBest older (candidates ?p ss bs) = Some v"
      "if ?p then run_state (askAll check ss) s0 = (Ret (Inr bs), s1) else s1 = s0" by blast
    with old.firstBest_first [OF bs(1)] old.firstBest_least [OF bs(1)] 1(1) show ?thesis
      by (fastforce simp: older_def not_less)
  next
    case 2
    from choose_run [OF 2(3)] obtain bs where bs: "firstBest newer (candidates ?p ss bs) = Some v"
      "if ?p then run_state (askAll check ss) s0 = (Ret (Inr bs), s1) else s1 = s0" by blast
    with new.firstBest_first [OF bs(1)] new.firstBest_least [OF bs(1)] 2(1,2) show ?thesis
      by (fastforce simp: newer_def not_less)
  qed
qed

text \<open>Two servers of one age and a younger one, only the younger allowed to go.\<close>

definition agedServer :: "string \<Rightarrow> int \<Rightarrow> server" where
  "agedServer n t = serverOf ((metaOf ''ns'' n)\<lparr>CreationTimestamp := Time t\<rparr>)"

definition agedServers :: "server list" where
  "agedServers = [agedServer ''a'' 1, agedServer ''b'' 1, agedServer ''c'' 2]"

definition onlyC :: "store fleetChecker" where
  "onlyC s = ret (Ret (Inr (Name (server_meta s) = ''c'')))"

lemmas aged_defs = agedServers_def agedServer_def onlyC_def FindDeleteServer_def getOldestServer_def
  noPick_def isOlder_def created_def pickResult_def OldestFirst_def fleetOf_def serverOf_def metaOf_def

lemma aged_choice:
  "run_state (FindDeleteServer onlyC (fleetOf (metaOf ''ns'' ''f'') 1 True OldestFirst) agedServers) (boot emptyStore) =
     (Ret (Inr (agedServer ''c'' 2)), boot emptyStore)"
  by (simp add: aged_defs run_simps)

theorem found_server_is_extremal_witness:
  "\<exists>bs pre post. candidates True agedServers bs = pre @ agedServer ''c'' 2 # post"
  using found_server_is_extremal [OF aged_choice] by (auto simp: fleetOf_def)

text \<open>
  C37. The CRD and the code disagree on the names of the strategies: a value the CRD accepts,
  \<open>smallest_first\<close>, makes every choice fail without looking at a server, and a strategy the
  code implements, \<open>newest_first\<close>, is refused by the CRD.
\<close>

theorem crd_priority_unusable:
  "''smallest_first'' \<in> set crdPriorities \<and> NewestFirst \<notin> set crdPriorities \<and>
   FindDeleteServer check (fleetOf m n b ''smallest_first'') ss =
     ret (Ret (Inl (newError ''invalid scaling strategy: smallest_first'')))"
  by (simp add: crdPriorities_def NewestFirst_def OldestFirst_def FindDeleteServer_def fleetOf_def)

text \<open>
  Choosing disturbs nothing: with the operator's own checker, all that choosing a server does
  is read pods and send GET requests; no object is written and no sidecar is told to shut down.
  What it finds is one of the servers offered.
\<close>

theorem choosing_only_looks:
  assumes "run_state (FindDeleteServer (isDeleteAllowed X) f ss) s0 = (r, s1)"
  shows "\<exists>t. trace s1 = trace s0 @ t \<and>
     (\<forall>e \<in> set t. (\<exists>k a. e = ReadPod k a) \<or> (\<exists>q a. e = Http q a \<and> Method q = ''GET'')) \<and>
     (\<forall>v. r = Ret (Inr v) \<longrightarrow> v \<in> set ss)"
proof -
  have peek: "isPeek e \<Longrightarrow> (\<exists>k a. e = ReadPod k a) \<or> (\<exists>q a. e = Http q a \<and> Method q = ''GET'')" for e
    by (cases e) auto
  from gives_run [OF fc.find_peeks assms] show ?thesis by (blast dest: peek)
qed

theorem choosing_only_looks_witness:
  "writes (trace (snd (run_state (FindDeleteServer (isDeleteAllowed storeExt)
     (fleetOf (metaOf ''ns'' ''f'') 1 True OldestFirst) [delServer]) (boot (demoStore True))))) = []"
  using choosing_only_looks [OF prod.collapse [symmetric], of storeExt
      "fleetOf (metaOf ''ns'' ''f'') 1 True OldestFirst" "[delServer]" "boot (demoStore True)"]
  by (fastforce simp: boot_def filter_empty_conv)

text \<open>
  One server whose pod cannot be read blocks the choice: when a fleet prefers allowed
  servers, an error reading the first server's pod is returned and no server is chosen, however
  many others could go.
\<close>

theorem unreadable_pod_blocks_choice:
  assumes "apiGetPod (api X) (Namespace (server_meta s), Name (server_meta s) @ ''-pod'') w = (Inl e, w')"
    and "PrioritizeAllowed (Scaling (fleet_spec f))"
    and "AgePriority (Scaling (fleet_spec f)) \<in> {OldestFirst, NewestFirst}"
  shows "fst (run_state (FindDeleteServer (isDeleteAllowed X) f (s # ss)) \<lparr>world = w, trace = t\<rparr>) = Ret (Inl e)"
  using assms
  by (auto simp: FindDeleteServer_def getOldest_choose getNewest_choose chooseServer_def isDeleteAllowed_def run_simps)

theorem unreadable_pod_blocks_choice_witness:
  "fst (run_state (FindDeleteServer (isDeleteAllowed storeExt) (fleetOf (metaOf ''ns'' ''f'') 1 True OldestFirst)
     agedServers) (boot emptyStore)) = Ret (Inl notFoundErr)"
  unfolding agedServers_def boot_def
  by (rule unreadable_pod_blocks_choice)
    (simp_all add: store_ext store_api lookupObj_def emptyStore_def fleetOf_def)

end
