(* ===== verification/FleetController.thy ===== *)
theory FleetController
  imports FleetDeletion Builders
begin

text \<open>
  \<open>internal/controller/fleet_controller.go\<close>: the reconciler of one Fleet, which keeps as
  many Servers with its label as \<open>spec.scaling.replicas\<close> says.
\<close>

definition FLEET_FINALIZER :: string where
  "FLEET_FINALIZER = ''fleets.falloria.com/finalizer''"

record 'w fleetReconciler =
  fr_ext :: "'w ext"
  DeletionChecker :: "'w fleetChecker"

text \<open>\<open>getServers\<close>: by label, in the namespace of the fleet.\<close>

abbreviation serverSelector :: "fleet \<Rightarrow> string \<times> string" where
  "serverSelector f \<equiv> (''fleet'', Name (fleet_meta f))"

definition getServers :: "'w ext \<Rightarrow> fleet \<Rightarrow> ('w op, error + server list) state" where
  "getServers X f = ListServers X (Some (Namespace (fleet_meta f))) (serverSelector f)"

section \<open>Scaling\<close>

text \<open>The creation loop: it stops at the first error, with the event and the error returned.\<close>

fun createServers ::
  "'w ext \<Rightarrow> string \<Rightarrow> nat \<Rightarrow> fleet \<Rightarrow> ('w op, error option \<times> fleet) state" where
  "createServers X namespace 0 f = ret (None, f)"
| "createServers X namespace (Suc n) f = do {
     let (server, f1) = CreateServerForFleet (lib X) f namespace;
     c \<leftarrow> CreateServer X server;
     case c of
       Inl e \<Rightarrow> do {
         emitEvent KFleet (fleet_meta f1) Warning ''FleetScaleServers''
           (''Failed to create a server: '' @ errMsg e);
         ret (Some e, f1)
       }
     | Inr _ \<Rightarrow> createServers X namespace n f1
   }"

text \<open>\<open>for range n\<close> over an \<open>int32\<close> runs no round when it is not positive.\<close>

definition rounds :: "int32 \<Rightarrow> nat" where
  "rounds n = nat (sint n)"

definition scaleUp :: "'w ext \<Rightarrow> fleet \<Rightarrow> string \<Rightarrow> ('w op, error option \<times> fleet) state" where
  "scaleUp X f namespace = do {
     let serversNeeded = Replicas (Scaling (fleet_spec f)) - CurrentReplicas (fleet_status f);
     (err, f1) \<leftarrow> createServers X namespace (rounds serversNeeded) f;
     case err of
       Some e \<Rightarrow> ret (Some e, f1)
     | None \<Rightarrow> do {
         emitEvent KFleet (fleet_meta f1) Normal ''FleetScaleServers''
           (''Scaled servers up to '' @ itoa (sint (Replicas (Scaling (fleet_spec f1)))));
         ret (None, f1)
       }
   }"

definition scaleDown :: "'w fleetReconciler \<Rightarrow> fleet \<Rightarrow> ('w op, error option outcome) state" where
  "scaleDown R f = do {
     r \<leftarrow> getServers (fr_ext R) f;
     case r of
       Inl e \<Rightarrow> ret (Ret (Some e))
     | Inr servers \<Rightarrow> andThen (FindDeleteServer (DeletionChecker R) f servers) (\<lambda>c. case c of
           Inl e \<Rightarrow> ret (Ret (Some e))
         | Inr server \<Rightarrow> do {
             d \<leftarrow> DeleteServer (fr_ext R) server;
             case d of
               Inl e \<Rightarrow> do {
                 emitEvent KFleet (fleet_meta f) Warning ''FleetScaleServers''
                   (''Failed to delete a server: '' @ errMsg e);
                 ret (Ret (Some e))
               }
             | Inr _ \<Rightarrow> do {
                 emitEvent KFleet (fleet_meta f) Normal ''FleetScaleServers''
                   (''Scaled servers down to '' @ itoa (sint (Replicas (Scaling (fleet_spec f)))));
                 ret (Ret None)
               }
           })
   }"

definition scaleServerCount ::
  "'w fleetReconciler \<Rightarrow> fleet \<Rightarrow> string \<Rightarrow> ('w op, (error option \<times> fleet) outcome) state" where
  "scaleServerCount R f namespace = do {
     (err, f1) \<leftarrow>
       (if sint (CurrentReplicas (fleet_status f)) < sint (Replicas (Scaling (fleet_spec f)))
        then scaleUp (fr_ext R) f namespace else ret (None, f));
     case err of
       Some e \<Rightarrow> ret (Ret (Some e, f1))
     | None \<Rightarrow>
         if sint (CurrentReplicas (fleet_status f1)) > sint (Replicas (Scaling (fleet_spec f1)))
         then andThen (scaleDown R f1) (\<lambda>err. ret (Ret (err, f1)))
         else ret (Ret (None, f1))
   }"

section \<open>Deletion\<close>

fun deleteServers :: "'w ext \<Rightarrow> server list \<Rightarrow> ('w op, error option) state" where
  "deleteServers X [] = ret None"
| "deleteServers X (s # ss) = do {
     d \<leftarrow> DeleteServer X s;
     case d of Inl e \<Rightarrow> ret (Some e) | Inr _ \<Rightarrow> deleteServers X ss
   }"

definition fleet_handleDeletion :: "'w ext \<Rightarrow> fleet \<Rightarrow> ('w op, error option) state" where
  "fleet_handleDeletion X f = do {
     r \<leftarrow> getServers X f;
     case r of
       Inl e \<Rightarrow> ret (Some e)
     | Inr servers \<Rightarrow> do {
         err \<leftarrow> deleteServers X servers;
         case err of
           Some e \<Rightarrow> ret (Some e)
         | None \<Rightarrow> do {
             r \<leftarrow> getServers X f;
             case r of
               Inl e \<Rightarrow> ret (Some e)
             | Inr servers \<Rightarrow>
                 if servers \<noteq> [] then ret None
                 else do {
                   let f1 = f\<lparr>fleet_meta := RemoveFinalizer (lib X) (fleet_meta f) FLEET_FINALIZER\<rparr>;
                   u \<leftarrow> UpdateFleet X f1;
                   case u of
                     Inl e \<Rightarrow> do {
                       emitEvent KFleet (fleet_meta f1) Warning ''FleetUpdateFailed''
                         (''Failed to remvoe finalizer: '' @ errMsg e);
                       ret (Some e)
                     }
                   | Inr f2 \<Rightarrow> do {
                       emitEvent KFleet (fleet_meta f2) Normal ''FleetServersRemoved''
                         ''Fleet finalizers removed'';
                       ret None
                     }
                 }
           }
       }
   }"

section \<open>Reconcile\<close>

definition fleet_initialize :: "'w ext \<Rightarrow> fleet \<Rightarrow> ('w op, reconciled) state" where
  "fleet_initialize X f = do {
     let f1 = f\<lparr>fleet_meta := AddFinalizer (lib X) (fleet_meta f) FLEET_FINALIZER\<rparr>;
     u \<leftarrow> UpdateFleet X f1;
     case u of
       Inl e \<Rightarrow> do {
         emitEvent KFleet (fleet_meta f1) Warning ''FleetUpdateFailed''
           (''Fleet finalizer update failed: '' @ errMsg e);
         fail doRequeue (errorf_w ''failed to add finalizer to fleet: '' e)
       }
     | Inr f2 \<Rightarrow> do {
         emitEvent KFleet (fleet_meta f2) Normal ''FleetInitialized'' ''Fleet finalizers added'';
         finish doRequeue
       }
   }"

definition setCurrentReplicas :: "server list \<Rightarrow> fleet \<Rightarrow> fleet" where
  "setCurrentReplicas servers f =
     f\<lparr>fleet_status := (fleet_status f)\<lparr>CurrentReplicas := to_int32 (go_len servers)\<rparr>\<rparr>"

definition fleet_saveStatus :: "'w ext \<Rightarrow> fleet \<Rightarrow> ('w op, reconciled) state" where
  "fleet_saveStatus X f = do {
     u \<leftarrow> StatusFleet X f;
     case u of
       Inl e \<Rightarrow> fail doRequeue (errorf_w ''failed to update Fleet status resource: '' e)
     | Inr _ \<Rightarrow> finish doRequeue
   }"

definition fleet_scale :: "'w fleetReconciler \<Rightarrow> string \<Rightarrow> fleet \<Rightarrow> ('w op, reconciled) state" where
  "fleet_scale R namespace f = do {
     r \<leftarrow> getServers (fr_ext R) f;
     case r of
       Inl e \<Rightarrow> fail doRequeue e
     | Inr servers \<Rightarrow> do {
         let f1 = setCurrentReplicas servers f;
         if Replicas (Scaling (fleet_spec f1)) \<noteq> CurrentReplicas (fleet_status f1)
         then andThen (scaleServerCount R f1 namespace) (\<lambda>(err, f2).
           case err of
             Some e \<Rightarrow> fail noRequeue e
           | None \<Rightarrow> do {
               r \<leftarrow> getServers (fr_ext R) f2;
               case r of
                 Inl e \<Rightarrow> fail doRequeue e
               | Inr servers \<Rightarrow> fleet_saveStatus (fr_ext R) (setCurrentReplicas servers f2)
             })
         else fleet_saveStatus (fr_ext R) f1
       }
   }"

definition fleet_Reconcile :: "'w fleetReconciler \<Rightarrow> nsname \<Rightarrow> ('w op, reconciled) state" where
  "fleet_Reconcile R req = do {
     r \<leftarrow> GetFleet (fr_ext R) req;
     case r of
       Inl e \<Rightarrow> fail noRequeue e
     | Inr f \<Rightarrow>
         if DeletionTimestamp (fleet_meta f) \<noteq> None
         then do {
           err \<leftarrow> fleet_handleDeletion (fr_ext R) f;
           case err of
             Some e \<Rightarrow> fail doRequeue (errorf_w ''failed to handle fleet deletion: '' e)
           | None \<Rightarrow> finish doRequeue
         }
         else if \<not> ContainsFinalizer (lib (fr_ext R)) (fleet_meta f) FLEET_FINALIZER
         then fleet_initialize (fr_ext R) f
         else fleet_scale R (fst req) f
   }"

text \<open>The reconciler \<open>main\<close> sets up.\<close>

definition prodFleetReconciler :: "'w ext \<Rightarrow> 'w fleetReconciler" where
  "prodFleetReconciler X = \<lparr>fr_ext = X, DeletionChecker = isDeleteAllowed X\<rparr>"

section \<open>Traces of the parts\<close>

fun createsServer :: "effect \<Rightarrow> bool" where
  "createsServer (Write Create (ServerObj _) _) = True"
| "createsServer _ = False"

fun deletesServer :: "effect \<Rightarrow> bool" where
  "deletesServer (Write Delete (ServerObj _) _) = True"
| "deletesServer _ = False"

text \<open>What a server created for a fleet shows of it.\<close>

definition madeFor :: "fleet \<Rightarrow> string \<Rightarrow> server \<Rightarrow> bool" where
  "madeFor f ns x \<longleftrightarrow>
     lookupLabel (Labels (server_meta x)) ''fleet'' = Some (Name (fleet_meta f)) \<and>
     Namespace (server_meta x) = ns \<and> server_spec x = ServerSpec (fleet_spec f) \<and>
     GenerateName (server_meta x) = Name (fleet_meta f) @ ''-''"

text \<open>The fleet a loop round hands on: only the shared label map may have changed.\<close>

definition sameFleet :: "fleet \<Rightarrow> fleet \<Rightarrow> bool" where
  "sameFleet f g \<longleftrightarrow> Name (fleet_meta g) = Name (fleet_meta f) \<and>
     Namespace (fleet_meta g) = Namespace (fleet_meta f) \<and>
     fleet_spec g = fleet_spec f \<and> fleet_status g = fleet_status f"

lemma sameFleet_refl [simp]: "sameFleet f f"
  by (simp add: sameFleet_def)

lemma CreateServerForFleet_parts:
  "CreateServerForFleet L f ns = (x, g) \<Longrightarrow> madeFor f ns x \<and> sameFleet f g \<and>
     (\<forall>y. madeFor g ns y \<longleftrightarrow> madeFor f ns y) \<and> (\<forall>h. sameFleet g h \<longleftrightarrow> sameFleet f h)"
  by (auto simp: CreateServerForFleet_def madeFor_def sameFleet_def newMeta_def Let_def)

lemma gives_createServers:
  "gives (createServers X ns n f) (\<lambda>(err, g) t. sameFleet f g \<and>
     (\<forall>e \<in> set t. isWrite e \<longrightarrow> (\<exists>x err. e = Write Create (ServerObj x) err \<and> madeFor f ns x)) \<and>
     length (filter createsServer t) \<le> n \<and>
     (err = None \<longrightarrow> length (filter createsServer t) = n) \<and>
     (err \<noteq> None \<longrightarrow> (\<exists>e \<in> set t. failed e)))"
proof (induction n arbitrary: f)
  case 0
  show ?case by (auto intro: gives_return)
next
  case (Suc n)
  show ?case
    unfolding createServers.simps Let_def
    by (intro gives_intros gives_weaken [OF Suc.IH]) (auto dest!: CreateServerForFleet_parts)
qed

lemma gives_scaleUp:
  "gives (scaleUp X f ns) (\<lambda>(err, g) t. sameFleet f g \<and>
     (\<forall>e \<in> set t. isWrite e \<longrightarrow> (\<exists>x err. e = Write Create (ServerObj x) err \<and> madeFor f ns x)) \<and>
     length (filter createsServer t) \<le> rounds (Replicas (Scaling (fleet_spec f)) - CurrentReplicas (fleet_status f)) \<and>
     (err = None \<longrightarrow> length (filter createsServer t) = rounds (Replicas (Scaling (fleet_spec f)) - CurrentReplicas (fleet_status f))) \<and>
     (err \<noteq> None \<longrightarrow> (\<exists>e \<in> set t. failed e)))"
  unfolding scaleUp_def Let_def
  by (intro gives_intros gives_bind [OF gives_createServers]) auto

lemma listing_sameFleet: "sameFleet f g \<Longrightarrow> getServers X g = getServers X f"
  by (simp add: getServers_def sameFleet_def)

text \<open>The listing a scale-down chooses from, or a status is computed from.\<close>

abbreviation listing :: "fleet \<Rightarrow> error + server list \<Rightarrow> effect" where
  "listing f r \<equiv> ListedServers (Some (Namespace (fleet_meta f))) (''fleet'', Name (fleet_meta f)) r"

lemma peek_quiet: "isPeek e \<Longrightarrow> \<not> createsServer e \<and> \<not> deletesServer e"
  by (cases e) auto

definition listedIn :: "fleet \<Rightarrow> server \<Rightarrow> effect list \<Rightarrow> bool" where
  "listedIn f x pre \<longleftrightarrow> (\<exists>ss. listing f (Inr ss) \<in> set pre \<and> x \<in> set ss)"

abbreviation deletes :: "server \<Rightarrow> effect \<Rightarrow> bool" where
  "deletes x e \<equiv> \<exists>err. e = Write Delete (ServerObj x) err"

lemma peek_deletes: "isPeek e \<Longrightarrow> \<not> deletes x e"
  by (cases e) auto

context fleet_checker
begin

lemma scaleDown_gives:
  assumes R: "DeletionChecker R = check"
  shows "gives (scaleDown R f) (\<lambda>r t. (\<forall>e \<in> set t. isWrite e \<longrightarrow> deletesServer e) \<and>
     length (filter deletesServer t) \<le> 1 \<and> (\<forall>x. onlyAfter (deletes x) (listedIn f x) [] t))"
  unfolding scaleDown_def R getServers_def
  by (intro gives_intros gives_andThen [OF find_peeks])
    (auto simp: peek_quiet peek_no_write peek_deletes listedIn_def filter_empty_conv onlyAfter_none)

end

text \<open>
  One scaling step from \<open>n\<close> servers: it creates at most the missing ones, all made for the
  fleet, or deletes at most one, never both.
\<close>

abbreviation desired :: "fleet \<Rightarrow> int" where
  "desired f \<equiv> sint (Replicas (Scaling (fleet_spec f)))"

definition movesToward :: "fleet \<Rightarrow> string \<Rightarrow> int \<Rightarrow> effect list \<Rightarrow> bool" where
  "movesToward f ns n t \<longleftrightarrow>
     (\<forall>e \<in> set t. isWrite e \<longrightarrow>
        (n < desired f \<and> (\<exists>x err. e = Write Create (ServerObj x) err \<and> madeFor f ns x)) \<or>
        (desired f < n \<and> deletesServer e)) \<and>
     length (filter createsServer t) \<le> nat (desired f - n) \<and> length (filter deletesServer t) \<le> 1 \<and>
     ((\<forall>e \<in> set t. \<not> failed e) \<longrightarrow> length (filter createsServer t) = nat (desired f - n))"

lemma none_filter: "\<forall>e \<in> set t. \<not> P e \<Longrightarrow> filter P t = []"
  by simp

lemma server_writes:
  "createsServer e \<Longrightarrow> isWrite e" "deletesServer e \<Longrightarrow> isWrite e" "createsServer e \<Longrightarrow> \<not> deletesServer e"
  by (cases e rule: createsServer.cases; simp)+

lemma quiet_filter: "\<forall>e \<in> set t. \<not> isWrite e \<Longrightarrow> filter createsServer t = [] \<and> filter deletesServer t = []"
  using server_writes by (auto simp: filter_empty_conv)

lemma only_creates:
  "\<forall>e \<in> set t. isWrite e \<longrightarrow> (\<exists>x. (\<exists>err. e = Write Create (ServerObj x) err) \<and> Q x) \<Longrightarrow>
   filter deletesServer t = [] \<and> (\<forall>e \<in> set t. \<not> deletesServer e \<and> (isWrite e \<longrightarrow> createsServer e))"
  using server_writes(2) by (fastforce simp: filter_empty_conv)

lemma only_deletes:
  "\<forall>e \<in> set t. isWrite e \<longrightarrow> deletesServer e \<Longrightarrow> filter createsServer t = []"
  using server_writes by (auto simp: filter_empty_conv)

lemma movesToward_quiet:
  "\<forall>e \<in> set u. \<not> isWrite e \<Longrightarrow> movesToward f ns n t \<Longrightarrow>
   movesToward f ns n (u @ t) \<and> movesToward f ns n (t @ u)"
  by (frule quiet_filter) (auto simp: movesToward_def)

lemma movesToward_Nil: "desired f \<le> n \<Longrightarrow> movesToward f ns n []"
  by (simp add: movesToward_def)

text \<open>The difference the code computes in 32 bits is the difference of the two counts.\<close>

lemma rounds_diff:
  assumes "0 \<le> sint c" and "sint c < sint r"
  shows "rounds (r - c) = nat (sint r - sint c)"
proof -
  have "sint r < 2 ^ 31" using sint_lt [of r] by simp
  with assms have "sint (r - c) = sint r - sint c"
    by (intro sint_word_ariths(2) [THEN trans]) (simp add: signed_take_bit_int_eq_self)
  then show ?thesis by (simp add: rounds_def)
qed

text \<open>The count of a listing fits in the status field as long as it is below \<open>2 ^ 31\<close>.\<close>

lemma sint_count:
  assumes "length ss < 2 ^ 31"
  shows "sint (to_int32 (go_len ss)) = int (length ss)"
proof -
  have "take_bit 64 (length ss) = length ss"
    using assms by (simp add: take_bit_nat_eq_self_iff)
  then have "uint (go_len ss :: goint) = int (length ss)"
    by (simp add: go_len_def unsigned_of_nat)
  then have "sint (to_int32 (go_len ss)) = signed_take_bit 31 (int (length ss))"
    by (simp add: to_int32_def signed_ucast_eq)
  with assms show ?thesis by (simp add: signed_take_bit_int_eq_self)
qed

context fleet_checker
begin

lemma scaleServerCount_gives:
  assumes R: "DeletionChecker R = check"
  shows "gives (scaleServerCount R f ns) (\<lambda>r t.
     (0 \<le> sint (CurrentReplicas (fleet_status f)) \<longrightarrow>
        movesToward f ns (sint (CurrentReplicas (fleet_status f))) t) \<and>
     (\<forall>x. onlyAfter (deletes x) (listedIn f x) [] t) \<and>
     (\<forall>e \<in> set t. isWrite e \<longrightarrow> createsServer e \<or> deletesServer e) \<and>
     (\<forall>err g. r = Ret (err, g) \<longrightarrow> sameFleet f g))"
proof -
  let ?n = "sint (CurrentReplicas (fleet_status f))"
  have up: "gives (scaleUp (fr_ext R) f ns) (\<lambda>(err, g) t. sameFleet f g \<and>
      (0 \<le> ?n \<longrightarrow> movesToward f ns ?n t) \<and> (\<forall>e \<in> set t. \<not> deletesServer e) \<and>
      (\<forall>e \<in> set t. isWrite e \<longrightarrow> createsServer e))" if "?n < desired f"
    by (rule gives_weaken [OF gives_scaleUp])
      (use that in \<open>auto simp: movesToward_def rounds_diff split: prod.splits dest!: only_creates\<close>)
  have down: "gives (scaleDown R f) (\<lambda>r t. movesToward f ns ?n t \<and>
      (\<forall>x. onlyAfter (deletes x) (listedIn f x) [] t) \<and>
      (\<forall>e \<in> set t. isWrite e \<longrightarrow> deletesServer e))" if "desired f < ?n"
    by (rule gives_weaken [OF scaleDown_gives [OF R]])
      (use that in \<open>auto simp: movesToward_def only_deletes\<close>)
  have nodel: "\<forall>e \<in> set t. \<not> deletesServer e \<Longrightarrow> onlyAfter (deletes x) P [] t" for x P t
    by (rule onlyAfter_none) auto
  consider "?n < desired f" | "desired f < ?n" | "?n = desired f" by linarith
  then show ?thesis
  proof cases
    case 1
    then show ?thesis
      unfolding scaleServerCount_def
      by (simp only: if_True)
        (intro gives_intros gives_bind [OF up] gives_weaken [OF scaleDown_gives [OF R]];
          auto simp: sameFleet_def nodel)
  next
    case 2
    then show ?thesis
      unfolding scaleServerCount_def
      by (simp, intro gives_intros gives_andThen [OF down]) auto
  next
    case 3
    then show ?thesis
      unfolding scaleServerCount_def
      by (auto intro!: gives_intros simp: movesToward_Nil)
  qed
qed

end

lemma gives_saveStatus:
  "gives (fleet_saveStatus X f) (\<lambda>r t. \<exists>err. t = [Write UpdateStatus (FleetObj f) err])"
  unfolding fleet_saveStatus_def by (auto intro!: gives_intros)

lemma counted_frame [simp]:
  "fleet_meta (setCurrentReplicas ss f) = fleet_meta f" "fleet_spec (setCurrentReplicas ss f) = fleet_spec f"
  "CurrentReplicas (fleet_status (setCurrentReplicas ss f)) = to_int32 (go_len ss)"
  "movesToward (setCurrentReplicas ss f) = movesToward f" "listedIn (setCurrentReplicas ss f) = listedIn f"
  "sameFleet (setCurrentReplicas ss f) g \<longleftrightarrow>
     sameFleet f (g\<lparr>fleet_status := fleet_status f\<rparr>) \<and> fleet_status g = fleet_status (setCurrentReplicas ss f)"
  by (auto simp: setCurrentReplicas_def movesToward_def madeFor_def listedIn_def sameFleet_def fun_eq_iff)

text \<open>
  The shape of a scaling reconcile once the servers \<open>ss\<close> have been listed: a step towards the
  target, which deletes only servers listed in it, and then the count of a new listing saved in
  the status (or the count of \<open>ss\<close> when there was nothing to do), unless a call failed before.
\<close>

inductive statusTail :: "fleet \<Rightarrow> server list \<Rightarrow> effect list \<Rightarrow> effect list \<Rightarrow> bool" for f ss where
  step_failed: "statusTail f ss step []"
| list_failed: "statusTail f ss step [listing f (Inl e)]"
| recounted: "CurrentReplicas (fleet_status g) = to_int32 (go_len ss') \<Longrightarrow> nsOf (fleet_meta g) = nsOf (fleet_meta f) \<Longrightarrow>
    statusTail f ss step [listing f (Inr ss'), Write UpdateStatus (FleetObj g) err]"
| unchanged: "CurrentReplicas (fleet_status g) = to_int32 (go_len ss) \<Longrightarrow> nsOf (fleet_meta g) = nsOf (fleet_meta f) \<Longrightarrow>
    statusTail f ss [] [Write UpdateStatus (FleetObj g) err]"

inductive_cases statusTailE: "statusTail f ss step tail"

definition scalingTrace :: "fleet \<Rightarrow> string \<Rightarrow> server list \<Rightarrow> effect list \<Rightarrow> bool" where
  "scalingTrace f ns ss t \<longleftrightarrow> (\<exists>step tail. t = step @ tail \<and>
     movesToward f ns (int (length ss)) step \<and> (\<forall>x. onlyAfter (deletes x) (listedIn f x) [] step) \<and>
     statusTail f ss step tail)"

lemma scalingTraceI:
  "movesToward f ns (int (length ss)) step \<Longrightarrow> \<forall>x. onlyAfter (deletes x) (listedIn f x) [] step \<Longrightarrow>
   statusTail f ss step tail \<Longrightarrow> scalingTrace f ns ss (step @ tail)"
  unfolding scalingTrace_def by blast

lemma scalingTrace_shapes:
  assumes "movesToward f ns (int (length ss)) t" and "\<forall>x. onlyAfter (deletes x) (listedIn f x) [] t"
  shows "scalingTrace f ns ss t" and "scalingTrace f ns ss (t @ [listing f (Inl e)])"
    and "CurrentReplicas (fleet_status g) = to_int32 (go_len ss') \<Longrightarrow> nsOf (fleet_meta g) = nsOf (fleet_meta f) \<Longrightarrow>
      scalingTrace f ns ss (t @ [listing f (Inr ss'), Write UpdateStatus (FleetObj g) err])"
  using scalingTraceI [OF assms step_failed] scalingTraceI [OF assms list_failed]
    scalingTraceI [OF assms recounted] by simp_all

lemma scalingTrace_unchanged:
  assumes "Replicas (Scaling (fleet_spec f)) = to_int32 (go_len ss)" and "length ss < 2 ^ 31"
    and "CurrentReplicas (fleet_status g) = to_int32 (go_len ss)" and "nsOf (fleet_meta g) = nsOf (fleet_meta f)"
  shows "scalingTrace f ns ss [Write UpdateStatus (FleetObj g) err]"
proof -
  have "movesToward f ns (int (length ss)) []"
    using assms(1,2) by (simp add: movesToward_Nil sint_count)
  from scalingTraceI [OF this _ unchanged, of g err] assms(3,4) show ?thesis by simp
qed

context fleet_checker
begin

lemma fleet_scale_gives:
  assumes R: "DeletionChecker R = check"
  shows "gives (fleet_scale R ns f) (\<lambda>r t. \<exists>a rest. t = listing f a # rest \<and>
     (\<forall>ss. a = Inr ss \<longrightarrow> length ss < 2 ^ 31 \<longrightarrow> scalingTrace f ns ss rest))"
proof -
  let ?f = "\<lambda>ss. setCurrentReplicas ss f"
  have step: "gives (scaleServerCount R (?f ss) ns) (\<lambda>r t.
      (length ss < 2 ^ 31 \<longrightarrow> movesToward f ns (int (length ss)) t \<and> (\<forall>x. onlyAfter (deletes x) (listedIn f x) [] t)) \<and>
      (\<forall>err g. r = Ret (err, g) \<longrightarrow> nsOf (fleet_meta g) = nsOf (fleet_meta f)))" for ss
    by (rule gives_weaken [OF scaleServerCount_gives [OF R]])
      (auto simp: sint_count sameFleet_def nsOf_def)
  show ?thesis
    unfolding fleet_scale_def getServers_def Let_def
    by (intro gives_intros gives_andThen [OF step] gives_weaken [OF gives_saveStatus])
      (auto simp: nsOf_def scalingTrace_shapes intro!: scalingTrace_unchanged)
qed

end

section \<open>Deletion and the whole reconcile\<close>

text \<open>Letting go of a fleet: deleting it, or storing a version without the finalizer.\<close>

fun releasesFleet :: "effect \<Rightarrow> bool" where
  "releasesFleet (Write Delete (FleetObj f) _) = True"
| "releasesFleet (Write Update (FleetObj f) _) = (FLEET_FINALIZER \<notin> set (Finalizers (fleet_meta f)))"
| "releasesFleet _ = False"

text \<open>The very last effect was a listing of the fleet's servers, and it was empty.\<close>

definition foundEmpty :: "fleet \<Rightarrow> effect list \<Rightarrow> bool" where
  "foundEmpty f pre \<longleftrightarrow> (\<exists>pre'. pre = pre' @ [listing f (Inr [])])"

text \<open>Which fleet is let go of: \<open>f\<close> itself, with nothing but the finalizer changed.\<close>

definition fleetWithout :: "lib \<Rightarrow> fleet \<Rightarrow> effect \<Rightarrow> bool" where
  "fleetWithout L f e \<longleftrightarrow> (\<exists>err. e = Write Update
     (FleetObj (f\<lparr>fleet_meta := RemoveFinalizer L (fleet_meta f) FLEET_FINALIZER\<rparr>)) err)"

lemma gives_deleteServers:
  "gives (deleteServers X ss) (\<lambda>err t. (\<forall>e \<in> set t. \<exists>x err. e = Write Delete (ServerObj x) err \<and> x \<in> set ss) \<and>
     (err = None \<longrightarrow> (\<forall>x \<in> set ss. Write Delete (ServerObj x) None \<in> set t)))"
proof (induction ss)
  case Nil
  show ?case by (auto intro!: gives_return)
next
  case (Cons s ss)
  show ?case
    unfolding deleteServers.simps
    by (intro gives_intros gives_weaken [OF Cons.IH]) auto
qed

lemma onlyAfter_deletes:
  assumes "\<forall>e \<in> set t. \<exists>x err. e = Write Delete (ServerObj x) err \<and> x \<in> set ss" and "listing f (Inr ss) \<in> set pre"
  shows "onlyAfter (deletes x) (listedIn f x) pre t"
proof (cases "x \<in> set ss")
  case True
  then show ?thesis
    using assms(2) by (intro onlyAfter_met) (auto simp: listedIn_def)
next
  case False
  then show ?thesis using assms(1) by (intro onlyAfter_none) auto
qed

text \<open>The deletion: it lists, deletes every server listed, lists again, and lets go if none is left.\<close>

lemma gives_fleet_handleDeletion:
  "gives (fleet_handleDeletion X f) (\<lambda>err t. \<exists>a rest. t = listing f a # rest \<and>
     (\<forall>e. onlyAfter (only releasesFleet e) (\<lambda>pre. foundEmpty f pre \<and> fleetWithout (lib X) f e) [] t) \<and>
     (\<forall>x. onlyAfter (deletes x) (listedIn f x) [] t) \<and> (\<forall>e \<in> set t. \<not> createsServer e) \<and>
     (\<forall>ss. a = Inr ss \<longrightarrow> err = None \<longrightarrow> (\<forall>x \<in> set ss. Write Delete (ServerObj x) None \<in> set rest)))"
proof -
  have loop: "gives (deleteServers X ss) (\<lambda>err t. (\<forall>e \<in> set t. \<not> releasesFleet e \<and> \<not> createsServer e) \<and>
     (\<forall>x. onlyAfter (deletes x) (listedIn f x) [listing f (Inr ss)] t) \<and>
     (err = None \<longrightarrow> (\<forall>x \<in> set ss. Write Delete (ServerObj x) None \<in> set t)))" for ss
  proof (rule gives_weaken [OF gives_deleteServers], elim conjE, intro conjI allI)
    fix err t
    assume d: "\<forall>e \<in> set t. \<exists>x err. e = Write Delete (ServerObj x) err \<and> x \<in> set ss"
    then show "\<forall>e \<in> set t. \<not> releasesFleet e \<and> \<not> createsServer e" by fastforce
    show "onlyAfter (deletes x) (listedIn f x) [listing f (Inr ss)] t" for x
      by (rule onlyAfter_deletes [OF d]) simp
  qed
  show ?thesis
    unfolding fleet_handleDeletion_def getServers_def
    by (intro gives_intros gives_bind [OF loop]) (auto simp: foundEmpty_def fleetWithout_def onlyAfter_none)
qed

text \<open>What every reconcile of a fleet keeps, whatever its phase.\<close>

definition fleetSafe :: "lib \<Rightarrow> nsname \<Rightarrow> effect list \<Rightarrow> bool" where
  "fleetSafe L req t \<longleftrightarrow>
     (\<forall>e. onlyAfter (only releasesFleet e) (\<lambda>pre. \<exists>f. ReadFleet req (Inr f) \<in> set pre \<and>
        DeletionTimestamp (fleet_meta f) \<noteq> None \<and> foundEmpty f pre \<and> fleetWithout L f e) [] t) \<and>
     (\<forall>x. onlyAfter (deletes x) (\<lambda>pre. \<exists>f. ReadFleet req (Inr f) \<in> set pre \<and> listedIn f x pre) [] t)"

lemma release_writes: "releasesFleet e \<Longrightarrow> isWrite e \<and> \<not> createsServer e \<and> \<not> deletesServer e"
  by (cases e rule: releasesFleet.cases) auto

text \<open>The reconcile of a live fleet that holds its finalizer.\<close>

definition steady :: "fleet \<Rightarrow> bool" where
  "steady f \<longleftrightarrow> DeletionTimestamp (fleet_meta f) = None \<and> FLEET_FINALIZER \<in> set (Finalizers (fleet_meta f))"

lemma listedIn_mono: "listedIn f x u \<Longrightarrow> set u \<subseteq> set v \<Longrightarrow> listedIn f x v"
  by (auto simp: listedIn_def)

context fleet_checker
begin

lemma fleet_scale_safe:
  assumes R: "DeletionChecker R = check"
  shows "gives (fleet_scale R ns f) (\<lambda>r t. (\<forall>e \<in> set t. \<not> releasesFleet e) \<and>
     (\<forall>x. onlyAfter (deletes x) (listedIn f x) [] t))"
proof -
  have step: "gives (scaleServerCount R (setCurrentReplicas ss f) ns) (\<lambda>r t.
      (\<forall>e \<in> set t. \<not> releasesFleet e) \<and> (\<forall>x. onlyAfter (deletes x) (listedIn f x) [] t))" for ss
    by (rule gives_weaken [OF scaleServerCount_gives [OF R]])
      (auto dest: release_writes)
  have more: "onlyAfter (deletes x) (listedIn f x) [] t \<Longrightarrow> onlyAfter (deletes x) (listedIn f x) pre t" for x pre t
    by (erule onlyAfter_weaken) (auto simp: listedIn_def)
  show ?thesis
    unfolding fleet_scale_def getServers_def Let_def
    by (intro gives_intros gives_andThen [OF step] gives_weaken [OF gives_saveStatus])
      (auto intro: more)
qed

lemma fleet_reconcile_scales:
  assumes R: "DeletionChecker R = check" and L: "finalizer_laws (lib (fr_ext R))"
  shows "gives (fleet_Reconcile R req) (\<lambda>r t. \<forall>f. hd t = ReadFleet req (Inr f) \<longrightarrow> steady f \<longrightarrow>
     (\<exists>a rest. t = ReadFleet req (Inr f) # listing f a # rest \<and>
       (\<forall>ss. a = Inr ss \<longrightarrow> length ss < 2 ^ 31 \<longrightarrow> scalingTrace f (fst req) ss rest)))"
  unfolding fleet_Reconcile_def fleet_initialize_def
  by (intro gives_intros gives_bind [OF gives_fleet_handleDeletion] gives_weaken [OF fleet_scale_gives [OF R]])
    (auto simp: steady_def Finalizers_has [OF L])

lemma fleet_reconcile_safe:
  assumes R: "DeletionChecker R = check" and L: "finalizer_laws (lib (fr_ext R))"
  shows "gives (fleet_Reconcile R req) (\<lambda>r t. fleetSafe (lib (fr_ext R)) req t)"
proof -
  have listed: "listedIn f x v \<Longrightarrow> \<exists>g. ReadFleet req (Inr g) \<in> set (ReadFleet req (Inr f) # v) \<and>
      listedIn g x (ReadFleet req (Inr f) # v)" for f x v
    by (auto simp: listedIn_def)
  have empty: "foundEmpty f v \<Longrightarrow> foundEmpty f (e # v)" for f v e
    by (auto simp: foundEmpty_def)
  have scale: "gives (fleet_scale R ns f) (\<lambda>r t. fleetSafe (lib (fr_ext R)) req (ReadFleet req (Inr f) # t))" for ns f
    by (rule gives_weaken [OF fleet_scale_safe [OF R]])
      (auto simp: fleetSafe_def onlyAfter_none elim!: onlyAfter_Cons listed)
  have delete: "gives (fleet_handleDeletion (fr_ext R) f) (\<lambda>err t. fleetSafe (lib (fr_ext R)) req (ReadFleet req (Inr f) # t))"
    if "DeletionTimestamp (fleet_meta f) \<noteq> None" for f
  proof (rule gives_weaken [OF gives_fleet_handleDeletion], elim exE conjE)
    fix err t
    assume "\<forall>e. onlyAfter (only releasesFleet e) (\<lambda>pre. foundEmpty f pre \<and> fleetWithout (lib (fr_ext R)) f e) [] t"
    from onlyAfter_each_Cons [OF this, of "\<lambda>e pre. \<exists>f. ReadFleet req (Inr f) \<in> set pre \<and>
        DeletionTimestamp (fleet_meta f) \<noteq> None \<and> foundEmpty f pre \<and> fleetWithout (lib (fr_ext R)) f e" "ReadFleet req (Inr f)"]
    have rel: "\<forall>e. onlyAfter (only releasesFleet e) (\<lambda>pre. \<exists>f. ReadFleet req (Inr f) \<in> set pre \<and>
        DeletionTimestamp (fleet_meta f) \<noteq> None \<and> foundEmpty f pre \<and> fleetWithout (lib (fr_ext R)) f e)
        [ReadFleet req (Inr f)] t"
      using that empty by force
    assume "\<forall>x. onlyAfter (deletes x) (listedIn f x) [] t"
    then show "fleetSafe (lib (fr_ext R)) req (ReadFleet req (Inr f) # t)"
      using rel by (auto simp: fleetSafe_def elim!: onlyAfter_Cons listed)
  qed
  show ?thesis
    unfolding fleet_Reconcile_def fleet_initialize_def
    by (intro gives_intros gives_bind [OF delete] gives_weaken [OF scale])
      (auto simp: fleetSafe_def Finalizers_has [OF L] addFinalizer_in [OF L] onlyAfter_none)
qed

end

section \<open>Properties\<close>

abbreviation reconcileFleet :: "'w ext \<Rightarrow> nsname \<Rightarrow> 'w op \<Rightarrow> reconciled \<times> 'w op" where
  "reconcileFleet X req \<equiv> run_state (fleet_Reconcile (prodFleetReconciler X) req)"

lemma prod_fleet [simp]:
  "fr_ext (prodFleetReconciler X) = X" "DeletionChecker (prodFleetReconciler X) = isDeleteAllowed X"
  by (simp_all add: prodFleetReconciler_def)

lemma prod_scaling_run:
  assumes "finalizer_laws (lib X)" and "reconcileFleet X req s0 = (r, s1)"
    and "trace s1 = trace s0 @ ReadFleet req (Inr f) # t" and "steady f"
  shows "\<exists>a rest. t = listing f a # rest \<and>
     (\<forall>ss. a = Inr ss \<longrightarrow> length ss < 2 ^ 31 \<longrightarrow> scalingTrace f (fst req) ss rest)"
  using gives_run [OF fc.fleet_reconcile_scales [OF prod_fleet(2)] assms(2)] assms(1,3,4)
  by auto

text \<open>
  C12. The reconcile of a live fleet under its finalizer lists the fleet's servers by label and
  namespace, and then makes one step towards the target: it creates at most the missing
  servers, all made for this fleet, or deletes at most one, never both, and writes nothing else;
  if it gets that far, it lists again and saves that count in the status of this fleet.
\<close>

theorem fleet_scales_toward_target:
  assumes "finalizer_laws (lib X)" and "reconcileFleet X req s0 = (r, s1)"
    and "trace s1 = trace s0 @ ReadFleet req (Inr f) # t" and "steady f"
  shows "\<exists>a rest. t = listing f a # rest \<and> (\<forall>ss. a = Inr ss \<longrightarrow> length ss < 2 ^ 31 \<longrightarrow>
     (\<exists>step tail. rest = step @ tail \<and> movesToward f (fst req) (int (length ss)) step \<and>
        statusTail f ss step tail))"
  using prod_scaling_run [OF assms] unfolding scalingTrace_def by blast

definition demoFleet :: "int32 \<Rightarrow> fleet" where
  "demoFleet n = fleetOf ((metaOf ''ns'' ''f'')\<lparr>Finalizers := [''fleets.falloria.com/finalizer'']\<rparr>) n False ''oldest_first''"

definition fleetStore :: "int32 \<Rightarrow> store" where
  "fleetStore n = emptyStore\<lparr>store_fleets := [((''ns'', ''f''), demoFleet n)]\<rparr>"

lemma demoFleet_steady: "steady (demoFleet n)"
  by (simp add: steady_def demoFleet_def fleetOf_def metaOf_def newMeta_def FLEET_FINALIZER_def)

lemmas fleet_defs = fleet_Reconcile_def fleet_scale_def scaleServerCount_def scaleUp_def scaleDown_def
  getServers_def setCurrentReplicas_def fleet_saveStatus_def fleet_handleDeletion_def
  CreateServerForFleet_def rounds_def to_int32_def go_len_def FLEET_FINALIZER_def

lemma demoFleet_run:
  "\<exists>r s1 rest. reconcileFleet storeExt (''ns'', ''f'') (boot (fleetStore 1)) = (r, s1) \<and>
     trace s1 = ReadFleet (''ns'', ''f'') (Inr (demoFleet 1)) # listing (demoFleet 1) (Inr []) # rest \<and>
     (\<forall>e \<in> set rest. \<not> failed e)"
  by (simp add: fleet_defs run_simps store_simps fleetStore_def demoFleet_def)

theorem fleet_scales_toward_target_witness:
  "\<exists>rest step tail. trace (snd (reconcileFleet storeExt (''ns'', ''f'') (boot (fleetStore 1)))) =
       ReadFleet (''ns'', ''f'') (Inr (demoFleet 1)) # listing (demoFleet 1) (Inr []) # rest \<and>
     rest = step @ tail \<and> movesToward (demoFleet 1) ''ns'' 0 step"
proof -
  obtain r s1 rest where run: "reconcileFleet storeExt (''ns'', ''f'') (boot (fleetStore 1)) = (r, s1)"
    and tr: "trace s1 = ReadFleet (''ns'', ''f'') (Inr (demoFleet 1)) # listing (demoFleet 1) (Inr []) # rest"
    using demoFleet_run by blast
  show ?thesis
    using fleet_scales_toward_target [OF _ run _ demoFleet_steady] tr run
    by (fastforce simp: storeLib_laws store_ext boot_def)
qed

text \<open>
  Scaling up is exact: when no call fails and fewer servers are listed than wanted, the
  reconcile creates exactly the missing number, and deletes none.
\<close>

theorem fleet_scale_up_exact:
  assumes "finalizer_laws (lib X)" and "reconcileFleet X req s0 = (r, s1)"
    and "trace s1 = trace s0 @ ReadFleet req (Inr f) # listing f (Inr ss) # rest" and "steady f"
    and "length ss < 2 ^ 31" and "int (length ss) \<le> desired f" and "\<forall>e \<in> set rest. \<not> failed e"
  shows "int (length (filter createsServer rest)) = desired f - int (length ss) \<and>
     filter deletesServer rest = []"
proof -
  have "scalingTrace f (fst req) ss rest"
    using prod_scaling_run [OF assms(1-4)] assms(5) by auto
  then obtain step tail where st: "rest = step @ tail" "movesToward f (fst req) (int (length ss)) step"
    "statusTail f ss step tail" unfolding scalingTrace_def by blast
  have "filter createsServer tail = [] \<and> filter deletesServer tail = []"
    using st(3) by (auto elim: statusTailE)
  with st assms(6,7) show ?thesis
    by (fastforce simp: movesToward_def filter_empty_conv dest: server_writes)
qed

theorem fleet_scale_up_exact_witness:
  "\<exists>t. trace (snd (reconcileFleet storeExt (''ns'', ''f'') (boot (fleetStore 1)))) = t \<and>
     length (filter createsServer t) = 1"
proof -
  obtain r s1 rest where run: "reconcileFleet storeExt (''ns'', ''f'') (boot (fleetStore 1)) = (r, s1)"
    and tr: "trace s1 = ReadFleet (''ns'', ''f'') (Inr (demoFleet 1)) # listing (demoFleet 1) (Inr []) # rest"
    and ok: "\<forall>e \<in> set rest. \<not> failed e"
    using demoFleet_run by blast
  have "int (length (filter createsServer rest)) = desired (demoFleet 1) - int (length ([] :: server list)) \<and>
     filter deletesServer rest = []"
    by (rule fleet_scale_up_exact [OF _ run _ demoFleet_steady _ _ ok])
      (simp_all add: tr storeLib_laws store_ext boot_def demoFleet_def fleetOf_def)
  with run tr show ?thesis by (simp add: demoFleet_def fleetOf_def)
qed

text \<open>
  C18. A reconcile deletes only servers of its own fleet: every server it deletes had just been
  listed under the label and in the namespace of the fleet it had read.
\<close>

theorem fleet_deletes_only_its_servers:
  assumes "finalizer_laws (lib X)" and "reconcileFleet X req s0 = (r, s1)"
  shows "\<exists>t. trace s1 = trace s0 @ t \<and> (\<forall>t1 x err t2. t = t1 @ Write Delete (ServerObj x) err # t2 \<longrightarrow>
     (\<exists>f ss. ReadFleet req (Inr f) \<in> set t1 \<and> listing f (Inr ss) \<in> set t1 \<and> x \<in> set ss))"
proof -
  obtain t where "trace s1 = trace s0 @ t" "fleetSafe (lib X) req t"
    using gives_run [OF fc.fleet_reconcile_safe [OF prod_fleet(2)] assms(2)] assms(1) by auto
  then show ?thesis
    unfolding fleetSafe_def listedIn_def onlyAfter_iff by (intro exI [of _ t]) fastforce
qed

text \<open>A fleet with one server, live or being deleted.\<close>

definition fleetServer :: server where
  "fleetServer = serverOf ((metaOf ''ns'' ''a'')\<lparr>Labels := Some [''fleet'' \<mapsto> ''f'']\<rparr>)"

definition dyingFleet :: fleet where
  "dyingFleet = (demoFleet 1)\<lparr>fleet_meta := (metaOf ''ns'' ''f'')
     \<lparr>Finalizers := [''fleets.falloria.com/finalizer''], DeletionTimestamp := Some (Time 3)\<rparr>\<rparr>"

definition dyingStore :: store where
  "dyingStore = emptyStore\<lparr>store_fleets := [((''ns'', ''f''), dyingFleet)],
     store_servers := [((''ns'', ''a''), fleetServer)]\<rparr>"

lemma dyingFleet_run:
  "\<exists>q s1 rest. reconcileFleet storeExt (''ns'', ''f'') (boot dyingStore) = (Ret (q, None), s1) \<and>
     trace s1 = ReadFleet (''ns'', ''f'') (Inr dyingFleet) # listing dyingFleet (Inr [fleetServer]) # rest \<and>
     (\<exists>e \<in> set rest. releasesFleet e) \<and> (\<exists>err. Write Delete (ServerObj fleetServer) err \<in> set rest)"
  by (simp add: fleet_defs run_simps store_simps dyingStore_def dyingFleet_def demoFleet_def fleetServer_def
      lookupLabel_def)

theorem fleet_deletes_only_its_servers_witness:
  "\<exists>t1 err t2 f ss. trace (snd (reconcileFleet storeExt (''ns'', ''f'') (boot dyingStore))) =
       t1 @ Write Delete (ServerObj fleetServer) err # t2 \<and> listing f (Inr ss) \<in> set t1 \<and> fleetServer \<in> set ss"
proof -
  obtain q s1 err where run: "reconcileFleet storeExt (''ns'', ''f'') (boot dyingStore) = (q, s1)"
    and del: "Write Delete (ServerObj fleetServer) err \<in> set (trace s1)"
    using dyingFleet_run by fastforce
  from split_list [OF del] obtain t1 t2 where split: "trace s1 = t1 @ Write Delete (ServerObj fleetServer) err # t2"
    by blast
  with fleet_deletes_only_its_servers [OF _ run] run show ?thesis
    by (fastforce simp: storeLib_laws store_ext boot_def)
qed

text \<open>
  C17. A fleet is let go only when it has no servers left: whenever a reconcile lets go of a fleet,
  it writes back the very fleet it had read under the requested name as being deleted, with
  nothing but the finalizer removed, and the effect right before is a listing of that fleet's
  servers that came back empty.
\<close>

theorem fleet_released_only_when_empty:
  assumes "finalizer_laws (lib X)" and "reconcileFleet X req s0 = (r, s1)"
  shows "\<exists>t. trace s1 = trace s0 @ t \<and> (\<forall>t1 e t2. t = t1 @ e # t2 \<longrightarrow> releasesFleet e \<longrightarrow>
     (\<exists>f u err. ReadFleet req (Inr f) \<in> set t1 \<and> DeletionTimestamp (fleet_meta f) \<noteq> None \<and>
        t1 = u @ [listing f (Inr [])] \<and>
        e = Write Update (FleetObj (f\<lparr>fleet_meta := RemoveFinalizer (lib X) (fleet_meta f) FLEET_FINALIZER\<rparr>)) err))"
proof -
  obtain t where t: "trace s1 = trace s0 @ t" "fleetSafe (lib X) req t"
    using gives_run [OF fc.fleet_reconcile_safe [OF prod_fleet(2)] assms(2)] assms(1) by auto
  from t(2) have "\<forall>t1 e t2. t = t1 @ e # t2 \<longrightarrow> releasesFleet e \<longrightarrow> (\<exists>f. ReadFleet req (Inr f) \<in> set t1 \<and>
      DeletionTimestamp (fleet_meta f) \<noteq> None \<and> foundEmpty f t1 \<and> fleetWithout (lib X) f e)"
    unfolding fleetSafe_def onlyAfter_iff by (metis append_Nil)
  with t(1) show ?thesis
    unfolding foundEmpty_def fleetWithout_def by (intro exI [of _ t]) blast
qed

theorem fleet_released_only_when_empty_witness:
  "\<exists>u t2 f err. trace (snd (reconcileFleet storeExt (''ns'', ''f'') (boot dyingStore))) = (u @ [listing f (Inr [])]) @
       Write Update (FleetObj (f\<lparr>fleet_meta := RemoveFinalizer storeLib (fleet_meta f) FLEET_FINALIZER\<rparr>)) err # t2 \<and>
     ReadFleet (''ns'', ''f'') (Inr f) \<in> set u"
proof -
  obtain q s1 e where run: "reconcileFleet storeExt (''ns'', ''f'') (boot dyingStore) = (q, s1)"
    and rel: "e \<in> set (trace s1)" "releasesFleet e"
    using dyingFleet_run by fastforce
  from split_list [OF rel(1)] obtain t1 t2 where split: "trace s1 = t1 @ e # t2" by blast
  have "trace (boot dyingStore) = []" by (simp add: boot_def)
  with fleet_released_only_when_empty [OF store_laws run] split rel(2) obtain f u err where
    "ReadFleet (''ns'', ''f'') (Inr f) \<in> set t1" "t1 = u @ [listing f (Inr [])]"
    "e = Write Update (FleetObj (f\<lparr>fleet_meta := RemoveFinalizer (lib storeExt) (fleet_meta f) FLEET_FINALIZER\<rparr>)) err"
    by (metis append_Nil)
  then have "trace s1 = (u @ [listing f (Inr [])]) @
      Write Update (FleetObj (f\<lparr>fleet_meta := RemoveFinalizer storeLib (fleet_meta f) FLEET_FINALIZER\<rparr>)) err # t2"
    "ReadFleet (''ns'', ''f'') (Inr f) \<in> set u"
    using split by (simp_all add: store_ext(1))
  then show ?thesis unfolding run snd_conv by blast
qed

lemma gives_teardown:
  "gives (fleet_Reconcile (prodFleetReconciler X) req) (\<lambda>r t. \<forall>f ss rest q.
     t = ReadFleet req (Inr f) # listing f (Inr ss) # rest \<longrightarrow> DeletionTimestamp (fleet_meta f) \<noteq> None \<longrightarrow>
     r = Ret (q, None) \<longrightarrow> (\<forall>x \<in> set ss. Write Delete (ServerObj x) None \<in> set rest))"
  unfolding fleet_Reconcile_def fleet_initialize_def prod_fleet
  by (intro gives_intros gives_bind [OF gives_fleet_handleDeletion]
      gives_weaken [OF fc.fleet_scale_safe [OF prod_fleet(2)]]) auto

text \<open>
  Deleting a fleet tears it down: when a reconcile of a fleet being deleted returns without
  an error, it has deleted every server it listed, each without an error.
\<close>

theorem fleet_teardown_deletes_all:
  assumes "reconcileFleet X req s0 = (Ret (q, None), s1)"
    and "trace s1 = trace s0 @ ReadFleet req (Inr f) # listing f (Inr ss) # rest"
    and "DeletionTimestamp (fleet_meta f) \<noteq> None"
  shows "\<forall>x \<in> set ss. Write Delete (ServerObj x) None \<in> set rest"
  using gives_run [OF gives_teardown assms(1)] assms(2,3) by auto

theorem fleet_teardown_deletes_all_witness:
  "Write Delete (ServerObj fleetServer) None \<in>
     set (trace (snd (reconcileFleet storeExt (''ns'', ''f'') (boot dyingStore))))"
proof -
  obtain q s1 rest where run: "reconcileFleet storeExt (''ns'', ''f'') (boot dyingStore) = (Ret (q, None), s1)"
    and tr: "trace s1 = ReadFleet (''ns'', ''f'') (Inr dyingFleet) # listing dyingFleet (Inr [fleetServer]) # rest"
    using dyingFleet_run by blast
  have "\<forall>x \<in> set [fleetServer]. Write Delete (ServerObj x) None \<in> set rest"
    by (rule fleet_teardown_deletes_all [where f = dyingFleet, OF run]) (simp_all add: tr boot_def dyingFleet_def)
  with run tr show ?thesis by simp
qed

definition goingServer :: server where
  "goingServer = serverOf ((metaOf ''ns'' ''b'')\<lparr>Labels := Some [''fleet'' \<mapsto> ''f''],
     CreationTimestamp := Time 7, DeletionTimestamp := Some (Time 8), Finalizers := [''server.falloria.com/finalizer'']\<rparr>)"

definition shrinkingStore :: store where
  "shrinkingStore = (fleetStore 1)\<lparr>store_servers := [((''ns'', ''a''), fleetServer), ((''ns'', ''b''), goingServer)]\<rparr>"

text \<open>
  A scale-down counts servers that are already being deleted, and may delete the live one: a
  fleet that wants one server and lists two, of which one is already going, deletes the other
  one as well when that is the older.
\<close>

theorem fleet_scale_down_deletes_live_server:
  "DeletionTimestamp (server_meta goingServer) \<noteq> None \<and> DeletionTimestamp (server_meta fleetServer) = None \<and>
   desired (demoFleet 1) = 1 \<and>
   filter deletesServer (trace (snd (reconcileFleet storeExt (''ns'', ''f'') (boot shrinkingStore)))) =
     [Write Delete (ServerObj fleetServer) None]"
  by (simp add: fleet_defs run_simps store_simps shrinkingStore_def fleetStore_def demoFleet_def fleetServer_def
      goingServer_def lookupLabel_def FindDeleteServer_def getOldestServer_def noPick_def isOlder_def created_def
      pickResult_def OldestFirst_def)

end
