(* ===== verification/GameTypeController.thy ===== *)
theory GameTypeController
  imports Builders Selection Store
begin

text \<open>
  \<open>internal/controller/gametype_controller.go\<close>: the reconciler of one GameType, which keeps
  one Fleet per game and replaces it when the pod of the game changes. \<open>Update\<close> and
  \<open>Status().Update\<close> leave the answer of the API server in the object they are given; the
  model threads it accordingly.
\<close>

definition TypeFinalizer :: string where
  "TypeFinalizer = ''gametype.falloria.com/finalizer''"

definition fleetCreated :: "fleet \<Rightarrow> time" where
  "fleetCreated f = CreationTimestamp (fleet_meta f)"

section \<open>handleGametypeStatus and updateReplicaCount\<close>

text \<open>The loop for the youngest fleet: a later one replaces it only if strictly younger.\<close>

fun youngestFleet :: "fleet list \<Rightarrow> fleet option \<Rightarrow> fleet option" where
  "youngestFleet [] y = y"
| "youngestFleet (f # fs) y =
     youngestFleet fs
       (case y of
          None \<Rightarrow> Some f
        | Some b \<Rightarrow> if fleetCreated f > fleetCreated b then Some f else Some b)"

definition setFleetName :: "string \<Rightarrow> gameType \<Rightarrow> gameType" where
  "setFleetName n g = g\<lparr>gametype_status := (gametype_status g)\<lparr>CurrentFleetName := n\<rparr>\<rparr>"

definition setFleetReplicas :: "int32 \<Rightarrow> gameType \<Rightarrow> gameType" where
  "setFleetReplicas n g = g\<lparr>gametype_status := (gametype_status g)\<lparr>CurrentFleetReplicas := n\<rparr>\<rparr>"

definition handleGametypeStatus ::
  "'w ext \<Rightarrow> gameType \<Rightarrow> ('w op, error option \<times> gameType) state" where
  "handleGametypeStatus X g = do {
     r \<leftarrow> GetFleetsForType X g;
     case r of
       Inl e \<Rightarrow> ret (Some e, g)
     | Inr fleets \<Rightarrow>
         (case youngestFleet fleets None of
            None \<Rightarrow> ret (None, g)
          | Some y \<Rightarrow> do {
              let g1 = setFleetName (Name (fleet_meta y)) g;
              u \<leftarrow> StatusFleet X y;
              ret (errOf u, g1)
            })
   }"

definition updateReplicaCount ::
  "'w ext \<Rightarrow> gameType \<Rightarrow> ('w op, error option \<times> gameType) state" where
  "updateReplicaCount X g =
     (if CurrentFleetName (gametype_status g) = [] then ret (None, g)
      else do {
        r \<leftarrow> GetFleet X (Namespace (gametype_meta g), CurrentFleetName (gametype_status g));
        case r of
          Inl e \<Rightarrow> ret (Some (errorf_s ''failed to get fleet to update: '' e), g)
        | Inr f \<Rightarrow> do {
            let g1 = setFleetReplicas (Replicas (Scaling (fleet_spec f))) g;
            u \<leftarrow> StatusGameType X g1;
            ret (case u of Inl e \<Rightarrow> (Some e, g1) | Inr g2 \<Rightarrow> (None, g2))
          }
      })"

section \<open>handleUpdating\<close>

definition handleCreation :: "'w ext \<Rightarrow> gameType \<Rightarrow> ('w op, error option) state" where
  "handleCreation X g = do {
     let (f, g1) = GetFleetObjectForType (lib X) g;
     c \<leftarrow> CreateFleet X f;
     case c of
       Inl e \<Rightarrow> do {
         emitEvent KGameType (gametype_meta g1) Warning ''GametypeReplicasUpdated''
           (''Failed to create new fleet '' @ errMsg e);
         ret (Some e)
       }
     | Inr _ \<Rightarrow> ret None
   }"

text \<open>The result, the error and whether the reconcile is done.\<close>

type_synonym updated = "result \<times> error option \<times> bool"

definition createInitialFleet :: "'w ext \<Rightarrow> gameType \<Rightarrow> ('w op, updated) state" where
  "createInitialFleet X g = do {
     err \<leftarrow> handleCreation X g;
     case err of
       Some e \<Rightarrow> ret (doRequeue, Some e, True)
     | None \<Rightarrow> do {
         emitEvent KGameType (gametype_meta (snd (GetFleetObjectForType (lib X) g))) Normal
           ''GametypeInitialized'' ''Created initial fleet'';
         ret (doRequeue, None, True)
       }
   }"

definition propagateReplicas :: "'w ext \<Rightarrow> gameType \<Rightarrow> fleet \<Rightarrow> ('w op, updated) state" where
  "propagateReplicas X g f = do {
     let desired = Replicas (Scaling (FleetSpec g));
     let g1 = setFleetReplicas desired g;
     let f1 = f\<lparr>fleet_spec := (fleet_spec f)\<lparr>Scaling := (Scaling (fleet_spec f))\<lparr>Replicas := desired\<rparr>\<rparr>\<rparr>;
     u \<leftarrow> UpdateFleet X f1;
     case u of
       Inl e \<Rightarrow> ret (doRequeue, Some e, True)
     | Inr f2 \<Rightarrow> do {
         v \<leftarrow> StatusGameType X g1;
         case v of
           Inl e \<Rightarrow> ret (doRequeue, Some e, True)
         | Inr g2 \<Rightarrow> do {
             emitEvent KGameType (gametype_meta g2) Normal ''GametypeReplicasUpdated''
               (''Scaling gametype to '' @ itoa (sint (Replicas (Scaling (fleet_spec f2)))));
             ret (noRequeue, None, False)
           }
       }
   }"

definition updateSingleFleet :: "'w ext \<Rightarrow> gameType \<Rightarrow> fleet \<Rightarrow> ('w op, updated) state" where
  "updateSingleFleet X g f = do {
     u \<leftarrow> StatusGameType X (setFleetName (Name (fleet_meta f)) g);
     case u of
       Inl e \<Rightarrow> ret (doRequeue, Some e, True)
     | Inr g1 \<Rightarrow>
         if \<not> AreFleetsPodsEqual (fleet_spec f) (FleetSpec g1)
         then do {
           emitEvent KGameType (gametype_meta g1) Normal ''GametypeSpecUpdated'' ''Creating new fleet'';
           err \<leftarrow> handleCreation X g1;
           ret (noRequeue, err, True)
         }
         else if Replicas (Scaling (FleetSpec g1)) \<noteq> CurrentFleetReplicas (gametype_status g1)
         then propagateReplicas X g1 f
         else ret (noRequeue, None, False)
   }"

fun oldestFleet :: "fleet list \<Rightarrow> fleet option \<Rightarrow> fleet option" where
  "oldestFleet [] y = y"
| "oldestFleet (f # fs) y =
     oldestFleet fs
       (case y of
          None \<Rightarrow> Some f
        | Some b \<Rightarrow> if fleetCreated f < fleetCreated b then Some f else Some b)"

definition retireOldestFleet :: "'w ext \<Rightarrow> gameType \<Rightarrow> fleet list \<Rightarrow> ('w op, updated) state" where
  "retireOldestFleet X g fleets =
     (case oldestFleet fleets None of
        None \<Rightarrow> ret (noRequeue, None, False)
      | Some old \<Rightarrow>
          if DeletionTimestamp (fleet_meta old) \<noteq> None then ret (noRequeue, None, False)
          else do {
            emitEvent KGameType (gametype_meta g) Normal ''GametypeSpecUpdated'' ''Deleting extra fleet'';
            d \<leftarrow> DeleteFleet X old;
            case d of
              Inl e \<Rightarrow> ret (noRequeue, Some e, True)
            | Inr _ \<Rightarrow> ret (noRequeue, None, False)
          })"

definition handleUpdating :: "'w ext \<Rightarrow> gameType \<Rightarrow> ('w op, updated) state" where
  "handleUpdating X g = do {
     r \<leftarrow> GetFleetsForType X g;
     case r of
       Inl e \<Rightarrow> ret (noRequeue, Some e, True)
     | Inr [] \<Rightarrow> createInitialFleet X g
     | Inr [f] \<Rightarrow> updateSingleFleet X g f
     | Inr fleets \<Rightarrow> retireOldestFleet X g fleets
   }"

section \<open>handleDeletion\<close>

fun deleteFleets :: "'w ext \<Rightarrow> gameType \<Rightarrow> fleet list \<Rightarrow> ('w op, error option) state" where
  "deleteFleets X g [] = ret None"
| "deleteFleets X g (f # fs) = do {
     emitEvent KGameType (gametype_meta g) Normal ''GameTypeDeleting''
       (''Deleting fleet '' @ Name (fleet_meta f));
     d \<leftarrow> DeleteFleet X f;
     case d of
       Inl e \<Rightarrow> do {
         emitEvent KGameType (gametype_meta g) Warning ''GametypeServersDeleted''
           (''Failed to delete fleet '' @ Name (fleet_meta f));
         ret (Some e)
       }
     | Inr _ \<Rightarrow> deleteFleets X g fs
   }"

definition gametype_handleDeletion ::
  "'w ext \<Rightarrow> gameType \<Rightarrow> ('w op, error option \<times> gameType) state" where
  "gametype_handleDeletion X g =
     (if \<not> ContainsFinalizer (lib X) (gametype_meta g) TypeFinalizer then ret (None, g)
      else do {
        r \<leftarrow> GetFleetsForType X g;
        case r of
          Inl e \<Rightarrow> ret (Some e, g)
        | Inr fleets \<Rightarrow> do {
            err \<leftarrow> deleteFleets X g fleets;
            case err of
              Some e \<Rightarrow> ret (Some e, g)
            | None \<Rightarrow> do {
                r \<leftarrow> GetFleetsForType X g;
                case r of
                  Inl e \<Rightarrow> ret (Some e, g)
                | Inr fleets \<Rightarrow>
                    if fleets \<noteq> [] then ret (None, g)
                    else do {
                      let g1 = g\<lparr>gametype_meta := RemoveFinalizer (lib X) (gametype_meta g) TypeFinalizer\<rparr>;
                      u \<leftarrow> UpdateGameType X g1;
                      case u of
                        Inl e \<Rightarrow> ret (Some e, g1)
                      | Inr g2 \<Rightarrow> do {
                          emitEvent KGameType (gametype_meta g2) Normal ''GametypeServersDeleted''
                            ''Removed finalizer'';
                          ret (None, g2)
                        }
                    }
              }
          }
      })"

section \<open>Reconcile\<close>

definition gametype_initialize :: "'w ext \<Rightarrow> gameType \<Rightarrow> ('w op, reconciled) state" where
  "gametype_initialize X g = do {
     let g1 = g\<lparr>gametype_meta := AddFinalizer (lib X) (gametype_meta g) TypeFinalizer\<rparr>;
     u \<leftarrow> UpdateGameType X g1;
     case u of
       Inl e \<Rightarrow> do {
         emitEvent KGameType (gametype_meta g1) Warning ''GametypeInitialized''
           (''failed to add finalizers: '' @ errMsg e);
         fail doRequeue e
       }
     | Inr g2 \<Rightarrow> do {
         emitEvent KGameType (gametype_meta g2) Normal ''GametypeInitialized''
           ''Added finalizers to game'';
         finish doRequeue
       }
   }"

definition gametype_finalize :: "'w ext \<Rightarrow> gameType \<Rightarrow> ('w op, reconciled) state" where
  "gametype_finalize X g = do {
     (err, g1) \<leftarrow> gametype_handleDeletion X g;
     case err of
       Some e \<Rightarrow> do {
         emitEvent KGameType (gametype_meta g1) Warning ''GametypeInitialized''
           (''failed to remove finalizers: '' @ errMsg e);
         fail doRequeue e
       }
     | None \<Rightarrow> finish doRequeue
   }"

definition gametype_run :: "'w ext \<Rightarrow> gameType \<Rightarrow> ('w op, reconciled) state" where
  "gametype_run X g = do {
     (err, g1) \<leftarrow> handleGametypeStatus X g;
     case err of
       Some e \<Rightarrow> fail noRequeue e
     | None \<Rightarrow> do {
         (err, g2) \<leftarrow> updateReplicaCount X g1;
         case err of
           Some e \<Rightarrow> fail doRequeue e
         | None \<Rightarrow> do {
             (result, err, done) \<leftarrow> handleUpdating X g2;
             if done then ret (Ret (result, err)) else finish doRequeue
           }
       }
   }"

definition gametype_Reconcile :: "'w ext \<Rightarrow> nsname \<Rightarrow> ('w op, reconciled) state" where
  "gametype_Reconcile X req = do {
     r \<leftarrow> GetGameType X req;
     case r of
       Inl e \<Rightarrow> fail noRequeue e
     | Inr g \<Rightarrow>
         if DeletionTimestamp (gametype_meta g) = None \<and>
            \<not> ContainsFinalizer (lib X) (gametype_meta g) TypeFinalizer
         then gametype_initialize X g
         else if DeletionTimestamp (gametype_meta g) \<noteq> None then gametype_finalize X g
         else gametype_run X g
   }"

section \<open>Choosing a fleet\<close>

definition olderFleet :: "fleet \<Rightarrow> fleet \<Rightarrow> bool" where
  "olderFleet a b \<longleftrightarrow> fleetCreated a < fleetCreated b"

definition youngerFleet :: "fleet \<Rightarrow> fleet \<Rightarrow> bool" where
  "youngerFleet a b \<longleftrightarrow> fleetCreated b < fleetCreated a"

interpretation oldf: age_order olderFleet
  by unfold_locales (auto simp: olderFleet_def)

interpretation newf: age_order youngerFleet
  by unfold_locales (auto simp: youngerFleet_def)

lemma oldestFleet_keepBest: "oldestFleet fs b = keepBest olderFleet b fs"
  by (induction fs b rule: oldestFleet.induct)
    (auto simp: beatsBest_def olderFleet_def split: option.split)

lemma youngestFleet_keepBest: "youngestFleet fs b = keepBest youngerFleet b fs"
  by (induction fs b rule: youngestFleet.induct)
    (auto simp: beatsBest_def youngerFleet_def split: option.split)

lemmas oldestFleet_firstBest = oldestFleet_keepBest [where b = None, unfolded oldf.keepBest_firstBest]
lemmas youngestFleet_firstBest = youngestFleet_keepBest [where b = None, unfolded newf.keepBest_firstBest]

section \<open>Traces of the parts\<close>

abbreviation typeListing :: "string \<Rightarrow> error + fleet list \<Rightarrow> effect" where
  "typeListing n r \<equiv> ListedFleets None (''gametype'', n) r"

fun createsFleet :: "effect \<Rightarrow> bool" where
  "createsFleet (Write Create (FleetObj _) _) = True"
| "createsFleet _ = False"

fun deletesFleet :: "effect \<Rightarrow> bool" where
  "deletesFleet (Write Delete (FleetObj _) _) = True"
| "deletesFleet _ = False"

fun releasesType :: "effect \<Rightarrow> bool" where
  "releasesType (Write Delete (GameTypeObj g) _) = True"
| "releasesType (Write Update (GameTypeObj g) _) = (TypeFinalizer \<notin> set (Finalizers (gametype_meta g)))"
| "releasesType _ = False"

abbreviation typeName :: "gameType \<Rightarrow> string" where
  "typeName g \<equiv> Name (gametype_meta g)"

text \<open>Grounds for creating the fleet \<open>x\<close>: none was listed, or one whose pod is another.\<close>

definition wantsFleet :: "string \<Rightarrow> fleet \<Rightarrow> effect list \<Rightarrow> bool" where
  "wantsFleet n x pre \<longleftrightarrow> (\<exists>fs. typeListing n (Inr fs) \<in> set pre \<and>
     (fs = [] \<or> (\<exists>f. fs = [f] \<and> \<not> AreFleetsPodsEqual (fleet_spec f) (fleet_spec x)))) \<and>
     lookupLabel (Labels (fleet_meta x)) ''gametype'' = Some n"

text \<open>Grounds for retiring the fleet \<open>x\<close>: several were listed, and it is the oldest of them.\<close>

definition supersedes :: "string \<Rightarrow> fleet \<Rightarrow> effect list \<Rightarrow> bool" where
  "supersedes n x pre \<longleftrightarrow> (\<exists>fs. typeListing n (Inr fs) \<in> set pre \<and> 2 \<le> length fs \<and>
     oldestFleet fs None = Some x \<and> DeletionTimestamp (fleet_meta x) = None)"

abbreviation createsThe :: "fleet \<Rightarrow> effect \<Rightarrow> bool" where
  "createsThe x e \<equiv> \<exists>err. e = Write Create (FleetObj x) err"

abbreviation deletesThe :: "fleet \<Rightarrow> effect \<Rightarrow> bool" where
  "deletesThe x e \<equiv> \<exists>err. e = Write Delete (FleetObj x) err"

text \<open>What the update of a live game type may do to its fleets.\<close>

definition tendsFleets :: "string \<Rightarrow> effect list \<Rightarrow> bool" where
  "tendsFleets n t \<longleftrightarrow> (\<forall>x. onlyAfter (createsThe x) (wantsFleet n x) [] t) \<and>
     (\<forall>x. onlyAfter (deletesThe x) (supersedes n x) [] t) \<and>
     length (filter createsFleet t) + length (filter deletesFleet t) \<le> 1 \<and>
     (\<forall>e \<in> set t. \<not> releasesType e)"

lemma newFleet [simp]:
  "fleet_spec (fst (GetFleetObjectForType L g)) = FleetSpec g"
  "lookupLabel (Labels (fleet_meta (fst (GetFleetObjectForType L g)))) ''gametype'' = Some (typeName g)"
  by (simp_all add: GetFleetObjectForType_def Let_def newMeta_def)

text \<open>Effects that neither create nor delete a fleet, nor let go of a game type.\<close>

definition inert :: "effect \<Rightarrow> bool" where
  "inert e \<longleftrightarrow> \<not> createsFleet e \<and> \<not> deletesFleet e \<and> \<not> releasesType e"

lemma inert_simps [simp]:
  "inert (ListedFleets ns sel a)" "inert (ReadFleet k c)" "inert (ReadGameType k d)"
  "inert (Write UpdateStatus ob err)" "inert (Write Update (FleetObj f) err)"
  "inert (Event kd k ty why msg)"
  by (cases ob; simp add: inert_def)+

lemma quiet_inert: "\<not> isWrite e \<Longrightarrow> inert e"
  by (cases e) (auto simp: inert_def)

lemma inert_the: "inert e \<Longrightarrow> \<not> createsThe x e \<and> \<not> deletesThe x e"
  by (auto simp: inert_def)

lemma inert_trace:
  "\<forall>e \<in> set t. inert e \<Longrightarrow> onlyAfter (createsThe x) P pre t \<and> onlyAfter (deletesThe x) P' pre t \<and>
     onlyAfter releasesType P'' pre t \<and>
     filter createsFleet t = [] \<and> filter deletesFleet t = [] \<and> (\<forall>e \<in> set t. \<not> releasesType e)"
  using inert_the by (auto simp: inert_def filter_empty_conv intro!: onlyAfter_none)

lemma tendsFleets_inert: "\<forall>e \<in> set t. inert e \<Longrightarrow> tendsFleets n t"
  by (simp add: tendsFleets_def inert_trace)

lemma tendsFleets_before:
  assumes "\<forall>e \<in> set u. inert e" and "tendsFleets n t"
  shows "tendsFleets n (u @ t)"
proof -
  have c: "onlyAfter (createsThe x) (wantsFleet n x) u t" for x
    by (rule onlyAfter_weaken [of _ "wantsFleet n x" "[]"])
      (use assms(2) in \<open>auto simp: tendsFleets_def wantsFleet_def\<close>)
  have d: "onlyAfter (deletesThe x) (supersedes n x) u t" for x
    by (rule onlyAfter_weaken [of _ "supersedes n x" "[]"])
      (use assms(2) in \<open>auto simp: tendsFleets_def supersedes_def\<close>)
  show ?thesis using assms c d by (auto simp: tendsFleets_def inert_trace inert_def)
qed

lemma tendsFleets_after:
  "tendsFleets n t \<Longrightarrow> \<forall>e \<in> set u. inert e \<Longrightarrow> tendsFleets n (t @ u)"
  by (simp add: tendsFleets_def inert_trace) (use inert_def in blast)

lemma gives_handleCreation:
  "gives (handleCreation X g) (\<lambda>r t. \<exists>err es. t = Write Create (FleetObj (fst (GetFleetObjectForType (lib X) g))) err # es \<and>
     (\<forall>e \<in> set es. inert e))"
  unfolding handleCreation_def Let_def
  by (intro gives_intros) (auto split: prod.split)

text \<open>Parts that write fleets at most by one allowed step, after the listing.\<close>

lemma gives_createInitialFleet:
  "gives (createInitialFleet X g) (\<lambda>r t. tendsFleets (typeName g) (typeListing (typeName g) (Inr []) # t))"
  unfolding createInitialFleet_def
  by (intro gives_intros gives_bind [OF gives_handleCreation])
    (auto simp: tendsFleets_def wantsFleet_def inert_trace quiet_inert)

lemma gives_propagateReplicas:
  "gives (propagateReplicas X g f) (\<lambda>r t. \<forall>e \<in> set t. inert e)"
  unfolding propagateReplicas_def Let_def by (intro gives_intros) auto

lemma gives_updateSingleFleet:
  assumes "status_laws (api X)"
  shows "gives (updateSingleFleet X g f) (\<lambda>r t. tendsFleets (typeName g) (typeListing (typeName g) (Inr [f]) # t))"
  unfolding updateSingleFleet_def
  by (intro gives_bind_StatusGameType [OF assms] gives_intros gives_bind [OF gives_handleCreation] gives_weaken [OF gives_propagateReplicas])
    (auto simp: tendsFleets_def wantsFleet_def inert_trace quiet_inert setFleetName_def nsOf_def)

lemma gives_retireOldestFleet:
  "2 \<le> length fs \<Longrightarrow>
   gives (retireOldestFleet X g fs) (\<lambda>r t. tendsFleets (typeName g) (typeListing (typeName g) (Inr fs) # t))"
  unfolding retireOldestFleet_def
  by (intro gives_intros)
    (auto simp: tendsFleets_def supersedes_def)

lemma gives_handleUpdating:
  "status_laws (api X) \<Longrightarrow> gives (handleUpdating X g) (\<lambda>r t. tendsFleets (typeName g) t)"
  unfolding handleUpdating_def GetFleetsForType_def
  by (intro gives_intros gives_weaken [OF gives_createInitialFleet] gives_weaken [OF gives_updateSingleFleet]
      gives_weaken [OF gives_retireOldestFleet])
    (auto simp: tendsFleets_def)

lemma gives_handleGametypeStatus:
  "gives (handleGametypeStatus X g) (\<lambda>(err, g1) t. (\<forall>e \<in> set t. inert e) \<and> gametype_meta g1 = gametype_meta g)"
  unfolding handleGametypeStatus_def GetFleetsForType_def Let_def
  by (intro gives_intros) (auto simp: setFleetName_def)

lemma gives_updateReplicaCount:
  assumes "status_laws (api X)"
  shows "gives (updateReplicaCount X g) (\<lambda>(err, g1) t. (\<forall>e \<in> set t. inert e) \<and>
     nsOf (gametype_meta g1) = nsOf (gametype_meta g))"
proof -
  have save: "gives (StatusGameType X h \<bind> (\<lambda>u. ret (case u of Inl e \<Rightarrow> (Some e, h) | Inr g2 \<Rightarrow> (None, g2))))
      (\<lambda>(err, g1) t. (\<forall>e \<in> set t. inert e) \<and> nsOf (gametype_meta g1) = nsOf (gametype_meta h))" for h
    by (rule gives_bind_StatusGameType [OF assms], rule gives_return) (simp split: sum.split)
  show ?thesis
    unfolding updateReplicaCount_def Let_def
    by (intro gives_weaken [OF save] gives_intros) (auto simp: setFleetReplicas_def nsOf_def)
qed

lemma gives_gametype_run:
  assumes "status_laws (api X)"
  shows "gives (gametype_run X g) (\<lambda>r t. tendsFleets (typeName g) t)"
  unfolding gametype_run_def
  by (intro gives_intros gives_bind [OF gives_handleGametypeStatus] gives_bind [OF gives_updateReplicaCount [OF assms]]
      gives_bind [OF gives_handleUpdating [OF assms]])
    (auto simp: tendsFleets_inert tendsFleets_before nsOf_def)

section \<open>Deletion\<close>

definition typeEmpty :: "string \<Rightarrow> effect list \<Rightarrow> bool" where
  "typeEmpty n pre \<longleftrightarrow> (\<exists>u. pre = u @ [typeListing n (Inr [])])"

text \<open>Which game type is let go of: \<open>g\<close> itself, with nothing but the finalizer changed.\<close>

definition typeWithout :: "lib \<Rightarrow> gameType \<Rightarrow> effect \<Rightarrow> bool" where
  "typeWithout L g e \<longleftrightarrow> (\<exists>err. e = Write Update
     (GameTypeObj (g\<lparr>gametype_meta := RemoveFinalizer L (gametype_meta g) TypeFinalizer\<rparr>)) err)"

lemma gives_deleteFleets:
  "gives (deleteFleets X g fs) (\<lambda>err t. (\<forall>e \<in> set t. \<not> createsFleet e \<and> \<not> releasesType e) \<and>
     (\<forall>e \<in> set t. deletesFleet e \<longrightarrow> (\<exists>x \<in> set fs. deletesThe x e)) \<and>
     (err = None \<longrightarrow> (\<forall>x \<in> set fs. Write Delete (FleetObj x) None \<in> set t)))"
proof (induction fs)
  case Nil
  show ?case by (auto intro!: gives_return)
next
  case (Cons f fs)
  show ?case
    unfolding deleteFleets.simps
    by (intro gives_intros gives_weaken [OF Cons.IH]) auto
qed

lemma gives_gametype_handleDeletion:
  "gives (gametype_handleDeletion X g) (\<lambda>(err, g1) t.
     (\<forall>e. onlyAfter (only releasesType e) (\<lambda>pre. typeEmpty (typeName g) pre \<and> typeWithout (lib X) g e) [] t) \<and>
     (\<forall>e \<in> set t. \<not> createsFleet e))"
  unfolding gametype_handleDeletion_def GetFleetsForType_def Let_def
  by (intro gives_intros gives_bind [OF gives_deleteFleets])
    (auto simp: typeEmpty_def typeWithout_def onlyAfter_none)

section \<open>The whole reconcile\<close>

lemma gives_gametype_reconcile_live:
  assumes "finalizer_laws (lib X)" and "status_laws (api X)"
  shows "gives (gametype_Reconcile X req) (\<lambda>r t. \<forall>g rest. t = ReadGameType req (Inr g) # rest \<longrightarrow>
     DeletionTimestamp (gametype_meta g) = None \<longrightarrow> tendsFleets (typeName g) rest)"
  unfolding gametype_Reconcile_def gametype_initialize_def gametype_finalize_def Let_def
  by (intro gives_intros gives_weaken [OF gives_gametype_run [OF assms(2)]]
      gives_bind [OF gives_gametype_handleDeletion])
    (auto simp: tendsFleets_def addFinalizer_in [OF assms(1)])

lemma gives_gametype_reconcile_safe:
  assumes "finalizer_laws (lib X)" and "status_laws (api X)"
  shows "gives (gametype_Reconcile X req) (\<lambda>r t. \<forall>e. onlyAfter (only releasesType e)
     (\<lambda>pre. \<exists>g. ReadGameType req (Inr g) \<in> set pre \<and> DeletionTimestamp (gametype_meta g) \<noteq> None \<and>
        typeEmpty (typeName g) pre \<and> typeWithout (lib X) g e) [] t)"
proof -
  let ?P = "\<lambda>e pre. \<exists>g. ReadGameType req (Inr g) \<in> set pre \<and> DeletionTimestamp (gametype_meta g) \<noteq> None \<and>
     typeEmpty (typeName g) pre \<and> typeWithout (lib X) g e"
  have empty: "typeEmpty n v \<Longrightarrow> typeEmpty n (e # v)" for n v e
    by (auto simp: typeEmpty_def)
  have delete: "gives (gametype_handleDeletion X g)
      (\<lambda>(err, g1) t. \<forall>e. onlyAfter (only releasesType e) (?P e) [ReadGameType req (Inr g)] t)"
    if "DeletionTimestamp (gametype_meta g) \<noteq> None" for g
  proof (rule gives_weaken [OF gives_gametype_handleDeletion], clarify)
    fix t e
    assume "\<forall>e. onlyAfter (only releasesType e) (\<lambda>pre. typeEmpty (typeName g) pre \<and> typeWithout (lib X) g e) [] t"
    from onlyAfter_each_Cons [OF this, of ?P "ReadGameType req (Inr g)"] that empty
    show "onlyAfter (only releasesType e) (?P e) [ReadGameType req (Inr g)] t" by force
  qed
  show ?thesis
    unfolding gametype_Reconcile_def gametype_initialize_def gametype_finalize_def Let_def
    by (intro gives_intros gives_weaken [OF gives_gametype_run [OF assms(2)]] gives_bind [OF delete])
      (auto simp: tendsFleets_def addFinalizer_in [OF assms(1)] Finalizers_has [OF assms(1)] onlyAfter_none)
qed

section \<open>Sample runs\<close>

abbreviation reconcileGameType :: "'w ext \<Rightarrow> nsname \<Rightarrow> 'w op \<Rightarrow> reconciled \<times> 'w op" where
  "reconcileGameType X req \<equiv> run_state (gametype_Reconcile X req)"

text \<open>A game type and its fleets in the concrete world.\<close>

definition demoType :: gameType where
  "demoType = \<lparr>gametype_meta = (metaOf ''ns'' ''g'')\<lparr>Finalizers := [''gametype.falloria.com/finalizer'']\<rparr>,
     FleetSpec = \<lparr>ServerSpec = plainSpec,
        Scaling = \<lparr>Replicas = 1, PrioritizeAllowed = False, AgePriority = ''oldest_first''\<rparr>\<rparr>,
     gametype_status = \<lparr>GameTypeConditions = [], CurrentFleetName = [], CurrentFleetReplicas = 0\<rparr>\<rparr>"

definition typeFleet :: "string \<Rightarrow> string \<Rightarrow> int \<Rightarrow> fleet" where
  "typeFleet ns n t = fleetOf ((metaOf ns n)\<lparr>Labels := Some [''gametype'' \<mapsto> ''g''], CreationTimestamp := Time t\<rparr>)
     1 False ''oldest_first''"

definition typeStore :: "gameType \<Rightarrow> fleet list \<Rightarrow> store" where
  "typeStore g fs = emptyStore\<lparr>store_gametypes := [((''ns'', ''g''), g)],
     store_fleets := map (\<lambda>f. (nsOf (fleet_meta f), f)) fs\<rparr>"

lemmas gametype_defs = gametype_Reconcile_def gametype_run_def gametype_finalize_def gametype_handleDeletion_def
  handleGametypeStatus_def updateReplicaCount_def handleUpdating_def createInitialFleet_def handleCreation_def
  GetFleetsForType_def GetFleetObjectForType_def setFleetName_def setFleetReplicas_def retireOldestFleet_def
  fleetCreated_def TypeFinalizer_def

lemma newType_run:
  "\<exists>x err rest. trace (snd (reconcileGameType storeExt (''ns'', ''g'') (boot (typeStore demoType [])))) =
     ReadGameType (''ns'', ''g'') (Inr demoType) # rest \<and> Write Create (FleetObj x) err \<in> set rest"
  by (simp add: gametype_defs run_simps store_simps typeStore_def demoType_def)

lemma twoFleets_run:
  "\<exists>err rest. trace (snd (reconcileGameType storeExt (''ns'', ''g'')
       (boot (typeStore demoType [typeFleet ''ns'' ''f1'' 1, typeFleet ''ns'' ''f2'' 2])))) =
     ReadGameType (''ns'', ''g'') (Inr demoType) # rest \<and> Write Delete (FleetObj (typeFleet ''ns'' ''f1'' 1)) err \<in> set rest"
  by (simp add: gametype_defs run_simps store_simps typeStore_def demoType_def typeFleet_def lookupLabel_def)

definition dyingType :: gameType where
  "dyingType = demoType\<lparr>gametype_meta := (gametype_meta demoType)\<lparr>DeletionTimestamp := Some (Time 3)\<rparr>\<rparr>"

lemma dyingType_run:
  "\<exists>e \<in> set (trace (snd (reconcileGameType storeExt (''ns'', ''g'') (boot (typeStore dyingType []))))). releasesType e"
  by (simp add: gametype_defs run_simps store_simps typeStore_def dyingType_def demoType_def)


section \<open>Properties\<close>

text \<open>
  The two loops over fleets choose the first of the oldest and the first of the youngest
  fleets of the list, and find one exactly when there is one.
\<close>

theorem fleet_loops_choose_extremal:
  "(oldestFleet fs None = None \<longleftrightarrow> fs = []) \<and> (youngestFleet fs None = None \<longleftrightarrow> fs = []) \<and>
   (oldestFleet fs None = Some f \<longleftrightarrow> (\<exists>pre post. fs = pre @ f # post \<and>
      (\<forall>x \<in> set pre. fleetCreated f < fleetCreated x) \<and> (\<forall>x \<in> set post. fleetCreated f \<le> fleetCreated x))) \<and>
   (youngestFleet fs None = Some f \<longleftrightarrow> (\<exists>pre post. fs = pre @ f # post \<and>
      (\<forall>x \<in> set pre. fleetCreated x < fleetCreated f) \<and> (\<forall>x \<in> set post. fleetCreated x \<le> fleetCreated f)))"
  by (simp add: oldestFleet_firstBest youngestFleet_firstBest oldf.firstBest_iff newf.firstBest_iff
      olderFleet_def youngerFleet_def not_less)

theorem fleet_loops_choose_extremal_witness:
  "\<exists>f. oldestFleet [typeFleet ''ns'' ''a'' 5, typeFleet ''ns'' ''b'' 3, typeFleet ''ns'' ''c'' 3] None = Some f \<and>
     Name (fleet_meta f) = ''b''"
  using fleet_loops_choose_extremal [of "[typeFleet ''ns'' ''a'' 5, typeFleet ''ns'' ''b'' 3, typeFleet ''ns'' ''c'' 3]"
      "typeFleet ''ns'' ''b'' 3"]
  by (auto simp: typeFleet_def fleetOf_def metaOf_def fleetCreated_def)

text \<open>
  C21. A live game type gets a new fleet only when it has none, or exactly one whose pod differs
  from that of the new one: every fleet a reconcile creates follows a listing of the game type's
  fleets that says so, carries the game type's label, and is the only fleet created or deleted.
\<close>

theorem gametype_creates_fleet_only_when_needed:
  assumes "finalizer_laws (lib X)" and "status_laws (api X)" and "reconcileGameType X req s0 = (r, s1)"
    and "trace s1 = trace s0 @ ReadGameType req (Inr g) # rest"
    and "DeletionTimestamp (gametype_meta g) = None"
    and "rest = t1 @ Write Create (FleetObj x) err # t2"
  shows "\<exists>fs. typeListing (typeName g) (Inr fs) \<in> set t1 \<and>
     (fs = [] \<or> (\<exists>f. fs = [f] \<and> \<not> AreFleetsPodsEqual (fleet_spec f) (fleet_spec x))) \<and>
     lookupLabel (Labels (fleet_meta x)) ''gametype'' = Some (typeName g) \<and>
     (\<forall>e \<in> set (t1 @ t2). \<not> createsFleet e \<and> \<not> deletesFleet e)"
proof -
  have t: "tendsFleets (typeName g) rest"
    using gives_run [OF gives_gametype_reconcile_live [OF assms(1,2)] assms(3)] assms(4,5) by auto
  then have "wantsFleet (typeName g) x t1"
    using assms(6) unfolding tendsFleets_def onlyAfter_iff by fastforce
  moreover have "filter createsFleet (t1 @ t2) = []" "filter deletesFleet (t1 @ t2) = []"
    using t assms(6) unfolding tendsFleets_def by auto
  ultimately show ?thesis by (auto simp: wantsFleet_def filter_empty_conv)
qed

theorem gametype_creates_fleet_only_when_needed_witness:
  "\<exists>x err fs. {Write Create (FleetObj x) err, typeListing ''g'' (Inr fs)} \<subseteq>
       set (trace (snd (reconcileGameType storeExt (''ns'', ''g'') (boot (typeStore demoType []))))) \<and>
     lookupLabel (Labels (fleet_meta x)) ''gametype'' = Some ''g''"
proof -
  obtain x err rest where run: "trace (snd (reconcileGameType storeExt (''ns'', ''g'') (boot (typeStore demoType [])))) =
     ReadGameType (''ns'', ''g'') (Inr demoType) # rest" and c: "Write Create (FleetObj x) err \<in> set rest"
    using newType_run by blast
  from split_list [OF c] obtain t1 t2 where split: "rest = t1 @ Write Create (FleetObj x) err # t2" by blast
  have demo: "DeletionTimestamp (gametype_meta demoType) = None" "typeName demoType = ''g''"
    by (simp_all add: demoType_def metaOf_def newMeta_def)
  have tr: "trace (snd (reconcileGameType storeExt (''ns'', ''g'') (boot (typeStore demoType [])))) =
     trace (boot (typeStore demoType [])) @ ReadGameType (''ns'', ''g'') (Inr demoType) # rest"
    using run by (simp add: boot_def)
  obtain fs where "typeListing (typeName demoType) (Inr fs) \<in> set t1"
    "lookupLabel (Labels (fleet_meta x)) ''gametype'' = Some (typeName demoType)"
    using gametype_creates_fleet_only_when_needed
      [OF store_laws store_status_laws prod.collapse [symmetric] tr demo(1) split] by blast
  then show ?thesis using run split demo(2) by (intro exI [of _ x] exI [of _ err] exI [of _ fs]) auto
qed

text \<open>
  C19. A live game type loses a fleet only when it has several, and then one: every fleet a
  reconcile deletes is the oldest of at least two fleets listed for the game type (no listed
  fleet was created before it, and those listed before it were created later), was not being
  deleted already, and is the only fleet created or deleted.
\<close>

theorem gametype_retires_only_oldest:
  assumes "finalizer_laws (lib X)" and "status_laws (api X)" and "reconcileGameType X req s0 = (r, s1)"
    and "trace s1 = trace s0 @ ReadGameType req (Inr g) # rest"
    and "DeletionTimestamp (gametype_meta g) = None"
    and "rest = t1 @ Write Delete (FleetObj x) err # t2"
  shows "\<exists>pre post. typeListing (typeName g) (Inr (pre @ x # post)) \<in> set t1 \<and> pre @ post \<noteq> [] \<and>
     (\<forall>f \<in> set pre. CreationTimestamp (fleet_meta x) < CreationTimestamp (fleet_meta f)) \<and>
     (\<forall>f \<in> set post. CreationTimestamp (fleet_meta x) \<le> CreationTimestamp (fleet_meta f)) \<and>
     DeletionTimestamp (fleet_meta x) = None \<and>
     (\<forall>e \<in> set (t1 @ t2). \<not> createsFleet e \<and> \<not> deletesFleet e)"
proof -
  have t: "tendsFleets (typeName g) rest"
    using gives_run [OF gives_gametype_reconcile_live [OF assms(1,2)] assms(3)] assms(4,5) by auto
  then have "supersedes (typeName g) x t1"
    using assms(6) unfolding tendsFleets_def onlyAfter_iff by fastforce
  then obtain fs where fs: "typeListing (typeName g) (Inr fs) \<in> set t1" "2 \<le> length fs" "oldestFleet fs None = Some x"
    "DeletionTimestamp (fleet_meta x) = None" unfolding supersedes_def by blast
  from fs(3) fleet_loops_choose_extremal [of fs x] obtain pre post where "fs = pre @ x # post"
    "\<forall>f \<in> set pre. fleetCreated x < fleetCreated f" "\<forall>f \<in> set post. fleetCreated x \<le> fleetCreated f" by blast
  moreover have "filter createsFleet (t1 @ t2) = []" "filter deletesFleet (t1 @ t2) = []"
    using t assms(6) unfolding tendsFleets_def by auto
  ultimately show ?thesis using fs
    by (intro exI [of _ pre] exI [of _ post]) (auto simp: filter_empty_conv fleetCreated_def)
qed

theorem gametype_retires_only_oldest_witness:
  "\<exists>pre post. typeListing ''g'' (Inr (pre @ typeFleet ''ns'' ''f1'' 1 # post)) \<in>
       set (trace (snd (reconcileGameType storeExt (''ns'', ''g'')
         (boot (typeStore demoType [typeFleet ''ns'' ''f1'' 1, typeFleet ''ns'' ''f2'' 2]))))) \<and>
     pre @ post \<noteq> [] \<and> (\<forall>f \<in> set (pre @ post). Time 1 \<le> CreationTimestamp (fleet_meta f))"
proof -
  let ?s = "boot (typeStore demoType [typeFleet ''ns'' ''f1'' 1, typeFleet ''ns'' ''f2'' 2])"
  obtain err rest where run: "trace (snd (reconcileGameType storeExt (''ns'', ''g'') ?s)) =
     ReadGameType (''ns'', ''g'') (Inr demoType) # rest"
    and d: "Write Delete (FleetObj (typeFleet ''ns'' ''f1'' 1)) err \<in> set rest"
    using twoFleets_run by blast
  from split_list [OF d] obtain t1 t2 where
    split: "rest = t1 @ Write Delete (FleetObj (typeFleet ''ns'' ''f1'' 1)) err # t2" by blast
  have demo: "DeletionTimestamp (gametype_meta demoType) = None" "typeName demoType = ''g''"
    by (simp_all add: demoType_def metaOf_def newMeta_def)
  have tr: "trace (snd (reconcileGameType storeExt (''ns'', ''g'') ?s)) =
     trace ?s @ ReadGameType (''ns'', ''g'') (Inr demoType) # rest"
    using run by (simp add: boot_def)
  have age: "CreationTimestamp (fleet_meta (typeFleet ''ns'' ''f1'' 1)) = Time 1" by (simp add: typeFleet_def fleetOf_def)
  obtain pre post where "typeListing (typeName demoType) (Inr (pre @ typeFleet ''ns'' ''f1'' 1 # post)) \<in> set t1" "pre @ post \<noteq> []"
    "\<forall>f \<in> set pre. CreationTimestamp (fleet_meta (typeFleet ''ns'' ''f1'' 1)) < CreationTimestamp (fleet_meta f)"
    "\<forall>f \<in> set post. CreationTimestamp (fleet_meta (typeFleet ''ns'' ''f1'' 1)) \<le> CreationTimestamp (fleet_meta f)"
    using gametype_retires_only_oldest
      [OF store_laws store_status_laws prod.collapse [symmetric] tr demo(1) split] by blast
  then show ?thesis using run split demo(2) unfolding age
    by (intro exI [of _ pre] exI [of _ post]) (auto intro: less_imp_le)
qed

text \<open>
  C20. A game type is let go only when it has no fleets left: whenever a reconcile lets go of a game
  type, it writes back the very game type it had read under the requested name as being deleted,
  with nothing but the finalizer removed, and the effect right before is a listing of the fleets
  with its name that came back empty.
\<close>

theorem gametype_released_only_when_empty:
  assumes "finalizer_laws (lib X)" and "status_laws (api X)" and "reconcileGameType X req s0 = (r, s1)"
  shows "\<exists>t. trace s1 = trace s0 @ t \<and> (\<forall>t1 e t2. t = t1 @ e # t2 \<longrightarrow> releasesType e \<longrightarrow>
     (\<exists>g u err. ReadGameType req (Inr g) \<in> set t1 \<and> DeletionTimestamp (gametype_meta g) \<noteq> None \<and>
        t1 = u @ [typeListing (typeName g) (Inr [])] \<and>
        e = Write Update (GameTypeObj (g\<lparr>gametype_meta := RemoveFinalizer (lib X) (gametype_meta g) TypeFinalizer\<rparr>)) err))"
proof -
  from gives_each_run [OF gives_gametype_reconcile_safe [OF assms(1,2)] assms(3)] obtain t where t: "trace s1 = trace s0 @ t"
    and rel: "\<forall>t1 e t2. t = t1 @ e # t2 \<longrightarrow> releasesType e \<longrightarrow> (\<exists>g. ReadGameType req (Inr g) \<in> set t1 \<and>
      DeletionTimestamp (gametype_meta g) \<noteq> None \<and> typeEmpty (typeName g) t1 \<and> typeWithout (lib X) g e)" by blast
  show ?thesis
    by (rule exI [of _ t], intro conjI t) (use rel in \<open>unfold typeEmpty_def typeWithout_def, blast\<close>)
qed

theorem gametype_released_only_when_empty_witness:
  "\<exists>u g err t2. trace (snd (reconcileGameType storeExt (''ns'', ''g'') (boot (typeStore dyingType [])))) =
       (u @ [typeListing (typeName g) (Inr [])]) @
       Write Update (GameTypeObj (g\<lparr>gametype_meta := RemoveFinalizer storeLib (gametype_meta g) TypeFinalizer\<rparr>)) err # t2 \<and>
     ReadGameType (''ns'', ''g'') (Inr g) \<in> set u"
proof -
  let ?run = "reconcileGameType storeExt (''ns'', ''g'') (boot (typeStore dyingType []))"
  obtain t where t: "trace (snd ?run) = t" "\<forall>t1 e t2. t = t1 @ e # t2 \<longrightarrow> releasesType e \<longrightarrow>
     (\<exists>g u err. ReadGameType (''ns'', ''g'') (Inr g) \<in> set t1 \<and> DeletionTimestamp (gametype_meta g) \<noteq> None \<and>
        t1 = u @ [typeListing (typeName g) (Inr [])] \<and>
        e = Write Update (GameTypeObj (g\<lparr>gametype_meta := RemoveFinalizer storeLib (gametype_meta g) TypeFinalizer\<rparr>)) err)"
    using gametype_released_only_when_empty [OF store_laws store_status_laws prod.collapse [symmetric],
        of "(''ns'', ''g'')" "boot (typeStore dyingType [])"]
    by (auto simp: store_ext(1) boot_def)
  from dyingType_run obtain e where e: "e \<in> set t" "releasesType e" unfolding t(1) by blast
  from split_list [OF e(1)] obtain t1 t2 where split: "t = t1 @ e # t2" by blast
  with t(2) e(2) obtain g u err where "ReadGameType (''ns'', ''g'') (Inr g) \<in> set t1" "t1 = u @ [typeListing (typeName g) (Inr [])]"
    "e = Write Update (GameTypeObj (g\<lparr>gametype_meta := RemoveFinalizer storeLib (gametype_meta g) TypeFinalizer\<rparr>)) err" by blast
  with split have "t = (u @ [typeListing (typeName g) (Inr [])]) @
      Write Update (GameTypeObj (g\<lparr>gametype_meta := RemoveFinalizer storeLib (gametype_meta g) TypeFinalizer\<rparr>)) err # t2"
    "ReadGameType (''ns'', ''g'') (Inr g) \<in> set u" by simp_all
  then show ?thesis unfolding t(1) by blast
qed

text \<open>
  Fleets are looked up by label in the whole cluster: deleting a game type deletes a fleet of
  another namespace that carries a label with the same game name.
\<close>

theorem gametype_deletion_reaches_other_namespaces:
  "Namespace (gametype_meta dyingType) = ''ns'' \<and> Namespace (fleet_meta (typeFleet ''other'' ''f'' 1)) = ''other'' \<and>
   Write Delete (FleetObj (typeFleet ''other'' ''f'' 1)) None \<in> set (trace (snd
     (reconcileGameType storeExt (''ns'', ''g'') (boot (typeStore dyingType [typeFleet ''other'' ''f'' 1])))))"
  by (simp add: gametype_defs run_simps store_simps typeStore_def dyingType_def demoType_def typeFleet_def lookupLabel_def)

definition oneFleetStore :: store where
  "oneFleetStore = typeStore demoType [typeFleet ''ns'' ''f1'' 1]"

text \<open>
  The step that should record the fleet's name in the status of the game type writes the
  status of that fleet instead, unchanged; the name is kept only in memory.
\<close>

theorem gametype_status_step_writes_fleet:
  assumes "run_state (handleGametypeStatus X g) s0 = ((err, g1), s1)"
  shows "\<exists>t. trace s1 = trace s0 @ t \<and> (\<forall>e \<in> set (writes t).
     \<exists>fs y. typeListing (typeName g) (Inr fs) \<in> set t \<and> youngestFleet fs None = Some y \<and>
       (\<exists>err. e = Write UpdateStatus (FleetObj y) err) \<and> g1 = setFleetName (Name (fleet_meta y)) g)"
proof -
  have "gives (handleGametypeStatus X g) (\<lambda>(err, g1) t. \<forall>e \<in> set (writes t).
     \<exists>fs y. typeListing (typeName g) (Inr fs) \<in> set t \<and> youngestFleet fs None = Some y \<and>
       (\<exists>err. e = Write UpdateStatus (FleetObj y) err) \<and> g1 = setFleetName (Name (fleet_meta y)) g)"
    unfolding handleGametypeStatus_def GetFleetsForType_def Let_def by (intro gives_intros) auto
  from gives_run [OF this assms] show ?thesis by auto
qed

theorem gametype_status_step_writes_fleet_witness:
  "list_all (\<lambda>e. \<exists>y err. e = Write UpdateStatus (FleetObj y) err)
     (writes (trace (snd (run_state (handleGametypeStatus storeExt demoType) (boot oneFleetStore)))))"
  using gametype_status_step_writes_fleet [of storeExt demoType "boot oneFleetStore"]
  by (cases "run_state (handleGametypeStatus storeExt demoType) (boot oneFleetStore)")
    (fastforce simp: boot_def list_all_iff)

end
