(* ===== verification/Autoscaler.thy ===== *)
theory Autoscaler
  imports Json Store
begin

text \<open>
  \<open>internal/controller/gametypeautoscaler_controller.go\<close> and the webhook request of
  \<open>internal/utils/autoscale_communication.go\<close>. The reconciler's webhook and recorder are
  interface fields and may be nil.
\<close>

section \<open>The webhook request\<close>

record autoscaleResponse =
  Scale :: bool
  DesiredReplicas :: goint

definition webhookBase :: "webhookAutoscalerSpec \<Rightarrow> string outcome" where
  "webhookBase spec =
     (case Url spec of
        Some u \<Rightarrow> Ret u
      | None \<Rightarrow>
          (case Service spec of
             None \<Rightarrow> Panic
           | Some sv \<Rightarrow> Ret (''http://'' @ ServiceName sv @ ''.'' @ ServiceNamespace sv @
               ''.svc.cluster.local:'' @ itoa (sint (ServicePort sv)))))"

definition autoscaleRequest :: "gameTypeAutoscaler \<Rightarrow> gameType \<Rightarrow> json" where
  "autoscaleRequest a g =
     JObj [(''game_name'', JStr (GameTypeName a)),
           (''current_replicas'', JNum (itoa (sint (to_int (Replicas (Scaling (FleetSpec g)))))))]"

definition decodeAutoscaleResponse :: "json \<Rightarrow> error + autoscaleResponse" where
  "decodeAutoscaleResponse doc =
     (case decodeField asBool ''scale'' False doc of
        Inl e \<Rightarrow> Inl e
      | Inr sc \<Rightarrow>
          (case decodeField asInt ''desired_replicas'' 0 doc of
             Inl e \<Rightarrow> Inl e
           | Inr n \<Rightarrow> Inr \<lparr>Scale = sc, DesiredReplicas = n\<rparr>))"

definition SendScaleWebhookRequest ::
  "'w ext \<Rightarrow> gameTypeAutoscaler \<Rightarrow> gameType \<Rightarrow> ('w op, (error + autoscaleResponse) outcome) state" where
  "SendScaleWebhookRequest X a g =
     (let spec = WebhookSpec (AutoscalePolicy a)
      in case webhookBase spec of
          Panic \<Rightarrow> ret Panic
        | Ret base \<Rightarrow>
            (case Path spec of
               None \<Rightarrow> ret (Ret (Inl (newError ''missing path'')))
             | Some path \<Rightarrow> do {
                 resp \<leftarrow> HttpDo X \<lparr>Method = ''POST'', RequestUrl = base @ ''/'' @ path,
                                  RequestBody = Some (autoscaleRequest a g)\<rparr>;
                 ret (Ret (case resp of
                     Inl e \<Rightarrow> Inl e
                   | Inr resp \<Rightarrow>
                       (case BodyRead resp of
                          Inl e \<Rightarrow> Inl e
                        | Inr raw \<Rightarrow>
                            if StatusCode resp \<noteq> 200
                            then Inl (newError (''invalid request response: '' @
                                   itoa (int (StatusCode resp)) @ ''. Raw response: '' @ raw))
                            else (case (case BodyJson resp of Inl e \<Rightarrow> Inl e | Inr doc \<Rightarrow> decodeAutoscaleResponse doc) of
                                Inl e \<Rightarrow> Inl \<lparr>isNotFound = isNotFound e,
                                    errMsg = ''failed to decode response: '' @ errMsg e @
                                      ''\<newline>Raw response: '' @ raw @ ''\<newline>''\<rparr>
                              | Inr x \<Rightarrow> Inr x))))
               }))"

section \<open>Reconcile\<close>

record 'w autoscalerReconciler =
  ar_ext :: "'w ext"
  webhook :: "(gameTypeAutoscaler \<Rightarrow> gameType \<Rightarrow>
                 ('w op, (error + autoscaleResponse) outcome) state) option"
  hasRecorder :: bool

text \<open>A call through the nil recorder panics.\<close>

definition emitVia ::
  "'w autoscalerReconciler \<Rightarrow> gameTypeAutoscaler \<Rightarrow> string \<Rightarrow> string \<Rightarrow> string \<Rightarrow>
     ('w op, unit outcome) state" where
  "emitVia R a ty why msg =
     (if hasRecorder R
      then do { emitEvent KAutoscaler (autoscaler_meta a) ty why msg; ret (Ret ()) }
      else ret Panic)"

definition minute :: duration where
  "minute = 60 * 1000000000"

text \<open>\<open>autoscaler.Spec.Sync.Time.Duration\<close> of a pointer that may be nil.\<close>

definition requeueAfterSync :: "gameTypeAutoscaler \<Rightarrow> ('w op, reconciled) state" where
  "requeueAfterSync a =
     (case SyncTime (Sync a) of None \<Rightarrow> ret Panic | Some d \<Rightarrow> finish (requeueAfter d))"

definition applyScale ::
  "'w autoscalerReconciler \<Rightarrow> gameTypeAutoscaler \<Rightarrow> gameType \<Rightarrow> autoscaleResponse \<Rightarrow>
     ('w op, reconciled) state" where
  "applyScale R a g response =
     (if SyncType (Sync a) \<noteq> FixedInterval
      then andThen (emitVia R a Warning ''GameautoscalerInvalidSyncType''
                      (SyncType (Sync a) @ '' is not a valid sync type''))
             (\<lambda>_. fail noRequeue (newError (SyncType (Sync a) @
                    '' is not a valid sync type, currently only fixed interval is supported'')))
      else if \<not> Scale response then requeueAfterSync a
      else do {
        let spec = FleetSpec g;
        let g1 = g\<lparr>FleetSpec := spec\<lparr>Scaling := (Scaling spec)
                   \<lparr>Replicas := to_int32 (DesiredReplicas response)\<rparr>\<rparr>\<rparr>;
        u \<leftarrow> UpdateGameType (ar_ext R) g1;
        case u of
          Inl e \<Rightarrow> andThen (emitVia R a Warning ''GameautoscalerScale'' ''failed to update the gametype'')
              (\<lambda>_. fail noRequeue (errorf_w ''failed to update gametype with new replica count: '' e))
        | Inr _ \<Rightarrow> andThen (emitVia R a Normal ''GameautoscalerScale''
                          (''Scaling game to '' @ itoa (sint (DesiredReplicas response))))
              (\<lambda>_. requeueAfterSync a)
      })"

definition callWebhook ::
  "'w autoscalerReconciler \<Rightarrow> gameTypeAutoscaler \<Rightarrow> gameType \<Rightarrow> ('w op, reconciled) state" where
  "callWebhook R a g =
     (case webhook R of
        None \<Rightarrow> ret Panic
      | Some send \<Rightarrow> andThen (send a g) (\<lambda>r. case r of
            Inl e \<Rightarrow> andThen (emitVia R a Warning ''GameautoscalerWebhook''
                           (''failed to send the webhook request: '' @ errMsg e))
                (\<lambda>_. fail (requeueAfter minute) (errorf_w ''failed to send scale webhook request: '' e))
          | Inr response \<Rightarrow> applyScale R a g response))"

definition autoscaler_Reconcile ::
  "'w autoscalerReconciler \<Rightarrow> nsname \<Rightarrow> ('w op, reconciled) state" where
  "autoscaler_Reconcile R req = do {
     r \<leftarrow> GetAutoscaler (ar_ext R) req;
     case r of
       Inl e \<Rightarrow> fail doRequeue e
     | Inr a \<Rightarrow> do {
         r \<leftarrow> GetGameType (ar_ext R) (Namespace (autoscaler_meta a), GameTypeName a);
         case r of
           Inl e \<Rightarrow> andThen (emitVia R a Warning ''GameAutoscalerInvalidServer''
                          ''Failed to find the gametype'')
               (\<lambda>_. fail doRequeue e)
         | Inr g \<Rightarrow>
             if PolicyType (AutoscalePolicy a) \<noteq> Webhook
             then andThen (emitVia R a Warning ''GameautoscalerInvalidAutoscalePolicy''
                             ''invalid game autoscaler policy type'')
                    (\<lambda>_. fail noRequeue (newError (PolicyType (AutoscalePolicy a) @
                           '' is not a valid policy type'')))
             else callWebhook R a g
       }
   }"

text \<open>
  The reconciler \<open>main\<close> sets up has neither a webhook nor a recorder; the one of the tests
  and of the intended set-up has both.
\<close>

definition mainAutoscalerReconciler :: "'w ext \<Rightarrow> 'w autoscalerReconciler" where
  "mainAutoscalerReconciler X = \<lparr>ar_ext = X, webhook = None, hasRecorder = False\<rparr>"

definition wiredAutoscalerReconciler :: "'w ext \<Rightarrow> 'w autoscalerReconciler" where
  "wiredAutoscalerReconciler X =
     \<lparr>ar_ext = X, webhook = Some (SendScaleWebhookRequest X), hasRecorder = True\<rparr>"

section \<open>Traces\<close>

text \<open>Grounds for writing: the webhook was asked about this game type and answered to scale it.\<close>

definition scaledTo :: "gameType \<Rightarrow> goint \<Rightarrow> gameType" where
  "scaledTo g n = g\<lparr>FleetSpec := (FleetSpec g)\<lparr>Scaling := (Scaling (FleetSpec g))\<lparr>Replicas := to_int32 n\<rparr>\<rparr>\<rparr>"

definition webhookSays :: "gameTypeAutoscaler \<Rightarrow> gameType \<Rightarrow> autoscaleResponse \<Rightarrow> effect list \<Rightarrow> bool" where
  "webhookSays a g x t \<longleftrightarrow> (\<exists>q resp doc. Http q (Inr resp) \<in> set t \<and> Method q = ''POST'' \<and>
     RequestBody q = Some (autoscaleRequest a g) \<and> StatusCode resp = 200 \<and>
     BodyJson resp = Inr doc \<and> decodeAutoscaleResponse doc = Inr x)"

lemma gives_SendScaleWebhookRequest:
  "gives (SendScaleWebhookRequest X a g) (\<lambda>r t. (\<forall>e \<in> set t. \<exists>q b. e = Http q b) \<and>
     (\<forall>x. r = Ret (Inr x) \<longrightarrow> webhookSays a g x t))"
  unfolding SendScaleWebhookRequest_def Let_def
  by (intro gives_intros) (auto simp: webhookSays_def split: sum.splits if_splits)

lemma gives_emitVia:
  "gives (emitVia R a ty why msg) (\<lambda>r t. writes t = [])"
  unfolding emitVia_def by (intro gives_intros) auto

lemma gives_requeueAfterSync: "gives (requeueAfterSync a) (\<lambda>r t. t = [])"
  unfolding requeueAfterSync_def by (intro gives_intros) auto

lemma gives_applyScale:
  "gives (applyScale R a g x) (\<lambda>r t. writes t = [] \<or>
     (SyncType (Sync a) = FixedInterval \<and> Scale x \<and>
      (\<exists>err es. t = Write Update (GameTypeObj (scaledTo g (DesiredReplicas x))) err # es \<and> writes es = [])))"
  unfolding applyScale_def Let_def
  by (intro gives_intros gives_andThen [OF gives_emitVia] gives_weaken [OF gives_requeueAfterSync])
    (auto simp: scaledTo_def)

text \<open>Nothing is written, or one scaled game type on grounds that precede it.\<close>

definition scalesOnce ::
  "(autoscaleResponse \<Rightarrow> effect list \<Rightarrow> bool) \<Rightarrow> gameTypeAutoscaler \<Rightarrow> gameType \<Rightarrow> effect list \<Rightarrow> bool" where
  "scalesOnce grounds a g t \<longleftrightarrow> writes t = [] \<or> (\<exists>t1 x err t2.
     t = t1 @ Write Update (GameTypeObj (scaledTo g (DesiredReplicas x))) err # t2 \<and> writes t1 = [] \<and> writes t2 = [] \<and>
     grounds x t1 \<and> Scale x \<and> SyncType (Sync a) = FixedInterval)"

lemma scalesOnce_quiet: "writes t = [] \<Longrightarrow> scalesOnce grounds a g t"
  by (simp add: scalesOnce_def)

lemma scalesOnce_step:
  "writes t1 = [] \<Longrightarrow> grounds x t1 \<Longrightarrow> writes t = [] \<or> (SyncType (Sync a) = FixedInterval \<and> Scale x \<and>
      (\<exists>err es. t = Write Update (GameTypeObj (scaledTo g (DesiredReplicas x))) err # es \<and> writes es = [])) \<Longrightarrow>
   scalesOnce grounds a g (t1 @ t)"
  unfolding scalesOnce_def by (elim disjE) (simp, blast)

text \<open>
  The contract between the reconciler and its webhook, the interface field of the source: asking
  writes nothing, and an answer has grounds that the trace shows.
\<close>

locale scale_webhook =
  fixes send :: "gameTypeAutoscaler \<Rightarrow> gameType \<Rightarrow> ('w op, (error + autoscaleResponse) outcome) state"
    and says :: "gameTypeAutoscaler \<Rightarrow> gameType \<Rightarrow> autoscaleResponse \<Rightarrow> effect list \<Rightarrow> bool"
  assumes send_gives: "gives (send a g) (\<lambda>r t. writes t = [] \<and> (\<forall>x. r = Ret (Inr x) \<longrightarrow> says a g x t))"
begin

lemma callWebhook_gives:
  assumes "webhook R = Some send"
  shows "gives (callWebhook R a g) (\<lambda>r t. scalesOnce (says a g) a g t)"
  unfolding callWebhook_def assms option.case
  by (intro gives_intros gives_andThen [OF send_gives] gives_andThen [OF gives_emitVia] gives_weaken [OF gives_applyScale])
    (simp_all add: scalesOnce_quiet, blast intro: scalesOnce_step)

lemma autoscaler_gives:
  assumes "webhook R = Some send"
  shows "gives (autoscaler_Reconcile R req) (\<lambda>r t. writes t = [] \<or> (\<exists>a g rest.
     t = ReadAutoscaler req (Inr a) # ReadGameType (Namespace (autoscaler_meta a), GameTypeName a) (Inr g) # rest \<and>
     PolicyType (AutoscalePolicy a) = Webhook \<and> scalesOnce (says a g) a g rest))"
  unfolding autoscaler_Reconcile_def
  by (intro gives_intros gives_andThen [OF gives_emitVia] gives_weaken [OF callWebhook_gives [OF assms]]) simp_all

end

interpretation hook: scale_webhook "SendScaleWebhookRequest X" webhookSays
proof
  show "gives (SendScaleWebhookRequest X a g) (\<lambda>r t. writes t = [] \<and> (\<forall>x. r = Ret (Inr x) \<longrightarrow> webhookSays a g x t))" for a g
    by (rule gives_weaken [OF gives_SendScaleWebhookRequest]) (auto simp: filter_empty_conv)
qed

section \<open>Properties\<close>

text \<open>
  C31. An autoscaler changes a game type only on the word of its webhook: when the intended
  reconciler writes at all, it writes one object, the game type it read with only the replicas
  changed, after a POST that carried the game's name and current count was answered 200 with
  a document that asks to scale, and the replicas are the desired count cut to 32 bits.
\<close>

theorem autoscaler_writes_only_on_request:
  assumes "run_state (autoscaler_Reconcile (wiredAutoscalerReconciler X) req) s0 = (r, s1)"
  shows "\<exists>t. trace s1 = trace s0 @ t \<and> (writes t = [] \<or> (\<exists>a g t1 x err t2.
     t = ReadAutoscaler req (Inr a) # ReadGameType (Namespace (autoscaler_meta a), GameTypeName a) (Inr g) #
         t1 @ Write Update (GameTypeObj (scaledTo g (DesiredReplicas x))) err # t2 \<and>
     writes t1 = [] \<and> writes t2 = [] \<and> webhookSays a g x t1 \<and> Scale x))"
proof -
  have "gives (autoscaler_Reconcile (wiredAutoscalerReconciler X) req) (\<lambda>r t. writes t = [] \<or> (\<exists>a g rest.
     t = ReadAutoscaler req (Inr a) # ReadGameType (Namespace (autoscaler_meta a), GameTypeName a) (Inr g) # rest \<and>
     PolicyType (AutoscalePolicy a) = Webhook \<and> scalesOnce (webhookSays a g) a g rest))"
    by (rule hook.autoscaler_gives) (simp add: wiredAutoscalerReconciler_def)
  from gives_run [OF this assms] obtain t where t: "trace s1 = trace s0 @ t"
    "writes t = [] \<or> (\<exists>a g rest. t = ReadAutoscaler req (Inr a) #
        ReadGameType (Namespace (autoscaler_meta a), GameTypeName a) (Inr g) # rest \<and>
      PolicyType (AutoscalePolicy a) = Webhook \<and> scalesOnce (webhookSays a g) a g rest)" by blast
  from t(2) have "writes t = [] \<or> (\<exists>a g t1 x err t2.
     t = ReadAutoscaler req (Inr a) # ReadGameType (Namespace (autoscaler_meta a), GameTypeName a) (Inr g) #
         t1 @ Write Update (GameTypeObj (scaledTo g (DesiredReplicas x))) err # t2 \<and>
     writes t1 = [] \<and> writes t2 = [] \<and> webhookSays a g x t1 \<and> Scale x)"
    unfolding scalesOnce_def by (elim disjE exE conjE) (simp, simp, blast)
  with t(1) show ?thesis by blast
qed

text \<open>A webhook that always answers with the same document.\<close>

definition sayExt :: "json \<Rightarrow> store ext" where
  "sayExt doc = storeExt\<lparr>httpDo := (\<lambda>q w. (Inr \<lparr>StatusCode = 200, Status = ''200 OK'', BodyRead = Inr [], BodyJson = Inr doc\<rparr>, w))\<rparr>"

definition demoScaler :: gameTypeAutoscaler where
  "demoScaler = \<lparr>autoscaler_meta = metaOf ''ns'' ''s'', GameTypeName = ''g'',
     AutoscalePolicy = \<lparr>PolicyType = ''webhook'',
       WebhookSpec = \<lparr>Url = Some ''http://h'', Path = Some ''p'', Service = None\<rparr>\<rparr>,
     Sync = \<lparr>SyncType = ''fixedinterval'', SyncTime = Some 5\<rparr>\<rparr>"

definition scaledType :: gameType where
  "scaledType = \<lparr>gametype_meta = metaOf ''ns'' ''g'', FleetSpec = \<lparr>ServerSpec = plainSpec,
        Scaling = \<lparr>Replicas = 1, PrioritizeAllowed = False, AgePriority = ''oldest_first''\<rparr>\<rparr>,
     gametype_status = \<lparr>GameTypeConditions = [], CurrentFleetName = [], CurrentFleetReplicas = 0\<rparr>\<rparr>"

definition scalerStore :: store where
  "scalerStore = emptyStore\<lparr>store_autoscalers := [((''ns'', ''s''), demoScaler)],
     store_gametypes := [((''ns'', ''g''), scaledType)]\<rparr>"

definition sayFive :: json where
  "sayFive = JObj [(''scale'', JBool True), (''desired_replicas'', JNum ''4294967301'')]"

lemma say_ext [store_simps]:
  "api (sayExt doc) = api storeExt" "lib (sayExt doc) = lib storeExt"
  "httpDo (sayExt doc) q w = (Inr \<lparr>StatusCode = 200, Status = ''200 OK'', BodyRead = Inr [], BodyJson = Inr doc\<rparr>, w)"
  by (simp_all add: sayExt_def)

lemma five_decoded: "decodeAutoscaleResponse sayFive = Inr \<lparr>Scale = True, DesiredReplicas = 4294967301\<rparr>"
  by (simp add: decodeAutoscaleResponse_def sayFive_def sameField_def asciiLower_def parseInt64_def isDigit_def digitsValue_def)

lemmas autoscaler_defs = autoscaler_Reconcile_def callWebhook_def applyScale_def SendScaleWebhookRequest_def
  webhookBase_def emitVia_def requeueAfterSync_def wiredAutoscalerReconciler_def mainAutoscalerReconciler_def
  Webhook_def FixedInterval_def

lemma five_run:
  "writes (trace (snd (run_state (autoscaler_Reconcile (wiredAutoscalerReconciler (sayExt sayFive)) (''ns'', ''s''))
     (boot scalerStore)))) = [Write Update (GameTypeObj (scaledTo scaledType 4294967301)) None]"
  by (simp add: autoscaler_defs run_simps store_simps five_decoded scalerStore_def demoScaler_def scaledType_def scaledTo_def)

theorem autoscaler_writes_only_on_request_witness:
  "\<exists>a g t1 x. writes (trace (snd (run_state (autoscaler_Reconcile (wiredAutoscalerReconciler (sayExt sayFive)) (''ns'', ''s''))
       (boot scalerStore)))) \<noteq> [] \<and> webhookSays a g x t1 \<and> Scale x"
proof -
  let ?run = "run_state (autoscaler_Reconcile (wiredAutoscalerReconciler (sayExt sayFive)) (''ns'', ''s'')) (boot scalerStore)"
  obtain t where "trace (snd ?run) = t" "writes t = [] \<or> (\<exists>a g t1 x err t2.
     t = ReadAutoscaler (''ns'', ''s'') (Inr a) # ReadGameType (Namespace (autoscaler_meta a), GameTypeName a) (Inr g) #
         t1 @ Write Update (GameTypeObj (scaledTo g (DesiredReplicas x))) err # t2 \<and>
     writes t1 = [] \<and> writes t2 = [] \<and> webhookSays a g x t1 \<and> Scale x)"
    using autoscaler_writes_only_on_request [OF prod.collapse [symmetric],
        of "sayExt sayFive" "(''ns'', ''s'')" "boot scalerStore"] by (auto simp: boot_def)
  with five_run show ?thesis by force
qed



text \<open>
  C37. The reconciler that \<open>main\<close> sets up, without a webhook and without a recorder, panics on
  every autoscaler it can read, before it writes anything.
\<close>

theorem main_autoscaler_panics:
  assumes "apiGetAutoscaler (api X) req w = (Inr a, w1)"
  shows "\<exists>s1 u. run_state (autoscaler_Reconcile (mainAutoscalerReconciler X) req) \<lparr>world = w, trace = t\<rparr> = (Panic, s1) \<and>
     trace s1 = t @ u \<and> writes u = []"
  using assms
  by (auto simp: autoscaler_Reconcile_def callWebhook_def emitVia_def mainAutoscalerReconciler_def run_simps
      split: prod.split sum.split)

theorem main_autoscaler_panics_witness:
  "fst (run_state (autoscaler_Reconcile (mainAutoscalerReconciler storeExt) (''ns'', ''s'')) (boot scalerStore)) = Panic"
  using main_autoscaler_panics [of storeExt "(''ns'', ''s'')" scalerStore demoScaler scalerStore "[]"]
  by (auto simp: store_simps scalerStore_def)

text \<open>
  A webhook that cannot be asked, or whose answer cannot be used, changes nothing: the
  intended reconciler records a warning, returns the error and comes back after a minute.
\<close>

theorem failed_webhook_retries:
  assumes "apiGetAutoscaler (api X) req w = (Inr a, w1)"
    and "apiGetGameType (api X) (Namespace (autoscaler_meta a), GameTypeName a) w1 = (Inr g, w2)"
    and "PolicyType (AutoscalePolicy a) = Webhook"
    and "run_state (SendScaleWebhookRequest X a g) \<lparr>world = w2, trace = t @ [ReadAutoscaler req (Inr a),
           ReadGameType (Namespace (autoscaler_meta a), GameTypeName a) (Inr g)]\<rparr> = (Ret (Inl e), \<lparr>world = w3, trace = u\<rparr>)"
  shows "run_state (autoscaler_Reconcile (wiredAutoscalerReconciler X) req) \<lparr>world = w, trace = t\<rparr> =
     (Ret (requeueAfter (60 * 1000000000), Some (errorf_w ''failed to send scale webhook request: '' e)),
      \<lparr>world = w3, trace = u @ [Event KAutoscaler (nsOf (autoscaler_meta a)) Warning ''GameautoscalerWebhook''
         (''failed to send the webhook request: '' @ errMsg e)]\<rparr>)"
  using assms
  by (simp add: autoscaler_Reconcile_def callWebhook_def emitVia_def wiredAutoscalerReconciler_def minute_def run_simps)

definition pathless :: gameTypeAutoscaler where
  "pathless = demoScaler\<lparr>AutoscalePolicy := \<lparr>PolicyType = ''webhook'',
     WebhookSpec = \<lparr>Url = Some ''http://h'', Path = None, Service = None\<rparr>\<rparr>\<rparr>"

theorem failed_webhook_retries_witness:
  "fst (run_state (autoscaler_Reconcile (wiredAutoscalerReconciler storeExt) (''ns'', ''s''))
     (boot (scalerStore\<lparr>store_autoscalers := [((''ns'', ''s''), pathless)]\<rparr>))) =
   Ret (requeueAfter (60 * 1000000000), Some (errorf_w ''failed to send scale webhook request: '' (newError ''missing path'')))"
proof -
  let ?w = "scalerStore\<lparr>store_autoscalers := [((''ns'', ''s''), pathless)]\<rparr>"
  have reads: "apiGetAutoscaler (api storeExt) (''ns'', ''s'') ?w = (Inr pathless, ?w)"
    "apiGetGameType (api storeExt) (Namespace (autoscaler_meta pathless), GameTypeName pathless) ?w = (Inr scaledType, ?w)"
    "PolicyType (AutoscalePolicy pathless) = Webhook"
    by (simp_all add: store_simps scalerStore_def pathless_def demoScaler_def Webhook_def)
  have "run_state (SendScaleWebhookRequest storeExt pathless scaledType) st = (Ret (Inl (newError ''missing path'')), st)" for st
    by (simp add: SendScaleWebhookRequest_def webhookBase_def pathless_def)
  from failed_webhook_retries [OF reads this, of "[]"] show ?thesis by (simp add: boot_def)
qed

text \<open>
  C32. The webhook reads the current count that the operator has: the number in the request is
  printed in decimal so that parsing it gives the count back, sign and all.
\<close>

theorem autoscale_request_roundtrip:
  "decodeField asInt ''current_replicas'' 0 (autoscaleRequest a g) = Inr (to_int (Replicas (Scaling (FleetSpec g)))) \<and>
   sint (to_int (Replicas (Scaling (FleetSpec g)))) = sint (Replicas (Scaling (FleetSpec g)))"
proof -
  let ?r = "Replicas (Scaling (FleetSpec g))"
  have "\<not> sameField ''game_name'' ''current_replicas''"
    by (simp add: sameField_def asciiLower_def)
  moreover have n: "sint (to_int ?r) = sint ?r"
    using sint_ge [of ?r] sint_lt [of ?r] by (simp add: to_int_def signed_scast_eq signed_take_bit_int_eq_self)
  moreover have "parseInt64 (itoa (sint ?r)) = Some (to_int ?r)"
    using parse_itoa [of "to_int ?r"] unfolding n .
  ultimately show ?thesis by (simp add: autoscaleRequest_def)
qed

end
