(* ===== verification/Webhooks.thy ===== *)
theory Webhooks
  imports ServerController
begin

text \<open>
  The admission webhooks of \<open>internal/webhook/v1alpha1\<close>: a defaulter and a validator per
  kind. The object arrives as a \<open>runtime.Object\<close> of any type; the handlers check that it is
  of theirs. A defaulter gives the object back, or the error; a validator gives the error or
  nil (it has no warnings).
\<close>

datatype runtimeObject =
    RServer server
  | RFleet fleet
  | RGameType gameType
  | RAutoscaler gameTypeAutoscaler
  | RPod pod

text \<open>The verb \<open>%T\<close>.\<close>

fun goType :: "runtimeObject \<Rightarrow> string" where
  "goType (RServer _) = ''*v1alpha1.Server''"
| "goType (RFleet _) = ''*v1alpha1.Fleet''"
| "goType (RGameType _) = ''*v1alpha1.GameType''"
| "goType (RAutoscaler _) = ''*v1alpha1.GameTypeAutoscaler''"
| "goType (RPod _) = ''*v1.Pod''"

section \<open>Defaulters\<close>

definition defaultImage :: string where
  "defaultImage = ''unfamousthomas/fallernetes-sidecar:main''"

definition defaultSidecarSettings :: "server \<Rightarrow> server" where
  "defaultSidecarSettings s =
     (let st = (case SidecarSettings (server_spec s) of
                  None \<Rightarrow> \<lparr>Port = None, SidecarImage = None, LogDebug = False\<rparr>
                | Some st \<Rightarrow> st);
          st1 = (case SidecarImage st of
                   None \<Rightarrow> st\<lparr>SidecarImage := Some defaultImage\<rparr> | Some _ \<Rightarrow> st);
          st2 = (case Port st1 of None \<Rightarrow> st1\<lparr>Port := Some 8080\<rparr> | Some _ \<Rightarrow> st1)
      in s\<lparr>server_spec := (server_spec s)\<lparr>SidecarSettings := Some st2\<rparr>\<rparr>)"

definition ServerDefault :: "runtimeObject \<Rightarrow> error + runtimeObject" where
  "ServerDefault obj =
     (case obj of
        RServer s \<Rightarrow> Inr (RServer (defaultSidecarSettings s))
      | _ \<Rightarrow> Inl (newError (''expected an Server object but got '' @ goType obj)))"

text \<open>\<open>time.Minute * 40\<close>\<close>

definition defaultTimeOut :: duration where
  "defaultTimeOut = 40 * 60 * 1000000000"

definition defaultFleetTimeOut :: "fleet \<Rightarrow> fleet" where
  "defaultFleetTimeOut f =
     (let spec = ServerSpec (fleet_spec f)
      in case TimeOut spec of
          None \<Rightarrow> f\<lparr>fleet_spec := (fleet_spec f)
                     \<lparr>ServerSpec := spec\<lparr>TimeOut := Some defaultTimeOut\<rparr>\<rparr>\<rparr>
        | Some _ \<Rightarrow> f)"

definition FleetDefault :: "runtimeObject \<Rightarrow> error + runtimeObject" where
  "FleetDefault obj =
     (case obj of
        RFleet f \<Rightarrow> Inr (RFleet (defaultFleetTimeOut f))
      | _ \<Rightarrow> Inl (newError (''expected an Fleet object but got '' @ goType obj)))"

definition GameTypeDefault :: "runtimeObject \<Rightarrow> error + runtimeObject" where
  "GameTypeDefault obj =
     (case obj of
        RGameType g \<Rightarrow> Inr (RGameType g)
      | _ \<Rightarrow> Inl (newError (''expected an GameType object but got '' @ goType obj)))"

definition GameTypeAutoscalerDefault :: "runtimeObject \<Rightarrow> error + runtimeObject" where
  "GameTypeAutoscalerDefault obj =
     (case obj of
        RAutoscaler a \<Rightarrow> Inr (RAutoscaler a)
      | _ \<Rightarrow> Inl (newError (''expected an GameTypeAutoscaler object but got '' @ goType obj)))"

section \<open>Validators\<close>

definition ServerValidateCreate :: "runtimeObject \<Rightarrow> error option" where
  "ServerValidateCreate obj =
     (case obj of
        RServer _ \<Rightarrow> None
      | _ \<Rightarrow> Some (newError (''expected a Server object but got '' @ goType obj)))"

definition ServerValidateUpdate :: "runtimeObject \<Rightarrow> runtimeObject \<Rightarrow> error option" where
  "ServerValidateUpdate oldObj newObj =
     (case newObj of
        RServer _ \<Rightarrow> None
      | _ \<Rightarrow> Some (newError (''expected a Server object for the newObj but got '' @ goType newObj)))"

definition ServerValidateDelete :: "runtimeObject \<Rightarrow> error option" where
  "ServerValidateDelete obj =
     (case obj of
        RServer _ \<Rightarrow> None
      | _ \<Rightarrow> Some (newError (''expected a Server object but got '' @ goType obj)))"

definition FleetValidateCreate :: "runtimeObject \<Rightarrow> error option" where
  "FleetValidateCreate obj =
     (case obj of
        RFleet _ \<Rightarrow> None
      | _ \<Rightarrow> Some (newError (''expected a Fleet object but got '' @ goType obj)))"

definition FleetValidateUpdate :: "runtimeObject \<Rightarrow> runtimeObject \<Rightarrow> error option" where
  "FleetValidateUpdate oldObj newObj =
     (case newObj of
        RFleet _ \<Rightarrow> None
      | _ \<Rightarrow> Some (newError (''expected a Fleet object for the newObj but got '' @ goType newObj)))"

definition FleetValidateDelete :: "runtimeObject \<Rightarrow> error option" where
  "FleetValidateDelete obj =
     (case obj of
        RFleet _ \<Rightarrow> None
      | _ \<Rightarrow> Some (newError (''expected a Fleet object but got '' @ goType obj)))"

definition GameTypeValidateCreate :: "runtimeObject \<Rightarrow> error option" where
  "GameTypeValidateCreate obj =
     (case obj of
        RGameType _ \<Rightarrow> None
      | _ \<Rightarrow> Some (newError (''expected a GameType object but got '' @ goType obj)))"

definition GameTypeValidateUpdate :: "runtimeObject \<Rightarrow> runtimeObject \<Rightarrow> error option" where
  "GameTypeValidateUpdate oldObj newObj =
     (case newObj of
        RGameType _ \<Rightarrow> None
      | _ \<Rightarrow> Some (newError (''expected a GameType object for the newObj but got '' @ goType newObj)))"

definition GameTypeValidateDelete :: "runtimeObject \<Rightarrow> error option" where
  "GameTypeValidateDelete obj =
     (case obj of
        RGameType _ \<Rightarrow> None
      | _ \<Rightarrow> Some (newError (''expected a GameType object but got '' @ goType obj)))"

definition GameTypeAutoscalerValidateCreate :: "runtimeObject \<Rightarrow> error option" where
  "GameTypeAutoscalerValidateCreate obj =
     (case obj of
        RAutoscaler _ \<Rightarrow> None
      | _ \<Rightarrow> Some (newError (''expected a GameTypeAutoscaler object but got '' @ goType obj)))"

definition GameTypeAutoscalerValidateUpdate :: "runtimeObject \<Rightarrow> runtimeObject \<Rightarrow> error option" where
  "GameTypeAutoscalerValidateUpdate oldObj newObj =
     (case newObj of
        RAutoscaler _ \<Rightarrow> None
      | _ \<Rightarrow> Some (newError (''expected a GameTypeAutoscaler object for the newObj but got '' @ goType newObj)))"

definition GameTypeAutoscalerValidateDelete :: "runtimeObject \<Rightarrow> error option" where
  "GameTypeAutoscalerValidateDelete obj =
     (case obj of
        RAutoscaler _ \<Rightarrow> None
      | _ \<Rightarrow> Some (newError (''expected a GameTypeAutoscaler object but got '' @ goType obj)))"

section \<open>What defaulting establishes\<close>

text \<open>
  The pointers of the sidecar settings, which the pod builder and the deletion check dereference.
  With a time-out the deletion check also dereferences the deletion time, which is set when the
  reconciler calls it.
\<close>

definition sidecarReady :: "server \<Rightarrow> bool" where
  "sidecarReady s \<longleftrightarrow>
     (case SidecarSettings (server_spec s) of
        None \<Rightarrow> False
      | Some st \<Rightarrow> Port st \<noteq> None \<and> SidecarImage st \<noteq> None)"

lemma defaultSidecarSettings_ready: "sidecarReady (defaultSidecarSettings s)"
  by (auto simp: sidecarReady_def defaultSidecarSettings_def Let_def split: option.split)

lemma defaultSidecarSettings_id: "sidecarReady s \<Longrightarrow> defaultSidecarSettings s = s"
  by (auto simp: sidecarReady_def defaultSidecarSettings_def Let_def split: option.splits)

lemma ready_getPodSpec: "sidecarReady s \<Longrightarrow> \<exists>p. getPodSpec env s = Ret p"
  by (auto simp: getPodSpec_Ret_iff sidecarReady_def split: option.splits)

lemma ready_port: "sidecarReady s \<Longrightarrow> \<exists>n. sidecarPort (server_spec s) = Ret n"
  by (auto simp: sidecarPort_def sidecarReady_def split: option.splits)

lemma ready_GetNewPod: "sidecarReady s \<Longrightarrow> GetNewPod L env s ns \<noteq> Panic"
  using ready_getPodSpec [of s env] by (auto simp: GetNewPod_panics)

lemma ready_check:
  "gives (IsDeletionAllowed X s p) (\<lambda>r t. sidecarReady s \<longrightarrow> DeletionTimestamp (server_meta s) \<noteq> None \<longrightarrow> r \<noteq> Panic)"
proof -
  have ask: "gives (askSidecar X s p) (\<lambda>r t. sidecarReady s \<longrightarrow> r \<noteq> Panic)"
    unfolding askSidecar_def Let_def
    by (intro gives_intros gives_bind [OF gives_RequestShutdown] gives_bind [OF gives_requestIsDeleteAllowed])
      (auto dest: ready_port)
  show ?thesis
    unfolding IsDeletionAllowed_def
    by (intro gives_intros gives_weaken [OF ask]) auto
qed

lemma ready_run: "gives (server_run X s) (\<lambda>r t. sidecarReady s \<longrightarrow> r \<noteq> Panic)"
proof -
  have exists: "gives (ensurePodExists X s) (\<lambda>r t. sidecarReady s \<longrightarrow> r \<noteq> Panic)"
    unfolding ensurePodExists_def
    by (intro gives_intros gives_bind [OF gives_setCondition]) (auto dest: ready_GetNewPod)
  have finalizer: "gives (ensurePodFinalizer X s1) (\<lambda>r t. True)" for s1
    unfolding ensurePodFinalizer_def by (intro gives_intros TrueI)
  show ?thesis
    unfolding server_run_def
    by (intro gives_intros gives_andThen [OF exists] gives_bind [OF finalizer]) auto
qed

lemma ready_finalize:
  assumes "DeletionTimestamp (server_meta s) \<noteq> None"
  shows "gives (server_finalize (prodServerReconciler X) s) (\<lambda>r t. sidecarReady s \<longrightarrow> r \<noteq> Panic)"
proof -
  have del: "gives (deletePodOf X s p) (\<lambda>r t. r \<noteq> Panic)" for p
    by (rule gives_weaken [OF gives_deletePodOf]) auto
  have handle: "gives (server_handleDeletion (prodServerReconciler X) s) (\<lambda>r t. sidecarReady s \<longrightarrow> r \<noteq> Panic)"
    unfolding server_handleDeletion_def releasePod_def prodServerReconciler_def serverReconciler.select_convs
    by (intro gives_intros gives_andThen [OF ready_check] gives_weaken [OF del]) (use assms in auto)
  show ?thesis
    unfolding server_finalize_def by (intro gives_intros gives_andThen [OF handle]) auto
qed

lemma ready_reconcile:
  "gives (server_Reconcile (prodServerReconciler X) req) (\<lambda>r t. \<forall>s rest.
     t = ReadServer req (Inr s) # rest \<longrightarrow> sidecarReady s \<longrightarrow> r \<noteq> Panic)"
proof -
  have X: "sr_ext (prodServerReconciler X) = X" by (simp add: prodServerReconciler_def)
  show ?thesis
    unfolding server_Reconcile_def server_initialize_def X
    by (intro gives_intros gives_weaken [OF ready_finalize] gives_weaken [OF ready_run]) auto
qed

section \<open>Properties\<close>

text \<open>
  C38. Defaulting a server makes it safe to run: a reconcile that reads a defaulted server never
  panics, whatever phase the server is in and whatever the calls answer; in particular the pod
  builder never does, and neither does the deletion check of a server that is being deleted. A
  setting the user made is kept, everything outside the sidecar settings is left alone, and
  defaulting again changes nothing.
\<close>

theorem defaulted_server_never_panics:
  "(reconcileServer X req s0 = (r, s1) \<longrightarrow>
     trace s1 = trace s0 @ ReadServer req (Inr (defaultSidecarSettings s)) # rest \<longrightarrow> r \<noteq> Panic) \<and>
   GetNewPod L env (defaultSidecarSettings s) ns \<noteq> Panic \<and>
   (DeletionTimestamp (server_meta s) \<noteq> None \<longrightarrow> fst (run_state (IsDeletionAllowed X (defaultSidecarSettings s) p) st) \<noteq> Panic) \<and>
   ServerDefault (RServer s) = Inr (RServer (defaultSidecarSettings s)) \<and>
   defaultSidecarSettings (defaultSidecarSettings s) = defaultSidecarSettings s \<and>
   (defaultSidecarSettings s)\<lparr>server_spec := server_spec s\<rparr> = s \<and>
   (server_spec (defaultSidecarSettings s))\<lparr>SidecarSettings := SidecarSettings (server_spec s)\<rparr> = server_spec s \<and>
   SidecarSettings (server_spec (defaultSidecarSettings s)) = Some
     \<lparr>Port = Some (case Option.bind (SidecarSettings (server_spec s)) Port of None \<Rightarrow> 8080 | Some n \<Rightarrow> n),
      SidecarImage = Some (case Option.bind (SidecarSettings (server_spec s)) SidecarImage of
        None \<Rightarrow> ''unfamousthomas/fallernetes-sidecar:main'' | Some i \<Rightarrow> i),
      LogDebug = (case SidecarSettings (server_spec s) of None \<Rightarrow> False | Some st \<Rightarrow> LogDebug st)\<rparr>"
proof -
  let ?d = "defaultSidecarSettings s"
  have ready: "sidecarReady ?d" by (rule defaultSidecarSettings_ready)
  have meta: "server_meta ?d = server_meta s" by (simp add: defaultSidecarSettings_def Let_def)
  have "SidecarSettings (server_spec ?d) = Some
     \<lparr>Port = Some (case Option.bind (SidecarSettings (server_spec s)) Port of None \<Rightarrow> 8080 | Some n \<Rightarrow> n),
      SidecarImage = Some (case Option.bind (SidecarSettings (server_spec s)) SidecarImage of
        None \<Rightarrow> ''unfamousthomas/fallernetes-sidecar:main'' | Some i \<Rightarrow> i),
      LogDebug = (case SidecarSettings (server_spec s) of None \<Rightarrow> False | Some st \<Rightarrow> LogDebug st)\<rparr>"
    by (cases "SidecarSettings (server_spec s)")
      (auto simp: defaultSidecarSettings_def defaultImage_def Let_def split: option.split)
  moreover have "?d\<lparr>server_spec := server_spec s\<rparr> = s"
    "(server_spec ?d)\<lparr>SidecarSettings := SidecarSettings (server_spec s)\<rparr> = server_spec s"
    by (simp_all add: defaultSidecarSettings_def Let_def)
  moreover have "r \<noteq> Panic" if "reconcileServer X req s0 = (r, s1)" "trace s1 = trace s0 @ ReadServer req (Inr ?d) # rest"
    using gives_run [OF ready_reconcile that(1)] that(2) ready by auto
  moreover have "fst (run_state (IsDeletionAllowed X ?d p) st) \<noteq> Panic" if "DeletionTimestamp (server_meta s) \<noteq> None"
  proof -
    obtain a u where check: "run_state (IsDeletionAllowed X ?d p) st = (a, u)" by fastforce
    from gives_run [OF ready_check check] ready that meta show ?thesis by (simp add: check)
  qed
  moreover have "GetNewPod L env ?d ns \<noteq> Panic" by (rule ready_GetNewPod [OF ready])
  moreover have "defaultSidecarSettings ?d = ?d" by (rule defaultSidecarSettings_id [OF ready])
  moreover have "ServerDefault (RServer s) = Inr (RServer ?d)" by (simp add: ServerDefault_def)
  ultimately show ?thesis by (intro conjI impI) simp_all
qed

text \<open>A server without sidecar settings, with a time-out, that is being deleted; and its defaulted form.\<close>

definition bareServer :: server where
  "bareServer = delServer\<lparr>server_spec := plainSpec\<lparr>SidecarSettings := None, TimeOut := Some 100\<rparr>\<rparr>"

definition defaultedStore :: store where
  "defaultedStore = (demoStore True)\<lparr>store_servers := [((''ns'', ''a''), defaultSidecarSettings bareServer)]\<rparr>"

lemma bare_check_panics: "fst (run_state (IsDeletionAllowed storeExt bareServer runPod) (boot defaultedStore)) = Panic"
  by (simp add: bareServer_def defaultedStore_def server_defs run_simps store_simps addDuration_def less_time_def)

lemma defaulted_run:
  "\<exists>rest. trace (snd (reconcileServer storeExt (''ns'', ''a'') (boot defaultedStore))) =
     ReadServer (''ns'', ''a'') (Inr (defaultSidecarSettings bareServer)) # rest"
  by (simp add: defaultedStore_def bareServer_def defaultSidecarSettings_def server_defs run_simps store_simps
      addDuration_def less_time_def)

theorem defaulted_server_never_panics_witness:
  "fst (reconcileServer storeExt (''ns'', ''a'') (boot defaultedStore)) \<noteq> Panic \<and>
   fst (run_state (IsDeletionAllowed storeExt (defaultSidecarSettings bareServer) runPod) (boot defaultedStore)) \<noteq> Panic \<and>
   fst (run_state (IsDeletionAllowed storeExt bareServer runPod) (boot defaultedStore)) = Panic"
proof -
  obtain r s1 where run: "reconcileServer storeExt (''ns'', ''a'') (boot defaultedStore) = (r, s1)" by fastforce
  obtain rest where tr: "trace s1 = trace (boot defaultedStore) @
      ReadServer (''ns'', ''a'') (Inr (defaultSidecarSettings bareServer)) # rest"
    using defaulted_run run by (auto simp: boot_def)
  have "DeletionTimestamp (server_meta bareServer) \<noteq> None" by (simp add: bareServer_def delServer_def serverOf_def)
  with defaulted_server_never_panics [where s = bareServer and X = storeExt and p = runPod and st = "boot defaultedStore"] run tr
  have "r \<noteq> Panic" "fst (run_state (IsDeletionAllowed storeExt (defaultSidecarSettings bareServer) runPod) (boot defaultedStore)) \<noteq> Panic"
    by blast+
  with run show ?thesis by (simp add: bare_check_panics)
qed

text \<open>
  Each admission webhook handles its own kind only: the four defaulters and the twelve
  validators accept an object exactly when it is of their kind; an update is judged by the new
  object alone.
\<close>

theorem webhooks_accept_own_kind:
  "((\<exists>x. ServerDefault obj = Inr x) \<longleftrightarrow> (\<exists>s. obj = RServer s)) \<and>
   ((\<exists>x. FleetDefault obj = Inr x) \<longleftrightarrow> (\<exists>f. obj = RFleet f)) \<and>
   ((\<exists>x. GameTypeDefault obj = Inr x) \<longleftrightarrow> (\<exists>g. obj = RGameType g)) \<and>
   ((\<exists>x. GameTypeAutoscalerDefault obj = Inr x) \<longleftrightarrow> (\<exists>a. obj = RAutoscaler a)) \<and>
   (ServerValidateCreate obj = None \<longleftrightarrow> (\<exists>s. obj = RServer s)) \<and>
   (ServerValidateUpdate old obj = None \<longleftrightarrow> (\<exists>s. obj = RServer s)) \<and>
   (ServerValidateDelete obj = None \<longleftrightarrow> (\<exists>s. obj = RServer s)) \<and>
   (FleetValidateCreate obj = None \<longleftrightarrow> (\<exists>f. obj = RFleet f)) \<and>
   (FleetValidateUpdate old obj = None \<longleftrightarrow> (\<exists>f. obj = RFleet f)) \<and>
   (FleetValidateDelete obj = None \<longleftrightarrow> (\<exists>f. obj = RFleet f)) \<and>
   (GameTypeValidateCreate obj = None \<longleftrightarrow> (\<exists>g. obj = RGameType g)) \<and>
   (GameTypeValidateUpdate old obj = None \<longleftrightarrow> (\<exists>g. obj = RGameType g)) \<and>
   (GameTypeValidateDelete obj = None \<longleftrightarrow> (\<exists>g. obj = RGameType g)) \<and>
   (GameTypeAutoscalerValidateCreate obj = None \<longleftrightarrow> (\<exists>a. obj = RAutoscaler a)) \<and>
   (GameTypeAutoscalerValidateUpdate old obj = None \<longleftrightarrow> (\<exists>a. obj = RAutoscaler a)) \<and>
   (GameTypeAutoscalerValidateDelete obj = None \<longleftrightarrow> (\<exists>a. obj = RAutoscaler a))"
  by (cases obj)
    (simp_all add: ServerDefault_def FleetDefault_def GameTypeDefault_def GameTypeAutoscalerDefault_def
      ServerValidateCreate_def ServerValidateUpdate_def ServerValidateDelete_def
      FleetValidateCreate_def FleetValidateUpdate_def FleetValidateDelete_def
      GameTypeValidateCreate_def GameTypeValidateUpdate_def GameTypeValidateDelete_def
      GameTypeAutoscalerValidateCreate_def GameTypeAutoscalerValidateUpdate_def GameTypeAutoscalerValidateDelete_def)

text \<open>
  Defaulting a fleet gives its servers a time-out of 40 minutes unless they have one, changes
  nothing else, and is idempotent.
\<close>

theorem defaulted_fleet_has_timeout:
  "TimeOut (ServerSpec (fleet_spec (defaultFleetTimeOut f))) =
     Some (case TimeOut (ServerSpec (fleet_spec f)) of None \<Rightarrow> 40 * 60 * 1000000000 | Some d \<Rightarrow> d) \<and>
   FleetDefault (RFleet (defaultFleetTimeOut f)) = Inr (RFleet (defaultFleetTimeOut f)) \<and>
   fleet_meta (defaultFleetTimeOut f) = fleet_meta f \<and> fleet_status (defaultFleetTimeOut f) = fleet_status f \<and>
   AreFleetsPodsEqual (fleet_spec (defaultFleetTimeOut f)) (fleet_spec f) \<and>
   Scaling (fleet_spec (defaultFleetTimeOut f)) = Scaling (fleet_spec f)"
  by (auto simp: defaultFleetTimeOut_def FleetDefault_def defaultTimeOut_def AreFleetsPodsEqual_def Let_def
      split: option.split)

end
