(* ===== verification/Replay.thy ===== *)
theory Replay
  imports ServerController FleetController GameTypeController Autoscaler
begin

text \<open>
  The world moves only through the calls a trace shows: whatever a reconcile does to the world
  is the sequence of the calls it leaves in its trace. With that, a fact about single calls of
  the API server becomes one about whole reconciles, and about any interleaving of them.
\<close>

section \<open>What a traced call does to the world\<close>

inductive performs :: "'w ext \<Rightarrow> effect \<Rightarrow> 'w \<Rightarrow> 'w \<Rightarrow> bool" for X :: "'w ext" where
  getServer: "apiGetServer (api X) k w = (r, w') \<Longrightarrow> performs X (ReadServer k r) w w'"
| getPod: "apiGetPod (api X) k w = (r, w') \<Longrightarrow> performs X (ReadPod k r) w w'"
| getFleet: "apiGetFleet (api X) k w = (r, w') \<Longrightarrow> performs X (ReadFleet k r) w w'"
| getGameType: "apiGetGameType (api X) k w = (r, w') \<Longrightarrow> performs X (ReadGameType k r) w w'"
| getAutoscaler: "apiGetAutoscaler (api X) k w = (r, w') \<Longrightarrow> performs X (ReadAutoscaler k r) w w'"
| listServers: "apiListServers (api X) ns sel w = (r, w') \<Longrightarrow> performs X (ListedServers ns sel r) w w'"
| listFleets: "apiListFleets (api X) ns sel w = (r, w') \<Longrightarrow> performs X (ListedFleets ns sel r) w w'"
| createServer: "apiCreateServer (api X) x w = (r, w') \<Longrightarrow> performs X (Write Create (ServerObj x) (errOf r)) w w'"
| createPod: "apiCreatePod (api X) p w = (r, w') \<Longrightarrow> performs X (Write Create (PodObj p) (errOf r)) w w'"
| createFleet: "apiCreateFleet (api X) f w = (r, w') \<Longrightarrow> performs X (Write Create (FleetObj f) (errOf r)) w w'"
| updateServer: "apiUpdateServer (api X) x w = (r, w') \<Longrightarrow> performs X (Write Update (ServerObj x) (errOf r)) w w'"
| updatePod: "apiUpdatePod (api X) p w = (r, w') \<Longrightarrow> performs X (Write Update (PodObj p) (errOf r)) w w'"
| updateFleet: "apiUpdateFleet (api X) f w = (r, w') \<Longrightarrow> performs X (Write Update (FleetObj f) (errOf r)) w w'"
| updateGameType: "apiUpdateGameType (api X) g w = (r, w') \<Longrightarrow> performs X (Write Update (GameTypeObj g) (errOf r)) w w'"
| statusServer: "apiStatusServer (api X) x w = (r, w') \<Longrightarrow> performs X (Write UpdateStatus (ServerObj x) (errOf r)) w w'"
| statusFleet: "apiStatusFleet (api X) f w = (r, w') \<Longrightarrow> performs X (Write UpdateStatus (FleetObj f) (errOf r)) w w'"
| statusGameType: "apiStatusGameType (api X) g w = (r, w') \<Longrightarrow> performs X (Write UpdateStatus (GameTypeObj g) (errOf r)) w w'"
| deleteServer: "apiDeleteServer (api X) x w = (d, w') \<Longrightarrow> performs X (Write Delete (ServerObj x) (errOf d)) w w'"
| deletePod: "apiDeletePod (api X) p w = (d, w') \<Longrightarrow> performs X (Write Delete (PodObj p) (errOf d)) w w'"
| deleteFleet: "apiDeleteFleet (api X) f w = (d, w') \<Longrightarrow> performs X (Write Delete (FleetObj f) (errOf d)) w w'"
| httpCall: "httpDo X q w = (a, w') \<Longrightarrow> performs X (Http q a) w w'"
| readClock: "timeNow X w = (n, w') \<Longrightarrow> performs X (Clock n) w w'"
| eventCall: "performs X (Event kd n ty why msg) w w"

inductive replay :: "'w ext \<Rightarrow> effect list \<Rightarrow> 'w \<Rightarrow> 'w \<Rightarrow> bool" for X :: "'w ext" where
  stop: "replay X [] w w"
| onward: "performs X e w w1 \<Longrightarrow> replay X t w1 w2 \<Longrightarrow> replay X (e # t) w w2"

lemma replay_append: "replay X t w w1 \<Longrightarrow> replay X u w1 w2 \<Longrightarrow> replay X (t @ u) w w2"
  by (induction rule: replay.induct) (auto intro: replay.intros)

lemma replay_one: "performs X e w w1 \<Longrightarrow> replay X [e] w w1"
  by (blast intro: replay.intros)

text \<open>Replays can be cut where their traces can.\<close>

lemma replay_split: "replay X (t @ u) w w2 \<Longrightarrow> \<exists>w1. replay X t w w1 \<and> replay X u w1 w2"
proof (induction t arbitrary: w)
  case Nil
  then show ?case by (auto intro: replay.stop)
next
  case (Cons e t)
  from Cons.prems obtain w' where "performs X e w w'" "replay X (t @ u) w' w2" by (auto elim: replay.cases)
  with Cons.IH show ?case by (blast intro: replay.onward)
qed

lemma replay_first: "replay X (e # t) w w2 \<Longrightarrow> \<exists>w1. performs X e w w1 \<and> replay X t w1 w2"
  by (auto elim: replay.cases)

section \<open>Computations that only do what they trace\<close>

named_theorems traced_intros \<open>computations that only do what they trace\<close>

text \<open>\<open>A\<close> bounds the effects that may occur.\<close>

definition traced :: "'w ext \<Rightarrow> (effect \<Rightarrow> bool) \<Rightarrow> ('w op, 'a) state \<Rightarrow> bool" where
  "traced X A m \<longleftrightarrow> (\<forall>s r s'. run_state m s = (r, s') \<longrightarrow>
     (\<exists>t. trace s' = trace s @ t \<and> replay X t (world s) (world s') \<and> (\<forall>e \<in> set t. A e)))"

lemma traced_weaken: "traced X A m \<Longrightarrow> (\<And>e. A e \<Longrightarrow> B e) \<Longrightarrow> traced X B m"
  unfolding traced_def by blast

lemma traced_return [traced_intros]: "traced X A (ret x)"
  by (auto simp: traced_def intro: replay.stop)

lemma traced_bind [traced_intros]:
  assumes "traced X A m" and "\<And>x. traced X A (f x)"
  shows "traced X A (State_Monad.bind m f)"
  unfolding traced_def
proof (intro allI impI)
  fix s r s'
  assume run: "run_state (State_Monad.bind m f) s = (r, s')"
  obtain x u where m: "run_state m s = (x, u)" by fastforce
  from assms(1) m obtain t1 where 1: "trace u = trace s @ t1" "replay X t1 (world s) (world u)" "\<forall>e \<in> set t1. A e"
    unfolding traced_def by blast
  from run m have "run_state (f x) u = (r, s')" by simp
  with assms(2) [of x] obtain t2 where 2: "trace s' = trace u @ t2" "replay X t2 (world u) (world s')" "\<forall>e \<in> set t2. A e"
    unfolding traced_def by blast
  from replay_append [OF 1(2) 2(2)] 1 2
  show "\<exists>t. trace s' = trace s @ t \<and> replay X t (world s) (world s') \<and> (\<forall>e \<in> set t. A e)"
    by (intro exI [of _ "t1 @ t2"]) auto
qed

lemma traced_call:
  assumes "\<And>w r w'. f w = (r, w') \<Longrightarrow> performs X (mk r) w w'" and "\<And>r. A (mk r)"
  shows "traced X A (call mk f)"
  unfolding traced_def using assms by (auto simp: run_simps split: prod.splits intro!: replay_one)

lemma traced_emitEvent [traced_intros]: "(\<And>n. A (Event k n ty why msg)) \<Longrightarrow> traced X A (emitEvent k m ty why msg)"
  by (auto simp: traced_def run_simps intro!: replay_one performs.eventCall)

lemma traced_andThen [traced_intros]:
  "traced X A m \<Longrightarrow> (\<And>v. traced X A (f v)) \<Longrightarrow> traced X A (andThen m f)"
  unfolding andThen_def by (rule traced_bind) (auto split: outcome.split intro: traced_return)

lemma traced_cases [traced_intros]:
  "(b \<Longrightarrow> traced X A m) \<Longrightarrow> (\<not> b \<Longrightarrow> traced X A n) \<Longrightarrow> traced X A (if b then m else n)"
  "(\<And>e. traced X A (fl e)) \<Longrightarrow> (\<And>v. traced X A (fr v)) \<Longrightarrow> traced X A (case y of Inl e \<Rightarrow> fl e | Inr v \<Rightarrow> fr v)"
  "traced X A m \<Longrightarrow> (\<And>v. traced X A (fs v)) \<Longrightarrow> traced X A (case z of None \<Rightarrow> m | Some v \<Rightarrow> fs v)"
  "(\<And>v. traced X A (fv v)) \<Longrightarrow> traced X A m \<Longrightarrow> traced X A (case u of Ret v \<Rightarrow> fv v | Panic \<Rightarrow> m)"
  "traced X A m \<Longrightarrow> (\<And>a as. traced X A (fc a as)) \<Longrightarrow> traced X A (case l of [] \<Rightarrow> m | a # as \<Rightarrow> fc a as)"
  "(\<And>a b. traced X A (fp a b)) \<Longrightarrow> traced X A (case q of (a, b) \<Rightarrow> fp a b)"
  by (auto split: sum.split option.split outcome.split list.split prod.split)

lemma traced_Let [traced_intros]: "traced X A (f x) \<Longrightarrow> traced X A (let y = x in f y)"
  by simp

lemma traced_finish [traced_intros]: "traced X A (finish r)" "traced X A (fail r e)"
  by (simp_all add: finish_def fail_def traced_return)

text \<open>The calls of the client.\<close>

lemma traced_reads [traced_intros]:
  "(\<And>r. A (ReadServer k r)) \<Longrightarrow> traced X A (GetServer X k)"
  "(\<And>r. A (ReadPod k r)) \<Longrightarrow> traced X A (GetPod X k)"
  "(\<And>r. A (ReadFleet k r)) \<Longrightarrow> traced X A (GetFleet X k)"
  "(\<And>r. A (ReadGameType k r)) \<Longrightarrow> traced X A (GetGameType X k)"
  "(\<And>r. A (ReadAutoscaler k r)) \<Longrightarrow> traced X A (GetAutoscaler X k)"
  "(\<And>r. A (ListedServers ns sel r)) \<Longrightarrow> traced X A (ListServers X ns sel)"
  "(\<And>r. A (ListedFleets ns sel r)) \<Longrightarrow> traced X A (ListFleets X ns sel)"
  "(\<And>r. A (Http q r)) \<Longrightarrow> traced X A (HttpDo X q)"
  "(\<And>n. A (Clock n)) \<Longrightarrow> traced X A (Now X)"
  by (rule traced_call; blast intro: performs.intros)+

lemma traced_writes [traced_intros]:
  "(\<And>err. A (Write Create (ServerObj x) err)) \<Longrightarrow> traced X A (CreateServer X x)"
  "(\<And>err. A (Write Create (PodObj p) err)) \<Longrightarrow> traced X A (CreatePod X p)"
  "(\<And>err. A (Write Create (FleetObj f) err)) \<Longrightarrow> traced X A (CreateFleet X f)"
  "(\<And>err. A (Write Update (ServerObj x) err)) \<Longrightarrow> traced X A (UpdateServer X x)"
  "(\<And>err. A (Write Update (PodObj p) err)) \<Longrightarrow> traced X A (UpdatePod X p)"
  "(\<And>err. A (Write Update (FleetObj f) err)) \<Longrightarrow> traced X A (UpdateFleet X f)"
  "(\<And>err. A (Write Update (GameTypeObj g) err)) \<Longrightarrow> traced X A (UpdateGameType X g)"
  "(\<And>err. A (Write UpdateStatus (ServerObj x) err)) \<Longrightarrow> traced X A (StatusServer X x)"
  "(\<And>err. A (Write UpdateStatus (FleetObj f) err)) \<Longrightarrow> traced X A (StatusFleet X f)"
  "(\<And>err. A (Write UpdateStatus (GameTypeObj g) err)) \<Longrightarrow> traced X A (StatusGameType X g)"
  "(\<And>err. A (Write Delete (ServerObj x) err)) \<Longrightarrow> traced X A (DeleteServer X x)"
  "(\<And>err. A (Write Delete (PodObj p) err)) \<Longrightarrow> traced X A (DeletePod X p)"
  "(\<And>err. A (Write Delete (FleetObj f) err)) \<Longrightarrow> traced X A (DeleteFleet X f)"
  by (rule traced_call; blast intro: performs.intros)+

section \<open>The reconcilers\<close>

fun touchesPod :: "effect \<Rightarrow> bool" where
  "touchesPod (Write _ (PodObj _) _) = True"
| "touchesPod _ = False"

fun updatesServer :: "effect \<Rightarrow> bool" where
  "updatesServer (Write Update (ServerObj _) _) = True"
| "updatesServer _ = False"

lemmas sidecar_client_defs = IsDeletionAllowed_def askSidecar_def RequestShutdown_def requestIsDeleteAllowed_def

lemma traced_IsDeletionAllowed [traced_intros]:
  "(\<And>q r. A (Http q r)) \<Longrightarrow> (\<And>n. A (Clock n)) \<Longrightarrow> traced X A (IsDeletionAllowed X s p)"
  unfolding sidecar_client_defs by (intro traced_intros)

lemma traced_server_Reconcile: "traced X (\<lambda>_. True) (server_Reconcile (prodServerReconciler X) req)"
  unfolding server_Reconcile_def server_initialize_def server_finalize_def server_run_def server_handleDeletion_def
    releasePod_def deletePodOf_def ensurePodExists_def ensurePodFinalizer_def setCondition_def prodServerReconciler_def
    serverReconciler.select_convs
  by (intro traced_intros TrueI)

text \<open>The other three reconcilers write no pods and update no servers.\<close>

lemma traced_isDeleteAllowed [traced_intros]:
  "(\<And>k r. A (ReadPod k r)) \<Longrightarrow> (\<And>q r. A (Http q r)) \<Longrightarrow> traced X A (isDeleteAllowed X s)"
  unfolding isDeleteAllowed_def requestIsDeleteAllowed_def by (intro traced_intros)

lemma traced_loops:
  assumes "\<And>s. traced X A (check s)"
  shows "traced X A (oldestLoop check b ss p)" "traced X A (newestLoop check b ss p)"
  by (induction ss arbitrary: p) (auto simp: Let_def intro!: traced_intros assms)

lemma traced_FindDeleteServer [traced_intros]:
  "(\<And>s. traced X A (check s)) \<Longrightarrow> traced X A (FindDeleteServer check f ss)"
  unfolding FindDeleteServer_def getOldestServer_def getNewestServer_def
  by (intro traced_intros traced_loops)

lemma traced_createServers [traced_intros]:
  "(\<And>x err. A (Write Create (ServerObj x) err)) \<Longrightarrow> (\<And>n msg. A (Event KFleet n Warning ''FleetScaleServers'' msg)) \<Longrightarrow>
   traced X A (createServers X ns n f)"
proof (induction n arbitrary: f)
  case 0
  show ?case unfolding createServers.simps by (rule traced_return)
next
  case (Suc n)
  show ?case unfolding createServers.simps by (intro traced_intros Suc)
qed

lemma traced_deleteServers [traced_intros]:
  "(\<And>x err. A (Write Delete (ServerObj x) err)) \<Longrightarrow> traced X A (deleteServers X ss)"
  by (induction ss) (auto intro!: traced_intros)

lemma traced_fleet_Reconcile: "traced X (\<lambda>e. \<not> touchesPod e \<and> \<not> updatesServer e) (fleet_Reconcile (prodFleetReconciler X) req)"
  unfolding fleet_Reconcile_def fleet_initialize_def fleet_handleDeletion_def fleet_scale_def fleet_saveStatus_def
    scaleServerCount_def scaleUp_def scaleDown_def getServers_def prodFleetReconciler_def fleetReconciler.select_convs
  by (intro traced_intros; simp)

lemma traced_deleteFleets [traced_intros]:
  "(\<And>f err. A (Write Delete (FleetObj f) err)) \<Longrightarrow> (\<And>n msg. A (Event KGameType n Normal ''GameTypeDeleting'' msg)) \<Longrightarrow>
   (\<And>n msg. A (Event KGameType n Warning ''GametypeServersDeleted'' msg)) \<Longrightarrow>
   traced X A (deleteFleets X g fs)"
  by (induction fs) (auto intro!: traced_intros)

lemma traced_gametype_Reconcile:
  "traced X (\<lambda>e. \<not> touchesPod e \<and> \<not> updatesServer e) (gametype_Reconcile X req)"
  unfolding gametype_Reconcile_def gametype_initialize_def gametype_finalize_def gametype_run_def
    gametype_handleDeletion_def handleGametypeStatus_def updateReplicaCount_def handleUpdating_def createInitialFleet_def
    updateSingleFleet_def propagateReplicas_def retireOldestFleet_def handleCreation_def GetFleetsForType_def
  by (intro traced_intros; simp)

fun autoscalerCall :: "effect \<Rightarrow> bool" where
  "autoscalerCall (Write Update (GameTypeObj _) _) = True"
| "autoscalerCall (Write _ _ _) = False"
| "autoscalerCall (Event k _ ty why _) \<longleftrightarrow> k = KAutoscaler \<and> (ty = Normal \<or> ty = Warning) \<and>
     why \<in> set [''GameAutoscalerInvalidServer'', ''GameautoscalerInvalidAutoscalePolicy'', ''GameautoscalerInvalidSyncType'',
       ''GameautoscalerWebhook'', ''GameautoscalerScale'']"
| "autoscalerCall _ = True"

lemma traced_autoscaler_calls:
  assumes "R = mainAutoscalerReconciler X \<or> R = wiredAutoscalerReconciler X"
  shows "traced X autoscalerCall (autoscaler_Reconcile R req)"
proof -
  have ext: "ar_ext R = X" using assms by (auto simp: mainAutoscalerReconciler_def wiredAutoscalerReconciler_def)
  have scale: "traced X autoscalerCall (applyScale R a g x)" for a g x
    unfolding applyScale_def requeueAfterSync_def emitVia_def ext by (intro traced_intros; simp)
  have send: "traced X autoscalerCall (SendScaleWebhookRequest X a g)" for a g
    unfolding SendScaleWebhookRequest_def by (intro traced_intros; simp)
  have call: "traced X autoscalerCall (callWebhook R a g)" for a g
  proof (cases "webhook R")
    case None
    then show ?thesis unfolding callWebhook_def by (simp add: traced_return)
  next
    case (Some f)
    then have w: "webhook R = Some (SendScaleWebhookRequest X)"
      using assms by (auto simp: mainAutoscalerReconciler_def wiredAutoscalerReconciler_def)
    show ?thesis
      unfolding callWebhook_def w option.case emitVia_def by (intro traced_intros scale send; simp)
  qed
  show ?thesis
    unfolding autoscaler_Reconcile_def emitVia_def ext by (intro traced_intros call; simp)
qed

lemma traced_autoscaler_Reconcile:
  "R = mainAutoscalerReconciler X \<or> R = wiredAutoscalerReconciler X \<Longrightarrow>
   traced X (\<lambda>e. \<not> touchesPod e \<and> \<not> updatesServer e) (autoscaler_Reconcile R req)"
  by (rule traced_weaken [OF traced_autoscaler_calls]) (auto elim!: autoscalerCall.elims)

end
