(* ===== verification/System.thy ===== *)
theory System
  imports Replay
begin

text \<open>
  The four reconcilers together. A history is any sequence of reconciles, of any objects in any
  order, with arbitrary steps of the environment between them: users, the scheduler and the
  kubelet, game servers that post to their sidecars. What a single reconcile guarantees is
  lifted to histories: a pod or a server that the operator holds stays until the operator has
  the right to let it go.
\<close>

section \<open>Histories\<close>

inductive history :: "'w ext \<Rightarrow> ('w \<Rightarrow> 'w \<Rightarrow> bool) \<Rightarrow> 'w \<Rightarrow> effect list \<Rightarrow> 'w \<Rightarrow> bool"
  for X :: "'w ext" and env :: "'w \<Rightarrow> 'w \<Rightarrow> bool" and w0 :: 'w where
  start: "history X env w0 [] w0"
| serverStep: "history X env w0 t w \<Longrightarrow>
    run_state (server_Reconcile (prodServerReconciler X) req) \<lparr>world = w, trace = t\<rparr> = (r, s) \<Longrightarrow>
    history X env w0 (trace s) (world s)"
| fleetStep: "history X env w0 t w \<Longrightarrow>
    run_state (fleet_Reconcile (prodFleetReconciler X) req) \<lparr>world = w, trace = t\<rparr> = (r, s) \<Longrightarrow>
    history X env w0 (trace s) (world s)"
| gametypeStep: "history X env w0 t w \<Longrightarrow>
    run_state (gametype_Reconcile X req) \<lparr>world = w, trace = t\<rparr> = (r, s) \<Longrightarrow>
    history X env w0 (trace s) (world s)"
| autoscalerStep: "history X env w0 t w \<Longrightarrow>
    R = mainAutoscalerReconciler X \<or> R = wiredAutoscalerReconciler X \<Longrightarrow>
    run_state (autoscaler_Reconcile R req) \<lparr>world = w, trace = t\<rparr> = (r, s) \<Longrightarrow>
    history X env w0 (trace s) (world s)"
| envStep: "history X env w0 t w \<Longrightarrow> env w w1 \<Longrightarrow> history X env w0 t w1"

section \<open>Letting go\<close>

text \<open>The successful updates that take the operator's finalizer off the object stored under \<open>k\<close>.\<close>

fun letsPod :: "nsname \<Rightarrow> effect \<Rightarrow> bool" where
  "letsPod k (Write Update (PodObj q) None) \<longleftrightarrow>
     nsOf (pod_meta q) = k \<and> SERVER_FINALIZER \<notin> set (Finalizers (pod_meta q))"
| "letsPod k _ \<longleftrightarrow> False"

fun letsServer :: "nsname \<Rightarrow> effect \<Rightarrow> bool" where
  "letsServer k (Write Update (ServerObj q) None) \<longleftrightarrow>
     nsOf (server_meta q) = k \<and> SERVER_FINALIZER \<notin> set (Finalizers (server_meta q))"
| "letsServer k _ \<longleftrightarrow> False"

lemma lets_releases: "letsPod k e \<Longrightarrow> releasesPod e" "letsServer k e \<Longrightarrow> releasesServer e"
  by (cases "(k, e)" rule: letsPod.cases; simp) (cases "(k, e)" rule: letsServer.cases; simp)

lemma lets_touches: "letsPod k e \<Longrightarrow> touchesPod e" "letsServer k e \<Longrightarrow> updatesServer e"
  by (cases "(k, e)" rule: letsPod.cases; simp) (cases "(k, e)" rule: letsServer.cases; simp)

lemma probe_lets_not: "isProbe e \<Longrightarrow> \<not> letsPod k e \<and> \<not> letsServer k e"
  using lets_releases prod.probe_no_release by blast

lemma onlyAfter_first:
  assumes "onlyAfter a ok [] t" and "e \<in> set t" and "a e"
  shows "\<exists>t1 e t2. t = t1 @ e # t2 \<and> a e \<and> ok t1"
proof -
  from assms(2) obtain t1 t2 where t: "t = t1 @ e # t2" by (auto dest!: split_list)
  with assms(1,3) have "ok t1" by (simp add: onlyAfter_iff)
  with t assms(3) show ?thesis by blast
qed

section \<open>What is let go was read under its key\<close>

lemma nsOf_Remove:
  assumes "finalizer_laws L"
  shows "nsOf (RemoveFinalizer L m f) = nsOf m"
proof -
  from assms obtain fs where "RemoveFinalizer L m f = m\<lparr>Finalizers := fs\<rparr>" unfolding finalizer_laws_def by blast
  then show ?thesis by (simp add: nsOf_def)
qed

definition podRead :: "nsname \<Rightarrow> server \<Rightarrow> effect list \<Rightarrow> bool" where
  "podRead k s pre \<longleftrightarrow> (\<exists>p. ReadPod (podKey s) (Inr p) \<in> set pre \<and> nsOf (pod_meta p) = k)"

lemma deletePodOf_lets: "gives (deletePodOf X s p) (\<lambda>r t. \<forall>e \<in> set t. \<not> letsPod k e \<and> \<not> letsServer k e)"
  unfolding deletePodOf_def by (intro gives_intros gives_bind [OF gives_setCondition]) auto

lemma handleDeletion_lets:
  assumes L: "finalizer_laws (lib X)"
  shows "gives (server_handleDeletion (prodServerReconciler X) s) (\<lambda>r t.
     onlyAfter (letsPod k) (podRead k s) [] t \<and> (\<forall>e \<in> set t. \<not> letsServer k e) \<and>
     (\<forall>err s1. r = Ret (err, s1) \<longrightarrow> server_meta s1 = server_meta s))"
  unfolding server_handleDeletion_def releasePod_def prodServerReconciler_def serverReconciler.select_convs
  by (intro gives_intros gives_andThen [OF gives_IsDeletionAllowed]
      gives_weaken [OF gives_conj [OF gives_deletePodOf deletePodOf_lets [of _ _ _ k]]])
    (auto simp: probe_lets_not podRead_def nsOf_Remove [OF L] onlyAfter_none)

text \<open>The key of the server or of the pod a reconcile lets go of.\<close>

definition readAs :: "nsname \<Rightarrow> nsname \<Rightarrow> effect list \<Rightarrow> bool" where
  "readAs k req pre \<longleftrightarrow> (\<exists>s. ReadServer req (Inr s) \<in> set pre \<and> podRead k s pre)"

definition serverReadAs :: "nsname \<Rightarrow> nsname \<Rightarrow> effect list \<Rightarrow> bool" where
  "serverReadAs k req pre \<longleftrightarrow> (\<exists>s. ReadServer req (Inr s) \<in> set pre \<and> nsOf (server_meta s) = k)"

lemma readAs_onwards:
  assumes "onlyAfter (letsPod k) (podRead k s) [] t"
  shows "onlyAfter (letsPod k) (readAs k req) [ReadServer req (Inr s)] t"
proof (rule onlyAfter_weaken [OF assms])
  fix u v
  assume "podRead k s u" "set u \<subseteq> set v" "set [ReadServer req (Inr s)] \<subseteq> set v"
  then show "readAs k req v" unfolding readAs_def podRead_def by (intro exI [of _ s]) auto
qed simp

lemma server_Reconcile_lets:
  assumes L: "finalizer_laws (lib X)"
  shows "gives (server_Reconcile (prodServerReconciler X) req) (\<lambda>r t.
     onlyAfter (letsPod k) (readAs k req) [] t \<and> onlyAfter (letsServer k) (serverReadAs k req) [] t)"
proof -
  have X: "sr_ext (prodServerReconciler X) = X" by (simp add: prodServerReconciler_def)
  have add: "SERVER_FINALIZER \<in> set (Finalizers (AddFinalizer (lib X) m SERVER_FINALIZER))" for m
    by (rule addFinalizer_in [OF L])
  have run: "gives (server_run X s) (\<lambda>r t. \<forall>e \<in> set t. \<not> letsPod k e \<and> \<not> letsServer k e)"
    if "SERVER_FINALIZER \<in> set (Finalizers (server_meta s))" for s
    by (rule gives_weaken [OF gives_server_run [OF L that]]) (auto simp: keepsHold_def dest: lets_releases)
  have finalize: "gives (server_finalize (prodServerReconciler X) s) (\<lambda>r t.
      onlyAfter (letsPod k) (readAs k req) [ReadServer req (Inr s)] t \<and>
      onlyAfter (letsServer k) (serverReadAs k req) [ReadServer req (Inr s)] t)" for s
    unfolding server_finalize_def X
    by (intro gives_intros gives_andThen [OF handleDeletion_lets [OF L, of _ k]])
      (auto simp: serverReadAs_def nsOf_Remove [OF L] onlyAfter_none readAs_onwards)
  show ?thesis
    unfolding server_Reconcile_def server_initialize_def X
    by (intro gives_intros gives_weaken [OF finalize] gives_weaken [OF run])
      (auto simp: add onlyAfter_none Finalizers_has [OF L])
qed

text \<open>
  The right to let go of the pod with key \<open>k\<close>: a server whose pod it is was read, by its own
  name, as being deleted, the pod was read, and there were grounds for the deletion. The right
  to let go of a server: it was read as being deleted and its pod was deleted.
\<close>

definition podRight :: "nsname \<Rightarrow> effect list \<Rightarrow> bool" where
  "podRight k pre \<longleftrightarrow> (\<exists>s p. podKey s = k \<and> ReadServer (nsOf (server_meta s)) (Inr s) \<in> set pre \<and>
     DeletionTimestamp (server_meta s) \<noteq> None \<and> ReadPod k (Inr p) \<in> set pre \<and> deletionApproved s p pre)"

definition serverRight :: "nsname \<Rightarrow> effect list \<Rightarrow> bool" where
  "serverRight k pre \<longleftrightarrow> (\<exists>s p. nsOf (server_meta s) = k \<and> ReadServer k (Inr s) \<in> set pre \<and>
     DeletionTimestamp (server_meta s) \<noteq> None \<and> ReadPod (podKey s) (Inr p) \<in> set pre \<and>
     nsOf (pod_meta p) = podKey s \<and> Write Delete (PodObj p) None \<in> set pre)"

lemma rights_mono: "podRight k u \<Longrightarrow> set u \<subseteq> set v \<Longrightarrow> podRight k v"
  "serverRight k u \<Longrightarrow> set u \<subseteq> set v \<Longrightarrow> serverRight k v"
  unfolding podRight_def serverRight_def by (blast intro: deletionApproved_mono)+

lemma podKey_nsOf: "nsOf (server_meta s) = nsOf (server_meta s') \<Longrightarrow> podKey s = podKey s'"
  by (simp add: podKey_def podName_def nsOf_def)

section \<open>The contract of the API server\<close>

text \<open>
  What the operator relies on. \<open>ok\<close> are the states an API server can be in; reading an object
  gives one with the name that was asked for. \<open>podHeld k\<close> says that the pod with key \<open>k\<close> is
  stored with the operator's finalizer: it stays so unless a successful update takes the
  finalizer off, since deleting an object that has finalizers only marks it. The same for
  servers.
\<close>

locale api_contract =
  fixes X :: "'w ext" and ok :: "'w \<Rightarrow> bool"
    and podHeld serverHeld :: "nsname \<Rightarrow> 'w \<Rightarrow> bool"
  assumes laws: "finalizer_laws (lib X)"
    and ok_step: "performs X e w w' \<Longrightarrow> ok w \<Longrightarrow> ok w'"
    and serverNamed: "performs X (ReadServer k (Inr s)) w w' \<Longrightarrow> ok w \<Longrightarrow> nsOf (server_meta s) = k"
    and podNamed: "performs X (ReadPod k (Inr p)) w w' \<Longrightarrow> ok w \<Longrightarrow> nsOf (pod_meta p) = k"
    and podStays: "performs X e w w' \<Longrightarrow> ok w \<Longrightarrow> podHeld k w \<Longrightarrow> \<not> letsPod k e \<Longrightarrow> podHeld k w'"
    and serverStays: "performs X e w w' \<Longrightarrow> ok w \<Longrightarrow> serverHeld k w \<Longrightarrow> \<not> letsServer k e \<Longrightarrow> serverHeld k w'"
begin

text \<open>Along the calls of a trace.\<close>

lemma replay_ok: "replay X t w w' \<Longrightarrow> ok w \<Longrightarrow> ok w'"
  by (induction rule: replay.induct) (auto intro: ok_step)

lemma replay_podStays:
  "replay X t w w' \<Longrightarrow> ok w \<Longrightarrow> podHeld k w \<Longrightarrow> podHeld k w' \<or> (\<exists>e \<in> set t. letsPod k e)"
  by (induction rule: replay.induct) (auto intro: ok_step podStays)

lemma replay_serverStays:
  "replay X t w w' \<Longrightarrow> ok w \<Longrightarrow> serverHeld k w \<Longrightarrow> serverHeld k w' \<or> (\<exists>e \<in> set t. letsServer k e)"
  by (induction rule: replay.induct) (auto intro: ok_step serverStays)

lemma replay_named:
  "replay X t w w' \<Longrightarrow> ok w \<Longrightarrow> ReadServer k (Inr s) \<in> set t \<Longrightarrow> nsOf (server_meta s) = k"
  "replay X t w w' \<Longrightarrow> ok w \<Longrightarrow> ReadPod k (Inr p) \<in> set t \<Longrightarrow> nsOf (pod_meta p) = k"
  by (induction rule: replay.induct) (auto intro: ok_step dest: serverNamed podNamed)

lemma server_reconcile_rights:
  assumes run: "run_state (server_Reconcile (prodServerReconciler X) req) s0 = (r, s1)" and ok: "ok (world s0)"
  shows "\<exists>t. trace s1 = trace s0 @ t \<and> replay X t (world s0) (world s1) \<and>
     onlyAfter (letsPod k) (podRight k) [] t \<and> onlyAfter (letsServer k) (serverRight k) [] t"
proof -
  from traced_server_Reconcile run obtain t where t: "trace s1 = trace s0 @ t" "replay X t (world s0) (world s1)"
    unfolding traced_def by blast
  note named = replay_named [OF t(2) ok]
  from gives_run [OF gives_conj [OF gives_prod_reconcile [OF laws] server_Reconcile_lets [OF laws, of req k]] run] t(1)
  have pods: "t = t1 @ e # t2 \<Longrightarrow> releasesPod e \<Longrightarrow> \<exists>s. ReadServer req (Inr s) \<in> set t1 \<and>
      DeletionTimestamp (server_meta s) \<noteq> None \<and> grounded deletionApproved s t1"
    and servers: "t = t1 @ e # t2 \<Longrightarrow> releasesServer e \<Longrightarrow> \<exists>s. ReadServer req (Inr s) \<in> set t1 \<and>
      DeletionTimestamp (server_meta s) \<noteq> None \<and> podGone s t1"
    and podAs: "t = t1 @ e # t2 \<Longrightarrow> letsPod k e \<Longrightarrow> readAs k req t1"
    and serverAs: "t = t1 @ e # t2 \<Longrightarrow> letsServer k e \<Longrightarrow> serverReadAs k req t1" for t1 e t2
    by (auto simp: onlyAfter_iff)
  have "podRight k t1" if e: "t = t1 @ e # t2" "letsPod k e" for t1 e t2
  proof -
    from pods [OF e(1) lets_releases(1) [OF e(2)]] obtain s p where s: "ReadServer req (Inr s) \<in> set t1"
      "DeletionTimestamp (server_meta s) \<noteq> None" "ReadPod (podKey s) (Inr p) \<in> set t1" "deletionApproved s p t1"
      unfolding grounded_def by blast
    from podAs [OF e] obtain s' p' where s': "ReadServer req (Inr s') \<in> set t1" "ReadPod (podKey s') (Inr p') \<in> set t1"
      "nsOf (pod_meta p') = k"
      unfolding readAs_def podRead_def by blast
    have inT: "x \<in> set t1 \<Longrightarrow> x \<in> set t" for x using e(1) by simp
    have "nsOf (server_meta s) = req" "nsOf (server_meta s') = req" "nsOf (pod_meta p') = podKey s'"
      by (rule named(1) [OF inT [OF s(1)]], rule named(1) [OF inT [OF s'(1)]], rule named(2) [OF inT [OF s'(2)]])
    with s s' podKey_nsOf [of s s'] show ?thesis unfolding podRight_def by metis
  qed
  moreover have "serverRight k t1" if e: "t = t1 @ e # t2" "letsServer k e" for t1 e t2
  proof -
    from servers [OF e(1) lets_releases(2) [OF e(2)]] obtain s p where s: "ReadServer req (Inr s) \<in> set t1"
      "DeletionTimestamp (server_meta s) \<noteq> None" "ReadPod (podKey s) (Inr p) \<in> set t1" "Write Delete (PodObj p) None \<in> set t1"
      unfolding podGone_def by blast
    from serverAs [OF e] obtain s' where s': "ReadServer req (Inr s') \<in> set t1" "nsOf (server_meta s') = k"
      unfolding serverReadAs_def by blast
    have inT: "x \<in> set t1 \<Longrightarrow> x \<in> set t" for x using e(1) by simp
    have "nsOf (server_meta s) = req" "nsOf (server_meta s') = req" "nsOf (pod_meta p) = podKey s"
      by (rule named(1) [OF inT [OF s(1)]], rule named(1) [OF inT [OF s'(1)]], rule named(2) [OF inT [OF s(3)]])
    with s s' show ?thesis unfolding serverRight_def by metis
  qed
  ultimately show ?thesis using t by (auto simp: onlyAfter_iff)
qed

text \<open>What one reconcile, of whichever controller, does for the two keys.\<close>

definition kept :: "nsname \<Rightarrow> nsname \<Rightarrow> effect list \<Rightarrow> 'w \<Rightarrow> 'w \<Rightarrow> bool" where
  "kept k l t w w' \<longleftrightarrow> replay X t w w' \<and> onlyAfter (letsPod k) (podRight k) [] t \<and>
     onlyAfter (letsServer l) (serverRight l) [] t"

lemma server_kept:
  assumes "run_state (server_Reconcile (prodServerReconciler X) req) s0 = (r, s1)" and "ok (world s0)"
  shows "\<exists>t. trace s1 = trace s0 @ t \<and> kept k l t (world s0) (world s1)"
proof -
  from server_reconcile_rights [OF assms, of k] obtain t where t: "trace s1 = trace s0 @ t"
    "replay X t (world s0) (world s1)" "onlyAfter (letsPod k) (podRight k) [] t" by blast
  from server_reconcile_rights [OF assms, of l] t(1) have "onlyAfter (letsServer l) (serverRight l) [] t" by auto
  with t show ?thesis unfolding kept_def by blast
qed

lemma other_kept:
  assumes "traced X (\<lambda>e. \<not> touchesPod e \<and> \<not> updatesServer e) m" and "run_state m s0 = (r, s1)"
  shows "\<exists>t. trace s1 = trace s0 @ t \<and> kept k l t (world s0) (world s1)"
proof -
  from assms obtain t where "trace s1 = trace s0 @ t" "replay X t (world s0) (world s1)"
    "\<forall>e \<in> set t. \<not> touchesPod e \<and> \<not> updatesServer e"
    unfolding traced_def by blast
  then show ?thesis unfolding kept_def by (intro exI [of _ t]) (auto intro!: onlyAfter_none dest: lets_touches)
qed

text \<open>The invariant of histories, and that each step keeps it.\<close>

definition safeSoFar :: "nsname \<Rightarrow> nsname \<Rightarrow> 'w \<Rightarrow> effect list \<Rightarrow> 'w \<Rightarrow> bool" where
  "safeSoFar k l w0 t w \<longleftrightarrow> ok w \<and>
     onlyAfter (letsPod k) (podRight k) [] t \<and> onlyAfter (letsServer l) (serverRight l) [] t \<and>
     (podHeld k w0 \<longrightarrow> podHeld k w \<or> (\<exists>e \<in> set t. letsPod k e)) \<and>
     (serverHeld l w0 \<longrightarrow> serverHeld l w \<or> (\<exists>e \<in> set t. letsServer l e))"

lemma safe_onwards:
  assumes "safeSoFar k l w0 t w" and "kept k l u w w'"
  shows "safeSoFar k l w0 (t @ u) w'"
proof -
  have "onlyAfter (letsPod k) (podRight k) t u" "onlyAfter (letsServer l) (serverRight l) t u"
    using assms(2) unfolding kept_def by (auto elim!: onlyAfter_weaken intro: rights_mono)
  moreover have "ok w'" "podHeld k w \<Longrightarrow> podHeld k w' \<or> (\<exists>e \<in> set u. letsPod k e)"
    "serverHeld l w \<Longrightarrow> serverHeld l w' \<or> (\<exists>e \<in> set u. letsServer l e)"
    using assms unfolding kept_def safeSoFar_def
    by (blast intro: replay_ok dest: replay_podStays replay_serverStays)+
  ultimately show ?thesis using assms(1) unfolding safeSoFar_def by auto
qed

lemma history_safe:
  assumes "history X env w0 t w" and "ok w0"
    and env: "\<And>w w'. env w w' \<Longrightarrow> ok w \<Longrightarrow> ok w' \<and>
      (podHeld k w \<longrightarrow> podHeld k w') \<and> (serverHeld l w \<longrightarrow> serverHeld l w')"
  shows "safeSoFar k l w0 t w"
  using assms(1)
proof (induction rule: history.induct)
  case start
  then show ?case using assms(2) by (simp add: safeSoFar_def)
next
  case (serverStep t w req r s)
  from serverStep.IH have "ok w" by (simp add: safeSoFar_def)
  with server_kept [OF serverStep.hyps(2)] safe_onwards [OF serverStep.IH] show ?case by fastforce
next
  case (fleetStep t w req r s)
  with other_kept [OF traced_fleet_Reconcile fleetStep.hyps(2)] safe_onwards [OF fleetStep.IH] show ?case by fastforce
next
  case (gametypeStep t w req r s)
  with other_kept [OF traced_gametype_Reconcile gametypeStep.hyps(2)] safe_onwards [OF gametypeStep.IH] show ?case
    by fastforce
next
  case (autoscalerStep t w R req r s)
  with other_kept [OF traced_autoscaler_Reconcile [OF autoscalerStep.hyps(2)] autoscalerStep.hyps(3)]
    safe_onwards [OF autoscalerStep.IH] show ?case by fastforce
next
  case (envStep t w w1)
  from envStep.IH env [OF envStep.hyps(2)] show ?case unfolding safeSoFar_def by blast
qed

text \<open>The contract for the pods alone, and for the servers alone.\<close>

lemma podsOnly: "api_contract X ok podHeld (\<lambda>_ _. False)"
  by unfold_locales (blast intro: laws ok_step serverNamed podNamed podStays)+

lemma serversOnly: "api_contract X ok (\<lambda>_ _. False) serverHeld"
  by unfold_locales (blast intro: laws ok_step serverNamed podNamed serverStays)+

end

section \<open>The concrete API server keeps the contract\<close>

text \<open>Every object is stored under its own key; it is held while it has the operator's finalizer.\<close>

definition keyed :: "('a \<Rightarrow> objectMeta) \<Rightarrow> (nsname \<times> 'a) list \<Rightarrow> bool" where
  "keyed getM xs \<longleftrightarrow> (\<forall>(k, x) \<in> set xs. nsOf (getM x) = k)"

definition heldIn :: "('a \<Rightarrow> objectMeta) \<Rightarrow> nsname \<Rightarrow> (nsname \<times> 'a) list \<Rightarrow> bool" where
  "heldIn getM k xs \<longleftrightarrow> (\<exists>x. map_of xs k = Some x \<and> SERVER_FINALIZER \<in> set (Finalizers (getM x)))"

lemma keyed_lookup: "keyed getM xs \<Longrightarrow> lookupObj xs k = Inr x \<Longrightarrow> nsOf (getM x) = k"
  by (auto simp: keyed_def lookupObj_def split: option.splits dest!: map_of_SomeD)

lemma keyed_update: "keyed getM xs \<Longrightarrow> nsOf (getM x) = k \<Longrightarrow> keyed getM (AList.update k x xs)"
  by (induction xs) (auto simp: keyed_def split: if_splits)

lemma keyed_delete: "keyed getM xs \<Longrightarrow> keyed getM (AList.delete k xs)"
  by (induction xs) (auto simp: keyed_def)

lemmas store_ops = createObj_def writeObj_def commit_def deleteObj_def

text \<open>\<open>setM\<close> is the update of the metadata that \<open>getM\<close> reads.\<close>

locale stored_meta =
  fixes getM :: "'a \<Rightarrow> objectMeta" and setM :: "objectMeta \<Rightarrow> 'a \<Rightarrow> 'a"
  assumes get_set: "getM (setM m x) = m"
begin

lemma createObj_keyed: "createObj getM setM w x xs = (r, ys) \<Longrightarrow> keyed getM xs \<Longrightarrow> keyed getM ys"
  by (auto simp: createObj_def keyed_def get_set split: if_splits)

lemma writeObj_keyed: "writeObj getM setM merge x xs = (r, ys) \<Longrightarrow> keyed getM xs \<Longrightarrow> keyed getM ys"
  by (auto simp: writeObj_def commit_def get_set stamp_def nsOf_def keyed_update keyed_delete
      split: option.splits if_splits)

lemma deleteObj_keyed: "deleteObj getM setM w x xs = (r, ys) \<Longrightarrow> keyed getM xs \<Longrightarrow> keyed getM ys"
  by (auto simp: deleteObj_def get_set bump_def nsOf_def keyed_delete intro!: keyed_update
      split: option.splits if_splits dest!: map_of_SomeD) (auto simp: keyed_def nsOf_def)

lemma createObj_held: "createObj getM setM w x xs = (r, ys) \<Longrightarrow> heldIn getM k xs \<Longrightarrow> heldIn getM k ys"
  by (auto simp: createObj_def heldIn_def map_add_def split: if_splits)

lemma deleteObj_held: "deleteObj getM setM w x xs = (r, ys) \<Longrightarrow> heldIn getM k xs \<Longrightarrow> heldIn getM k ys"
  by (auto simp: deleteObj_def heldIn_def get_set bump_def delete_conv' update_conv'
      split: option.splits if_splits)

lemma writeObj_held:
  assumes "writeObj getM setM merge x xs = (r, ys)" and "heldIn getM k xs"
    and "\<And>old. errOf r = None \<Longrightarrow> nsOf (getM x) = k \<Longrightarrow> SERVER_FINALIZER \<in> set (Finalizers (getM old)) \<Longrightarrow>
       SERVER_FINALIZER \<in> set (Finalizers (getM (merge old x)))"
  shows "heldIn getM k ys"
proof -
  from assms(2) obtain old where old: "map_of xs k = Some old" "SERVER_FINALIZER \<in> set (Finalizers (getM old))"
    unfolding heldIn_def by blast
  have "Finalizers (getM (merge old x)) \<noteq> []" if "errOf r = None" "nsOf (getM x) = k"
    using assms(3) [OF that old(2)] by auto
  with assms old show ?thesis
    by (auto simp: writeObj_def commit_def heldIn_def get_set stamp_def delete_conv' update_conv'
        split: option.splits if_splits)
qed

end

interpretation servers: stored_meta server_meta setServerMeta by unfold_locales simp
interpretation pods: stored_meta pod_meta setPodMeta by unfold_locales simp

definition storeOk :: "store \<Rightarrow> bool" where
  "storeOk w \<longleftrightarrow> keyed server_meta (store_servers w) \<and> keyed pod_meta (store_pods w)"

definition storeHoldsPod :: "nsname \<Rightarrow> store \<Rightarrow> bool" where
  "storeHoldsPod k w \<longleftrightarrow> heldIn pod_meta k (store_pods w)"

definition storeHoldsServer :: "nsname \<Rightarrow> store \<Rightarrow> bool" where
  "storeHoldsServer k w \<longleftrightarrow> heldIn server_meta k (store_servers w)"

inductive_cases performs_serverRead: "performs X (ReadServer k (Inr s)) w w'"
inductive_cases performs_podRead: "performs X (ReadPod k (Inr p)) w w'"

lemma store_ok_step:
  assumes "performs storeExt e w w'" and "storeOk w"
  shows "storeOk w'"
  using assms
  by (induction rule: performs.induct)
    (auto simp: store_api store_ext storeOk_def storeHttp_def tick_def Let_def
      split: prod.splits option.splits
      dest: servers.createObj_keyed servers.writeObj_keyed servers.deleteObj_keyed
        pods.createObj_keyed pods.writeObj_keyed pods.deleteObj_keyed)

lemma store_podStays:
  assumes "performs storeExt e w w'" and "storeHoldsPod k w" and "\<not> letsPod k e"
  shows "storeHoldsPod k w'"
  using assms
proof (induction rule: performs.induct)
  case (updatePod p w r w')
  then show ?case by (auto simp: store_api storeHoldsPod_def split: prod.splits elim!: pods.writeObj_held)
qed (auto simp: store_api store_ext storeHoldsPod_def storeHttp_def tick_def Let_def
      split: prod.splits option.splits
      dest: pods.createObj_held pods.deleteObj_held)

lemma store_serverStays:
  assumes "performs storeExt e w w'" and "storeHoldsServer k w" and "\<not> letsServer k e"
  shows "storeHoldsServer k w'"
  using assms
proof (induction rule: performs.induct)
  case (updateServer x w r w')
  then show ?case by (auto simp: store_api storeHoldsServer_def split: prod.splits elim!: servers.writeObj_held)
next
  case (statusServer x w r w')
  then show ?case by (auto simp: store_api storeHoldsServer_def split: prod.splits elim!: servers.writeObj_held)
qed (auto simp: store_api store_ext storeHoldsServer_def storeHttp_def tick_def Let_def
      split: prod.splits option.splits
      dest: servers.createObj_held servers.deleteObj_held)

interpretation store: api_contract storeExt storeOk storeHoldsPod storeHoldsServer
proof
  show "finalizer_laws (lib storeExt)" by (rule store_laws)
  show "storeOk w'" if "performs storeExt e w w'" "storeOk w" for e w w'
    using that by (rule store_ok_step)
qed (auto intro: store_podStays store_serverStays
  elim!: performs_serverRead performs_podRead simp: store_api storeOk_def keyed_lookup)

section \<open>Held objects stay until the operator may let them go\<close>

text \<open>
  C1. Over any history of the operator a pod that carries its finalizer stays, with the
  finalizer, until the operator has read a server that owns the pod as being deleted, has read
  the pod, and has grounds for the deletion: whatever reconciles of servers, fleets, game types
  and autoscalers ran before, in whatever order, and whatever else happened in the cluster that
  does not itself take the finalizer away.
\<close>

theorem pod_held_until_approved:
  assumes contract: "api_contract X ok podHeld serverHeld"
    and run: "history X env w0 t w" and start: "ok w0"
    and env: "\<And>w w'. env w w' \<Longrightarrow> ok w \<Longrightarrow> ok w' \<and> (podHeld k w \<longrightarrow> podHeld k w')"
    and held: "podHeld k w0" and gone: "\<not> podHeld k w"
  shows "\<exists>t1 e t2. t = t1 @ e # t2 \<and> letsPod k e \<and> podRight k t1"
proof -
  note pods = api_contract.podsOnly [OF contract]
  have "api_contract.safeSoFar ok podHeld (\<lambda>_ _. False) k k w0 t w"
    by (rule api_contract.history_safe [OF pods run start]) (use env in blast)
  then show ?thesis
    unfolding api_contract.safeSoFar_def [OF pods] using held gone by (blast intro: onlyAfter_first)
qed

text \<open>Along with the sidecar's approval, the clock of the cluster may move on.\<close>

definition clockTicks :: "store \<Rightarrow> store \<Rightarrow> bool" where
  "clockTicks w w1 \<longleftrightarrow> w1 = w\<lparr>clock := clock w + 1\<rparr>"

lemma clockTicks_keeps:
  "clockTicks w w1 \<Longrightarrow> storeOk w \<Longrightarrow> storeOk w1 \<and> (storeHoldsPod k w \<longrightarrow> storeHoldsPod k w1)"
  "clockTicks w w1 \<Longrightarrow> storeOk w \<Longrightarrow> storeOk w1 \<and> (storeHoldsServer k w \<longrightarrow> storeHoldsServer k w1)"
  by (simp_all add: clockTicks_def storeOk_def storeHoldsPod_def storeHoldsServer_def)

text \<open>The reconcile of the server \<open>a\<close> of a store, after the clock has ticked.\<close>

abbreviation reconciledA :: "store \<Rightarrow> store op" where
  "reconciledA w \<equiv> snd (reconcileServer storeExt (''ns'', ''a'') (boot (w\<lparr>clock := clock w + 1\<rparr>)))"

lemma reconciledA_history: "history storeExt clockTicks w (trace (reconciledA w)) (world (reconciledA w))"
proof -
  let ?w = "w\<lparr>clock := clock w + 1\<rparr>"
  have "history storeExt clockTicks w [] ?w"
    by (rule history.envStep [OF history.start]) (simp add: clockTicks_def)
  from history.serverStep [OF this, of "(''ns'', ''a'')"] show ?thesis
    by (simp add: boot_def prod_eq_iff)
qed

lemma demo_pod_goes:
  "storeOk (demoStore True)" "storeHoldsPod (''ns'', ''a-pod'') (demoStore True)"
  "\<not> storeHoldsPod (''ns'', ''a-pod'') (world (reconciledA (demoStore True)))"
  by (simp_all add: storeOk_def storeHoldsPod_def heldIn_def keyed_def SERVER_FINALIZER_def server_defs run_simps
      store_simps)

lemma pod_held_until_approved_witness:
  "\<exists>t w t1 e t2. history storeExt clockTicks (demoStore True) t w \<and> t = t1 @ e # t2 \<and>
     letsPod (''ns'', ''a-pod'') e \<and> podRight (''ns'', ''a-pod'') t1"
proof -
  let ?w = "reconciledA (demoStore True)"
  have "\<exists>t1 e t2. trace ?w = t1 @ e # t2 \<and> letsPod (''ns'', ''a-pod'') e \<and> podRight (''ns'', ''a-pod'') t1"
  proof (rule pod_held_until_approved [of storeExt storeOk storeHoldsPod storeHoldsServer clockTicks "demoStore True"])
    show "api_contract storeExt storeOk storeHoldsPod storeHoldsServer" by (rule store.api_contract_axioms)
  qed (rule reconciledA_history clockTicks_keeps(1) demo_pod_goes | assumption)+
  with reconciledA_history [of "demoStore True"] show ?thesis by metis
qed

text \<open>
  C2. Over any history of the operator a server that carries its finalizer stays, with the
  finalizer, until the operator has read it as being deleted, has read its pod and has
  successfully requested the deletion of that pod.
\<close>

theorem server_held_until_pod_deleted:
  assumes contract: "api_contract X ok podHeld serverHeld"
    and run: "history X env w0 t w" and start: "ok w0"
    and env: "\<And>w w'. env w w' \<Longrightarrow> ok w \<Longrightarrow> ok w' \<and> (serverHeld k w \<longrightarrow> serverHeld k w')"
    and held: "serverHeld k w0" and gone: "\<not> serverHeld k w"
  shows "\<exists>t1 e t2. t = t1 @ e # t2 \<and> letsServer k e \<and> serverRight k t1"
proof -
  note servers = api_contract.serversOnly [OF contract]
  have "api_contract.safeSoFar ok (\<lambda>_ _. False) serverHeld k k w0 t w"
    by (rule api_contract.history_safe [OF servers run start]) (use env in blast)
  then show ?thesis
    unfolding api_contract.safeSoFar_def [OF servers] using held gone by (blast intro: onlyAfter_first)
qed

lemma stopped_server_goes:
  "storeOk stoppedStore" "storeHoldsServer (''ns'', ''a'') stoppedStore"
  "\<not> storeHoldsServer (''ns'', ''a'') (world (reconciledA stoppedStore))"
  by (simp_all add: storeOk_def storeHoldsServer_def heldIn_def keyed_def SERVER_FINALIZER_def stoppedStore_def
      server_defs run_simps store_simps)

lemma server_held_until_pod_deleted_witness:
  "\<exists>t w t1 e t2. history storeExt clockTicks stoppedStore t w \<and> t = t1 @ e # t2 \<and>
     letsServer (''ns'', ''a'') e \<and> serverRight (''ns'', ''a'') t1"
proof -
  let ?w = "reconciledA (stoppedStore)"
  have "\<exists>t1 e t2. trace ?w = t1 @ e # t2 \<and> letsServer (''ns'', ''a'') e \<and> serverRight (''ns'', ''a'') t1"
  proof (rule server_held_until_pod_deleted [of storeExt storeOk storeHoldsPod storeHoldsServer clockTicks "stoppedStore"])
    show "api_contract storeExt storeOk storeHoldsPod storeHoldsServer" by (rule store.api_contract_axioms)
  qed (rule reconciledA_history clockTicks_keeps(2) stopped_server_goes | assumption)+
  with reconciledA_history [of "stoppedStore"] show ?thesis by metis
qed

end
