(* ===== verification/Ownership.thy ===== *)
theory Ownership
  imports System
begin

text \<open>
  What the operator creates. Pods, servers and fleets are made for an owner: they carry its name
  in a label and a controller reference to it, so that the cluster collects them with it. Such a
  reference only works inside one namespace, which is where the child has to be. This is the
  form of everything the four reconcilers create, over any history.
\<close>

section \<open>Children\<close>

definition childOf :: "lib \<Rightarrow> string \<Rightarrow> string \<Rightarrow> objectMeta \<Rightarrow> objectMeta \<Rightarrow> bool" where
  "childOf L label kd own m \<longleftrightarrow>
     lookupLabel (Labels m) label = Some (Name own) \<and> Namespace m = Namespace own \<and>
     OwnerReferences m = [NewControllerRef L own kd] \<and> Finalizers m = [] \<and> DeletionTimestamp m = None"

fun wellMade :: "lib \<Rightarrow> effect \<Rightarrow> bool" where
  "wellMade L (Write Create (PodObj p) _) \<longleftrightarrow>
     (\<exists>own. childOf L ''server'' ''Server'' own (pod_meta p) \<and> Name (pod_meta p) = Name own @ ''-pod'')"
| "wellMade L (Write Create (ServerObj x) _) \<longleftrightarrow>
     (\<exists>own. childOf L ''fleet'' ''Fleet'' own (server_meta x) \<and> GenerateName (server_meta x) = Name own @ ''-'')"
| "wellMade L (Write Create (FleetObj f) _) \<longleftrightarrow>
     (\<exists>own. childOf L ''gametype'' ''GameType'' own (fleet_meta f) \<and> GenerateName (fleet_meta f) = Name own @ ''-'')"
| "wellMade L (Write Create _ _) \<longleftrightarrow> False"
| "wellMade L _ \<longleftrightarrow> True"

lemma GetNewPod_child:
  assumes "GetNewPod L env s (Namespace (server_meta s)) = Ret (p, s1)"
  shows "childOf L ''server'' ''Server'' (server_meta s1) (pod_meta p)"
    and "Name (pod_meta p) = Name (server_meta s1) @ ''-pod''"
  using assms by (auto simp: GetNewPod_def childOf_def newMeta_def podName_def Let_def split: outcome.splits)

lemma GetFleetObjectForType_child: "wellMade L (Write Create (FleetObj (fst (GetFleetObjectForType L g))) err)"
  by (simp add: GetFleetObjectForType_def childOf_def newMeta_def Let_def)
    (rule exI [of _ "(gametype_meta g)\<lparr>Labels := storeShared (Labels (gametype_meta g)) ''gametype'' (Name (gametype_meta g))\<rparr>"];
      simp)

section \<open>The server and the game type controller\<close>

text \<open>As the rule for cases on a sum, with what the sum was.\<close>

lemma traced_sum:
  "(\<And>e. traced X A (fl e)) \<Longrightarrow> (\<And>v. y = Inr v \<Longrightarrow> traced X A (fr v)) \<Longrightarrow> traced X A (case y of Inl e \<Rightarrow> fl e | Inr v \<Rightarrow> fr v)"
  by (cases y) auto

lemma ensurePodExists_made:
  assumes law: "controller_law (lib X)"
  shows "traced X (wellMade (lib X)) (ensurePodExists X s)"
proof -
  have made: "wellMade (lib X) (Write Create (PodObj (p\<lparr>pod_meta := pm\<rparr>)) err)"
    if p: "GetNewPod (lib X) (getenv X) s (Namespace (server_meta s)) = Ret (p, s1)"
      and pm: "SetControllerReference (lib X) (server_meta s1) ''Server'' (pod_meta p) = Inr pm" for p s1 pm err
  proof -
    note child = GetNewPod_child [OF p]
    from child(1) controller_kept [OF law pm] have "pm = pod_meta p" by (simp add: childOf_def)
    with child show ?thesis by auto
  qed
  note parts = ensurePodExists_def setCondition_def
  show ?thesis
  proof (cases "GetNewPod (lib X) (getenv X) s (Namespace (server_meta s))")
    case (Ret v)
    obtain p s1 where v: "v = (p, s1)" by fastforce
    note new = Ret [unfolded v]
    show ?thesis
    proof (cases "SetControllerReference (lib X) (server_meta s1) ''Server'' (pod_meta p)")
      case (Inl e)
      show ?thesis unfolding parts new outcome.case prod.case Inl sum.case by (intro traced_intros; simp)
    next
      case (Inr pm)
      show ?thesis
        unfolding parts new outcome.case prod.case Inr sum.case(2) by (intro traced_intros made [OF new Inr]; simp)
    qed
  next
    case Panic
    show ?thesis unfolding parts Panic outcome.case by (intro traced_intros; simp)
  qed
qed

lemma server_Reconcile_made:
  assumes "controller_law (lib X)"
  shows "traced X (wellMade (lib X)) (server_Reconcile (prodServerReconciler X) req)"
  unfolding server_Reconcile_def server_initialize_def server_finalize_def server_run_def server_handleDeletion_def
    releasePod_def deletePodOf_def ensurePodFinalizer_def setCondition_def prodServerReconciler_def
    serverReconciler.select_convs
  by (intro traced_intros ensurePodExists_made [OF assms]; simp)

lemma handleCreation_made: "traced X (wellMade (lib X)) (handleCreation X g)"
  unfolding handleCreation_def Let_def case_prod_unfold
  by (intro traced_intros GetFleetObjectForType_child; simp)

lemma gametype_Reconcile_made: "traced X (wellMade (lib X)) (gametype_Reconcile X req)"
  unfolding gametype_Reconcile_def gametype_initialize_def gametype_finalize_def gametype_run_def
    gametype_handleDeletion_def handleGametypeStatus_def updateReplicaCount_def handleUpdating_def createInitialFleet_def
    updateSingleFleet_def propagateReplicas_def retireOldestFleet_def GetFleetsForType_def
  by (intro traced_intros handleCreation_made; simp)

section \<open>The fleet controller\<close>

text \<open>A fleet in the namespace of the request.\<close>

lemma CreateServerForFleet_child:
  assumes "Namespace (fleet_meta f) = ns"
  shows "wellMade L (Write Create (ServerObj (fst (CreateServerForFleet L f ns))) err)"
    and "Namespace (fleet_meta (snd (CreateServerForFleet L f ns))) = ns"
proof -
  let ?g = "snd (CreateServerForFleet L f ns)" and ?x = "fst (CreateServerForFleet L f ns)"
  have "childOf L ''fleet'' ''Fleet'' (fleet_meta ?g) (server_meta ?x) \<and> GenerateName (server_meta ?x) = Name (fleet_meta ?g) @ ''-''"
    using assms by (simp add: CreateServerForFleet_def childOf_def newMeta_def Let_def)
  then show "wellMade L (Write Create (ServerObj ?x) err)" by auto
qed (use assms in \<open>simp add: CreateServerForFleet_def Let_def\<close>)

lemma createServers_made: "Namespace (fleet_meta f) = ns \<Longrightarrow> traced X (wellMade (lib X)) (createServers X ns n f)"
  supply traced_createServers [traced_intros del]
proof (induction n arbitrary: f)
  case 0
  show ?case by (simp add: traced_return)
next
  case (Suc n)
  note child = CreateServerForFleet_child [OF Suc.prems, of "lib X"]
  from Suc.IH [OF child(2)] show ?case
    unfolding createServers.simps Let_def case_prod_unfold by (intro traced_intros child(1); simp)
qed

lemma fleet_scale_made:
  assumes "Namespace (fleet_meta f) = ns"
  shows "traced X (wellMade (lib X)) (fleet_scale (prodFleetReconciler X) ns f)"
  supply traced_createServers [traced_intros del]
proof -
  have "Namespace (fleet_meta (setCurrentReplicas ss f)) = ns" for ss using assms by simp
  then have "traced X (wellMade (lib X)) (createServers X ns n (setCurrentReplicas ss f))" for n ss
    by (rule createServers_made)
  then show ?thesis
    unfolding fleet_scale_def scaleServerCount_def scaleUp_def scaleDown_def getServers_def fleet_saveStatus_def Let_def
      prodFleetReconciler_def fleetReconciler.select_convs
    by (intro traced_intros; simp)
qed

section \<open>Histories\<close>

text \<open>The API server gives a fleet of the namespace it was asked for.\<close>

locale named_fleets =
  fixes X :: "'w ext" and ok :: "'w \<Rightarrow> bool"
  assumes set_controller: "controller_law (lib X)"
    and stays_ok: "performs X e w w' \<Longrightarrow> ok w \<Longrightarrow> ok w'"
    and fleet_named: "performs X (ReadFleet k (Inr f)) w w' \<Longrightarrow> ok w \<Longrightarrow> Namespace (fleet_meta f) = fst k"
begin

text \<open>A reconcile from a state that is \<open>ok\<close> creates well-made objects only.\<close>

definition madeFrom :: "('w op, 'a) state \<Rightarrow> bool" where
  "madeFrom m \<longleftrightarrow> (\<forall>s r s'. ok (world s) \<longrightarrow> run_state m s = (r, s') \<longrightarrow>
     (\<exists>t. trace s' = trace s @ t \<and> (\<forall>e \<in> set t. wellMade (lib X) e) \<and> ok (world s')))"

lemma replay_stays: "replay X t w w' \<Longrightarrow> ok w \<Longrightarrow> ok w'"
  by (induction rule: replay.induct) (auto intro: stays_ok)

lemma traced_madeFrom: "traced X (wellMade (lib X)) m \<Longrightarrow> madeFrom m"
  unfolding traced_def madeFrom_def using replay_stays by blast

lemma madeFrom_read:
  assumes "\<And>a. (\<And>f. a = Inr f \<Longrightarrow> Namespace (fleet_meta f) = fst req) \<Longrightarrow> madeFrom (k a)"
  shows "madeFrom (State_Monad.bind (GetFleet X req) k)"
  unfolding madeFrom_def
proof (intro allI impI)
  fix s r s'
  assume ok: "ok (world s)" and run: "run_state (State_Monad.bind (GetFleet X req) k) s = (r, s')"
  obtain a w1 where read: "apiGetFleet (api X) req (world s) = (a, w1)" by fastforce
  with run have rest: "run_state (k a) (s\<lparr>world := w1, trace := trace s @ [ReadFleet req a]\<rparr>) = (r, s')"
    by (simp add: run_simps)
  have first: "performs X (ReadFleet req a) (world s) w1" using read by (rule performs.getFleet)
  have "madeFrom (k a)"
  proof (rule assms)
    show "Namespace (fleet_meta f) = fst req" if "a = Inr f" for f using first ok fleet_named unfolding that by blast
  qed
  from this [unfolded madeFrom_def, rule_format, OF _ rest] stays_ok [OF first ok]
  obtain t where "trace s' = trace s @ ReadFleet req a # t" "\<forall>e \<in> set t. wellMade (lib X) e" "ok (world s')"
    by auto
  then show "\<exists>t. trace s' = trace s @ t \<and> (\<forall>e \<in> set t. wellMade (lib X) e) \<and> ok (world s')"
    by (intro exI [of _ "ReadFleet req a # t"]) simp
qed

lemma madeFrom_fleet: "madeFrom (fleet_Reconcile (prodFleetReconciler X) req)"
proof -
  have parts: "traced X (wellMade (lib X)) (fleet_handleDeletion X f)" "traced X (wellMade (lib X)) (fleet_initialize X f)" for f
    unfolding fleet_handleDeletion_def getServers_def fleet_initialize_def by (intro traced_intros; simp)+
  show ?thesis
    unfolding fleet_Reconcile_def prod_fleet
    by (rule madeFrom_read, rule traced_madeFrom)
      (intro traced_sum traced_cases(1,3) traced_bind traced_finish parts fleet_scale_made; simp)
qed

lemma madeFrom_autoscaler:
  assumes "R = mainAutoscalerReconciler X \<or> R = wiredAutoscalerReconciler X"
  shows "madeFrom (autoscaler_Reconcile R req)"
  by (rule traced_madeFrom [OF traced_weaken [OF traced_autoscaler_calls [OF assms]]])
    (auto elim!: autoscalerCall.elims)

lemma madeFrom_step:
  assumes "madeFrom m" and "run_state m \<lparr>world = w, trace = t\<rparr> = (r, s)" and "ok w" and "\<forall>e \<in> set t. wellMade (lib X) e"
  shows "(\<forall>e \<in> set (trace s). wellMade (lib X) e) \<and> ok (world s)"
  using assms(1) [unfolded madeFrom_def, rule_format, OF _ assms(2)] assms(3,4) by auto

lemma history_made:
  assumes "history X env w0 t w" and "ok w0" and env: "\<And>w w'. env w w' \<Longrightarrow> ok w \<Longrightarrow> ok w'"
  shows "(\<forall>e \<in> set t. wellMade (lib X) e) \<and> ok w"
  using assms(1)
proof (induction rule: history.induct)
  case start
  then show ?case using assms(2) by simp
next
  case (serverStep t w req r s)
  from madeFrom_step [OF traced_madeFrom [OF server_Reconcile_made [OF set_controller]] serverStep.hyps(2)] serverStep.IH
  show ?case by blast
next
  case (fleetStep t w req r s)
  from madeFrom_step [OF madeFrom_fleet fleetStep.hyps(2)] fleetStep.IH show ?case by blast
next
  case (gametypeStep t w req r s)
  from madeFrom_step [OF traced_madeFrom [OF gametype_Reconcile_made] gametypeStep.hyps(2)] gametypeStep.IH
  show ?case by blast
next
  case (autoscalerStep t w R req r s)
  from madeFrom_step [OF madeFrom_autoscaler [OF autoscalerStep.hyps(2)] autoscalerStep.hyps(3)] autoscalerStep.IH
  show ?case by blast
next
  case (envStep t w w1)
  with env show ?case by blast
qed

end

section \<open>The concrete API server\<close>

interpretation fleetsMeta: stored_meta fleet_meta setFleetMeta by unfold_locales simp

definition fleetsKeyed :: "store \<Rightarrow> bool" where
  "fleetsKeyed w \<longleftrightarrow> keyed fleet_meta (store_fleets w)"

inductive_cases performs_fleetRead: "performs X (ReadFleet k (Inr f)) w w'"

lemma fleetsKeyed_step:
  assumes "performs storeExt e w w'" and "fleetsKeyed w"
  shows "fleetsKeyed w'"
  using assms
  by (induction rule: performs.induct)
    (auto simp: store_api store_ext fleetsKeyed_def storeHttp_def tick_def Let_def
      split: prod.splits option.splits
      dest: fleetsMeta.createObj_keyed fleetsMeta.writeObj_keyed fleetsMeta.deleteObj_keyed)

interpretation storeFleets: named_fleets storeExt fleetsKeyed
proof
  show "controller_law (lib storeExt)" by (rule store_controller_law)
  show "fleetsKeyed w'" if "performs storeExt e w w'" "fleetsKeyed w" for e w w'
    using that by (rule fleetsKeyed_step)
  show "Namespace (fleet_meta f) = fst k" if "performs storeExt (ReadFleet k (Inr f)) w w'" "fleetsKeyed w" for k f w w'
    using that(1)
    by (rule performs_fleetRead) (use that(2) in \<open>auto simp: store_api fleetsKeyed_def nsOf_def dest!: keyed_lookup\<close>)
qed

section \<open>Everything created has an owner in its namespace\<close>

text \<open>
  C11. Over any history of the operator, every pod, server and fleet it creates is a child of one owner: it carries the
  owner's name in the label of its kind and in its own name, a controller reference to the owner and to nothing
  else, is in the owner's namespace, and starts without finalizers; and the operator creates nothing else.
\<close>

theorem operator_creates_children:
  assumes world: "named_fleets X ok" and run: "history X env w0 t w" and "ok w0"
    and env: "\<And>w w'. env w w' \<Longrightarrow> ok w \<Longrightarrow> ok w'"
  shows "\<forall>e \<in> set t. wellMade (lib X) e"
  by (rule conjunct1, rule named_fleets.history_made [OF world run \<open>ok w0\<close>]) (rule env)

lemma demoFleet_creates:
  "\<exists>x err. Write Create (ServerObj x) err \<in> set (trace (snd (reconcileFleet storeExt (''ns'', ''f'') (boot (fleetStore 1)))))"
  by (simp add: fleet_defs run_simps store_simps fleetStore_def demoFleet_def)

lemma operator_creates_children_witness:
  "\<exists>t w x err. history storeExt clockTicks (fleetStore 1) t w \<and> Write Create (ServerObj x) err \<in> set t \<and>
     wellMade storeLib (Write Create (ServerObj x) err)"
proof -
  let ?s = "snd (reconcileFleet storeExt (''ns'', ''f'') (boot (fleetStore 1)))"
  from history.fleetStep [OF history.start, of storeExt "(''ns'', ''f'')" "fleetStore 1"]
  have run: "history storeExt clockTicks (fleetStore 1) (trace ?s) (world ?s)" by (simp add: boot_def prod_eq_iff)
  obtain x err where x: "Write Create (ServerObj x) err \<in> set (trace ?s)" using demoFleet_creates by blast
  have "\<forall>e \<in> set (trace ?s). wellMade (lib storeExt) e"
    by (rule operator_creates_children [OF storeFleets.named_fleets_axioms run])
      (simp_all add: fleetsKeyed_def keyed_def fleetStore_def demoFleet_def fleetOf_def metaOf_def newMeta_def nsOf_def clockTicks_def)
  with run x show ?thesis by (auto simp: store_ext simp del: wellMade.simps)
qed

end
