(* ===== verification/Convergence.thy ===== *)
theory Convergence
  imports System
begin

text \<open>
  A fleet over several reconciles. What the API server must do with the servers of a fleet is the
  locale \<open>fleet_world\<close>; over it, a reconcile that succeeds makes one exact step towards the
  target, and repeated ones reach the target and stay there.
\<close>

section \<open>What a successful reconcile has done\<close>

fun writesServer :: "effect \<Rightarrow> bool" where
  "writesServer (Write _ (ServerObj _) _) = True"
| "writesServer _ = False"

abbreviation quiet :: "effect list \<Rightarrow> bool" where
  "quiet t \<equiv> \<forall>e \<in> set t. \<not> writesServer e"

definition alive :: "server \<Rightarrow> bool" where
  "alive x \<longleftrightarrow> DeletionTimestamp (server_meta x) = None"

definition live :: "server list \<Rightarrow> nat" where
  "live ss = length (filter alive ss)"

lemma peek_writes: "isPeek e \<Longrightarrow> \<not> writesServer e"
  by (cases e) auto

text \<open>A creation of a server for the fleet that succeeded.\<close>

definition createdFor :: "fleet \<Rightarrow> string \<Rightarrow> effect \<Rightarrow> bool" where
  "createdFor f ns e \<longleftrightarrow> (\<exists>x. e = Write Create (ServerObj x) None \<and> madeFor f ns x \<and> alive x)"

lemma CreateServerForFleet_made:
  assumes "CreateServerForFleet L f ns = (x, g)"
  shows "createdFor f ns (Write Create (ServerObj x) None)" and "createdFor g ns e \<longleftrightarrow> createdFor f ns e"
  using CreateServerForFleet_parts [OF assms] assms
  by (auto simp: createdFor_def CreateServerForFleet_def alive_def newMeta_def Let_def)

lemma createServers_done:
  "gives (createServers X ns n f) (\<lambda>(err, g) t. err = None \<longrightarrow> length t = n \<and> (\<forall>e \<in> set t. createdFor f ns e))"
proof (induction n arbitrary: f)
  case 0
  show ?case by (auto intro: gives_return)
next
  case (Suc n)
  show ?case
    unfolding createServers.simps Let_def
    by (intro gives_intros gives_weaken [OF Suc.IH])
      (auto simp: CreateServerForFleet_made)
qed

definition stepDone :: "fleet \<Rightarrow> string \<Rightarrow> int \<Rightarrow> effect list \<Rightarrow> bool" where
  "stepDone f ns n t \<longleftrightarrow>
     (if n < desired f then \<exists>cs v. t = cs @ v \<and> int (length cs) = desired f - n \<and> (\<forall>e \<in> set cs. createdFor f ns e) \<and> quiet v
      else if desired f < n then \<exists>ss u x v. t = listing f (Inr ss) # u @ Write Delete (ServerObj x) None # v \<and>
        x \<in> set ss \<and> quiet u \<and> quiet v
      else t = [])"

lemma stepDone_up:
  "n < desired f \<Longrightarrow> length cs = nat (desired f - n) \<Longrightarrow> \<forall>e \<in> set cs. createdFor f ns e \<Longrightarrow> quiet v \<Longrightarrow>
   stepDone f ns n (cs @ v)"
  unfolding stepDone_def by (simp, intro exI [of _ cs] exI [of _ v]) simp

lemma stepDone_down:
  "desired f < n \<Longrightarrow> x \<in> set ss \<Longrightarrow> quiet u \<Longrightarrow> quiet v \<Longrightarrow>
   stepDone f ns n (listing f (Inr ss) # u @ Write Delete (ServerObj x) None # v)"
  unfolding stepDone_def by (simp, blast)

lemma scaleUp_done:
  assumes n: "0 \<le> sint (CurrentReplicas (fleet_status f))" "sint (CurrentReplicas (fleet_status f)) < desired f"
  shows "gives (scaleUp X f ns) (\<lambda>(err, g) t. sameFleet f g \<and>
    (err = None \<longrightarrow> stepDone f ns (sint (CurrentReplicas (fleet_status f))) t))"
proof -
  have loop: "gives (createServers X ns n f) (\<lambda>(err, g) t. sameFleet f g \<and>
      (err = None \<longrightarrow> length t = n \<and> (\<forall>e \<in> set t. createdFor f ns e)))" for n
    by (rule gives_weaken [OF gives_conj [OF gives_createServers createServers_done]]) auto
  show ?thesis
    unfolding scaleUp_def Let_def
    by (intro gives_intros gives_bind [OF loop])
      (use n in \<open>auto simp: rounds_diff intro!: stepDone_up\<close>)
qed

lemma scaleDown_done:
  assumes "desired f < n"
  shows "gives (scaleDown (prodFleetReconciler X) f) (\<lambda>r t. r = Ret None \<longrightarrow> stepDone f ns n t)"
  unfolding scaleDown_def prod_fleet getServers_def
  by (intro gives_intros gives_andThen [OF fc.find_peeks])
    (use assms in \<open>auto simp: peek_writes intro!: stepDone_down\<close>)

lemma scaleServerCount_done:
  assumes n: "0 \<le> sint (CurrentReplicas (fleet_status f))"
  shows "gives (scaleServerCount (prodFleetReconciler X) f ns) (\<lambda>r t. \<forall>g. r = Ret (None, g) \<longrightarrow>
    stepDone f ns (sint (CurrentReplicas (fleet_status f))) t)"
proof -
  let ?n = "sint (CurrentReplicas (fleet_status f))"
  consider "?n < desired f" | "desired f < ?n" | "?n = desired f" by linarith
  then show ?thesis
  proof cases
    case 1
    then show ?thesis
      unfolding scaleServerCount_def prod_fleet
      by (simp only: if_True) (intro gives_intros gives_bind [OF scaleUp_done [OF n 1]]; auto simp: sameFleet_def)
  next
    case 2
    then show ?thesis
      unfolding scaleServerCount_def prod_fleet
      by (simp, intro gives_intros gives_andThen [OF scaleDown_done [OF 2]]) auto
  next
    case 3
    then show ?thesis
      unfolding scaleServerCount_def by (auto intro!: gives_intros simp: stepDone_def)
  qed
qed

lemma stepDone_counted [simp]: "stepDone (setCurrentReplicas ss f) ns n t = stepDone f ns n t"
  by (simp add: stepDone_def createdFor_def madeFor_def)

text \<open>The whole scaling part, when it returns without an error.\<close>

definition scaleDone :: "fleet \<Rightarrow> string \<Rightarrow> effect list \<Rightarrow> bool" where
  "scaleDone f ns t \<longleftrightarrow> (\<exists>ss step tail. t = listing f (Inr ss) # step @ tail \<and> quiet tail \<and>
     (length ss < 2 ^ 31 \<longrightarrow> stepDone f ns (int (length ss)) step))"

lemma scaleDoneI:
  "(length ss < 2 ^ 31 \<Longrightarrow> stepDone f ns (int (length ss)) step) \<Longrightarrow> quiet tail \<Longrightarrow> scaleDone f ns (listing f (Inr ss) # step @ tail)"
  unfolding scaleDone_def by blast

lemma fleet_scale_done:
  "gives (fleet_scale (prodFleetReconciler X) ns f) (\<lambda>r t. \<forall>q. r = Ret (q, None) \<longrightarrow> scaleDone f ns t)"
proof -
  let ?f = "\<lambda>ss. setCurrentReplicas ss f"
  have step: "gives (scaleServerCount (prodFleetReconciler X) (?f ss) ns) (\<lambda>r t. \<forall>g. r = Ret (None, g) \<longrightarrow>
      length ss < 2 ^ 31 \<longrightarrow> stepDone f ns (int (length ss)) t)" for ss
  proof (cases "length ss < 2 ^ 31")
    case True
    then show ?thesis
      using scaleServerCount_done [of "?f ss" X ns] by (simp add: sint_count)
  next
    case False
    then show ?thesis by (intro gives_weaken [OF fc.scaleServerCount_gives [OF prod_fleet(2)]]) simp
  qed
  have same: "length ss < 2 ^ 31 \<Longrightarrow> Replicas (Scaling (fleet_spec f)) = to_int32 (go_len ss) \<Longrightarrow>
      stepDone f ns (int (length ss)) []" for ss :: "server list"
    by (simp add: stepDone_def sint_count)
  show ?thesis
    unfolding fleet_scale_def getServers_def Let_def prod_fleet
    by (intro gives_intros gives_andThen [OF step] gives_weaken [OF gives_saveStatus])
      (auto intro!: scaleDoneI simp: same scaleDoneI [of _ f ns "[]", simplified])
qed

lemma reconcile_done:
  assumes L: "finalizer_laws (lib X)"
  shows "gives (fleet_Reconcile (prodFleetReconciler X) req) (\<lambda>r t. \<forall>q f rest. r = Ret (q, None) \<longrightarrow>
    t = ReadFleet req (Inr f) # rest \<longrightarrow> steady f \<longrightarrow> scaleDone f (fst req) rest)"
  unfolding fleet_Reconcile_def fleet_initialize_def prod_fleet
  by (intro gives_intros gives_bind [OF gives_fleet_handleDeletion] gives_weaken [OF fleet_scale_done])
    (auto simp: steady_def Finalizers_has [OF L])

section \<open>The contract\<close>

text \<open>A step from \<open>n\<close> towards \<open>d\<close>: all that is missing at once, what is too many one by one.\<close>

definition oneStep :: "int \<Rightarrow> int \<Rightarrow> int" where
  "oneStep d n = (if n < d then d else if d < n then n - 1 else n)"

text \<open>
  \<open>servers k w\<close> are the servers with the label and in the namespace of the fleet \<open>k\<close>. A listing shows them;
  creating a server for the fleet adds a live one; deleting a live one makes it disappear or marks it; and
  nothing else a reconcile does touches them.
\<close>

locale fleet_world =
  fixes X :: "'w ext" and ok :: "'w \<Rightarrow> bool" and servers :: "nsname \<Rightarrow> 'w \<Rightarrow> server list"
  assumes fleet_laws: "finalizer_laws (lib X)"
    and fleet_ok: "performs X e w w' \<Longrightarrow> ok w \<Longrightarrow> ok w'"
    and listed: "performs X (ListedServers (Some ns) (''fleet'', n) (Inr ss)) w w' \<Longrightarrow> ok w \<Longrightarrow> ss = servers (ns, n) w"
    and untouched: "performs X e w w' \<Longrightarrow> ok w \<Longrightarrow> \<not> writesServer e \<Longrightarrow> servers k w' = servers k w"
    and created: "performs X (Write Create (ServerObj x) None) w w' \<Longrightarrow> ok w \<Longrightarrow>
      lookupLabel (Labels (server_meta x)) ''fleet'' = Some n \<Longrightarrow> Namespace (server_meta x) = ns \<Longrightarrow> alive x \<Longrightarrow>
      live (servers (ns, n) w') = Suc (live (servers (ns, n) w))"
    and deleted: "performs X (Write Delete (ServerObj x) None) w w' \<Longrightarrow> ok w \<Longrightarrow> x \<in> set (servers k w) \<Longrightarrow> alive x \<Longrightarrow>
      Suc (live (servers k w')) = live (servers k w)"
begin

lemma quiet_servers: "replay X t w w' \<Longrightarrow> ok w \<Longrightarrow> quiet t \<Longrightarrow> servers k w' = servers k w \<and> ok w'"
  by (induction rule: replay.induct) (auto simp: untouched intro: fleet_ok)

lemma creates_live:
  "replay X t w w' \<Longrightarrow> ok w \<Longrightarrow> \<forall>e \<in> set t. createdFor f ns e \<Longrightarrow>
   live (servers (ns, Name (fleet_meta f)) w') = live (servers (ns, Name (fleet_meta f)) w) + length t \<and> ok w'"
proof (induction rule: replay.induct)
  case (stop w)
  then show ?case by simp
next
  case (onward e w w1 t w2)
  from onward.prems(2) obtain x where e: "e = Write Create (ServerObj x) None" "madeFor f ns x" "alive x"
    by (auto simp: createdFor_def)
  from e(2) have "live (servers (ns, Name (fleet_meta f)) w1) = Suc (live (servers (ns, Name (fleet_meta f)) w))"
    using created onward.hyps(1) onward.prems(1) e(1,3) by (simp add: madeFor_def)
  with onward.IH fleet_ok [OF onward.hyps(1) onward.prems(1)] onward.prems(2) show ?case by simp
qed

lemma step_live:
  assumes run: "replay X step w w'" and ok: "ok w" and all: "\<forall>x \<in> set (servers k w). alive x"
    and k: "k = nsOf (fleet_meta f)" "fst k = ns" and "n = length (servers k w)"
    and step: "stepDone f ns (int n) step"
  shows "int (live (servers k w')) = oneStep (desired f) (int n) \<and> ok w'"
proof -
  have n: "live (servers k w) = n" using all assms(6) by (simp add: live_def filter_True)
  have key: "k = (ns, Name (fleet_meta f))" using k by (simp add: nsOf_def)
  consider "int n < desired f" | "desired f < int n" | "int n = desired f" by linarith
  then show ?thesis
  proof cases
    case 1
    with step obtain cs v where "step = cs @ v" and cs: "int (length cs) = desired f - int n" "\<forall>e \<in> set cs. createdFor f ns e"
      and v: "quiet v" by (auto simp: stepDone_def)
    with run obtain w1 where "replay X cs w w1" "replay X v w1 w'" by (auto dest: replay_split)
    with creates_live [OF _ ok cs(2)] quiet_servers [OF _ _ v] cs(1) n key 1 show ?thesis
      by (fastforce simp: oneStep_def)
  next
    case 2
    with step obtain ss u x v where st: "step = listing f (Inr ss) # u @ Write Delete (ServerObj x) None # v"
      and x: "x \<in> set ss" and uv: "quiet u" "quiet v" by (auto simp: stepDone_def)
    from run st obtain w1 w2 w3 where ws: "performs X (listing f (Inr ss)) w w1" "replay X u w1 w2"
      "performs X (Write Delete (ServerObj x) None) w2 w3" "replay X v w3 w'"
      by (blast dest: replay_first replay_split)
    have ss: "ss = servers k w" using listed [OF ws(1) ok] k(1) by (simp add: nsOf_def)
    have w1: "servers k w1 = servers k w" "ok w1" using untouched [OF ws(1) ok] fleet_ok [OF ws(1) ok] by simp_all
    from quiet_servers [OF ws(2) w1(2) uv(1), of k] w1 have w2: "servers k w2 = servers k w" "ok w2" by simp_all
    from deleted [OF ws(3) w2(2)] w2(1) x ss all have "Suc (live (servers k w3)) = n" by (simp add: n)
    with quiet_servers [OF ws(4) fleet_ok [OF ws(3) w2(2)] uv(2)] 2 show ?thesis by (simp add: oneStep_def)
  next
    case 3
    with step have "step = []" by (simp add: stepDone_def)
    with run have "w' = w" by (auto elim: replay.cases)
    with 3 n ok show ?thesis by (simp add: oneStep_def)
  qed
qed

lemma reconcile_live:
  assumes run: "reconcileFleet X req \<lparr>world = w, trace = []\<rparr> = (Ret (q, None), s)"
    and tr: "trace s = ReadFleet req (Inr f) # t" and f: "steady f" "nsOf (fleet_meta f) = req"
    and ok: "ok w" and all: "\<forall>x \<in> set (servers req w). alive x" and small: "length (servers req w) < 2 ^ 31"
  shows "int (live (servers req (world s))) = oneStep (desired f) (int (length (servers req w))) \<and> ok (world s)"
proof -
  from traced_fleet_Reconcile run have rep: "replay X (trace s) w (world s)"
    unfolding traced_def by fastforce
  from gives_run [OF reconcile_done [OF fleet_laws] run] tr f(1) have "scaleDone f (fst req) t" by auto
  then obtain ss step tail where t: "t = listing f (Inr ss) # step @ tail" "quiet tail"
    "length ss < 2 ^ 31 \<Longrightarrow> stepDone f (fst req) (int (length ss)) step" by (auto simp: scaleDone_def)
  from rep tr t(1) obtain w1 w2 w3 where ws: "performs X (ReadFleet req (Inr f)) w w1"
    "performs X (listing f (Inr ss)) w1 w2" "replay X step w2 w3" "replay X tail w3 (world s)"
    by (auto dest!: replay_first replay_split)
  have w1: "servers req w1 = servers req w" "ok w1" using untouched [OF ws(1) ok] fleet_ok [OF ws(1) ok] by simp_all
  have ss: "ss = servers req w" using listed [OF ws(2) w1(2)] w1(1) f(2) by (simp add: nsOf_def)
  have w2: "servers req w2 = servers req w" "ok w2"
    using untouched [OF ws(2) w1(2)] fleet_ok [OF ws(2) w1(2)] w1(1) by simp_all
  from step_live [OF ws(3) w2(2) _ f(2) [symmetric] refl, of "length ss"] w2(1) all ss small t(3)
  have "int (live (servers req w3)) = oneStep (desired f) (int (length (servers req w))) \<and> ok w3" by simp
  with quiet_servers [OF ws(4) _ t(2)] show ?thesis by simp
qed

end

section \<open>Rounds\<close>

text \<open>
  \<open>m\<close> rounds for the fleet \<open>req\<close> that wants \<open>d\<close> servers: in each, a reconcile returns without an error, and
  then the deletions it asked for are carried out (by the server controller and the cluster), while nobody
  else adds or removes servers of the fleet.
\<close>

inductive fleetRounds ::
  "'w ext \<Rightarrow> ('w \<Rightarrow> bool) \<Rightarrow> (nsname \<Rightarrow> 'w \<Rightarrow> server list) \<Rightarrow> nsname \<Rightarrow> int \<Rightarrow> 'w \<Rightarrow> nat \<Rightarrow> 'w \<Rightarrow> bool"
  for X ok servers req d w0 where
  none: "fleetRounds X ok servers req d w0 0 w0"
| again: "fleetRounds X ok servers req d w0 m w \<Longrightarrow>
    reconcileFleet X req \<lparr>world = w, trace = []\<rparr> = (Ret (q, None), s) \<Longrightarrow>
    trace s = ReadFleet req (Inr f) # t \<Longrightarrow> steady f \<Longrightarrow> nsOf (fleet_meta f) = req \<Longrightarrow> desired f = d \<Longrightarrow>
    ok w1 \<Longrightarrow> servers req w1 = filter alive (servers req (world s)) \<Longrightarrow>
    fleetRounds X ok servers req d w0 (Suc m) w1"

inductive_cases fleetRounds_SucE: "fleetRounds X ok servers req d w0 (Suc m) w"

text \<open>Where a fleet is after \<open>m\<close> rounds from \<open>n\<close> servers.\<close>

definition after :: "int \<Rightarrow> nat \<Rightarrow> nat \<Rightarrow> int" where
  "after d n m = (if int n < d then (if m = 0 then int n else d) else max d (int n - int m))"

lemma after_steps: "after d n 0 = int n" "after d n (Suc m) = oneStep d (after d n m)"
  by (auto simp: after_def oneStep_def)

lemma after_bound: "n < 2 ^ 31 \<Longrightarrow> d < 2 ^ 31 \<Longrightarrow> after d n m < 2 ^ 31"
proof -
  assume "n < 2 ^ 31" and d: "d < 2 ^ 31"
  then have n: "int n < 2 ^ 31" by (simp only: of_nat_less_numeral_power_cancel_iff)
  with d show ?thesis by (simp add: after_def)
qed

section \<open>The concrete API server\<close>

text \<open>Where a key is in an association list with distinct keys.\<close>

lemma map_of_place:
  assumes "map_of xs k = Some x" and "distinct (map fst xs)"
  obtains ys zs where "xs = ys @ (k, x) # zs" "k \<notin> fst ` set ys" "k \<notin> fst ` set zs"
proof -
  from map_of_SomeD [OF assms(1)] obtain ys zs where xs: "xs = ys @ (k, x) # zs" by (auto dest: split_list)
  with assms(2) have "k \<notin> fst ` set ys" "k \<notin> fst ` set zs" by force+
  with xs that show thesis by blast
qed

lemma update_place: "k \<notin> fst ` set ys \<Longrightarrow> AList.update k y (ys @ (k, x) # zs) = ys @ (k, y) # zs"
  by (induction ys) auto

lemma delete_place: "k \<notin> fst ` set ys \<Longrightarrow> k \<notin> fst ` set zs \<Longrightarrow> AList.delete k (ys @ (k, x) # zs) = ys @ zs"
  by (induction ys) (auto simp: delete_id)

definition distinctKeys :: "(nsname \<times> 'a) list \<Rightarrow> bool" where
  "distinctKeys xs \<longleftrightarrow> distinct (map fst xs)"

lemma distinctKeys_update: "distinctKeys xs \<Longrightarrow> distinctKeys (AList.update k x xs)"
  by (simp add: distinctKeys_def distinct_update)

lemma distinctKeys_delete: "distinctKeys xs \<Longrightarrow> distinctKeys (AList.delete k xs)"
  by (simp add: distinctKeys_def distinct_delete)

lemma distinctKeys_ops:
  "createObj getM setM w x xs = (r, ys) \<Longrightarrow> distinctKeys xs \<Longrightarrow> distinctKeys ys"
  "writeObj getM setM merge x xs = (r, ys) \<Longrightarrow> distinctKeys xs \<Longrightarrow> distinctKeys ys"
  "deleteObj getM setM w x xs = (r', ys) \<Longrightarrow> distinctKeys xs \<Longrightarrow> distinctKeys ys"
  by (auto simp: createObj_def writeObj_def commit_def deleteObj_def distinctKeys_update distinctKeys_delete
      split: option.splits if_splits) (auto simp: distinctKeys_def map_of_eq_None_iff)

definition fleetServers :: "nsname \<Rightarrow> store \<Rightarrow> server list" where
  "fleetServers k w = filter (selects (Some (fst k)) (''fleet'', snd k) \<circ> server_meta) (map snd (store_servers w))"

definition fleetStoreOk :: "store \<Rightarrow> bool" where
  "fleetStoreOk w \<longleftrightarrow> keyed server_meta (store_servers w) \<and> distinctKeys (store_servers w)"

lemma fleetStoreOk_step:
  assumes "performs storeExt e w w'" and "fleetStoreOk w"
  shows "fleetStoreOk w'"
  using assms
  by (induction rule: performs.induct)
    (auto simp: store_api store_ext fleetStoreOk_def storeHttp_def tick_def Let_def
      split: prod.splits option.splits
      dest: servers.createObj_keyed servers.writeObj_keyed servers.deleteObj_keyed distinctKeys_ops)

lemma fleetServers_untouched:
  assumes "performs storeExt e w w'" and "\<not> writesServer e"
  shows "fleetServers k w' = fleetServers k w"
  using assms
  by (induction rule: performs.induct)
    (auto simp: store_api store_ext fleetServers_def storeHttp_def tick_def Let_def split: prod.splits option.splits)

inductive_cases performs_listing: "performs X (ListedServers ns sel (Inr ss)) w w'"
inductive_cases performs_create: "performs X (Write Create (ServerObj x) None) w w'"
inductive_cases performs_delete: "performs X (Write Delete (ServerObj x) None) w w'"

lemma errOf_None: "errOf r = None \<Longrightarrow> \<exists>v. r = Inr v"
  by (cases r) simp_all

lemma store_created:
  assumes "performs storeExt (Write Create (ServerObj x) None) w w'"
    and "lookupLabel (Labels (server_meta x)) ''fleet'' = Some n" and "Namespace (server_meta x) = ns" and "alive x"
  shows "live (fleetServers (ns, n) w') = Suc (live (fleetServers (ns, n) w))"
  using assms(1)
proof (rule performs_create)
  fix r
  assume run: "apiCreateServer (api storeExt) x w = (r, w')" and "None = errOf r"
  then obtain v where "r = Inr v" using errOf_None by metis
  with run assms(2-4) show ?thesis
    by (auto simp: store_api createObj_def tick_def admitMeta_def fleetServers_def selects_def live_def alive_def
        split: prod.splits if_splits)
qed

lemma server_place:
  assumes "x \<in> set (fleetServers k w)" and ok: "fleetStoreOk w"
  obtains ys zs where "store_servers w = ys @ (nsOf (server_meta x), x) # zs"
    "nsOf (server_meta x) \<notin> fst ` set ys" "nsOf (server_meta x) \<notin> fst ` set zs"
    "map_of (store_servers w) (nsOf (server_meta x)) = Some x"
proof -
  from assms(1) obtain k' where "(k', x) \<in> set (store_servers w)" by (auto simp: fleetServers_def)
  moreover from this ok have "k' = nsOf (server_meta x)" by (auto simp: fleetStoreOk_def keyed_def)
  moreover have d: "distinct (map fst (store_servers w))" using ok by (simp add: fleetStoreOk_def distinctKeys_def)
  ultimately have at: "map_of (store_servers w) (nsOf (server_meta x)) = Some x" by simp
  from map_of_place [OF at d] at that show thesis by blast
qed

lemma store_deleted:
  assumes "performs storeExt (Write Delete (ServerObj x) None) w w'" and ok: "fleetStoreOk w"
    and x: "x \<in> set (fleetServers k w)" and "alive x"
  shows "Suc (live (fleetServers k w')) = live (fleetServers k w)"
  using assms(1)
proof (rule performs_delete)
  fix r
  assume run: "apiDeleteServer (api storeExt) x w = (r, w')" and "None = errOf r"
  from x ok obtain ys zs where xs: "store_servers w = ys @ (nsOf (server_meta x), x) # zs"
    "nsOf (server_meta x) \<notin> fst ` set ys" "nsOf (server_meta x) \<notin> fst ` set zs"
    and at: "map_of (store_servers w) (nsOf (server_meta x)) = Some x"
    by (rule server_place)
  from x have "selects (Some (fst k)) (''fleet'', snd k) (server_meta x)" by (simp add: fleetServers_def)
  with at xs show ?thesis
    using run \<open>alive x\<close>
    by (auto simp: store_api deleteObj_def fleetServers_def live_def alive_def bump_def update_place delete_place
        split: if_splits)
qed

interpretation fleets: fleet_world storeExt fleetStoreOk fleetServers
proof
  show "finalizer_laws (lib storeExt)" by (rule store_laws)
  show "ss = fleetServers (ns, n) w"
    if "performs storeExt (ListedServers (Some ns) (''fleet'', n) (Inr ss)) w w'" for ns n ss w w'
    using that by (rule performs_listing) (auto simp: store_api fleetServers_def)
qed (blast intro: fleetStoreOk_step fleetServers_untouched store_created store_deleted)+

section \<open>Convergence\<close>

text \<open>
  C6. A fleet converges from any state in which none of its servers is being deleted: if every round succeeds,
  then after \<open>m\<close> rounds a fleet that had too few servers has exactly as many as it wants, from the first round
  on; one that had too many has lost one per round until it has what it wants; and one that has what it wants
  keeps it. Every round leads back to such a state. (With servers that are being deleted at the start the first
  round may go below the target, since the controller counts them.)
\<close>

theorem fleet_converges:
  assumes world: "fleet_world X ok servers" and "ok w0" and "\<forall>x \<in> set (servers req w0). alive x"
    and small: "length (servers req w0) < 2 ^ 31" and rounds: "fleetRounds X ok servers req d w0 m w"
  shows "int (length (servers req w)) = after d (length (servers req w0)) m \<and> (\<forall>x \<in> set (servers req w). alive x)"
proof -
  have "int (length (servers req w)) = after d (length (servers req w0)) m \<and> (\<forall>x \<in> set (servers req w). alive x) \<and> ok w"
    using rounds
  proof (induction rule: fleetRounds.induct)
    case none
    then show ?case using assms(2,3) by (simp add: after_steps)
  next
    case (again m w q s f t w1)
    have "d < 2 ^ 31" using again.hyps(6) sint_lt [of "Replicas (Scaling (fleet_spec f))"] by simp
    with again.IH after_bound [OF small] have "int (length (servers req w)) < 2 ^ 31" by simp
    then have "length (servers req w) < 2 ^ 31" by (simp only: of_nat_less_numeral_power_cancel_iff)
    with fleet_world.reconcile_live [OF world again.hyps(2-5)] again.IH again.hyps(6)
    have "int (live (servers req (world s))) = oneStep d (after d (length (servers req w0)) m)" by simp
    with again.hyps(7,8) show ?case by (simp add: live_def after_steps)
  qed
  then show ?thesis by blast
qed

lemma demo_round:
  "\<exists>q s t. reconcileFleet storeExt (''ns'', ''f'') \<lparr>world = fleetStore 1, trace = []\<rparr> = (Ret (q, None), s) \<and>
     trace s = ReadFleet (''ns'', ''f'') (Inr (demoFleet 1)) # t \<and> fleetStoreOk (world s) \<and>
     fleetServers (''ns'', ''f'') (world s) = filter alive (fleetServers (''ns'', ''f'') (world s))"
  by (simp add: fleet_defs run_simps store_simps fleetStore_def demoFleet_def fleetStoreOk_def keyed_def distinctKeys_def
      fleetServers_def alive_def)

lemma fleet_converges_witness:
  "\<exists>w. fleetRounds storeExt fleetStoreOk fleetServers (''ns'', ''f'') 1 (fleetStore 1) 1 w \<and>
     length (fleetServers (''ns'', ''f'') w) = 1"
proof -
  obtain q s t where run: "reconcileFleet storeExt (''ns'', ''f'') \<lparr>world = fleetStore 1, trace = []\<rparr> = (Ret (q, None), s)"
    "trace s = ReadFleet (''ns'', ''f'') (Inr (demoFleet 1)) # t" "fleetStoreOk (world s)"
    "fleetServers (''ns'', ''f'') (world s) = filter alive (fleetServers (''ns'', ''f'') (world s))"
    using demo_round by blast
  have f: "nsOf (fleet_meta (demoFleet 1)) = (''ns'', ''f'')" "desired (demoFleet 1) = 1"
    by (simp_all add: demoFleet_def fleetOf_def metaOf_def newMeta_def nsOf_def)
  have w0: "fleetStoreOk (fleetStore 1)" "fleetServers (''ns'', ''f'') (fleetStore 1) = []"
    by (simp_all add: fleetStoreOk_def keyed_def distinctKeys_def fleetServers_def fleetStore_def emptyStore_def)
  have rounds: "fleetRounds storeExt fleetStoreOk fleetServers (''ns'', ''f'') 1 (fleetStore 1) (Suc 0) (world s)"
    by (rule fleetRounds.again) (rule fleetRounds.none run demoFleet_steady f)+
  have "int (length (fleetServers (''ns'', ''f'') (world s))) = after 1 (length (fleetServers (''ns'', ''f'') (fleetStore 1))) (Suc 0)"
    by (rule conjunct1, rule fleet_converges [OF fleets.fleet_world_axioms w0(1) _ _ rounds]) (simp_all add: w0(2))
  with rounds w0(2) show ?thesis by (auto simp: after_def)
qed

section \<open>Teardown\<close>

text \<open>What a successful reconcile of a fleet that is being deleted has done.\<close>

abbreviation deletion :: "server \<Rightarrow> effect" where
  "deletion x \<equiv> Write Delete (ServerObj x) None"

lemma deleteServers_done: "gives (deleteServers X ss) (\<lambda>err t. err = None \<longrightarrow> t = map deletion ss)"
proof (induction ss)
  case Nil
  show ?case by (auto intro!: gives_return)
next
  case (Cons s ss)
  show ?case unfolding deleteServers.simps by (intro gives_intros gives_weaken [OF Cons.IH]) auto
qed

text \<open>Letting go of the fleet with the key of \<open>f\<close>.\<close>

definition letsFleet :: "nsname \<Rightarrow> effect \<Rightarrow> bool" where
  "letsFleet k e \<longleftrightarrow> (\<exists>g. e = Write Update (FleetObj g) None \<and> nsOf (fleet_meta g) = k \<and>
     FLEET_FINALIZER \<notin> set (Finalizers (fleet_meta g)))"

definition teardownDone :: "fleet \<Rightarrow> effect list \<Rightarrow> bool" where
  "teardownDone f t \<longleftrightarrow> (\<exists>ss ss2 tail. t = listing f (Inr ss) # map deletion ss @ listing f (Inr ss2) # tail \<and> quiet tail \<and>
     (ss2 = [] \<longrightarrow> (\<exists>e \<in> set tail. letsFleet (nsOf (fleet_meta f)) e)))"

lemma teardownDoneI:
  "quiet tail \<Longrightarrow> (ss2 = [] \<Longrightarrow> \<exists>e \<in> set tail. letsFleet (nsOf (fleet_meta f)) e) \<Longrightarrow>
   teardownDone f (listing f (Inr ss) # map deletion ss @ listing f (Inr ss2) # tail)"
  unfolding teardownDone_def by blast

lemma RemoveFinalizer_gone: "finalizer_laws L \<Longrightarrow> f \<notin> set (Finalizers (RemoveFinalizer L m f))"
  unfolding finalizer_laws_def by (metis Diff_iff insertI1 objectMeta.select_convs(7) objectMeta.surjective objectMeta.update_convs(7))

lemma handleDeletion_done:
  assumes L: "finalizer_laws (lib X)"
  shows "gives (fleet_handleDeletion X f) (\<lambda>err t. err = None \<longrightarrow> teardownDone f t)"
  unfolding fleet_handleDeletion_def getServers_def Let_def
  by (intro gives_intros gives_bind [OF deleteServers_done])
    (auto intro!: teardownDoneI simp: letsFleet_def RemoveFinalizer_gone [OF L] nsOf_Remove [OF L])

lemma reconcile_teardown:
  assumes L: "finalizer_laws (lib X)"
  shows "gives (fleet_Reconcile (prodFleetReconciler X) req) (\<lambda>r t. \<forall>q f rest. r = Ret (q, None) \<longrightarrow>
    t = ReadFleet req (Inr f) # rest \<longrightarrow> DeletionTimestamp (fleet_meta f) \<noteq> None \<longrightarrow> teardownDone f rest)"
  unfolding fleet_Reconcile_def fleet_initialize_def prod_fleet
  by (intro gives_intros gives_bind [OF handleDeletion_done [OF L]] gives_weaken [OF fc.fleet_scale_safe [OF prod_fleet(2)]])
    auto

text \<open>For that, a deletion must leave the other servers alone.\<close>

locale fleet_teardown = fleet_world +
  assumes distinct_servers: "ok w \<Longrightarrow> distinct (servers k w)"
    and others_stay: "performs X (deletion x) w w' \<Longrightarrow> ok w \<Longrightarrow> x \<in> set (servers k w) \<Longrightarrow>
      y \<in> set (servers k w) \<Longrightarrow> y \<noteq> x \<Longrightarrow> y \<in> set (servers k w')"
begin

lemma deletes_live:
  "replay X t w w' \<Longrightarrow> t = map deletion ss \<Longrightarrow> ok w \<Longrightarrow> distinct ss \<Longrightarrow> set ss \<subseteq> set (servers k w) \<Longrightarrow> \<forall>x \<in> set ss. alive x \<Longrightarrow>
   live (servers k w') + length ss = live (servers k w) \<and> ok w'"
proof (induction arbitrary: ss rule: replay.induct)
  case (stop w)
  then show ?case by simp
next
  case (onward e w w1 t w2)
  from onward.prems(1) obtain x xs where ss: "ss = x # xs" and e: "e = deletion x" "t = map deletion xs" by auto
  have "ok w1" using fleet_ok onward.hyps(1) onward.prems(2) by blast
  moreover have "set xs \<subseteq> set (servers k w1)"
    using others_stay onward.hyps(1) onward.prems(2-4) unfolding ss e(1) by fastforce
  ultimately have "live (servers k w2) + length xs = live (servers k w1) \<and> ok w2"
    using onward.IH [OF e(2)] onward.prems(3,5) ss by simp
  moreover have "Suc (live (servers k w1)) = live (servers k w)"
    using deleted onward.hyps(1) onward.prems(2,4,5) unfolding ss e(1) by simp
  ultimately show ?case by (simp add: ss)
qed

lemma teardown_live:
  assumes run: "reconcileFleet X req \<lparr>world = w, trace = []\<rparr> = (Ret (q, None), s)"
    and tr: "trace s = ReadFleet req (Inr f) # t" and f: "DeletionTimestamp (fleet_meta f) \<noteq> None" "nsOf (fleet_meta f) = req"
    and ok: "ok w" and all: "\<forall>x \<in> set (servers req w). alive x"
  shows "live (servers req (world s)) = 0" and "servers req w = [] \<Longrightarrow> \<exists>e \<in> set t. letsFleet req e"
proof -
  from traced_fleet_Reconcile run have rep: "replay X (trace s) w (world s)"
    unfolding traced_def by fastforce
  from gives_run [OF reconcile_teardown [OF fleet_laws] run] tr f(1) have "teardownDone f t" by auto
  then obtain ss ss2 tail where t: "t = listing f (Inr ss) # map deletion ss @ listing f (Inr ss2) # tail" "quiet tail"
    "ss2 = [] \<longrightarrow> (\<exists>e \<in> set tail. letsFleet req e)" unfolding teardownDone_def f(2) by blast
  from rep tr t(1) obtain w1 w2 where w12: "performs X (ReadFleet req (Inr f)) w w1" "performs X (listing f (Inr ss)) w1 w2"
    and "replay X (map deletion ss @ listing f (Inr ss2) # tail) w2 (world s)"
    by (auto dest!: replay_first)
  then obtain w3 w4 where w34: "replay X (map deletion ss) w2 w3" "performs X (listing f (Inr ss2)) w3 w4"
    "replay X tail w4 (world s)"
    using replay_split replay_first by metis
  note ws = w12 w34
  have w1: "servers req w1 = servers req w" "ok w1" using untouched [OF ws(1) ok] fleet_ok [OF ws(1) ok] by simp_all
  have ss: "ss = servers req w" using listed [OF ws(2) w1(2)] w1(1) f(2) by (simp add: nsOf_def)
  have w2: "servers req w2 = servers req w" "ok w2"
    using untouched [OF ws(2) w1(2)] fleet_ok [OF ws(2) w1(2)] w1(1) by simp_all
  from deletes_live [OF ws(3) refl w2(2), of req] distinct_servers [OF w2(2), of req] w2(1) ss all
  have w3: "live (servers req w3) = 0" "ok w3" by (simp_all add: live_def filter_True)
  have w4: "servers req w4 = servers req w3" "ok w4"
    using untouched [OF ws(4) w3(2)] fleet_ok [OF ws(4) w3(2)] by simp_all
  from quiet_servers [OF ws(5) w4(2) t(2)] w4(1) w3(1) show "live (servers req (world s)) = 0" by simp
  assume none: "servers req w = []"
  with ss ws(3) have "w3 = w2" by (auto elim: replay.cases)
  with listed [OF ws(4) w3(2)] w2(1) none f(2) have "ss2 = []" by (simp add: nsOf_def)
  with t(1,3) show "\<exists>e \<in> set t. letsFleet req e" by auto
qed

end

lemma store_others_stay:
  assumes "performs storeExt (deletion x) w w'" and ok: "fleetStoreOk w"
    and x: "x \<in> set (fleetServers k w)" and y: "y \<in> set (fleetServers k w)" and "y \<noteq> x"
  shows "y \<in> set (fleetServers k w')"
  using assms(1)
proof (rule performs_delete)
  fix r
  assume run: "apiDeleteServer (api storeExt) x w = (r, w')" and "None = errOf r"
  from x ok obtain ys zs where xs: "store_servers w = ys @ (nsOf (server_meta x), x) # zs"
    "nsOf (server_meta x) \<notin> fst ` set ys" "nsOf (server_meta x) \<notin> fst ` set zs" "map_of (store_servers w) (nsOf (server_meta x)) = Some x"
    by (rule server_place)
  with y \<open>y \<noteq> x\<close> show ?thesis
    using run
    by (auto simp: store_api deleteObj_def fleetServers_def update_place delete_place split: if_splits)
qed

lemma fleetServers_distinct:
  assumes "fleetStoreOk w"
  shows "distinct (fleetServers k w)"
proof -
  have "map fst (store_servers w) = map (nsOf \<circ> server_meta) (map snd (store_servers w))"
    using assms by (auto simp: fleetStoreOk_def keyed_def)
  then have "distinct (map snd (store_servers w))"
    using assms unfolding fleetStoreOk_def distinctKeys_def by (simp add: distinct_map del: map_map)
  then show ?thesis unfolding fleetServers_def by (rule distinct_filter)
qed

interpretation teardown: fleet_teardown storeExt fleetStoreOk fleetServers
proof
  show "y \<in> set (fleetServers k w')"
    if "performs storeExt (deletion x) w w'" "fleetStoreOk w" "x \<in> set (fleetServers k w)" "y \<in> set (fleetServers k w)" "y \<noteq> x" for x w w' y k
    using that by (rule store_others_stay)
qed (rule fleetServers_distinct)

text \<open>
  C7. Deleting a fleet ends after two reconciles: if the first that finds it deleted succeeds, and the deletions it
  asked for are carried out, then no server of the fleet is left, and the next one that succeeds takes the finalizer
  off the fleet.
\<close>

theorem fleet_teardown_terminates:
  assumes world: "fleet_teardown X ok servers" and "ok w0" and "\<forall>x \<in> set (servers req w0). alive x"
    and first: "reconcileFleet X req \<lparr>world = w0, trace = []\<rparr> = (Ret (q, None), s)" "trace s = ReadFleet req (Inr f) # t"
      "DeletionTimestamp (fleet_meta f) \<noteq> None" "nsOf (fleet_meta f) = req"
    and settled: "ok w1" "servers req w1 = filter alive (servers req (world s))"
    and again: "reconcileFleet X req \<lparr>world = w1, trace = []\<rparr> = (Ret (q', None), s')" "trace s' = ReadFleet req (Inr f') # t'"
      "DeletionTimestamp (fleet_meta f') \<noteq> None" "nsOf (fleet_meta f') = req"
  shows "servers req w1 = [] \<and> (\<exists>e \<in> set t'. letsFleet req e)"
proof -
  from fleet_teardown.teardown_live(1) [OF world first assms(2,3)] settled(2) have none: "servers req w1 = []"
    by (simp add: live_def)
  with fleet_teardown.teardown_live(2) [OF world again settled(1)] show ?thesis by simp
qed

definition heldServer :: server where
  "heldServer = serverOf ((metaOf ''ns'' ''a'')\<lparr>Labels := Some [''fleet'' \<mapsto> ''f''], Finalizers := [''server.falloria.com/finalizer'']\<rparr>)"

definition heldStore :: store where
  "heldStore = dyingStore\<lparr>store_servers := [((''ns'', ''a''), heldServer)]\<rparr>"

lemma first_teardown:
  "\<exists>q s t. reconcileFleet storeExt (''ns'', ''f'') \<lparr>world = heldStore, trace = []\<rparr> = (Ret (q, None), s) \<and>
     trace s = ReadFleet (''ns'', ''f'') (Inr dyingFleet) # t \<and>
     filter alive (fleetServers (''ns'', ''f'') (world s)) = []"
  by (simp add: fleet_defs run_simps store_simps heldStore_def heldServer_def dyingStore_def dyingFleet_def demoFleet_def
      lookupLabel_def fleetServers_def alive_def)

lemma second_teardown:
  "\<exists>q s t. reconcileFleet storeExt (''ns'', ''f'') \<lparr>world = dyingStore\<lparr>store_servers := []\<rparr>, trace = []\<rparr> = (Ret (q, None), s) \<and>
     trace s = ReadFleet (''ns'', ''f'') (Inr dyingFleet) # t"
  by (simp add: fleet_defs run_simps store_simps dyingStore_def dyingFleet_def demoFleet_def)

lemma fleet_teardown_terminates_witness:
  "\<exists>e \<in> set (trace (snd (reconcileFleet storeExt (''ns'', ''f'') \<lparr>world = dyingStore\<lparr>store_servers := []\<rparr>, trace = []\<rparr>))).
     letsFleet (''ns'', ''f'') e"
proof -
  obtain q s t where first: "reconcileFleet storeExt (''ns'', ''f'') \<lparr>world = heldStore, trace = []\<rparr> = (Ret (q, None), s)"
    "trace s = ReadFleet (''ns'', ''f'') (Inr dyingFleet) # t" "filter alive (fleetServers (''ns'', ''f'') (world s)) = []"
    using first_teardown by blast
  obtain q' s' t' where again:
    "reconcileFleet storeExt (''ns'', ''f'') \<lparr>world = dyingStore\<lparr>store_servers := []\<rparr>, trace = []\<rparr> = (Ret (q', None), s')"
    "trace s' = ReadFleet (''ns'', ''f'') (Inr dyingFleet) # t'"
    using second_teardown by blast
  have f: "DeletionTimestamp (fleet_meta dyingFleet) \<noteq> None" "nsOf (fleet_meta dyingFleet) = (''ns'', ''f'')"
    by (simp_all add: dyingFleet_def metaOf_def newMeta_def nsOf_def)
  have w0: "fleetStoreOk heldStore" "\<forall>x \<in> set (fleetServers (''ns'', ''f'') heldStore). alive x"
    by (simp_all add: heldStore_def heldServer_def serverOf_def metaOf_def newMeta_def nsOf_def alive_def
        fleetStoreOk_def keyed_def distinctKeys_def fleetServers_def)
  have w1: "fleetStoreOk (dyingStore\<lparr>store_servers := []\<rparr>)"
    "fleetServers (''ns'', ''f'') (dyingStore\<lparr>store_servers := []\<rparr>) = filter alive (fleetServers (''ns'', ''f'') (world s))"
    unfolding first(3) by (simp_all add: fleetStoreOk_def keyed_def distinctKeys_def fleetServers_def)
  from fleet_teardown_terminates [OF teardown.fleet_teardown_axioms w0 first(1,2) f w1 again f]
  have "\<exists>e \<in> set t'. letsFleet (''ns'', ''f'') e" by blast
  with again show ?thesis by auto
qed

end
