(* ===== verification/Rollout.thy ===== *)
theory Rollout
  imports Ownership Convergence "HOL-Library.Multiset"
begin

text \<open>
  A game type over several reconciles: how the fleets of a game are replaced when its pod changes. The
  fleets are seen as a multiset of shapes (\<open>typeStep\<close>, the specification of one reconcile); the
  locale \<open>type_world\<close> is what the API server must do with them. Over it a reconcile that
  succeeds makes one step, and the steps reach a single fleet with the pod the game type asks for.
\<close>

section \<open>The abstract rollout\<close>

text \<open>The key of a fleet, when it was created and the pod of its servers.\<close>

type_synonym shape = "nsname \<times> time \<times> podSpec"

abbreviation madeAt :: "shape \<Rightarrow> time" where
  "madeAt x \<equiv> fst (snd x)"

inductive typeStep :: "podSpec \<Rightarrow> shape multiset \<Rightarrow> shape multiset \<Rightarrow> bool" for P where
  initial: "typeStep P {#} {#(k, c, P)#}"
| same: "typeStep P {#(k, c, P)#} {#(k, c, P)#}"
| replace: "p \<noteq> P \<Longrightarrow> c < c' \<Longrightarrow> typeStep P {#(k, c, p)#} {#(k, c, p), (k', c', P)#}"
| retire: "2 \<le> size s \<Longrightarrow> x \<in># s \<Longrightarrow> \<forall>y \<in># s. madeAt x \<le> madeAt y \<Longrightarrow> typeStep P s (s - {#x#})"

text \<open>The newest fleet, if there is one that is newer than all others, has the right pod.\<close>

definition newestRight :: "podSpec \<Rightarrow> shape multiset \<Rightarrow> bool" where
  "newestRight P s \<longleftrightarrow> (\<exists>k c s0. s = add_mset (k, c, P) s0 \<and> (\<forall>y \<in># s0. madeAt y < c))"

definition rolledOut :: "podSpec \<Rightarrow> shape multiset \<Rightarrow> bool" where
  "rolledOut P s \<longleftrightarrow> (\<exists>k c. s = {#(k, c, P)#})"

text \<open>How many steps are left.\<close>

definition stepsLeft :: "podSpec \<Rightarrow> shape multiset \<Rightarrow> nat" where
  "stepsLeft P s = (if s = {#} then 1 else size s - 1 + (if newestRight P s then 0 else 2))"

lemma newestRight_single: "newestRight P {#(k, c, p)#} \<longleftrightarrow> p = P"
  by (auto simp: newestRight_def)

lemma stepsLeft_bound: "stepsLeft P s \<le> size s + 1"
  by (cases "s = {#}") (auto simp: stepsLeft_def nonempty_has_size)

lemma stepsLeft_0: "stepsLeft P s = 0 \<longleftrightarrow> rolledOut P s"
proof
  assume "stepsLeft P s = 0"
  then have "size s = 1" "newestRight P s" by (auto simp: stepsLeft_def nonempty_has_size split: if_splits)
  then show "rolledOut P s" by (auto simp: rolledOut_def newestRight_def)
qed (auto simp: rolledOut_def stepsLeft_def newestRight_single)

lemma newestRight_retire:
  assumes "newestRight P s" and "2 \<le> size s" and "x \<in># s" and "\<forall>y \<in># s. madeAt x \<le> madeAt y"
  shows "newestRight P (s - {#x#})"
proof -
  from assms(1) obtain k c s0 where s: "s = add_mset (k, c, P) s0" "\<forall>y \<in># s0. madeAt y < c"
    unfolding newestRight_def by blast
  from s(1) assms(2) have "s0 \<noteq> {#}" by auto
  then obtain y where "y \<in># s0" using multiset_nonemptyE by blast
  with s assms(4) have "madeAt x < c" by force
  with s(1) assms(3) have x: "x \<in># s0" by auto
  with s show ?thesis
    unfolding newestRight_def
    by (intro exI [of _ k] exI [of _ c] exI [of _ "s0 - {#x#}"]) (auto dest: in_diffD)
qed

lemma typeStep_progress:
  "typeStep P s s' \<Longrightarrow> if rolledOut P s then s' = s else stepsLeft P s' < stepsLeft P s"
proof (induction rule: typeStep.induct)
  case (initial k c)
  then show ?case by (simp add: rolledOut_def stepsLeft_def newestRight_single)
next
  case (same k c)
  then show ?case by (simp add: rolledOut_def)
next
  case (replace p c c' k k')
  then have "newestRight P {#(k, c, p), (k', c', P)#}"
    unfolding newestRight_def by (intro exI [of _ k'] exI [of _ c'] exI [of _ "{#(k, c, p)#}"]) simp
  with replace show ?case by (simp add: rolledOut_def stepsLeft_def newestRight_single)
next
  case (retire s x)
  then have size: "size (s - {#x#}) = size s - 1" by (simp add: size_Diff_singleton)
  then have "s - {#x#} \<noteq> {#}" "s \<noteq> {#}" using retire(1) by auto
  moreover have "\<not> rolledOut P s" using retire(1) by (auto simp: rolledOut_def)
  ultimately show ?case
    using size retire newestRight_retire by (auto simp: stepsLeft_def)
qed

text \<open>A sequence of steps ends, within one more than there were fleets at first.\<close>

lemma steps_end:
  assumes "(typeStep P ^^ m) s s'" and "size s + 1 \<le> m"
  shows "rolledOut P s'"
proof -
  have "stepsLeft P s' \<le> stepsLeft P s - m" using assms(1)
  proof (induction m arbitrary: s')
    case (Suc m)
    from Suc.prems obtain u where u: "(typeStep P ^^ m) s u" "typeStep P u s'" by auto
    from typeStep_progress [OF u(2)] have "stepsLeft P s' \<le> stepsLeft P u - 1"
      by (cases "rolledOut P u") (simp_all add: stepsLeft_0 [symmetric])
    with Suc.IH [OF u(1)] show ?case by simp
  qed simp
  with stepsLeft_bound [of P s] assms(2) show ?thesis by (simp add: stepsLeft_0 [symmetric])
qed

section \<open>What a successful reconcile has done\<close>

abbreviation podOf :: "fleet \<Rightarrow> podSpec" where
  "podOf f \<equiv> Pod (ServerSpec (fleet_spec f))"

abbreviation wantedPod :: "gameType \<Rightarrow> podSpec" where
  "wantedPod g \<equiv> Pod (ServerSpec (FleetSpec g))"

definition standing :: "fleet \<Rightarrow> bool" where
  "standing f \<longleftrightarrow> DeletionTimestamp (fleet_meta f) = None"

text \<open>Effects that leave the fleets as they are but for their status, and the game types but for theirs.\<close>

fun calm :: "effect \<Rightarrow> bool" where
  "calm (Write UpdateStatus _ _) = True"
| "calm (Write _ (FleetObj _) _) = False"
| "calm (Write _ (GameTypeObj _) _) = False"
| "calm _ = True"

abbreviation calmly :: "effect list \<Rightarrow> bool" where
  "calmly t \<equiv> \<forall>e \<in> set t. calm e"

text \<open>A fleet made for the game \<open>n\<close> with the pod \<open>P\<close>; a fleet that differs from \<open>f\<close> in nothing a shape shows.\<close>

definition madeForGame :: "string \<Rightarrow> podSpec \<Rightarrow> fleet \<Rightarrow> bool" where
  "madeForGame n P x \<longleftrightarrow> lookupLabel (Labels (fleet_meta x)) ''gametype'' = Some n \<and> podOf x = P \<and> standing x"

definition rescaled :: "fleet \<Rightarrow> fleet \<Rightarrow> bool" where
  "rescaled f y \<longleftrightarrow> fleet_meta y = fleet_meta f \<and> podOf y = podOf f"

definition createsOne :: "string \<Rightarrow> podSpec \<Rightarrow> effect list \<Rightarrow> bool" where
  "createsOne n P t \<longleftrightarrow> (\<exists>a x b. t = a @ Write Create (FleetObj x) None # b \<and> calmly a \<and> calmly b \<and> madeForGame n P x)"

definition deletesOne :: "fleet \<Rightarrow> effect list \<Rightarrow> bool" where
  "deletesOne x t \<longleftrightarrow> (\<exists>a b. t = a @ Write Delete (FleetObj x) None # b \<and> calmly a \<and> calmly b)"

definition rescales :: "fleet \<Rightarrow> effect list \<Rightarrow> bool" where
  "rescales f t \<longleftrightarrow> (\<forall>e \<in> set t. calm e \<or> (\<exists>y err. e = Write Update (FleetObj y) err \<and> rescaled f y))"

definition tendedTo :: "string \<Rightarrow> podSpec \<Rightarrow> fleet list \<Rightarrow> effect list \<Rightarrow> bool" where
  "tendedTo n P fs t \<longleftrightarrow>
     (case fs of
        [] \<Rightarrow> createsOne n P t
      | [f] \<Rightarrow> if podOf f = P then rescales f t else createsOne n P t
      | _ \<Rightarrow> (\<forall>x. oldestFleet fs None = Some x \<longrightarrow> standing x \<longrightarrow> deletesOne x t))"

lemma creates_more: "createsOne n P t \<Longrightarrow> calm e \<Longrightarrow> createsOne n P (e # t)"
  unfolding createsOne_def by (elim exE conjE) (rule exI [of _ "e # _"], auto)

lemma handleCreation_creates:
  "typeName g = n \<Longrightarrow> wantedPod g = P \<Longrightarrow> gives (handleCreation X g) (\<lambda>err t. err = None \<longrightarrow> createsOne n P t)"
  unfolding handleCreation_def Let_def case_prod_unfold
  by (intro gives_intros)
    (auto simp: createsOne_def madeForGame_def standing_def GetFleetObjectForType_def newMeta_def Let_def Cons_eq_append_conv)

lemma rescales_after: "rescales f t \<Longrightarrow> calm e \<Longrightarrow> rescales f (e # t)"
  by (simp add: rescales_def)

lemma propagateReplicas_rescales: "gives (propagateReplicas X g f) (\<lambda>r t. rescales f t)"
  unfolding propagateReplicas_def Let_def by (intro gives_intros) (auto simp: rescales_def rescaled_def)

definition succeeded :: "updated \<Rightarrow> bool" where
  "succeeded r \<longleftrightarrow> fst (snd r) = None"

definition wellDone :: "updated \<Rightarrow> bool" where
  "wellDone r \<longleftrightarrow> (\<not> snd (snd r) \<longrightarrow> succeeded r)"

lemma wellDone_simps [simp]: "wellDone (q, None, d)" "wellDone (q, e, True)" "succeeded (q, e, d) \<longleftrightarrow> e = None"
  by (simp_all add: wellDone_def succeeded_def)

lemma createInitialFleet_tends:
  assumes "typeName g = n" and "wantedPod g = P"
  shows "gives (createInitialFleet X g) (\<lambda>r t. wellDone r \<and> (succeeded r \<longrightarrow> tendedTo n P [] t))"
proof -
  have after: "createsOne n P t \<Longrightarrow> calm e \<Longrightarrow> createsOne n P (t @ [e])" for t e
    unfolding createsOne_def by (elim exE conjE) (rule exI, rule exI, rule exI [of _ "_ @ [e]"], auto)
  show ?thesis
    unfolding createInitialFleet_def
    by (intro gives_intros gives_bind [OF handleCreation_creates [OF assms]]) (auto simp: tendedTo_def after)
qed

lemma retireOldestFleet_tends:
  assumes "fs = x # y # zs"
  shows "gives (retireOldestFleet X g fs) (\<lambda>r t. wellDone r \<and> (succeeded r \<longrightarrow> tendedTo n P fs t))"
  unfolding retireOldestFleet_def
  by (intro gives_intros) (auto simp: assms tendedTo_def deletesOne_def standing_def Cons_eq_append_conv)

text \<open>After the status update, with what it answered.\<close>

definition singleFleet :: "'w ext \<Rightarrow> fleet \<Rightarrow> gameType \<Rightarrow> ('w op, updated) state" where
  "singleFleet X f g1 =
     (if \<not> AreFleetsPodsEqual (fleet_spec f) (FleetSpec g1)
      then do {
        emitEvent KGameType (gametype_meta g1) Normal ''GametypeSpecUpdated'' ''Creating new fleet'';
        err \<leftarrow> handleCreation X g1;
        ret (noRequeue, err, True)
      }
      else if Replicas (Scaling (FleetSpec g1)) \<noteq> CurrentFleetReplicas (gametype_status g1)
      then propagateReplicas X g1 f
      else ret (noRequeue, None, False))"

lemma propagateReplicas_wellDone: "gives (propagateReplicas X g f) (\<lambda>r t. wellDone r)"
  unfolding propagateReplicas_def Let_def by (intro gives_intros) auto

lemma singleFleet_tends:
  assumes "typeName g = n" and "wantedPod g = P"
  shows "gives (singleFleet X f g) (\<lambda>r t. wellDone r \<and> (succeeded r \<longrightarrow> tendedTo n P [f] t))"
  unfolding singleFleet_def
  by (intro gives_intros gives_bind [OF handleCreation_creates [OF assms]]
      gives_weaken [OF gives_conj [OF propagateReplicas_wellDone propagateReplicas_rescales]])
    (use assms in \<open>auto simp: tendedTo_def AreFleetsPodsEqual_def creates_more rescales_def\<close>)

section \<open>Runs that start in a good world\<close>

text \<open>\<open>gives\<close> for worlds with \<open>I\<close>, which the computation keeps.\<close>

definition givesIn :: "('w \<Rightarrow> bool) \<Rightarrow> ('w op, 'a) state \<Rightarrow> ('a \<Rightarrow> effect list \<Rightarrow> bool) \<Rightarrow> bool" where
  "givesIn I m Q \<longleftrightarrow> (\<forall>s r s'. I (world s) \<longrightarrow> run_state m s = (r, s') \<longrightarrow>
     (\<exists>t. trace s' = trace s @ t \<and> I (world s') \<and> Q r t))"

lemma givesIn_weaken: "givesIn I m Q \<Longrightarrow> (\<And>r t. Q r t \<Longrightarrow> R r t) \<Longrightarrow> givesIn I m R"
  unfolding givesIn_def by blast

lemma givesIn_run:
  "givesIn I m Q \<Longrightarrow> I (world s) \<Longrightarrow> run_state m s = (r, s') \<Longrightarrow>
   \<exists>t. trace s' = trace s @ t \<and> I (world s') \<and> Q r t"
  unfolding givesIn_def by blast

lemma givesIn_return: "Q x [] \<Longrightarrow> givesIn I (ret x) Q"
  unfolding givesIn_def by simp

lemma givesIn_bind:
  assumes "givesIn I m P" and "\<And>x t. P x t \<Longrightarrow> givesIn I (f x) (\<lambda>r u. Q r (t @ u))"
  shows "givesIn I (State_Monad.bind m f) Q"
  unfolding givesIn_def
proof (intro allI impI)
  fix s r s'
  assume I: "I (world s)" and run: "run_state (State_Monad.bind m f) s = (r, s')"
  obtain x v where m: "run_state m s = (x, v)" by fastforce
  from assms(1) [unfolded givesIn_def, rule_format, OF I m] obtain t where
    t: "trace v = trace s @ t" "I (world v)" "P x t" by blast
  from run m have "run_state (f x) v = (r, s')" by simp
  from assms(2) [OF t(3), unfolded givesIn_def, rule_format, OF t(2) this] t(1)
  show "\<exists>t. trace s' = trace s @ t \<and> I (world s') \<and> Q r t" by (metis append.assoc)
qed

lemma givesIn_cases:
  "(b \<Longrightarrow> givesIn I m Q) \<Longrightarrow> (\<not> b \<Longrightarrow> givesIn I n Q) \<Longrightarrow> givesIn I (if b then m else n) Q"
  "(\<And>e. y = Inl e \<Longrightarrow> givesIn I (fl e) Q) \<Longrightarrow> (\<And>v. y = Inr v \<Longrightarrow> givesIn I (fr v) Q) \<Longrightarrow>
   givesIn I (case y of Inl e \<Rightarrow> fl e | Inr v \<Rightarrow> fr v) Q"
  "(z = None \<Longrightarrow> givesIn I m Q) \<Longrightarrow> (\<And>v. z = Some v \<Longrightarrow> givesIn I (fs v) Q) \<Longrightarrow>
   givesIn I (case z of None \<Rightarrow> m | Some v \<Rightarrow> fs v) Q"
  "(\<And>c d. q = (c, d) \<Longrightarrow> givesIn I (fp c d) Q) \<Longrightarrow> givesIn I (case q of (c, d) \<Rightarrow> fp c d) Q"
  by (auto split: sum.split option.split prod.split)

lemma givesIn_gives:
  assumes "gives m Q" and "traced X A m" and keep: "\<And>e w w'. performs X e w w' \<Longrightarrow> A e \<Longrightarrow> I w \<Longrightarrow> I w'"
  shows "givesIn I m Q"
  unfolding givesIn_def
proof (intro allI impI)
  fix s r s'
  assume I: "I (world s)" and run: "run_state m s = (r, s')"
  from assms(1) run obtain t where t: "trace s' = trace s @ t" "Q r t" unfolding gives_def by blast
  from assms(2) run t(1) have t2: "replay X t (world s) (world s')" "\<forall>e \<in> set t. A e"
    unfolding traced_def by (metis same_append_eq)+
  from t2 I have "I (world s')" by (induction rule: replay.induct) (auto intro: keep)
  with t show "\<exists>t. trace s' = trace s @ t \<and> I (world s') \<and> Q r t" by blast
qed

text \<open>Effects that do not update a game type, but for its status.\<close>

fun sparesTypes :: "effect \<Rightarrow> bool" where
  "sparesTypes (Write Update (GameTypeObj _) _) = False"
| "sparesTypes _ = True"

lemma traced_parts:
  "traced X sparesTypes (handleGametypeStatus X g)" "traced X sparesTypes (createInitialFleet X g)"
  "traced X sparesTypes (singleFleet X f g)" "traced X sparesTypes (retireOldestFleet X g fs)"
  "traced X sparesTypes (StatusGameType X g)" "traced X sparesTypes (GetFleet X k)" "traced X sparesTypes (ListFleets X ns sel)"
  unfolding handleGametypeStatus_def createInitialFleet_def handleCreation_def GetFleetsForType_def
    singleFleet_def propagateReplicas_def retireOldestFleet_def
  by (intro traced_intros; simp)+

text \<open>A live game type under its finalizer, and what its reconcile does once it has been read.\<close>

definition steadyType :: "'w ext \<Rightarrow> gameType \<Rightarrow> bool" where
  "steadyType X g \<longleftrightarrow> DeletionTimestamp (gametype_meta g) = None \<and> ContainsFinalizer (lib X) (gametype_meta g) TypeFinalizer"

lemma steady_runs:
  assumes run: "run_state (gametype_Reconcile X req) \<lparr>world = w, trace = []\<rparr> = (r, s)"
    and tr: "trace s = ReadGameType req (Inr g) # t" and g: "steadyType X g"
  shows "\<exists>w1. performs X (ReadGameType req (Inr g)) w w1 \<and>
    run_state (gametype_run X g) \<lparr>world = w1, trace = [ReadGameType req (Inr g)]\<rparr> = (r, s)"
proof -
  obtain a w1 where read: "apiGetGameType (api X) req w = (a, w1)" by fastforce
  let ?s = "\<lparr>world = w1, trace = [ReadGameType req a]\<rparr>"
  let ?rest = "\<lambda>a. case a of Inl e \<Rightarrow> fail noRequeue e
    | Inr g \<Rightarrow> if DeletionTimestamp (gametype_meta g) = None \<and> \<not> ContainsFinalizer (lib X) (gametype_meta g) TypeFinalizer
        then gametype_initialize X g
        else if DeletionTimestamp (gametype_meta g) \<noteq> None then gametype_finalize X g else gametype_run X g"
  have first: "performs X (ReadGameType req a) w w1" using read by (rule performs.getGameType)
  from run read have rest: "run_state (?rest a) ?s = (r, s)" by (simp add: gametype_Reconcile_def run_simps)
  have "traced X (\<lambda>_. True) (?rest a)"
    unfolding gametype_initialize_def gametype_finalize_def gametype_run_def gametype_handleDeletion_def
      handleGametypeStatus_def updateReplicaCount_def handleUpdating_def createInitialFleet_def updateSingleFleet_def
      propagateReplicas_def retireOldestFleet_def handleCreation_def GetFleetsForType_def
    by (intro traced_intros TrueI)
  with rest have "\<exists>u. trace s = trace ?s @ u" unfolding traced_def by blast
  with tr have a: "a = Inr g" by auto
  from rest g first show ?thesis unfolding a by (auto simp: steadyType_def)
qed

section \<open>The oldest fleet\<close>

lemma oldestFleet_least:
  assumes "fs \<noteq> []"
  shows "\<exists>x. oldestFleet fs None = Some x \<and> x \<in> set fs \<and> (\<forall>f \<in> set fs. fleetCreated x \<le> fleetCreated f)"
proof -
  obtain x where x: "oldestFleet fs None = Some x" using assms unfolding oldestFleet_firstBest by fastforce
  from oldf.firstBest_least [OF x [unfolded oldestFleet_firstBest]] x show ?thesis
    by (auto simp: olderFleet_def not_less)
qed

lemma fleets_cases:
  obtains (none) "fs = []" | (one) f where "fs = [f]" | (many) x y zs where "fs = x # y # zs"
  by (metis list.exhaust)

section \<open>The contract\<close>

definition shapeOf :: "fleet \<Rightarrow> shape" where
  "shapeOf f = (nsOf (fleet_meta f), fleetCreated f, podOf f)"

definition shapes :: "fleet list \<Rightarrow> shape multiset" where
  "shapes fs = image_mset shapeOf (mset (filter standing fs))"

text \<open>
  \<open>fleets n w\<close> are the fleets with the label of the game \<open>n\<close>, \<open>template k w\<close> is the pod that the game type \<open>k\<close>
  asks for and \<open>now w\<close> the time. A listing shows the fleets; a fleet that is created is dated, one that
  is deleted disappears or is marked; an update that changes no shape keeps the shapes; the rest of what a
  reconcile does does not touch them. The answer to a status update of a game type has the stored spec.
\<close>

lemma shapes_all: "\<forall>f \<in> set fs. standing f \<Longrightarrow> shapes fs = mset (map shapeOf fs)"
  unfolding shapes_def by (simp add: filter_True)

lemma all_standing:
  assumes "size (shapes fs) = length fs"
  shows "\<forall>f \<in> set fs. standing f"
proof -
  from assms have "length (filter standing fs) = length fs" by (simp add: shapes_def del: mset_filter)
  then show ?thesis by (metis length_filter_less less_irrefl)
qed

locale type_world =
  fixes X :: "'w ext" and ok :: "'w \<Rightarrow> bool" and fleets :: "string \<Rightarrow> 'w \<Rightarrow> fleet list"
    and template :: "nsname \<Rightarrow> 'w \<Rightarrow> podSpec" and now :: "'w \<Rightarrow> time"
  assumes type_ok: "performs X e w w' \<Longrightarrow> ok w \<Longrightarrow> ok w'"
    and now_on: "performs X e w w' \<Longrightarrow> now w \<le> now w'"
    and typeRead: "performs X (ReadGameType k (Inr g)) w w' \<Longrightarrow> ok w \<Longrightarrow> nsOf (gametype_meta g) = k \<and> wantedPod g = template k w"
    and statusAnswer: "apiStatusGameType (api X) g w = (Inr g', w') \<Longrightarrow> ok w \<Longrightarrow>
      nsOf (gametype_meta g') = nsOf (gametype_meta g) \<and> wantedPod g' = template (nsOf (gametype_meta g)) w"
    and template_kept: "performs X e w w' \<Longrightarrow> ok w \<Longrightarrow> sparesTypes e \<Longrightarrow> template k w' = template k w"
    and fleets_listed: "performs X (typeListing n (Inr fs)) w w' \<Longrightarrow> ok w \<Longrightarrow> fs = fleets n w"
    and fleets_labelled: "ok w \<Longrightarrow> f \<in> set (fleets n w) \<Longrightarrow> lookupLabel (Labels (fleet_meta f)) ''gametype'' = Some n"
    and fleets_calm: "performs X e w w' \<Longrightarrow> ok w \<Longrightarrow> calm e \<Longrightarrow>
      shapes (fleets n w') = shapes (fleets n w) \<and> length (fleets n w') = length (fleets n w)"
    and fleet_created: "performs X (Write Create (FleetObj x) None) w w' \<Longrightarrow> ok w \<Longrightarrow> madeForGame n P x \<Longrightarrow>
      \<exists>k c. now w \<le> c \<and> shapes (fleets n w') = add_mset (k, c, P) (shapes (fleets n w))"
    and fleet_updated: "performs X (Write Update (FleetObj y) err) w w' \<Longrightarrow> ok w \<Longrightarrow> standing y \<Longrightarrow>
      lookupLabel (Labels (fleet_meta y)) ''gametype'' = Some n \<Longrightarrow> shapeOf y \<in># shapes (fleets n w) \<Longrightarrow>
      shapes (fleets n w') = shapes (fleets n w)"
    and fleet_deleted: "performs X (Write Delete (FleetObj x) None) w w' \<Longrightarrow> ok w \<Longrightarrow> standing x \<Longrightarrow>
      shapeOf x \<in># shapes (fleets n w) \<Longrightarrow> shapes (fleets n w') = shapes (fleets n w) - {#shapeOf x#}"
begin

text \<open>The worlds in which the game type \<open>k\<close> asks for the pod \<open>P\<close>.\<close>

definition asks :: "nsname \<Rightarrow> podSpec \<Rightarrow> 'w \<Rightarrow> bool" where
  "asks k P w \<longleftrightarrow> ok w \<and> template k w = P"

lemma asks_kept: "performs X e w w' \<Longrightarrow> sparesTypes e \<Longrightarrow> asks k P w \<Longrightarrow> asks k P w'"
  unfolding asks_def using type_ok template_kept by blast

lemmas asking = givesIn_gives [OF _ _ asks_kept]

lemma StatusGameType_asks:
  "nsOf (gametype_meta g) = k \<Longrightarrow> givesIn (asks k P) (StatusGameType X g) (\<lambda>r t. calmly t \<and>
     (\<forall>g'. r = Inr g' \<longrightarrow> nsOf (gametype_meta g') = k \<and> wantedPod g' = P))"
  unfolding givesIn_def
proof (intro allI impI)
  fix s r s'
  assume k: "nsOf (gametype_meta g) = k" and I: "asks k P (world s)" and run: "run_state (StatusGameType X g) s = (r, s')"
  from run have api: "apiStatusGameType (api X) g (world s) = (r, world s')" "trace s' = trace s @ [Write UpdateStatus (GameTypeObj g) (errOf r)]"
    by (auto simp: run_simps split: prod.splits)
  from asks_kept [OF performs.statusGameType [OF api(1)] _ I] have "asks k P (world s')" by simp
  moreover have "r = Inr g' \<Longrightarrow> nsOf (gametype_meta g') = k \<and> wantedPod g' = P" for g'
    using statusAnswer api(1) I k unfolding asks_def by blast
  ultimately show "\<exists>t. trace s' = trace s @ t \<and> asks k P (world s') \<and> calmly t \<and>
      (\<forall>g'. r = Inr g' \<longrightarrow> nsOf (gametype_meta g') = k \<and> wantedPod g' = P)"
    using api(2) by auto
qed

text \<open>The parts of a reconcile that thread the game type through.\<close>

abbreviation asker :: "nsname \<Rightarrow> podSpec \<Rightarrow> gameType \<Rightarrow> bool" where
  "asker k P g \<equiv> nsOf (gametype_meta g) = k \<and> wantedPod g = P"

lemma handleGametypeStatus_asks:
  assumes "asker k P g"
  shows "givesIn (asks k P) (handleGametypeStatus X g) (\<lambda>r t. calmly t \<and> asker k P (snd r))"
  by (rule asking [OF _ traced_parts(1)])
    (unfold handleGametypeStatus_def GetFleetsForType_def Let_def, intro gives_intros,
      use assms in \<open>auto simp: setFleetName_def\<close>)

lemma updateReplicaCount_asks:
  assumes "asker k P g"
  shows "givesIn (asks k P) (updateReplicaCount X g) (\<lambda>r t. calmly t \<and> asker k P (snd r))"
proof -
  have status: "givesIn (asks k P) (State_Monad.bind (StatusGameType X h)
      (\<lambda>u. ret (case u of Inl e \<Rightarrow> (Some e, h) | Inr g2 \<Rightarrow> (None, g2)))) (\<lambda>r t. calmly t \<and> asker k P (snd r))"
    if h: "asker k P h" for h
    using h by (intro givesIn_bind [OF StatusGameType_asks] givesIn_return) (auto split: sum.split)
  have read: "givesIn (asks k P) (GetFleet X l) (\<lambda>r t. calmly t)" for l
    by (rule asking [OF _ traced_parts(6)]) (auto intro: gives_intros)
  have h: "asker k P (setFleetReplicas n g)" for n using assms by (simp add: setFleetReplicas_def)
  show ?thesis
    unfolding updateReplicaCount_def Let_def
    by (intro givesIn_cases givesIn_return givesIn_bind [OF read] givesIn_weaken [OF status [OF h]])
      (use assms in auto)
qed

lemma handleUpdating_asks:
  assumes "asker k P g"
  shows "givesIn (asks k P) (handleUpdating X g) (\<lambda>r t. wellDone r \<and> (succeeded r \<longrightarrow>
    (\<exists>fs v. t = typeListing (snd k) (Inr fs) # v \<and> tendedTo (snd k) P fs v)))"
    (is "givesIn ?I _ ?Q")
proof -
  have n: "typeName g = snd k" and P: "wantedPod g = P" using assms by (auto simp: nsOf_def)
  have listing: "givesIn ?I (ListFleets X None (''gametype'', snd k)) (\<lambda>r t. t = [typeListing (snd k) r])"
    by (rule asking [OF _ traced_parts(7)]) (auto intro: gives_intros)
  have single: "givesIn ?I (updateSingleFleet X g f) (\<lambda>r t. wellDone r \<and> (succeeded r \<longrightarrow> tendedTo (snd k) P [f] t))" for f
  proof -
    have rest: "givesIn ?I (singleFleet X f g1) (\<lambda>r t. wellDone r \<and> (succeeded r \<longrightarrow> tendedTo (snd k) P [f] t))"
      if "asker k P g1" for g1
      by (rule asking [OF singleFleet_tends traced_parts(3)]) (use that in \<open>auto simp: nsOf_def\<close>)
    have calm_on: "calmly u \<Longrightarrow> tendedTo (snd k) P [f] t \<Longrightarrow> tendedTo (snd k) P [f] (u @ t)" for u t
      by (induction u) (auto simp: tendedTo_def creates_more rescales_def split: if_splits)
    have g: "nsOf (gametype_meta (setFleetName (Name (fleet_meta f)) g)) = k" using assms by (simp add: setFleetName_def)
    show ?thesis
      unfolding updateSingleFleet_def singleFleet_def [symmetric]
      by (rule givesIn_bind [OF StatusGameType_asks [OF g]])
        (auto intro!: givesIn_return givesIn_weaken [OF rest] calm_on split: sum.split)
  qed
  have initial: "givesIn ?I (createInitialFleet X g) (\<lambda>r t. wellDone r \<and> (succeeded r \<longrightarrow> tendedTo (snd k) P [] t))"
    by (rule asking [OF createInitialFleet_tends [OF n P] traced_parts(2)])
  have retire: "givesIn ?I (retireOldestFleet X g (x # y # zs)) (\<lambda>r t. wellDone r \<and> (succeeded r \<longrightarrow> tendedTo (snd k) P (x # y # zs) t))"
    for x y zs by (rule asking [OF retireOldestFleet_tends [OF refl] traced_parts(4)])
  show ?thesis
    unfolding handleUpdating_def GetFleetsForType_def n
    by (rule givesIn_bind [OF listing])
      (auto intro!: givesIn_return givesIn_weaken [OF initial] givesIn_weaken [OF single] givesIn_weaken [OF retire]
        split: sum.split list.split)
qed

text \<open>A whole reconcile: calm effects, then a listing and what it calls for.\<close>

definition tended :: "nsname \<Rightarrow> podSpec \<Rightarrow> effect list \<Rightarrow> bool" where
  "tended k P t \<longleftrightarrow> (\<exists>u fs v. t = u @ typeListing (snd k) (Inr fs) # v \<and> calmly u \<and> tendedTo (snd k) P fs v)"

lemma tendedI: "calmly u \<Longrightarrow> tendedTo (snd k) P fs v \<Longrightarrow> tended k P (u @ typeListing (snd k) (Inr fs) # v)"
  unfolding tended_def by blast

lemma gametype_run_asks:
  assumes "asker k P g"
  shows "givesIn (asks k P) (gametype_run X g) (\<lambda>r t. \<forall>q. r = Ret (q, None) \<longrightarrow> tended k P t)"
proof -
  let ?R = "\<lambda>u r t. \<forall>q. r = Ret (q :: result, None :: error option) \<longrightarrow> tended k P (u @ t)"
  have update: "givesIn (asks k P) (State_Monad.bind (handleUpdating X g2)
      (\<lambda>(result, err, done). if done then ret (Ret (result, err)) else finish doRequeue)) (?R u)"
    if "asker k P g2" "calmly u" for g2 u
    by (rule givesIn_bind [OF handleUpdating_asks [OF that(1)]])
      (use that(2) in \<open>auto intro!: givesIn_return tendedI simp: finish_def wellDone_def\<close>)
  have count: "givesIn (asks k P) (State_Monad.bind (updateReplicaCount X g1) (\<lambda>(err, g2). case err of
      Some e \<Rightarrow> fail doRequeue e
    | None \<Rightarrow> do { (result, err, done) \<leftarrow> handleUpdating X g2;
        if done then ret (Ret (result, err)) else finish doRequeue })) (?R u)"
    if "asker k P g1" "calmly u" for g1 u
  proof (rule givesIn_bind [OF updateReplicaCount_asks [OF that(1)]], intro givesIn_cases)
    fix x t err g2
    assume "calmly t \<and> asker k P (snd x)" "x = (err, g2)"
    then have g2: "asker k P g2" "calmly (u @ t)" using that(2) by auto
    show "givesIn (asks k P) (State_Monad.bind (handleUpdating X g2)
        (\<lambda>(result, err, done). if done then ret (Ret (result, err)) else finish doRequeue)) (\<lambda>r v. ?R u r (t @ v))"
      using update [OF g2] by simp
  qed (auto intro!: givesIn_return simp: fail_def)
  have "givesIn (asks k P) (gametype_run X g) (?R [])"
    unfolding gametype_run_def
  proof (rule givesIn_bind [OF handleGametypeStatus_asks [OF assms]], intro givesIn_cases)
    fix x t err g1
    assume "calmly t \<and> asker k P (snd x)" "x = (err, g1)"
    then have g1: "asker k P g1" "calmly t" by auto
    show "givesIn (asks k P) (State_Monad.bind (updateReplicaCount X g1) (\<lambda>(err, g2). case err of
          Some e \<Rightarrow> fail doRequeue e
        | None \<Rightarrow> do { (result, err, done) \<leftarrow> handleUpdating X g2;
            if done then ret (Ret (result, err)) else finish doRequeue })) (\<lambda>r v. ?R [] r (t @ v))"
      using count [OF g1] by simp
  qed (auto intro!: givesIn_return simp: fail_def)
  then show ?thesis by simp
qed

lemma reconcile_tended:
  assumes run: "run_state (gametype_Reconcile X req) \<lparr>world = w, trace = []\<rparr> = (Ret (q, None), s)"
    and tr: "trace s = ReadGameType req (Inr g) # t" and g: "steadyType X g" and asks: "asks req P w"
  shows "tended req P t"
proof -
  from steady_runs [OF run tr g] obtain w1 where first: "performs X (ReadGameType req (Inr g)) w w1"
    and rest: "run_state (gametype_run X g) \<lparr>world = w1, trace = [ReadGameType req (Inr g)]\<rparr> = (Ret (q, None), s)"
    by blast
  have g: "asker req P g" using typeRead first asks unfolding asks_def by blast
  have "asks req P w1" using asks_kept [OF first _ asks] by simp
  with givesIn_run [OF gametype_run_asks [OF g] _ rest] tr show ?thesis by auto
qed

section \<open>A reconcile is a step\<close>

lemma calm_replay:
  "replay X t w w' \<Longrightarrow> ok w \<Longrightarrow> calmly t \<Longrightarrow> ok w' \<and> now w \<le> now w' \<and>
   shapes (fleets n w') = shapes (fleets n w) \<and> length (fleets n w') = length (fleets n w)"
proof (induction rule: replay.induct)
  case (stop w)
  then show ?case by simp
next
  case (onward e w w1 t w2)
  have "ok w1" "calm e" "calmly t" using type_ok onward.hyps(1) onward.prems by auto
  with onward.IH fleets_calm [OF onward.hyps(1) onward.prems(1), of n] now_on [OF onward.hyps(1)] show ?case by fastforce
qed

lemma creates_shapes:
  assumes run: "replay X t w w'" and ok: "ok w" and t: "createsOne n P t"
  obtains k c where "now w \<le> c" and "shapes (fleets n w') = add_mset (k, c, P) (shapes (fleets n w))"
proof -
  from t obtain a x b where t: "t = a @ Write Create (FleetObj x) None # b" "calmly a" "calmly b" "madeForGame n P x"
    unfolding createsOne_def by blast
  from run [unfolded t(1)] obtain w1 w2 where ws: "replay X a w w1" "performs X (Write Create (FleetObj x) None) w1 w2"
    "replay X b w2 w'" using replay_split replay_first by metis
  from calm_replay [OF ws(1) ok t(2), of n] have w1: "ok w1" "now w \<le> now w1" "shapes (fleets n w1) = shapes (fleets n w)" by simp_all
  from fleet_created [OF ws(2) w1(1) t(4)] obtain k c where c: "now w1 \<le> c"
    "shapes (fleets n w2) = add_mset (k, c, P) (shapes (fleets n w1))" by blast
  from calm_replay [OF ws(3) type_ok [OF ws(2) w1(1)] t(3), of n] c w1 show thesis
    by (intro that [of c k]) auto
qed

lemma deletes_shapes:
  assumes run: "replay X t w w'" and ok: "ok w" and t: "deletesOne x t"
    and x: "standing x" "shapeOf x \<in># shapes (fleets n w)"
  shows "shapes (fleets n w') = shapes (fleets n w) - {#shapeOf x#}"
proof -
  from t obtain a b where t: "t = a @ Write Delete (FleetObj x) None # b" "calmly a" "calmly b"
    unfolding deletesOne_def by blast
  from run [unfolded t(1)] obtain w1 w2 where ws: "replay X a w w1" "performs X (Write Delete (FleetObj x) None) w1 w2"
    "replay X b w2 w'" using replay_split replay_first by metis
  from calm_replay [OF ws(1) ok t(2), of n] have w1: "ok w1" "shapes (fleets n w1) = shapes (fleets n w)" by simp_all
  with x(2) have "shapeOf x \<in># shapes (fleets n w1)" by simp
  from fleet_deleted [OF ws(2) w1(1) x(1) this] calm_replay [OF ws(3) type_ok [OF ws(2) w1(1)] t(3), of n] w1(2)
  show ?thesis by simp
qed

lemma rescales_shapes:
  "replay X t w w' \<Longrightarrow> ok w \<Longrightarrow> rescales f t \<Longrightarrow> standing f \<Longrightarrow>
   lookupLabel (Labels (fleet_meta f)) ''gametype'' = Some n \<Longrightarrow> shapeOf f \<in># shapes (fleets n w) \<Longrightarrow>
   shapes (fleets n w') = shapes (fleets n w)"
proof (induction rule: replay.induct)
  case (stop w)
  then show ?case by simp
next
  case (onward e w w1 t w2)
  have ok1: "ok w1" using type_ok onward.hyps(1) onward.prems(1) by blast
  have t: "rescales f t" using onward.prems(2) by (simp add: rescales_def)
  from onward.prems(2) consider "calm e" | y err where "e = Write Update (FleetObj y) err" "rescaled f y"
    by (auto simp: rescales_def)
  then have "shapes (fleets n w1) = shapes (fleets n w)"
  proof cases
    case 1
    with fleets_calm onward.hyps(1) onward.prems(1) show ?thesis by blast
  next
    case 2
    then have "standing y" "lookupLabel (Labels (fleet_meta y)) ''gametype'' = Some n" "shapeOf y = shapeOf f"
      using onward.prems(3,4) by (simp_all add: rescaled_def standing_def shapeOf_def fleetCreated_def)
    with fleet_updated onward.hyps(1) onward.prems(1,5) 2(1) show ?thesis by metis
  qed
  with onward.IH [OF ok1 t onward.prems(3,4)] onward.prems(5) show ?case by simp
qed

lemma tended_step:
  assumes run: "replay X t w w'" and ok: "ok w" and t: "tended k P t"
    and all: "\<forall>f \<in> set (fleets (snd k) w). standing f" and past: "\<forall>f \<in> set (fleets (snd k) w). fleetCreated f < now w"
  shows "typeStep P (shapes (fleets (snd k) w)) (shapes (fleets (snd k) w'))"
proof -
  let ?n = "snd k" and ?s = "shapes (fleets (snd k) w)"
  from t obtain u fs v where t: "t = u @ typeListing ?n (Inr fs) # v" "calmly u" and v: "tendedTo ?n P fs v"
    unfolding tended_def by blast
  from run [unfolded t(1)] obtain w1 w2 where ws: "replay X u w w1" "performs X (typeListing ?n (Inr fs)) w1 w2"
    "replay X v w2 w'" using replay_split replay_first by metis
  from calm_replay [OF ws(1) ok t(2), of ?n] have w1: "ok w1" "now w \<le> now w1" "shapes (fleets ?n w1) = ?s"
    "length (fleets ?n w1) = length (fleets ?n w)" by simp_all
  have fs: "fs = fleets ?n w1" using fleets_listed [OF ws(2) w1(1)] .
  have w2: "ok w2" "now w \<le> now w2" "shapes (fleets ?n w2) = ?s"
    using type_ok [OF ws(2) w1(1)] now_on [OF ws(2)] fleets_calm [OF ws(2) w1(1), of ?n] w1 by auto
  have "size (shapes fs) = length fs" using w1(3,4) shapes_all [OF all] by (simp add: fs)
  then have stand: "\<forall>f \<in> set fs. standing f" by (rule all_standing)
  then have s: "?s = mset (map shapeOf fs)" using shapes_all w1(3) fs by metis
  have label: "f \<in> set fs \<Longrightarrow> lookupLabel (Labels (fleet_meta f)) ''gametype'' = Some ?n" for f
    using fleets_labelled w1(1) fs by blast
  have past: "\<forall>y \<in># ?s. madeAt y < now w"
    using past unfolding shapes_all [OF all] by (auto simp: shapeOf_def)
  show ?thesis
  proof (cases fs rule: fleets_cases)
    case none
    with v have "createsOne ?n P v" by (simp add: tendedTo_def)
    then obtain l c where "shapes (fleets ?n w') = add_mset (l, c, P) (shapes (fleets ?n w2))"
      using creates_shapes [OF ws(3) w2(1)] by metis
    with none s w2(3) show ?thesis by (simp add: typeStep.initial)
  next
    case (one f)
    then have f: "?s = {#shapeOf f#}" "standing f" "lookupLabel (Labels (fleet_meta f)) ''gametype'' = Some ?n"
      using s stand label by simp_all
    show ?thesis
    proof (cases "podOf f = P")
      case True
      with v one have "rescales f v" by (simp add: tendedTo_def)
      with rescales_shapes [OF ws(3) w2(1) _ f(2,3)] w2(3) f(1) have "shapes (fleets ?n w') = ?s" by simp
      with f(1) True show ?thesis by (auto simp: shapeOf_def intro: typeStep.same)
    next
      case False
      with v one have "createsOne ?n P v" by (simp add: tendedTo_def)
      then obtain l c where c: "now w2 \<le> c" "shapes (fleets ?n w') = add_mset (l, c, P) ?s"
        using creates_shapes [OF ws(3) w2(1)] w2(3) by metis
      have "fleetCreated f < c" using past f(1) c(1) w2(2) by (simp add: shapeOf_def)
      with typeStep.replace [OF False, of "fleetCreated f" c "nsOf (fleet_meta f)" l] f(1) c(2) show ?thesis
        by (simp add: shapeOf_def add_mset_commute)
    qed
  next
    case (many x y zs)
    then obtain old where old: "oldestFleet fs None = Some old" "old \<in> set fs" "\<forall>f \<in> set fs. fleetCreated old \<le> fleetCreated f"
      using oldestFleet_least [of fs] by blast
    with v many stand have "deletesOne old v" by (auto simp: tendedTo_def)
    moreover have x: "shapeOf old \<in># ?s" using old(2) s by simp
    ultimately have "shapes (fleets ?n w') = ?s - {#shapeOf old#}"
      using deletes_shapes [OF ws(3) w2(1)] stand old(2) w2(3) by metis
    moreover have "2 \<le> size ?s" using s many by simp
    moreover have "\<forall>y \<in># ?s. madeAt (shapeOf old) \<le> madeAt y" using s old(3) by (auto simp: shapeOf_def)
    ultimately show ?thesis using typeStep.retire x by metis
  qed
qed

end

section \<open>Rounds\<close>

text \<open>
  \<open>m\<close> rounds for the game type \<open>k\<close> that asks for the pod \<open>P\<close>: in each, time has passed since the last fleet was
  created, a reconcile returns without an error, and then the deletions it asked for are carried out, while
  nobody else creates or deletes fleets of the game or changes their pods. The other parts of the fleets, such
  as the status that the fleet controller writes, may change.
\<close>

inductive typeRounds ::
  "'w ext \<Rightarrow> ('w \<Rightarrow> bool) \<Rightarrow> (string \<Rightarrow> 'w \<Rightarrow> fleet list) \<Rightarrow> (nsname \<Rightarrow> 'w \<Rightarrow> podSpec) \<Rightarrow> ('w \<Rightarrow> time) \<Rightarrow>
   nsname \<Rightarrow> podSpec \<Rightarrow> 'w \<Rightarrow> nat \<Rightarrow> 'w \<Rightarrow> bool"
  for X ok fleets template now k P w0 where
  none: "typeRounds X ok fleets template now k P w0 0 w0"
| again: "typeRounds X ok fleets template now k P w0 m w \<Longrightarrow>
    template k w = P \<Longrightarrow> \<forall>f \<in> set (fleets (snd k) w). fleetCreated f < now w \<Longrightarrow>
    run_state (gametype_Reconcile X k) \<lparr>world = w, trace = []\<rparr> = (Ret (q, None), s) \<Longrightarrow>
    trace s = ReadGameType k (Inr g) # t \<Longrightarrow> steadyType X g \<Longrightarrow>
    ok w1 \<Longrightarrow> \<forall>f \<in> set (fleets (snd k) w1). standing f \<Longrightarrow>
    shapes (fleets (snd k) w1) = shapes (fleets (snd k) (world s)) \<Longrightarrow>
    typeRounds X ok fleets template now k P w0 (Suc m) w1"

context type_world
begin

lemma round_step:
  assumes run: "run_state (gametype_Reconcile X k) \<lparr>world = w, trace = []\<rparr> = (Ret (q, None), s)"
    and tr: "trace s = ReadGameType k (Inr g) # t" and g: "steadyType X g" and ok: "ok w" and P: "template k w = P"
    and all: "\<forall>f \<in> set (fleets (snd k) w). standing f" and past: "\<forall>f \<in> set (fleets (snd k) w). fleetCreated f < now w"
  shows "typeStep P (shapes (fleets (snd k) w)) (shapes (fleets (snd k) (world s)))"
proof -
  have t: "tended k P t"
    by (rule reconcile_tended [OF run tr g]) (use ok P in \<open>simp add: asks_def\<close>)
  from traced_gametype_Reconcile run have "replay X (trace s) w (world s)"
    unfolding traced_def by fastforce
  with tr obtain w1 where ws: "performs X (ReadGameType k (Inr g)) w w1" "replay X t w1 (world s)"
    using replay_first by metis
  from fleets_calm [OF ws(1) ok, of "snd k"] have w1: "shapes (fleets (snd k) w1) = shapes (fleets (snd k) w)"
    "length (fleets (snd k) w1) = length (fleets (snd k) w)" by simp_all
  from now_on [OF ws(1)] have now: "now w \<le> now w1" .
  have all1: "\<forall>f \<in> set (fleets (snd k) w1). standing f"
    by (rule all_standing) (simp add: w1 shapes_all [OF all])
  have "\<forall>y \<in># shapes (fleets (snd k) w1). madeAt y < now w1"
    unfolding w1(1) shapes_all [OF all] using past now by (auto simp: shapeOf_def)
  then have "\<forall>f \<in> set (fleets (snd k) w1). fleetCreated f < now w1"
    unfolding shapes_all [OF all1] by (auto simp: shapeOf_def)
  from tended_step [OF ws(2) type_ok [OF ws(1) ok] t all1 this] show ?thesis by (simp add: w1)
qed

lemma rounds_steps:
  assumes "typeRounds X ok fleets template now k P w0 m w" and "ok w0" and "\<forall>f \<in> set (fleets (snd k) w0). standing f"
  shows "(typeStep P ^^ m) (shapes (fleets (snd k) w0)) (shapes (fleets (snd k) w)) \<and> ok w \<and>
    (\<forall>f \<in> set (fleets (snd k) w). standing f)"
  using assms(1)
proof (induction rule: typeRounds.induct)
  case none
  then show ?case using assms(2,3) by simp
next
  case (again m w q s g t w1)
  have "typeStep P (shapes (fleets (snd k) w)) (shapes (fleets (snd k) w1))"
    unfolding again.hyps(9)
    by (rule round_step [OF again.hyps(4-6) _ again.hyps(2) _ again.hyps(3)]) (use again.IH in auto)
  with again.IH again.hyps(7,8) show ?case by auto
qed

end

section \<open>The concrete API server\<close>

text \<open>What the store keeps of the fleets and the game types.\<close>

definition finalized :: "('a \<Rightarrow> objectMeta) \<Rightarrow> (nsname \<times> 'a) list \<Rightarrow> bool" where
  "finalized getM xs \<longleftrightarrow> (\<forall>(k, x) \<in> set xs. DeletionTimestamp (getM x) \<noteq> None \<longrightarrow> Finalizers (getM x) \<noteq> [])"

lemma finalized_append:
  "finalized getM (xs @ ys) \<longleftrightarrow> finalized getM xs \<and> finalized getM ys"
  "finalized getM ((k, x) # ys) \<longleftrightarrow> (DeletionTimestamp (getM x) \<noteq> None \<longrightarrow> Finalizers (getM x) \<noteq> []) \<and> finalized getM ys"
  "finalized getM []"
  by (simp_all add: finalized_def ball_Un)

lemma finalized_update:
  "finalized getM xs \<Longrightarrow> (DeletionTimestamp (getM x) \<noteq> None \<Longrightarrow> Finalizers (getM x) \<noteq> []) \<Longrightarrow> finalized getM (AList.update k x xs)"
  by (induction xs) (auto simp: finalized_def split: if_splits)

lemma finalized_delete: "finalized getM xs \<Longrightarrow> finalized getM (AList.delete k xs)"
  by (induction xs) (auto simp: finalized_def)

context stored_meta
begin

lemma createObj_finalized: "createObj getM setM w x xs = (r, ys) \<Longrightarrow> finalized getM xs \<Longrightarrow> finalized getM ys"
  by (auto simp: createObj_def finalized_append get_set admitMeta_def split: if_splits)

lemma writeObj_finalized: "writeObj getM setM merge x xs = (r, ys) \<Longrightarrow> finalized getM xs \<Longrightarrow> finalized getM ys"
  by (auto simp: writeObj_def commit_def intro!: finalized_update finalized_delete split: option.splits if_splits)

lemma deleteObj_finalized: "deleteObj getM setM w x xs = (r, ys) \<Longrightarrow> finalized getM xs \<Longrightarrow> finalized getM ys"
  by (auto simp: deleteObj_def finalized_delete get_set bump_def intro!: finalized_update split: option.splits if_splits)

end

interpretation typesMeta: stored_meta gametype_meta setGameTypeMeta by unfold_locales simp

definition rolloutOk :: "store \<Rightarrow> bool" where
  "rolloutOk w \<longleftrightarrow> keyed fleet_meta (store_fleets w) \<and> distinctKeys (store_fleets w) \<and> finalized fleet_meta (store_fleets w) \<and>
     keyed gametype_meta (store_gametypes w) \<and> finalized gametype_meta (store_gametypes w)"

lemma rolloutOk_step:
  assumes "performs storeExt e w w'" and "rolloutOk w"
  shows "rolloutOk w'"
  using assms
  by (induction rule: performs.induct)
    (auto simp: store_api store_ext rolloutOk_def storeHttp_def tick_def Let_def
      split: prod.splits option.splits
      dest: fleetsMeta.createObj_keyed fleetsMeta.writeObj_keyed fleetsMeta.deleteObj_keyed distinctKeys_ops
        fleetsMeta.createObj_finalized fleetsMeta.writeObj_finalized fleetsMeta.deleteObj_finalized
        typesMeta.writeObj_keyed typesMeta.writeObj_finalized)

text \<open>The fleets of a game and their shapes, along the stored list.\<close>

definition ofGame :: "string \<Rightarrow> fleet \<Rightarrow> bool" where
  "ofGame n f \<longleftrightarrow> lookupLabel (Labels (fleet_meta f)) ''gametype'' = Some n"

definition storeFleets :: "string \<Rightarrow> store \<Rightarrow> fleet list" where
  "storeFleets n w = filter (ofGame n) (map snd (store_fleets w))"

definition storeTemplate :: "nsname \<Rightarrow> store \<Rightarrow> podSpec" where
  "storeTemplate k w = (case map_of (store_gametypes w) k of Some g \<Rightarrow> wantedPod g | None \<Rightarrow> plainPod)"

definition storeNow :: "store \<Rightarrow> time" where
  "storeNow w = Time (clock w)"

definition shapesIn :: "string \<Rightarrow> (nsname \<times> fleet) list \<Rightarrow> shape multiset" where
  "shapesIn n xs = shapes (filter (ofGame n) (map snd xs))"

lemma shapesIn_simps [simp]:
  "shapesIn n [] = {#}"
  "shapesIn n (xs @ ys) = shapesIn n xs + shapesIn n ys"
  "shapesIn n ((k, x) # xs) = (if ofGame n x \<and> standing x then {#shapeOf x#} else {#}) + shapesIn n xs"
  by (simp_all add: shapesIn_def shapes_def del: filter_filter)

lemma shapesIn_store: "shapes (storeFleets n w) = shapesIn n (store_fleets w)"
  by (simp only: shapesIn_def storeFleets_def)

text \<open>Where the fleet with a standing shape is stored.\<close>

lemma fleet_place:
  assumes x: "shapeOf x \<in># shapesIn n xs" and keyed: "keyed fleet_meta xs" and distinct: "distinctKeys xs"
  obtains ys zs f where "xs = ys @ (nsOf (fleet_meta x), f) # zs" "nsOf (fleet_meta x) \<notin> fst ` set ys"
    "nsOf (fleet_meta x) \<notin> fst ` set zs" "map_of xs (nsOf (fleet_meta x)) = Some f"
    "ofGame n f" "standing f" "shapeOf f = shapeOf x"
proof -
  from x obtain k f where f: "(k, f) \<in> set xs" "ofGame n f" "standing f" "shapeOf f = shapeOf x"
    by (auto simp: shapesIn_def shapes_def)
  have "k = nsOf (fleet_meta x)" using f keyed by (auto simp: keyed_def shapeOf_def)
  with f(1) distinct have at: "map_of xs (nsOf (fleet_meta x)) = Some f" by (simp add: distinctKeys_def)
  obtain ys zs where "xs = ys @ (nsOf (fleet_meta x), f) # zs" "nsOf (fleet_meta x) \<notin> fst ` set ys"
    "nsOf (fleet_meta x) \<notin> fst ` set zs"
    by (rule map_of_place [OF at distinct [unfolded distinctKeys_def]])
  from that [OF this at f(2-4)] show thesis .
qed

text \<open>What writes do to the shapes.\<close>

lemma status_shapes:
  assumes run: "writeObj fleet_meta setFleetMeta (\<lambda>old new. old\<lparr>fleet_status := fleet_status new\<rparr>) x xs = (r, xs')"
    and keyed: "keyed fleet_meta xs" and distinct: "distinctKeys xs" and fin: "finalized fleet_meta xs"
  shows "shapesIn n xs' = shapesIn n xs \<and>
    length (filter (ofGame n) (map snd xs')) = length (filter (ofGame n) (map snd xs))"
proof (cases "map_of xs (nsOf (fleet_meta x))")
  case None
  with run show ?thesis by (simp add: writeObj_def)
next
  case (Some old)
  obtain ys zs where xs: "xs = ys @ (nsOf (fleet_meta x), old) # zs"
    "nsOf (fleet_meta x) \<notin> fst ` set ys"
    by (rule map_of_place [OF Some distinct [unfolded distinctKeys_def]])
  have "(nsOf (fleet_meta x), old) \<in> set xs" using xs by simp
  with keyed fin have "nsOf (fleet_meta old) = nsOf (fleet_meta x)"
    "DeletionTimestamp (fleet_meta old) \<noteq> None \<Longrightarrow> Finalizers (fleet_meta old) \<noteq> []"
    by (auto simp: keyed_def finalized_def)
  with run Some xs show ?thesis
    by (auto simp: writeObj_def commit_def stamp_def update_place ofGame_def standing_def shapeOf_def fleetCreated_def nsOf_def
        split: if_splits)
qed

lemma update_shapes:
  assumes run: "writeObj fleet_meta setFleetMeta (\<lambda>old new. new\<lparr>fleet_status := fleet_status old\<rparr>) y xs = (r, xs')"
    and keyed: "keyed fleet_meta xs" and distinct: "distinctKeys xs"
    and y: "standing y" "ofGame n y" "shapeOf y \<in># shapesIn n xs"
  shows "shapesIn n xs' = shapesIn n xs"
proof -
  from fleet_place [OF y(3) keyed distinct] obtain ys zs f where xs: "xs = ys @ (nsOf (fleet_meta y), f) # zs"
    "nsOf (fleet_meta y) \<notin> fst ` set ys" "map_of xs (nsOf (fleet_meta y)) = Some f" "ofGame n f" "standing f" "shapeOf f = shapeOf y"
    by metis
  with run y(1,2) show ?thesis
    by (auto simp: writeObj_def commit_def stamp_def update_place ofGame_def standing_def shapeOf_def fleetCreated_def nsOf_def
        split: if_splits)
qed

lemma delete_shapes:
  assumes run: "deleteObj fleet_meta setFleetMeta w x xs = (r, xs')"
    and keyed: "keyed fleet_meta xs" and distinct: "distinctKeys xs"
    and x: "standing x" "shapeOf x \<in># shapesIn n xs"
  shows "shapesIn n xs' = shapesIn n xs - {#shapeOf x#}"
proof -
  from fleet_place [OF x(2) keyed distinct] obtain ys zs f where xs: "xs = ys @ (nsOf (fleet_meta x), f) # zs"
    "nsOf (fleet_meta x) \<notin> fst ` set ys" "nsOf (fleet_meta x) \<notin> fst ` set zs" "map_of xs (nsOf (fleet_meta x)) = Some f"
    "ofGame n f" "standing f" "shapeOf f = shapeOf x"
    by metis
  with run show ?thesis
    by (auto simp: deleteObj_def bump_def update_place delete_place standing_def ofGame_def split: if_splits)
qed

inductive_cases performs_typeRead: "performs X (ReadGameType k (Inr g)) w w'"
inductive_cases performs_fleetListing: "performs X (ListedFleets ns sel (Inr fs)) w w'"
inductive_cases performs_fleetCreate: "performs X (Write Create (FleetObj x) None) w w'"
inductive_cases performs_fleetUpdate: "performs X (Write Update (FleetObj x) err) w w'"
inductive_cases performs_fleetDelete: "performs X (Write Delete (FleetObj x) None) w w'"

lemma store_clock: "performs storeExt e w w' \<Longrightarrow> storeNow w' = storeNow w"
  by (induction rule: performs.induct)
    (auto simp: store_api store_ext storeNow_def storeHttp_def tick_def Let_def split: prod.splits option.splits)

lemma store_calm:
  assumes "performs storeExt e w w'" and "rolloutOk w" and "calm e"
  shows "shapes (storeFleets n w') = shapes (storeFleets n w) \<and> length (storeFleets n w') = length (storeFleets n w)"
  using assms
proof (induction rule: performs.induct)
  case (statusFleet f w r w')
  then obtain ys where ys: "writeObj fleet_meta setFleetMeta (\<lambda>old new. old\<lparr>fleet_status := fleet_status new\<rparr>) f (store_fleets w) = (r, ys)"
    and w': "w' = w\<lparr>store_fleets := ys\<rparr>" by (auto simp: store_api split: prod.splits)
  from status_shapes [OF ys, of n] statusFleet.prems(1) show ?case
    unfolding shapesIn_store by (simp add: w' rolloutOk_def storeFleets_def)
qed (auto simp: store_api store_ext storeFleets_def storeHttp_def tick_def Let_def split: prod.splits option.splits)

lemma store_template:
  assumes "performs storeExt e w w'" and "rolloutOk w" and "sparesTypes e"
  shows "storeTemplate k w' = storeTemplate k w"
  using assms
proof (induction rule: performs.induct)
  case (statusGameType g w r w')
  have fin: "DeletionTimestamp (gametype_meta x) \<noteq> None \<Longrightarrow> Finalizers (gametype_meta x) \<noteq> []"
    if "map_of (store_gametypes w) l = Some x" for l x
    using statusGameType.prems(1) map_of_SomeD [OF that] by (auto simp: rolloutOk_def finalized_def)
  from statusGameType.hyps show ?case
    by (auto simp: store_api writeObj_def commit_def stamp_def storeTemplate_def update_conv' dest: fin
        split: prod.splits option.splits if_splits)
qed (auto simp: store_api store_ext storeTemplate_def storeHttp_def tick_def Let_def split: prod.splits option.splits)

lemma store_created_fleet:
  assumes "performs storeExt (Write Create (FleetObj x) None) w w'" and x: "madeForGame n P x"
  shows "\<exists>k c. storeNow w \<le> c \<and> shapes (storeFleets n w') = add_mset (k, c, P) (shapes (storeFleets n w))"
  using assms(1)
proof (rule performs_fleetCreate)
  fix r
  assume run: "apiCreateFleet (api storeExt) x w = (r, w')" and "None = errOf r"
  then obtain v where "r = Inr v" using errOf_None by metis
  with run x show ?thesis
    unfolding shapesIn_store
    by (auto simp: store_api createObj_def tick_def admitMeta_def madeForGame_def ofGame_def standing_def shapeOf_def
        fleetCreated_def storeNow_def split: prod.splits if_splits)
qed

lemma store_updated_fleet:
  assumes "performs storeExt (Write Update (FleetObj y) err) w w'" and "rolloutOk w"
    and "standing y" "ofGame n y" "shapeOf y \<in># shapes (storeFleets n w)"
  shows "shapes (storeFleets n w') = shapes (storeFleets n w)"
  using assms(1)
proof (rule performs_fleetUpdate)
  fix r
  assume "apiUpdateFleet (api storeExt) y w = (r, w')"
  then obtain ys where ys: "writeObj fleet_meta setFleetMeta (\<lambda>old new. new\<lparr>fleet_status := fleet_status old\<rparr>) y (store_fleets w) = (r, ys)"
    and w': "w' = w\<lparr>store_fleets := ys\<rparr>" by (auto simp: store_api split: prod.splits)
  from update_shapes [OF ys _ _ assms(3,4)] assms(2,5) show ?thesis
    unfolding shapesIn_store by (simp add: w' rolloutOk_def)
qed

lemma store_deleted_fleet:
  assumes "performs storeExt (Write Delete (FleetObj x) None) w w'" and "rolloutOk w"
    and "standing x" "shapeOf x \<in># shapes (storeFleets n w)"
  shows "shapes (storeFleets n w') = shapes (storeFleets n w) - {#shapeOf x#}"
  using assms(1)
proof (rule performs_fleetDelete)
  fix r
  assume "apiDeleteFleet (api storeExt) x w = (r, w')"
  then obtain ys where ys: "deleteObj fleet_meta setFleetMeta w x (store_fleets w) = (r, ys)"
    and w': "w' = w\<lparr>store_fleets := ys\<rparr>" by (auto simp: store_api split: prod.splits)
  from delete_shapes [OF ys _ _ assms(3)] assms(2,4) show ?thesis
    unfolding shapesIn_store by (simp add: w' rolloutOk_def)
qed

interpretation rollout: type_world storeExt rolloutOk storeFleets storeTemplate storeNow
proof
  show "rolloutOk w'" if "performs storeExt e w w'" "rolloutOk w" for e w w'
    using that by (rule rolloutOk_step)
  show "storeNow w \<le> storeNow w'" if "performs storeExt e w w'" for e w w'
    using store_clock [OF that] by simp
  show "nsOf (gametype_meta g) = k \<and> wantedPod g = storeTemplate k w"
    if "performs storeExt (ReadGameType k (Inr g)) w w'" "rolloutOk w" for k g w w'
    using that(1)
    by (rule performs_typeRead)
      (use that(2) in \<open>auto simp: store_api storeTemplate_def rolloutOk_def lookupObj_def keyed_def split: option.splits dest!: map_of_SomeD\<close>)
  show "nsOf (gametype_meta g') = nsOf (gametype_meta g) \<and> wantedPod g' = storeTemplate (nsOf (gametype_meta g)) w"
    if "apiStatusGameType (api storeExt) g w = (Inr g', w')" for g g' w w'
    using that by (auto simp: store_api writeObj_def commit_def stamp_def storeTemplate_def nsOf_def
        split: prod.splits option.splits if_splits)
  show "fs = storeFleets n w" if "performs storeExt (typeListing n (Inr fs)) w w'" for n fs w w'
    using that by (rule performs_fleetListing)
      (auto simp: store_api storeFleets_def selects_def ofGame_def fun_eq_iff intro!: arg_cong2 [where f = filter])
  show "lookupLabel (Labels (fleet_meta f)) ''gametype'' = Some n" if "f \<in> set (storeFleets n w)" for f n w
    using that by (auto simp: storeFleets_def ofGame_def)
qed (assumption | rule store_template store_calm store_created_fleet store_deleted_fleet store_updated_fleet [unfolded ofGame_def])+

section \<open>The rollout ends\<close>

text \<open>
  C8. When the pod of a game type changes, the change is rolled out: if every round succeeds, then after one round
  more than the game had fleets, and from then on, it has a single fleet, and that has the pod the game type asks for.
\<close>

theorem gametype_rolls_out:
  assumes world: "type_world X ok fleets template now" and "ok w0" and all: "\<forall>f \<in> set (fleets (snd k) w0). standing f"
    and rounds: "typeRounds X ok fleets template now k P w0 m w" and m: "length (fleets (snd k) w0) + 1 \<le> m"
  shows "\<exists>f. fleets (snd k) w = [f] \<and> Pod (ServerSpec (fleet_spec f)) = P"
proof -
  from type_world.rounds_steps [OF world rounds \<open>ok w0\<close> all]
  have steps: "(typeStep P ^^ m) (shapes (fleets (snd k) w0)) (shapes (fleets (snd k) w))"
    and stand: "\<forall>f \<in> set (fleets (snd k) w). standing f" by simp_all
  from steps_end [OF steps] m have "rolledOut P (shapes (fleets (snd k) w))" by (simp add: shapes_all [OF all])
  then obtain l c where "mset (map shapeOf (fleets (snd k) w)) = {#(l, c, P)#}"
    unfolding rolledOut_def shapes_all [OF stand] by (elim exE)
  then show ?thesis by (auto simp: shapeOf_def mset_single_iff map_eq_Cons_conv simp del: mset_map)
qed

definition oldFleet :: fleet where
  "oldFleet = (typeFleet ''ns'' ''f'' 1)\<lparr>fleet_spec := (fleet_spec (typeFleet ''ns'' ''f'' 1))
     \<lparr>ServerSpec := plainSpec\<lparr>Pod := plainPod\<lparr>PodSpecRest := ''old''\<rparr>\<rparr>\<rparr>\<rparr>"

definition rollout0 :: store where
  "rollout0 = (typeStore demoType [oldFleet])\<lparr>clock := 5\<rparr>"

text \<open>After the first round, one second later: the new fleet is there.\<close>

definition newFleet :: fleet where
  "newFleet = fleetOf ((metaOf ''ns'' (''g-'' @ itoa 0))\<lparr>GenerateName := ''g-'', UID := itoa 0,
     Labels := Some [''gametype'' \<mapsto> ''g''], ResourceVersion := 1, OwnerReferences := [\<lparr>RefKind = ''GameType'', RefName = ''g'', RefUID = []\<rparr>],
     CreationTimestamp := Time 5\<rparr>) 1 False ''oldest_first''"

definition rollout1 :: store where
  "rollout1 = (typeStore (demoType\<lparr>gametype_meta := (gametype_meta demoType)\<lparr>ResourceVersion := 2\<rparr>,
     gametype_status := \<lparr>GameTypeConditions = [], CurrentFleetName = ''f'', CurrentFleetReplicas = 1\<rparr>\<rparr>) [oldFleet\<lparr>fleet_meta := (fleet_meta oldFleet)\<lparr>ResourceVersion := 1\<rparr>\<rparr>, newFleet])
     \<lparr>clock := 6, fresh := 1\<rparr>"

lemmas rollout_defs = gametype_defs updateSingleFleet_def run_simps store_simps typeStore_def demoType_def typeFleet_def oldFleet_def
  newFleet_def
  rollout0_def rollout1_def lookupLabel_def withLabel_def AreFleetsPodsEqual_def plainSpec_def plainPod_def

lemma first_round:
  "\<exists>q s t. reconcileGameType storeExt (''ns'', ''g'') \<lparr>world = rollout0, trace = []\<rparr> = (Ret (q, None), s) \<and>
     trace s = ReadGameType (''ns'', ''g'') (Inr demoType) # t \<and> store_fleets (world s) = store_fleets rollout1"
  by (simp add: rollout_defs)

lemma second_round:
  "\<exists>q s g t. reconcileGameType storeExt (''ns'', ''g'') \<lparr>world = rollout1, trace = []\<rparr> = (Ret (q, None), s) \<and>
     trace s = ReadGameType (''ns'', ''g'') (Inr g) # t \<and> steadyType storeExt g \<and> rolloutOk (world s) \<and>
     (\<forall>f \<in> set (storeFleets ''g'' (world s)). standing f)"
  by (simp add: rollout_defs rolloutOk_def keyed_def distinctKeys_def finalized_def steadyType_def storeFleets_def ofGame_def standing_def)

lemma rollout_start:
  "rolloutOk rollout0" "\<forall>f \<in> set (storeFleets ''g'' rollout0). standing f \<and> fleetCreated f < storeNow rollout0"
  "length (storeFleets ''g'' rollout0) = 1" "storeTemplate (''ns'', ''g'') rollout0 = plainPod"
  "rolloutOk rollout1" "\<forall>f \<in> set (storeFleets ''g'' rollout1). standing f \<and> fleetCreated f < storeNow rollout1"
  "storeTemplate (''ns'', ''g'') rollout1 = plainPod" "steadyType storeExt demoType"
  by (simp_all add: rollout_defs rolloutOk_def keyed_def distinctKeys_def finalized_def steadyType_def storeFleets_def
      ofGame_def standing_def storeTemplate_def storeNow_def)

lemma gametype_rolls_out_witness:
  "\<exists>w f. typeRounds storeExt rolloutOk storeFleets storeTemplate storeNow (''ns'', ''g'') plainPod rollout0 2 w \<and>
     storeFleets ''g'' w = [f] \<and> Pod (ServerSpec (fleet_spec f)) = plainPod"
proof -
  let ?rounds = "typeRounds storeExt rolloutOk storeFleets storeTemplate storeNow (''ns'', ''g'') plainPod rollout0"
  obtain q s t where first: "reconcileGameType storeExt (''ns'', ''g'') \<lparr>world = rollout0, trace = []\<rparr> = (Ret (q, None), s)"
    "trace s = ReadGameType (''ns'', ''g'') (Inr demoType) # t" and same: "store_fleets (world s) = store_fleets rollout1"
    using first_round by blast
  obtain q' s' g' t' where second: "reconcileGameType storeExt (''ns'', ''g'') \<lparr>world = rollout1, trace = []\<rparr> = (Ret (q', None), s')"
    "trace s' = ReadGameType (''ns'', ''g'') (Inr g') # t'" "steadyType storeExt g'" "rolloutOk (world s')"
    "\<forall>f \<in> set (storeFleets ''g'' (world s')). standing f"
    using second_round by blast
  have one: "?rounds (Suc 0) rollout1"
    by (rule typeRounds.again [OF typeRounds.none _ _ first])
      (use rollout_start same in \<open>auto simp: storeFleets_def\<close>)
  have two: "?rounds (Suc (Suc 0)) (world s')"
    by (rule typeRounds.again [OF one _ _ second(1-4)]) (use rollout_start second(5) in auto)
  have "\<exists>f. storeFleets (snd (''ns'', ''g'')) (world s') = [f] \<and> Pod (ServerSpec (fleet_spec f)) = plainPod"
    by (rule gametype_rolls_out [OF rollout.type_world_axioms rollout_start(1) _ two])
      (use rollout_start in auto)
  with two show ?thesis by (auto simp: numeral_2_eq_2)
qed

end
