(* ===== verification/Rescale.thy ===== *)
theory Rescale
  imports Rollout
begin

text \<open>
  How a change of the wanted count travels in one reconcile of a game type: the count of the fleet is
  read into the status, compared with the count the game type asks for, and written to the fleet if
  they differ. What the API server must do is the locale \<open>spec_world\<close>: the specification of the game
  type does not change while it is being reconciled, and the answer to a status update has that
  specification and the status it was sent.
\<close>

section \<open>What a trace shows of it\<close>

text \<open>The writes that change more than a status.\<close>

fun specWrite :: "effect \<Rightarrow> bool" where
  "specWrite (Write UpdateStatus _ _) = False"
| "specWrite (Write _ _ _) = True"
| "specWrite _ = False"

abbreviation specWrites :: "effect list \<Rightarrow> effect list" where
  "specWrites t \<equiv> filter specWrite t"

fun readsFleet :: "effect \<Rightarrow> bool" where
  "readsFleet (ReadFleet _ (Inr _)) = True"
| "readsFleet _ = False"

fun listsFleets :: "effect \<Rightarrow> bool" where
  "listsFleets (ListedFleets _ _ _) = True"
| "listsFleets _ = False"

abbreviation replicasOf :: "fleetSpec \<Rightarrow> int32" where
  "replicasOf S \<equiv> Replicas (Scaling S)"

abbreviation withReplicas :: "int32 \<Rightarrow> fleet \<Rightarrow> fleet" where
  "withReplicas n f \<equiv> f\<lparr>fleet_spec := (fleet_spec f)\<lparr>Scaling := (Scaling (fleet_spec f))\<lparr>Replicas := n\<rparr>\<rparr>\<rparr>"

text \<open>
  The count \<open>n\<close> reaches the fleet \<open>f\<close> of the game type \<open>k\<close>, if the status showed another count \<open>c\<close>: one
  object is written, and then the count is stored in the status.
\<close>

definition reaches :: "nsname \<Rightarrow> int32 \<Rightarrow> int32 \<Rightarrow> fleet \<Rightarrow> effect list \<Rightarrow> bool" where
  "reaches k n c f t \<longleftrightarrow>
     specWrites t = (if n = c then [] else [Write Update (FleetObj (withReplicas n f)) None]) \<and>
     (n \<noteq> c \<longrightarrow> (\<exists>g. Write UpdateStatus (GameTypeObj g) None \<in> set t \<and> nsOf (gametype_meta g) = k \<and>
        CurrentFleetReplicas (gametype_status g) = n))"

text \<open>Where the listing after the last reading of a fleet is.\<close>

lemma last_listing:
  assumes "u @ M # v = A @ B @ L # w" and "R \<in> set u" and "\<forall>e \<in> set A. e \<noteq> R"
    and "listsFleets M" and "\<forall>e \<in> set B. \<not> listsFleets e" and "\<forall>e \<in> set w. \<not> listsFleets e"
  shows "u = A @ B \<and> M = L \<and> v = w"
proof -
  have "M \<notin> set B" "M \<notin> set w" "R \<notin> set A" using assms(3-6) by auto
  with assms(1,2) show ?thesis
    by (auto simp: append_eq_append_conv2 Cons_eq_append_conv append_eq_Cons_conv)
qed

section \<open>The contract\<close>

locale spec_world =
  fixes X :: "'w ext" and ok :: "'w \<Rightarrow> bool" and spec :: "nsname \<Rightarrow> 'w \<Rightarrow> fleetSpec"
  assumes spec_ok: "performs X e w w' \<Longrightarrow> ok w \<Longrightarrow> ok w'"
    and specRead: "performs X (ReadGameType k (Inr g)) w w' \<Longrightarrow> ok w \<Longrightarrow> nsOf (gametype_meta g) = k \<and> FleetSpec g = spec k w"
    and specAnswer: "apiStatusGameType (api X) g w = (Inr g', w') \<Longrightarrow> ok w \<Longrightarrow> nsOf (gametype_meta g') = nsOf (gametype_meta g) \<and>
      FleetSpec g' = spec (nsOf (gametype_meta g)) w \<and> gametype_status g' = gametype_status g"
    and spec_kept: "performs X e w w' \<Longrightarrow> ok w \<Longrightarrow> sparesTypes e \<Longrightarrow> spec k w' = spec k w"
begin

text \<open>The worlds in which the game type \<open>k\<close> asks for fleets with the specification \<open>S\<close>.\<close>

definition wants :: "nsname \<Rightarrow> fleetSpec \<Rightarrow> 'w \<Rightarrow> bool" where
  "wants k S w \<longleftrightarrow> ok w \<and> spec k w = S"

lemma wants_kept: "performs X e w w' \<Longrightarrow> sparesTypes e \<Longrightarrow> wants k S w \<Longrightarrow> wants k S w'"
  unfolding wants_def using spec_ok spec_kept by blast

lemmas wanting = givesIn_gives [OF _ _ wants_kept]

abbreviation wanter :: "nsname \<Rightarrow> fleetSpec \<Rightarrow> gameType \<Rightarrow> bool" where
  "wanter k S g \<equiv> nsOf (gametype_meta g) = k \<and> FleetSpec g = S"

lemma StatusGameType_wants:
  assumes k: "nsOf (gametype_meta g) = k"
  shows "givesIn (wants k S) (StatusGameType X g) (\<lambda>r t. t = [Write UpdateStatus (GameTypeObj g) (errOf r)] \<and>
     (\<forall>g'. r = Inr g' \<longrightarrow> wanter k S g' \<and> gametype_status g' = gametype_status g))"
  unfolding givesIn_def
proof (intro allI impI)
  fix s r s'
  assume I: "wants k S (world s)" and run: "run_state (StatusGameType X g) s = (r, s')"
  from run have api: "apiStatusGameType (api X) g (world s) = (r, world s')"
    "trace s' = trace s @ [Write UpdateStatus (GameTypeObj g) (errOf r)]"
    by (auto simp: run_simps split: prod.splits)
  from wants_kept [OF performs.statusGameType [OF api(1)] _ I] have "wants k S (world s')" by simp
  moreover have "r = Inr g' \<Longrightarrow> wanter k S g' \<and> gametype_status g' = gametype_status g" for g'
    using specAnswer api(1) I k unfolding wants_def by blast
  ultimately show "\<exists>t. trace s' = trace s @ t \<and> wants k S (world s') \<and> t = [Write UpdateStatus (GameTypeObj g) (errOf r)] \<and>
      (\<forall>g'. r = Inr g' \<longrightarrow> wanter k S g' \<and> gametype_status g' = gametype_status g)"
    using api(2) by auto
qed

text \<open>The status part: no fleet is read, and nothing but a status is written.\<close>

lemma handleGametypeStatus_wants:
  assumes "wanter k S g"
  shows "givesIn (wants k S) (handleGametypeStatus X g)
    (\<lambda>r t. wanter k S (snd r) \<and> specWrites t = [] \<and> (\<forall>e \<in> set t. \<not> readsFleet e))"
  by (rule wanting [OF _ traced_parts(1)])
    (unfold handleGametypeStatus_def GetFleetsForType_def Let_def, intro gives_intros,
      use assms in \<open>auto simp: setFleetName_def\<close>)

text \<open>The count part: the status has the count of the fleet that was read.\<close>

lemma updateReplicaCount_wants:
  assumes "wanter k S g"
  shows "givesIn (wants k S) (updateReplicaCount X g) (\<lambda>r t. specWrites t = [] \<and> (\<forall>e \<in> set t. \<not> listsFleets e) \<and>
    (fst r = None \<longrightarrow> wanter k S (snd r) \<and> (\<forall>l f. ReadFleet l (Inr f) \<in> set t \<longrightarrow> fst l = fst k \<and>
       CurrentFleetReplicas (gametype_status (snd r)) = replicasOf (fleet_spec f))))"
    (is "givesIn ?I _ ?Q")
proof -
  have read: "givesIn ?I (GetFleet X l) (\<lambda>r t. t = [ReadFleet l r])" for l
    by (rule wanting [OF _ traced_parts(6)]) (auto intro: gives_intros)
  have status: "givesIn ?I (State_Monad.bind (StatusGameType X h)
      (\<lambda>u. ret (case u of Inl e \<Rightarrow> (Some e, h) | Inr g2 \<Rightarrow> (None, g2))))
      (\<lambda>r t. \<exists>err. t = [Write UpdateStatus (GameTypeObj h) err] \<and>
        (fst r = None \<longrightarrow> wanter k S (snd r) \<and> gametype_status (snd r) = gametype_status h))"
    if "nsOf (gametype_meta h) = k" for h
    by (rule givesIn_bind [OF StatusGameType_wants [OF that]], rule givesIn_return) (auto split: sum.split)
  have h: "nsOf (gametype_meta (setFleetReplicas n g)) = k"
    "CurrentFleetReplicas (gametype_status (setFleetReplicas n g)) = n" for n
    using assms by (simp_all add: setFleetReplicas_def)
  have ns: "Namespace (gametype_meta g) = fst k" using assms by (auto simp: nsOf_def)
  show ?thesis
    unfolding updateReplicaCount_def Let_def ns
  proof (intro givesIn_cases givesIn_bind [OF read])
    show "givesIn ?I (ret (None, g)) ?Q" by (rule givesIn_return) (use assms in simp)
  next
    fix r t e
    assume "t = [ReadFleet (fst k, CurrentFleetName (gametype_status g)) r]" "r = Inl e"
    then show "givesIn ?I (ret (Some (errorf_s ''failed to get fleet to update: '' e), g)) (\<lambda>r u. ?Q r (t @ u))"
      by (intro givesIn_return) simp
  next
    fix r t f
    assume t: "t = [ReadFleet (fst k, CurrentFleetName (gametype_status g)) r]" "r = Inr f"
    show "givesIn ?I (State_Monad.bind (StatusGameType X (setFleetReplicas (replicasOf (fleet_spec f)) g))
        (\<lambda>u. ret (case u of Inl e \<Rightarrow> (Some e, setFleetReplicas (replicasOf (fleet_spec f)) g) | Inr g2 \<Rightarrow> (None, g2))))
        (\<lambda>r u. ?Q r (t @ u))"
      by (rule givesIn_weaken [OF status [OF h(1)]]) (auto simp: t h(2))
  qed
qed

text \<open>The update part, by the number of fleets listed.\<close>

lemma other_updates:
  "gives (createInitialFleet X g) (\<lambda>r t. \<forall>e \<in> set t. \<not> listsFleets e)"
  "gives (retireOldestFleet X g fs) (\<lambda>r t. \<forall>e \<in> set t. \<not> listsFleets e)"
  "gives (singleFleet X f g) (\<lambda>r t. \<forall>e \<in> set t. \<not> listsFleets e)"
proof -
  have create: "gives (handleCreation X g) (\<lambda>r t. \<forall>e \<in> set t. \<not> listsFleets e)"
    unfolding handleCreation_def Let_def case_prod_unfold by (intro gives_intros) auto
  have propagate: "gives (propagateReplicas X g f) (\<lambda>r t. \<forall>e \<in> set t. \<not> listsFleets e)"
    unfolding propagateReplicas_def Let_def by (intro gives_intros) auto
  show "gives (createInitialFleet X g) (\<lambda>r t. \<forall>e \<in> set t. \<not> listsFleets e)"
    unfolding createInitialFleet_def by (intro gives_intros gives_bind [OF create]) auto
  show "gives (retireOldestFleet X g fs) (\<lambda>r t. \<forall>e \<in> set t. \<not> listsFleets e)"
    unfolding retireOldestFleet_def by (intro gives_intros) auto
  show "gives (singleFleet X f g) (\<lambda>r t. \<forall>e \<in> set t. \<not> listsFleets e)"
    unfolding singleFleet_def by (intro gives_intros gives_bind [OF create] gives_weaken [OF propagate]) auto
qed

lemma singleFleet_reaches:
  assumes "wanter k S g" and "AreFleetsPodsEqual (fleet_spec f) S"
  shows "gives (singleFleet X f g) (\<lambda>r t. succeeded r \<longrightarrow>
    reaches k (replicasOf S) (CurrentFleetReplicas (gametype_status g)) f t)"
  unfolding singleFleet_def propagateReplicas_def Let_def
  by (intro gives_intros)
    (use assms in \<open>auto simp: reaches_def setFleetReplicas_def\<close>)

lemma handleUpdating_wants:
  assumes "wanter k S g"
  shows "givesIn (wants k S) (handleUpdating X g) (\<lambda>r t. wellDone r \<and> (\<exists>a v. t = typeListing (snd k) a # v \<and>
    (\<forall>e \<in> set v. \<not> listsFleets e) \<and> (succeeded r \<longrightarrow> (\<forall>f. a = Inr [f] \<longrightarrow> AreFleetsPodsEqual (fleet_spec f) S \<longrightarrow>
       reaches k (replicasOf S) (CurrentFleetReplicas (gametype_status g)) f v))))"
    (is "givesIn ?I _ _")
proof -
  have n: "typeName g = snd k" using assms by (auto simp: nsOf_def)
  have listing: "givesIn ?I (ListFleets X None (''gametype'', snd k)) (\<lambda>r t. t = [typeListing (snd k) r])"
    by (rule wanting [OF _ traced_parts(7)]) (auto intro: gives_intros)
  have initial: "givesIn ?I (createInitialFleet X g) (\<lambda>r t. wellDone r \<and> (\<forall>e \<in> set t. \<not> listsFleets e))"
    by (rule wanting [OF gives_conj [OF gives_weaken [OF createInitialFleet_tends [OF refl refl] conjunct1] other_updates(1)] traced_parts(2)])
  have retire: "givesIn ?I (retireOldestFleet X g (x # y # zs)) (\<lambda>r t. wellDone r \<and> (\<forall>e \<in> set t. \<not> listsFleets e))" for x y zs
    by (rule wanting [OF gives_conj [OF gives_weaken [OF retireOldestFleet_tends [OF refl] conjunct1] other_updates(2)] traced_parts(4)])
  let ?c = "CurrentFleetReplicas (gametype_status g)"
  have rest: "givesIn ?I (singleFleet X f g1) (\<lambda>r t. wellDone r \<and> (\<forall>e \<in> set t. \<not> listsFleets e) \<and>
      (succeeded r \<longrightarrow> AreFleetsPodsEqual (fleet_spec f) S \<longrightarrow> reaches k (replicasOf S) ?c f t))"
    if "wanter k S g1" "CurrentFleetReplicas (gametype_status g1) = ?c" for f g1
  proof (rule wanting [OF _ traced_parts(3)])
    have "gives (singleFleet X f g1) (\<lambda>r t. succeeded r \<longrightarrow> AreFleetsPodsEqual (fleet_spec f) S \<longrightarrow>
        reaches k (replicasOf S) ?c f t)"
    proof (cases "AreFleetsPodsEqual (fleet_spec f) S")
      case True
      from singleFleet_reaches [OF that(1) True] that(2) show ?thesis by (auto elim: gives_weaken)
    qed (rule gives_weaken [OF other_updates(3)], simp)
    from gives_conj [OF gives_weaken [OF singleFleet_tends [OF refl refl] conjunct1] gives_conj [OF other_updates(3) this]]
    show "gives (singleFleet X f g1) (\<lambda>r t. wellDone r \<and> (\<forall>e \<in> set t. \<not> listsFleets e) \<and>
      (succeeded r \<longrightarrow> AreFleetsPodsEqual (fleet_spec f) S \<longrightarrow> reaches k (replicasOf S) ?c f t))" .
  qed auto
  have single: "givesIn ?I (updateSingleFleet X g f) (\<lambda>r t. wellDone r \<and> (\<forall>e \<in> set t. \<not> listsFleets e) \<and>
      (succeeded r \<longrightarrow> AreFleetsPodsEqual (fleet_spec f) S \<longrightarrow> reaches k (replicasOf S) ?c f t))" for f
  proof -
    have g: "nsOf (gametype_meta (setFleetName m g)) = k"
      "CurrentFleetReplicas (gametype_status (setFleetName m g)) = ?c" for m
      using assms by (simp_all add: setFleetName_def)
    have more: "reaches k m c f t \<Longrightarrow> reaches k m c f (Write UpdateStatus ob err # t)" for m c t ob err
      by (auto simp: reaches_def)
    show ?thesis
      unfolding updateSingleFleet_def singleFleet_def [symmetric]
      by (rule givesIn_bind [OF StatusGameType_wants [OF g(1)]])
        (auto intro!: givesIn_return givesIn_weaken [OF rest] more simp: g(2) split: sum.split)
  qed
  show ?thesis
    unfolding handleUpdating_def GetFleetsForType_def n
    by (rule givesIn_bind [OF listing])
      (auto intro!: givesIn_return givesIn_weaken [OF initial] givesIn_weaken [OF single] givesIn_weaken [OF retire]
        split: sum.split list.split)
qed

text \<open>
  A whole run: the part that reads the status, the part that reads the count, the listing and what
  it calls for.
\<close>

definition passed :: "nsname \<Rightarrow> fleetSpec \<Rightarrow> effect list \<Rightarrow> bool" where
  "passed k S t \<longleftrightarrow> (\<exists>A B a v c. t = A @ B @ typeListing (snd k) a # v \<and>
     specWrites A = [] \<and> (\<forall>e \<in> set A. \<not> readsFleet e) \<and>
     specWrites B = [] \<and> (\<forall>e \<in> set B. \<not> listsFleets e) \<and> (\<forall>e \<in> set v. \<not> listsFleets e) \<and>
     (\<forall>l f. ReadFleet l (Inr f) \<in> set B \<longrightarrow> fst l = fst k \<and> c = replicasOf (fleet_spec f)) \<and>
     (\<forall>f. a = Inr [f] \<longrightarrow> AreFleetsPodsEqual (fleet_spec f) S \<longrightarrow> reaches k (replicasOf S) c f v))"

lemma gametype_run_wants:
  assumes "wanter k S g"
  shows "givesIn (wants k S) (gametype_run X g) (\<lambda>r t. \<forall>q. r = Ret (q, None) \<longrightarrow> passed k S t)"
    (is "givesIn ?I _ ?Q")
proof -
  let ?update = "\<lambda>g2. State_Monad.bind (handleUpdating X g2)
      (\<lambda>(result, err, done). if done then ret (Ret (result, err)) else finish doRequeue)"
  let ?count = "\<lambda>g1. State_Monad.bind (updateReplicaCount X g1)
      (\<lambda>(err, g2). case err of Some e \<Rightarrow> fail doRequeue e | None \<Rightarrow> ?update g2)"
  have update: "givesIn ?I (?update g2) (\<lambda>r v. ?Q r (A @ B @ v))"
    if g2: "wanter k S g2" and A: "specWrites A = []" "\<forall>e \<in> set A. \<not> readsFleet e"
      and B: "specWrites B = []" "\<forall>e \<in> set B. \<not> listsFleets e"
        "\<forall>l f. ReadFleet l (Inr f) \<in> set B \<longrightarrow> fst l = fst k \<and>
          CurrentFleetReplicas (gametype_status g2) = replicasOf (fleet_spec f)" for g2 A B
  proof (rule givesIn_bind [OF handleUpdating_wants [OF g2]], elim conjE exE)
    fix x t a v
    assume well: "wellDone x" and t: "t = typeListing (snd k) a # v" "\<forall>e \<in> set v. \<not> listsFleets e"
      and v: "succeeded x \<longrightarrow> (\<forall>f. a = Inr [f] \<longrightarrow> AreFleetsPodsEqual (fleet_spec f) S \<longrightarrow>
        reaches k (replicasOf S) (CurrentFleetReplicas (gametype_status g2)) f v)"
    have ok: "succeeded x \<Longrightarrow> passed k S (A @ B @ t)"
      using A B t v unfolding passed_def
      by (intro exI [of _ A] exI [of _ B] exI [of _ a] exI [of _ v]
          exI [of _ "CurrentFleetReplicas (gametype_status g2)"]) simp
    obtain result err done' where x: "x = (result, err, done')" by (cases x)
    from ok well have "done' \<or> err = None" "err = None \<Longrightarrow> passed k S (A @ B @ t)"
      unfolding x by (auto simp: wellDone_def)
    then show "givesIn ?I (case x of (result, err, done) \<Rightarrow> if done then ret (Ret (result, err)) else finish doRequeue)
        (\<lambda>r u. ?Q r (A @ B @ t @ u))"
      unfolding x by (auto intro!: givesIn_return simp: finish_def)
  qed
  have count: "givesIn ?I (?count g1) (\<lambda>r v. ?Q r (A @ v))"
    if g1: "wanter k S g1" and A: "specWrites A = []" "\<forall>e \<in> set A. \<not> readsFleet e" for g1 A
  proof (rule givesIn_bind [OF updateReplicaCount_wants [OF g1]], elim conjE, intro givesIn_cases)
    fix x B err g2
    assume x: "x = (err, g2)" "err = None" and B: "specWrites B = []" "\<forall>e \<in> set B. \<not> listsFleets e"
      and ok: "fst x = None \<longrightarrow> wanter k S (snd x) \<and> (\<forall>l f. ReadFleet l (Inr f) \<in> set B \<longrightarrow> fst l = fst k \<and>
       CurrentFleetReplicas (gametype_status (snd x)) = replicasOf (fleet_spec f))"
    show "givesIn ?I (?update g2) (\<lambda>r u. ?Q r (A @ B @ u))"
      by (rule update) (use x ok A B in auto)
  qed (auto intro!: givesIn_return simp: fail_def)
  show ?thesis
    unfolding gametype_run_def
  proof (rule givesIn_bind [OF handleGametypeStatus_wants [OF assms]], intro givesIn_cases)
    fix x A err g1
    assume "x = (err, g1)" "wanter k S (snd x) \<and> specWrites A = [] \<and> (\<forall>e \<in> set A. \<not> readsFleet e)"
    then show "givesIn ?I (?count g1) (\<lambda>r u. ?Q r (A @ u))" by (intro count) simp_all
  qed (auto intro!: givesIn_return simp: fail_def)
qed

lemma reconcile_passed:
  assumes run: "run_state (gametype_Reconcile X req) \<lparr>world = w, trace = []\<rparr> = (Ret (q, None), s)"
    and tr: "trace s = ReadGameType req (Inr g) # t" and g: "steadyType X g" and ok: "ok w"
  shows "passed req (FleetSpec g) t"
proof -
  from steady_runs [OF run tr g] obtain w1 where first: "performs X (ReadGameType req (Inr g)) w w1"
    and rest: "run_state (gametype_run X g) \<lparr>world = w1, trace = [ReadGameType req (Inr g)]\<rparr> = (Ret (q, None), s)"
    by blast
  from specRead [OF first ok] have g: "wanter req (FleetSpec g) g" and "wants req (FleetSpec g) w"
    using ok by (simp_all add: wants_def)
  then have "wants req (FleetSpec g) w1" using wants_kept [OF first] by simp
  with givesIn_run [OF gametype_run_wants [OF g] _ rest] tr show ?thesis by auto
qed

end

section \<open>The concrete API server\<close>

definition storeSpec :: "nsname \<Rightarrow> store \<Rightarrow> fleetSpec" where
  "storeSpec k w = (case map_of (store_gametypes w) k of Some g \<Rightarrow> FleetSpec g | None \<Rightarrow> FleetSpec demoType)"

lemma store_spec_kept:
  assumes "performs storeExt e w w'" and "rolloutOk w" and "sparesTypes e"
  shows "storeSpec k w' = storeSpec k w"
  using assms
proof (induction rule: performs.induct)
  case (statusGameType g w r w')
  have fin: "DeletionTimestamp (gametype_meta x) \<noteq> None \<Longrightarrow> Finalizers (gametype_meta x) \<noteq> []"
    if "map_of (store_gametypes w) l = Some x" for l x
    using statusGameType.prems(1) map_of_SomeD [OF that] by (auto simp: rolloutOk_def finalized_def)
  from statusGameType.hyps show ?case
    by (auto simp: store_api writeObj_def commit_def stamp_def storeSpec_def update_conv' dest: fin
        split: prod.splits option.splits if_splits)
qed (auto simp: store_api store_ext storeSpec_def storeHttp_def tick_def Let_def split: prod.splits option.splits)

interpretation rescale: spec_world storeExt rolloutOk storeSpec
proof
  show "rolloutOk w'" if "performs storeExt e w w'" "rolloutOk w" for e w w'
    using that by (rule rolloutOk_step)
  show "nsOf (gametype_meta g) = k \<and> FleetSpec g = storeSpec k w"
    if "performs storeExt (ReadGameType k (Inr g)) w w'" "rolloutOk w" for k g w w'
    using that(1)
    by (rule performs_typeRead)
      (use that(2) in \<open>auto simp: store_api storeSpec_def rolloutOk_def lookupObj_def keyed_def split: option.splits dest!: map_of_SomeD\<close>)
  show "nsOf (gametype_meta g') = nsOf (gametype_meta g) \<and> FleetSpec g' = storeSpec (nsOf (gametype_meta g)) w \<and>
      gametype_status g' = gametype_status g"
    if "apiStatusGameType (api storeExt) g w = (Inr g', w')" for g g' w w'
    using that by (auto simp: store_api writeObj_def commit_def stamp_def storeSpec_def nsOf_def
        split: prod.splits option.splits if_splits)
qed (rule store_spec_kept)

section \<open>The count reaches the fleet\<close>

text \<open>
  C22. A change of the wanted count reaches the fleet: when a whole reconcile of a live game type returns
  without an error, has read for its status a fleet with another count than the game type wants, and then lists
  exactly one fleet, which has the game's pod, then the only object it writes, apart from statuses, is that
  fleet with nothing but its replicas changed to the wanted count, and it stores that count in the status of the
  game type. If the fleet it read has the wanted count already, it writes statuses only.
\<close>

theorem replica_change_reaches_fleet:
  assumes world: "spec_world X ok spec" and "ok w"
    and run: "reconcileGameType X req \<lparr>world = w, trace = []\<rparr> = (Ret (q, None), s)"
    and tr: "trace s = ReadGameType req (Inr g) # u @ typeListing (typeName g) (Inr [f]) # v" and "steadyType X g"
    and "ReadFleet l (Inr f0) \<in> set u" and "AreFleetsPodsEqual (fleet_spec f) (FleetSpec g)"
  defines "n \<equiv> Replicas (Scaling (FleetSpec g))"
  shows "fst l = fst req \<and>
     filter specWrite (trace s) = (if n = Replicas (Scaling (fleet_spec f0)) then [] else
       [Write Update (FleetObj (f\<lparr>fleet_spec := (fleet_spec f)\<lparr>Scaling := (Scaling (fleet_spec f))\<lparr>Replicas := n\<rparr>\<rparr>\<rparr>)) None]) \<and>
     (n \<noteq> Replicas (Scaling (fleet_spec f0)) \<longrightarrow> (\<exists>g'. Write UpdateStatus (GameTypeObj g') None \<in> set v \<and>
        nsOf (gametype_meta g') = req \<and> CurrentFleetReplicas (gametype_status g') = n))"
proof -
  from spec_world.reconcile_passed [OF world run tr \<open>steadyType X g\<close> \<open>ok w\<close>] obtain A B a v' c where
    t: "u @ typeListing (typeName g) (Inr [f]) # v = A @ B @ typeListing (snd req) a # v'"
    and A: "specWrites A = []" "\<forall>e \<in> set A. \<not> readsFleet e" and B: "specWrites B = []" "\<forall>e \<in> set B. \<not> listsFleets e"
    and v': "\<forall>e \<in> set v'. \<not> listsFleets e"
    and count: "\<forall>l f. ReadFleet l (Inr f) \<in> set B \<longrightarrow> fst l = fst req \<and> c = replicasOf (fleet_spec f)"
    and reach: "\<forall>f. a = Inr [f] \<longrightarrow> AreFleetsPodsEqual (fleet_spec f) (FleetSpec g) \<longrightarrow> reaches req n c f v'"
    unfolding spec_world.passed_def [OF world] n_def by metis
  have "u = A @ B \<and> typeListing (typeName g) (Inr [f]) = typeListing (snd req) a \<and> v = v'"
    by (rule last_listing [OF t assms(6)]) (use A(2) B(2) v' in auto)
  then have parts: "u = A @ B" "a = Inr [f]" "v = v'" by simp_all
  have "ReadFleet l (Inr f0) \<in> set B" using assms(6) A(2) parts(1) by auto
  with count have c: "fst l = fst req" "c = replicasOf (fleet_spec f0)" by blast+
  have "specWrites (trace s) = specWrites v'" using A(1) B(1) parts unfolding tr by simp
  with reach parts c assms(7) show ?thesis by (simp add: reaches_def)
qed

text \<open>The game type \<open>g\<close>, which wants three servers, with a fleet of one.\<close>

definition largerType :: gameType where
  "largerType = demoType\<lparr>FleetSpec := (FleetSpec demoType)\<lparr>Scaling := (Scaling (FleetSpec demoType))\<lparr>Replicas := 3\<rparr>\<rparr>\<rparr>"

definition rescaleStore :: store where
  "rescaleStore = typeStore largerType [typeFleet ''ns'' ''f1'' 1]"

lemmas rescale_defs = rescaleStore_def largerType_def rollout_defs propagateReplicas_def

lemma rescale_run:
  "\<exists>q s f f0 v e1 e2 e3. reconcileGameType storeExt (''ns'', ''g'') \<lparr>world = rescaleStore, trace = []\<rparr> = (Ret (q, None), s) \<and>
     trace s = ReadGameType (''ns'', ''g'') (Inr largerType) #
       [e1, e2, ReadFleet (''ns'', ''f1'') (Inr f0), e3] @ typeListing ''g'' (Inr [f]) # v \<and>
     nsOf (fleet_meta f) = (''ns'', ''f1'') \<and> Pod (ServerSpec (fleet_spec f)) = plainPod \<and>
     replicasOf (fleet_spec f0) = 1"
  by (simp add: rescale_defs)

lemma rescale_start:
  "rolloutOk rescaleStore" "steadyType storeExt largerType" "typeName largerType = ''g''"
  "Pod (ServerSpec (FleetSpec largerType)) = plainPod" "replicasOf (FleetSpec largerType) = 3"
  by (simp_all add: rescale_defs rolloutOk_def keyed_def distinctKeys_def finalized_def steadyType_def)

lemma replica_change_reaches_fleet_witness:
  "\<exists>q s f g. reconcileGameType storeExt (''ns'', ''g'') \<lparr>world = rescaleStore, trace = []\<rparr> = (Ret (q, None), s) \<and>
     filter specWrite (trace s) = [Write Update (FleetObj f) None] \<and> nsOf (fleet_meta f) = (''ns'', ''f1'') \<and>
     replicasOf (fleet_spec f) = 3 \<and> Write UpdateStatus (GameTypeObj g) None \<in> set (trace s) \<and>
     nsOf (gametype_meta g) = (''ns'', ''g'') \<and> CurrentFleetReplicas (gametype_status g) = 3"
proof -
  obtain q s f f0 v e1 e2 e3 where
    run: "reconcileGameType storeExt (''ns'', ''g'') \<lparr>world = rescaleStore, trace = []\<rparr> = (Ret (q, None), s)"
    and tr: "trace s = ReadGameType (''ns'', ''g'') (Inr largerType) #
       [e1, e2, ReadFleet (''ns'', ''f1'') (Inr f0), e3] @ typeListing ''g'' (Inr [f]) # v"
    and f: "nsOf (fleet_meta f) = (''ns'', ''f1'')" "Pod (ServerSpec (fleet_spec f)) = plainPod"
    and f0: "replicasOf (fleet_spec f0) = 1"
    using rescale_run by blast
  have "ReadFleet (''ns'', ''f1'') (Inr f0) \<in> set [e1, e2, ReadFleet (''ns'', ''f1'') (Inr f0), e3]"
    "AreFleetsPodsEqual (fleet_spec f) (FleetSpec largerType)"
    by (simp_all add: AreFleetsPodsEqual_def f rescale_start)
  from replica_change_reaches_fleet [OF rescale.spec_world_axioms rescale_start(1) run _ rescale_start(2) this]
  show ?thesis
    using tr run f unfolding rescale_start f0 by fastforce
qed

end
