(* ===== verification/Events.thy ===== *)
theory Events
  imports System
begin

text \<open>
  The events the operator reports (\<open>utils/events.go\<close>): the declared reasons, and that over any history an
  event is of one of the two types of Kubernetes and has a reason declared for the kind of its object.
\<close>

section \<open>The reasons\<close>

datatype eventReason =
    ReasonServerInitialized | ReasonServerDeletionAllowed | ReasonServerDeletionNotAllowed | ReasonServerPodDeleted
  | ReasonServerPodCreationFailed | ReasonServerUpdateFAiled
  | ReasonFleetInitialized | ReasonFleetUpdateFailed | ReasonFleetServersRemoved | ReasonFleetScaleServers
  | ReasonGametypeInitialized | ReasonGameTypeDeleting | ReasonGametypeServersDeleted | ReasonGametypeSpecUpdated
  | ReasonGametypeReplicasUpdated
  | ReasonGameTypeAutoscalerInvalidServer | ReasonGameTypeAutoscalerInvalidAutoscalePolicy
  | ReasonGameTypeAutoscalerInvalidSyncType | ReasonGameTypeAutoscalerWebhook | ReasonGameTypeAutoscalerScale

primrec reasonText :: "eventReason \<Rightarrow> string" where
  "reasonText ReasonServerInitialized = ''ServerInitialized''"
| "reasonText ReasonServerDeletionAllowed = ''ServerDeletionAllowed''"
| "reasonText ReasonServerDeletionNotAllowed = ''ServerDeletionNotAllowed''"
| "reasonText ReasonServerPodDeleted = ''ServerPodDeleted''"
| "reasonText ReasonServerPodCreationFailed = ''ServerPodCreationFailed''"
| "reasonText ReasonServerUpdateFAiled = ''ServerUpdateFailed''"
| "reasonText ReasonFleetInitialized = ''FleetInitialized''"
| "reasonText ReasonFleetUpdateFailed = ''FleetUpdateFailed''"
| "reasonText ReasonFleetServersRemoved = ''FleetServersRemoved''"
| "reasonText ReasonFleetScaleServers = ''FleetScaleServers''"
| "reasonText ReasonGametypeInitialized = ''GametypeInitialized''"
| "reasonText ReasonGameTypeDeleting = ''GameTypeDeleting''"
| "reasonText ReasonGametypeServersDeleted = ''GametypeServersDeleted''"
| "reasonText ReasonGametypeSpecUpdated = ''GametypeSpecUpdated''"
| "reasonText ReasonGametypeReplicasUpdated = ''GametypeReplicasUpdated''"
| "reasonText ReasonGameTypeAutoscalerInvalidServer = ''GameAutoscalerInvalidServer''"
| "reasonText ReasonGameTypeAutoscalerInvalidAutoscalePolicy = ''GameautoscalerInvalidAutoscalePolicy''"
| "reasonText ReasonGameTypeAutoscalerInvalidSyncType = ''GameautoscalerInvalidSyncType''"
| "reasonText ReasonGameTypeAutoscalerWebhook = ''GameautoscalerWebhook''"
| "reasonText ReasonGameTypeAutoscalerScale = ''GameautoscalerScale''"

text \<open>Which of them go with an object of a kind; events on pods are those of their servers.\<close>

definition serverReasons :: "eventReason list" where
  "serverReasons = [ReasonServerInitialized, ReasonServerDeletionAllowed, ReasonServerDeletionNotAllowed,
     ReasonServerPodDeleted, ReasonServerPodCreationFailed, ReasonServerUpdateFAiled]"

fun reasonsFor :: "kind \<Rightarrow> eventReason list" where
  "reasonsFor KServer = serverReasons"
| "reasonsFor KPod = serverReasons"
| "reasonsFor KFleet = [ReasonFleetInitialized, ReasonFleetUpdateFailed, ReasonFleetServersRemoved, ReasonFleetScaleServers]"
| "reasonsFor KGameType = [ReasonGametypeInitialized, ReasonGameTypeDeleting, ReasonGametypeServersDeleted,
     ReasonGametypeSpecUpdated, ReasonGametypeReplicasUpdated]"
| "reasonsFor KAutoscaler = [ReasonGameTypeAutoscalerInvalidServer, ReasonGameTypeAutoscalerInvalidAutoscalePolicy,
     ReasonGameTypeAutoscalerInvalidSyncType, ReasonGameTypeAutoscalerWebhook, ReasonGameTypeAutoscalerScale]"

fun declared :: "effect \<Rightarrow> bool" where
  "declared (Event k n ty why msg) \<longleftrightarrow> (ty = Normal \<or> ty = Warning) \<and> why \<in> set (map reasonText (reasonsFor k))"
| "declared _ = True"

section \<open>The reconcilers\<close>

lemma server_declared: "traced X declared (server_Reconcile (prodServerReconciler X) req)"
  unfolding server_Reconcile_def server_initialize_def server_finalize_def server_run_def server_handleDeletion_def
    releasePod_def deletePodOf_def ensurePodExists_def ensurePodFinalizer_def setCondition_def prodServerReconciler_def
    serverReconciler.select_convs
  by (intro traced_intros; simp add: serverReasons_def)

lemma fleet_declared: "traced X declared (fleet_Reconcile (prodFleetReconciler X) req)"
  unfolding fleet_Reconcile_def fleet_initialize_def fleet_handleDeletion_def fleet_scale_def fleet_saveStatus_def
    scaleServerCount_def scaleUp_def scaleDown_def getServers_def prodFleetReconciler_def fleetReconciler.select_convs
  by (intro traced_intros; simp)

lemma gametype_declared: "traced X declared (gametype_Reconcile X req)"
  unfolding gametype_Reconcile_def gametype_initialize_def gametype_finalize_def gametype_run_def
    gametype_handleDeletion_def handleGametypeStatus_def updateReplicaCount_def handleUpdating_def createInitialFleet_def
    updateSingleFleet_def propagateReplicas_def retireOldestFleet_def handleCreation_def GetFleetsForType_def
  by (intro traced_intros; simp)

lemma autoscaler_declared:
  "R = mainAutoscalerReconciler X \<or> R = wiredAutoscalerReconciler X \<Longrightarrow> traced X declared (autoscaler_Reconcile R req)"
  by (rule traced_weaken [OF traced_autoscaler_calls]) (auto elim!: autoscalerCall.elims)

section \<open>Histories\<close>

lemma traced_onwards:
  assumes "traced X A m" and "run_state m \<lparr>world = w, trace = t\<rparr> = (r, s)" and "\<forall>e \<in> set t. A e"
  shows "\<forall>e \<in> set (trace s). A e"
  using assms unfolding traced_def by fastforce

text \<open>
  Over any history of the operator, every event it reports is a normal one or a warning, and has a reason that is
  declared for the kind of its object.
\<close>

theorem events_are_declared:
  assumes "history X env w0 t w"
  shows "\<forall>e \<in> set t. declared e"
  using assms
proof (induction rule: history.induct)
  case (serverStep t w req r s)
  from traced_onwards [OF server_declared serverStep.hyps(2) serverStep.IH] show ?case .
next
  case (fleetStep t w req r s)
  from traced_onwards [OF fleet_declared fleetStep.hyps(2) fleetStep.IH] show ?case .
next
  case (gametypeStep t w req r s)
  from traced_onwards [OF gametype_declared gametypeStep.hyps(2) gametypeStep.IH] show ?case .
next
  case (autoscalerStep t w R req r s)
  from traced_onwards [OF autoscaler_declared [OF autoscalerStep.hyps(2)] autoscalerStep.hyps(3) autoscalerStep.IH] show ?case .
qed simp_all

end
