(* ===== verification/Startup.thy ===== *)
theory Startup
  imports Client
begin

text \<open>
  The start of the operator (\<open>operator/cmd/main.go\<close> with the \<open>SetupWithManager\<close> functions of the
  controllers and the webhooks) and of the service (\<open>service/cmd/main.go\<close>, \<open>internal/app/app.go\<close>).
  The flags are given as parsed; the certificate watchers, the manager and the clients are
  parameters. Every call is one entry of the trace, with its error; \<open>os.Exit\<close> ends the program.
\<close>

section \<open>Paths\<close>

text \<open>\<open>filepath.Join\<close> on Unix: joined with slashes and cleaned.\<close>

fun splitSlash :: "string \<Rightarrow> string \<Rightarrow> string list" where
  "splitSlash acc [] = [acc]"
| "splitSlash acc (c # cs) = (if c = CHR ''/'' then acc # splitSlash [] cs else splitSlash (acc @ [c]) cs)"

fun joinSlash :: "string list \<Rightarrow> string" where
  "joinSlash [] = []"
| "joinSlash [p] = p"
| "joinSlash (p # ps) = p @ ''/'' @ joinSlash ps"

definition cleanStep :: "bool \<Rightarrow> string \<Rightarrow> string list \<Rightarrow> string list" where
  "cleanStep rooted part out =
     (if part = [] \<or> part = ''.'' then out
      else if part = ''..'' then
        (if out \<noteq> [] \<and> last out \<noteq> ''..'' then butlast out else if rooted then out else out @ [part])
      else out @ [part])"

definition pathClean :: "string \<Rightarrow> string" where
  "pathClean p = (let rooted = (p \<noteq> [] \<and> hd p = CHR ''/'');
     q = (if rooted then ''/'' else []) @ joinSlash (fold (cleanStep rooted) (splitSlash [] p) [])
     in if q = [] then ''.'' else q)"

definition filepathJoin :: "string \<Rightarrow> string \<Rightarrow> string" where
  "filepathJoin d f = (if d \<noteq> [] then pathClean (d @ ''/'' @ f) else if f \<noteq> [] then pathClean f else [])"

section \<open>Flags and options\<close>

record flags =
  metricsAddr :: string
  probeAddr :: string
  enableLeaderElection :: bool
  secureMetrics :: bool
  webhookCertPath :: string
  webhookCertName :: string
  webhookCertKey :: string
  metricsCertPath :: string
  metricsCertName :: string
  metricsCertKey :: string
  enableHTTP2 :: bool

definition defaultFlags :: flags where
  "defaultFlags = \<lparr>metricsAddr = ''0'', probeAddr = '':8081'', enableLeaderElection = False, secureMetrics = True,
     webhookCertPath = [], webhookCertName = ''tls.crt'', webhookCertKey = ''tls.key'',
     metricsCertPath = [], metricsCertName = ''tls.crt'', metricsCertKey = ''tls.key'', enableHTTP2 = False\<rparr>"

text \<open>A certificate watcher, of which only the identity matters.\<close>

datatype watcher = Watcher nat

record tlsConfig =
  NextProtos :: "string list"
  GetCertificate :: "watcher option"

type_synonym tlsOpt = "tlsConfig \<Rightarrow> tlsConfig"

text \<open>A server applies its options in order.\<close>

definition configure :: "tlsOpt list \<Rightarrow> tlsConfig \<Rightarrow> tlsConfig" where
  "configure opts c = fold (\<lambda>f. f) opts c"

definition disableHTTP2 :: tlsOpt where
  "disableHTTP2 c = c\<lparr>NextProtos := [''http/1.1'']\<rparr>"

definition useWatcher :: "watcher \<Rightarrow> tlsOpt" where
  "useWatcher x c = c\<lparr>GetCertificate := Some x\<rparr>"

definition tlsOpts :: "flags \<Rightarrow> tlsOpt list" where
  "tlsOpts fl = (if \<not> enableHTTP2 fl then [disableHTTP2] else [])"

text \<open>
  \<open>append\<close> of the watcher's option, when there is a watcher. The two servers' lists start from the
  same slice, which is full, so that each append makes a list of its own.
\<close>

definition withWatcher :: "watcher option \<Rightarrow> tlsOpt list \<Rightarrow> tlsOpt list" where
  "withWatcher x opts = (case x of None \<Rightarrow> opts | Some y \<Rightarrow> opts @ [useWatcher y])"

record metricsOptions =
  BindAddress :: string
  SecureServing :: bool
  MetricsTLS :: "tlsOpt list"
  AuthFilter :: bool

record managerOptions =
  Metrics :: metricsOptions
  WebhookTLS :: "tlsOpt list"
  HealthProbeBindAddress :: string
  LeaderElection :: bool
  LeaderElectionID :: string

definition managerOptionsOf :: "flags \<Rightarrow> watcher option \<Rightarrow> watcher option \<Rightarrow> managerOptions" where
  "managerOptionsOf fl webhookWatcher metricsWatcher = \<lparr>
     Metrics = \<lparr>BindAddress = metricsAddr fl, SecureServing = secureMetrics fl,
       MetricsTLS = withWatcher metricsWatcher (tlsOpts fl), AuthFilter = secureMetrics fl\<rparr>,
     WebhookTLS = withWatcher webhookWatcher (tlsOpts fl),
     HealthProbeBindAddress = probeAddr fl, LeaderElection = enableLeaderElection fl,
     LeaderElectionID = ''80b2ff22.falloria.com''\<rparr>"

section \<open>Controllers and webhooks\<close>

text \<open>What a reconciler is built with, besides the client and the scheme, and what it watches.\<close>

record reconcilerSetup =
  RecorderName :: "string option"
  HasChecker :: bool
  HasWebhookCaller :: bool

record controllerSetup =
  For :: kind
  Owns :: "kind list"
  MaxConcurrentReconciles :: "nat option"

definition server_SetupWithManager :: controllerSetup where
  "server_SetupWithManager = \<lparr>For = KServer, Owns = [KPod], MaxConcurrentReconciles = Some 10\<rparr>"

definition fleet_SetupWithManager :: controllerSetup where
  "fleet_SetupWithManager = \<lparr>For = KFleet, Owns = [KServer], MaxConcurrentReconciles = Some 10\<rparr>"

definition gametype_SetupWithManager :: controllerSetup where
  "gametype_SetupWithManager = \<lparr>For = KGameType, Owns = [KFleet], MaxConcurrentReconciles = None\<rparr>"

definition autoscaler_SetupWithManager :: controllerSetup where
  "autoscaler_SetupWithManager = \<lparr>For = KAutoscaler, Owns = [], MaxConcurrentReconciles = None\<rparr>"

record webhookSetup =
  WebhookFor :: kind
  Validator :: string
  Defaulter :: string

definition SetupServerWebhookWithManager :: webhookSetup where
  "SetupServerWebhookWithManager =
     \<lparr>WebhookFor = KServer, Validator = ''ServerCustomValidator'', Defaulter = ''ServerCustomDefaulter''\<rparr>"

definition SetupFleetWebhookWithManager :: webhookSetup where
  "SetupFleetWebhookWithManager =
     \<lparr>WebhookFor = KFleet, Validator = ''FleetCustomValidator'', Defaulter = ''FleetCustomDefaulter''\<rparr>"

definition SetupGameTypeWebhookWithManager :: webhookSetup where
  "SetupGameTypeWebhookWithManager =
     \<lparr>WebhookFor = KGameType, Validator = ''GameTypeCustomValidator'', Defaulter = ''GameTypeCustomDefaulter''\<rparr>"

definition SetupGameTypeAutoscalerWebhookWithManager :: webhookSetup where
  "SetupGameTypeAutoscalerWebhookWithManager =
     \<lparr>WebhookFor = KAutoscaler, Validator = ''GameTypeAutoscalerCustomValidator'',
       Defaulter = ''GameTypeAutoscalerCustomDefaulter''\<rparr>"

section \<open>The calls of the start\<close>

record 'w platform =
  certwatcherNew :: "string \<Rightarrow> string \<Rightarrow> 'w \<Rightarrow> (error + watcher) \<times> 'w"
  getConfig :: "'w \<Rightarrow> (error + unit) \<times> 'w"
  newManager :: "managerOptions \<Rightarrow> 'w \<Rightarrow> (error + unit) \<times> 'w"
  completeController :: "controllerSetup \<Rightarrow> 'w \<Rightarrow> (error + unit) \<times> 'w"
  completeWebhook :: "webhookSetup \<Rightarrow> 'w \<Rightarrow> (error + unit) \<times> 'w"
  mgrAdd :: "watcher \<Rightarrow> 'w \<Rightarrow> (error + unit) \<times> 'w"
  addHealthzCheck :: "string \<Rightarrow> 'w \<Rightarrow> (error + unit) \<times> 'w"
  addReadyzCheck :: "string \<Rightarrow> 'w \<Rightarrow> (error + unit) \<times> 'w"
  mgrStart :: "'w \<Rightarrow> (error + unit) \<times> 'w"
  osGetenv :: "string \<Rightarrow> string"

datatype setupEffect =
    WatchCert string string "error + watcher"
  | GetConfig "error + unit"
  | NewManager managerOptions "error + unit"
  | AddController reconcilerSetup controllerSetup "error + unit"
  | AddWebhook webhookSetup "error + unit"
  | AddWatcher watcher "error + unit"
  | AddHealthz string "error + unit"
  | AddReadyz string "error + unit"
  | StartManager "error + unit"

datatype ended = Exited nat | Returned

type_synonym 'w starting = "(('w, setupEffect) sys, ended) state"

text \<open>\<open>if err != nil { os.Exit(1) }\<close>\<close>

definition orExit :: "('s, error + 'a) state \<Rightarrow> ('a \<Rightarrow> ('s, ended) state) \<Rightarrow> ('s, ended) state" where
  "orExit m k = do { r \<leftarrow> m; case r of Inl _ \<Rightarrow> ret (Exited 1) | Inr v \<Rightarrow> k v }"

text \<open>A watcher for the certificates of one server, if a path was given.\<close>

definition watchCerts ::
  "'w platform \<Rightarrow> string \<Rightarrow> string \<Rightarrow> string \<Rightarrow> (watcher option \<Rightarrow> 'w starting) \<Rightarrow> 'w starting" where
  "watchCerts P path name key k =
     (if path \<noteq> [] then
        orExit (call (WatchCert (filepathJoin path name) (filepathJoin path key))
            (certwatcherNew P (filepathJoin path name) (filepathJoin path key)))
          (\<lambda>x. k (Some x))
      else k None)"

definition addController :: "'w platform \<Rightarrow> reconcilerSetup \<Rightarrow> controllerSetup \<Rightarrow> 'w starting \<Rightarrow> 'w starting" where
  "addController P r c k = orExit (call (AddController r c) (completeController P c)) (\<lambda>_. k)"

definition addWebhook :: "'w platform \<Rightarrow> webhookSetup \<Rightarrow> 'w starting \<Rightarrow> 'w starting" where
  "addWebhook P s k =
     (if osGetenv P ''ENABLE_WEBHOOKS'' \<noteq> ''false'' then orExit (call (AddWebhook s) (completeWebhook P s)) (\<lambda>_. k)
      else k)"

definition addWatcher :: "'w platform \<Rightarrow> watcher option \<Rightarrow> 'w starting \<Rightarrow> 'w starting" where
  "addWatcher P x k = (case x of Some y \<Rightarrow> orExit (call (AddWatcher y) (mgrAdd P y)) (\<lambda>_. k) | None \<Rightarrow> k)"

definition startManager :: "'w platform \<Rightarrow> 'w starting" where
  "startManager P =
     orExit (call (AddHealthz ''healthz'') (addHealthzCheck P ''healthz'')) (\<lambda>_.
     orExit (call (AddReadyz ''readyz'') (addReadyzCheck P ''readyz'')) (\<lambda>_.
     orExit (call StartManager (mgrStart P)) (\<lambda>_. ret Returned)))"

definition serverReconcilerSetup :: reconcilerSetup where
  "serverReconcilerSetup = \<lparr>RecorderName = Some ''server-controller'', HasChecker = True, HasWebhookCaller = False\<rparr>"

definition fleetReconcilerSetup :: reconcilerSetup where
  "fleetReconcilerSetup = \<lparr>RecorderName = Some ''fleet'', HasChecker = True, HasWebhookCaller = False\<rparr>"

definition gametypeReconcilerSetup :: reconcilerSetup where
  "gametypeReconcilerSetup = \<lparr>RecorderName = Some ''gametype'', HasChecker = False, HasWebhookCaller = False\<rparr>"

definition autoscalerReconcilerSetup :: reconcilerSetup where
  "autoscalerReconcilerSetup = \<lparr>RecorderName = None, HasChecker = False, HasWebhookCaller = False\<rparr>"

definition operatorMain :: "'w platform \<Rightarrow> flags \<Rightarrow> 'w starting" where
  "operatorMain P fl =
     watchCerts P (webhookCertPath fl) (webhookCertName fl) (webhookCertKey fl) (\<lambda>webhookWatcher.
     watchCerts P (metricsCertPath fl) (metricsCertName fl) (metricsCertKey fl) (\<lambda>metricsWatcher.
     let opts = managerOptionsOf fl webhookWatcher metricsWatcher in
     orExit (call GetConfig (getConfig P)) (\<lambda>_.
     orExit (call (NewManager opts) (newManager P opts)) (\<lambda>_.
     addController P serverReconcilerSetup server_SetupWithManager (
     addController P fleetReconcilerSetup fleet_SetupWithManager (
     addController P gametypeReconcilerSetup gametype_SetupWithManager (
     addController P autoscalerReconcilerSetup autoscaler_SetupWithManager (
     addWebhook P SetupServerWebhookWithManager (
     addWebhook P SetupFleetWebhookWithManager (
     addWebhook P SetupGameTypeWebhookWithManager (
     addWebhook P SetupGameTypeAutoscalerWebhookWithManager (
     addWatcher P metricsWatcher (
     addWatcher P webhookWatcher (
     startManager P))))))))))))))"

section \<open>The plan of the start\<close>

text \<open>The steps of a start, without their answers.\<close>

datatype step =
    SWatch string string | SConfig | SManager | SController kind | SWebhook kind | SAddWatcher | SHealthz | SReadyz | SStart

fun stepOf :: "setupEffect \<Rightarrow> step" where
  "stepOf (WatchCert c k _) = SWatch c k"
| "stepOf (GetConfig _) = SConfig"
| "stepOf (NewManager _ _) = SManager"
| "stepOf (AddController _ c _) = SController (For c)"
| "stepOf (AddWebhook s _) = SWebhook (WebhookFor s)"
| "stepOf (AddWatcher _ _) = SAddWatcher"
| "stepOf (AddHealthz _ _) = SHealthz"
| "stepOf (AddReadyz _ _) = SReadyz"
| "stepOf (StartManager _) = SStart"

fun wentWrong :: "setupEffect \<Rightarrow> bool" where
  "wentWrong (WatchCert _ _ r) \<longleftrightarrow> (\<exists>e. r = Inl e)"
| "wentWrong (GetConfig r) \<longleftrightarrow> (\<exists>e. r = Inl e)"
| "wentWrong (NewManager _ r) \<longleftrightarrow> (\<exists>e. r = Inl e)"
| "wentWrong (AddController _ _ r) \<longleftrightarrow> (\<exists>e. r = Inl e)"
| "wentWrong (AddWebhook _ r) \<longleftrightarrow> (\<exists>e. r = Inl e)"
| "wentWrong (AddWatcher _ r) \<longleftrightarrow> (\<exists>e. r = Inl e)"
| "wentWrong (AddHealthz _ r) \<longleftrightarrow> (\<exists>e. r = Inl e)"
| "wentWrong (AddReadyz _ r) \<longleftrightarrow> (\<exists>e. r = Inl e)"
| "wentWrong (StartManager r) \<longleftrightarrow> (\<exists>e. r = Inl e)"

definition certSteps :: "string \<Rightarrow> string \<Rightarrow> string \<Rightarrow> step list" where
  "certSteps path name key = (if path \<noteq> [] then [SWatch (filepathJoin path name) (filepathJoin path key)] else [])"

text \<open>
  The reference: watch the certificates that were given, make the manager, add the four controllers,
  the webhooks unless they are switched off, the watchers and the health checks, and only then start.
\<close>

definition setupPlan :: "flags \<Rightarrow> bool \<Rightarrow> step list" where
  "setupPlan fl hooks =
     certSteps (webhookCertPath fl) (webhookCertName fl) (webhookCertKey fl) @
     certSteps (metricsCertPath fl) (metricsCertName fl) (metricsCertKey fl) @
     [SConfig, SManager] @ map SController [KServer, KFleet, KGameType, KAutoscaler] @
     (if hooks then map SWebhook [KServer, KFleet, KGameType, KAutoscaler] else []) @
     (if metricsCertPath fl \<noteq> [] then [SAddWatcher] else []) @ (if webhookCertPath fl \<noteq> [] then [SAddWatcher] else []) @
     [SHealthz, SReadyz, SStart]"

text \<open>The whole plan, or all of it up to a step that failed, with exit status 1.\<close>

definition follows :: "step list \<Rightarrow> ended \<Rightarrow> setupEffect list \<Rightarrow> bool" where
  "follows plan r t \<longleftrightarrow>
     (if list_all (\<lambda>e. \<not> wentWrong e) t then r = Returned \<and> map stepOf t = plan
      else r = Exited 1 \<and> wentWrong (last t) \<and> list_all (\<lambda>e. \<not> wentWrong e) (butlast t) \<and>
        (\<exists>rest. map stepOf t @ rest = plan))"

lemma follows_Nil: "follows [] Returned []"
  by (simp add: follows_def)

lemma follows_Cons: "\<not> wentWrong e \<Longrightarrow> follows plan r t \<Longrightarrow> follows (stepOf e # plan) r (e # t)"
  by (cases "t = []") (auto simp: follows_def)

lemma follows_failed: "wentWrong e \<Longrightarrow> follows (stepOf e # plan) (Exited 1) [e]"
  by (simp add: follows_def)

lemma gives_orExit:
  fixes mk :: "error + 'a \<Rightarrow> setupEffect"
  assumes k: "\<And>v. gives (k v) (follows plan)"
    and step: "\<And>r. stepOf (mk r) = s" and fails: "\<And>r. wentWrong (mk r) = (\<exists>e. r = Inl e)"
  shows "gives (orExit (call mk f) k) (follows (s # plan))"
  unfolding orExit_def
proof (intro gives_bind_call gives_case_sum)
  fix r :: "error + 'a" and e
  assume "r = Inl e"
  then show "gives (ret (Exited 1)) (\<lambda>x t. follows (s # plan) x (mk r # t))"
    using follows_failed [of "mk r"] by (intro gives_return) (simp add: step fails)
next
  fix r :: "error + 'a" and v
  assume "r = Inr v"
  then show "gives (k v) (\<lambda>x t. follows (s # plan) x (mk r # t))"
    using follows_Cons [of "mk r"] by (intro gives_weaken [OF k]) (simp add: step fails)
qed

lemma gives_startManager: "gives (startManager P) (follows [SHealthz, SReadyz, SStart])"
  unfolding startManager_def by (intro gives_orExit gives_return follows_Nil) simp_all

lemma gives_addController:
  "For c = kd \<Longrightarrow> gives k (follows plan) \<Longrightarrow> gives (addController P r c k) (follows (SController kd # plan))"
  unfolding addController_def by (rule gives_orExit) simp_all

lemma gives_addWebhook:
  "WebhookFor s = kd \<Longrightarrow> gives k (follows plan) \<Longrightarrow>
   gives (addWebhook P s k) (follows ((if osGetenv P ''ENABLE_WEBHOOKS'' \<noteq> ''false'' then [SWebhook kd] else []) @ plan))"
  unfolding addWebhook_def by (auto intro!: gives_orExit)

lemma gives_addWatcher:
  "(x \<noteq> None) = b \<Longrightarrow> gives k (follows plan) \<Longrightarrow>
   gives (addWatcher P x k) (follows ((if b then [SAddWatcher] else []) @ plan))"
  unfolding addWatcher_def by (cases x) (auto intro!: gives_orExit)

lemma gives_watchCerts:
  "(\<And>x. (x \<noteq> None) = (path \<noteq> []) \<Longrightarrow> gives (k x) (follows plan)) \<Longrightarrow>
   gives (watchCerts P path name key k) (follows (certSteps path name key @ plan))"
  unfolding watchCerts_def certSteps_def by (auto intro!: gives_orExit)

lemmas manager_setups = server_SetupWithManager_def fleet_SetupWithManager_def gametype_SetupWithManager_def
  autoscaler_SetupWithManager_def SetupServerWebhookWithManager_def SetupFleetWebhookWithManager_def
  SetupGameTypeWebhookWithManager_def SetupGameTypeAutoscalerWebhookWithManager_def

lemma gives_operatorMain: "gives (operatorMain P fl) (follows (setupPlan fl (osGetenv P ''ENABLE_WEBHOOKS'' \<noteq> ''false'')))"
proof -
  let ?on = "\<lambda>k. if osGetenv P ''ENABLE_WEBHOOKS'' \<noteq> ''false'' then [SWebhook k] else []"
  have "setupPlan fl (osGetenv P ''ENABLE_WEBHOOKS'' \<noteq> ''false'') =
      certSteps (webhookCertPath fl) (webhookCertName fl) (webhookCertKey fl) @
      certSteps (metricsCertPath fl) (metricsCertName fl) (metricsCertKey fl) @
      SConfig # SManager # SController KServer # SController KFleet # SController KGameType # SController KAutoscaler #
      ?on KServer @ ?on KFleet @ ?on KGameType @ ?on KAutoscaler @
      (if metricsCertPath fl \<noteq> [] then [SAddWatcher] else []) @ (if webhookCertPath fl \<noteq> [] then [SAddWatcher] else []) @
      [SHealthz, SReadyz, SStart]" (is "_ = ?plan")
    by (simp add: setupPlan_def)
  moreover have "gives (operatorMain P fl) (follows ?plan)"
    unfolding operatorMain_def Let_def
    by (intro gives_watchCerts gives_addController gives_addWebhook gives_addWatcher gives_startManager gives_orExit;
      (simp add: manager_setups; fail)?)
  ultimately show ?thesis by simp
qed

text \<open>Only the last step of the plan starts the manager, and the others are what \<open>main\<close> sets up before.\<close>

lemma setupPlan_last: "\<exists>p. setupPlan fl hooks = p @ [SStart] \<and> SStart \<notin> set p"
  by (rule exI [of _ "butlast (setupPlan fl hooks)"]) (auto simp: setupPlan_def certSteps_def butlast_append)

lemma stepOf_SStart [simp]: "stepOf e = SStart \<longleftrightarrow> (\<exists>r. e = StartManager r)"
  by (cases e) auto

lemma stops_at_start:
  assumes "xs @ SStart # ys = p @ [SStart]" and "SStart \<notin> set p"
  shows "xs = p \<and> ys = []"
  using assms by (auto simp: append_eq_append_conv2 Cons_eq_append_conv append_eq_Cons_conv)

lemma follows_started:
  assumes "follows (setupPlan fl hooks) r (t1 @ StartManager a # t2)"
  shows "t2 = [] \<and> map stepOf t1 @ [SStart] = setupPlan fl hooks \<and> (\<forall>e \<in> set t1. \<not> wentWrong e)"
proof -
  obtain p where p: "setupPlan fl hooks = p @ [SStart]" "SStart \<notin> set p" using setupPlan_last by blast
  from assms have "\<exists>rest. map stepOf (t1 @ StartManager a # t2) @ rest = p @ [SStart]"
    unfolding follows_def p(1) by (metis append_Nil2)
  then obtain rest where "map stepOf (t1 @ StartManager a # t2) @ rest = p @ [SStart]" by blast
  then have "map stepOf t1 = p \<and> map stepOf t2 @ rest = []" by (intro stops_at_start [OF _ p(2)]) simp
  with assms p(1) show ?thesis by (auto simp: follows_def butlast_append list_all_iff split: if_splits)
qed

text \<open>
  C10. The operator starts by the plan: every run of \<open>main\<close> performs the planned calls in the planned
  order; either all of them, none failed, and it returns once the manager has stopped, or a part
  of them of which exactly the last failed, and it exits with status 1. So the manager is started
  last, and only after everything else in the plan has succeeded: the four controllers, both health
  checks, the certificate watchers for which paths are given, and the four webhooks unless
  \<open>ENABLE_WEBHOOKS\<close> is \<open>false\<close>, in which case no webhook is added.
\<close>

theorem setup_follows_plan:
  assumes "run_state (operatorMain P fl) s = (r, s1)"
  shows "\<exists>t. trace s1 = trace s @ t \<and> follows (setupPlan fl (osGetenv P ''ENABLE_WEBHOOKS'' \<noteq> ''false'')) r t \<and>
     (\<forall>t1 a t2. t = t1 @ StartManager a # t2 \<longrightarrow> t2 = [] \<and> (\<forall>e \<in> set t1. \<not> wentWrong e) \<and>
        (\<forall>k \<in> {KServer, KFleet, KGameType, KAutoscaler}. SController k \<in> stepOf ` set t1 \<and>
          (SWebhook k \<in> stepOf ` set t1 \<longleftrightarrow> osGetenv P ''ENABLE_WEBHOOKS'' \<noteq> ''false'')) \<and>
        {SHealthz, SReadyz} \<subseteq> stepOf ` set t1)"
proof -
  from gives_run [OF gives_operatorMain assms] obtain t where t: "trace s1 = trace s @ t"
    and plan: "follows (setupPlan fl (osGetenv P ''ENABLE_WEBHOOKS'' \<noteq> ''false'')) r t" by blast
  have parts: "SController k \<in> stepOf ` set t1 \<and>
      (SWebhook k \<in> stepOf ` set t1 \<longleftrightarrow> osGetenv P ''ENABLE_WEBHOOKS'' \<noteq> ''false'')"
    "{SHealthz, SReadyz} \<subseteq> stepOf ` set t1"
    if "t = t1 @ StartManager a # t2" "k \<in> {KServer, KFleet, KGameType, KAutoscaler}" for t1 a t2 k
  proof -
    from follows_started [OF plan [unfolded that(1)]] have "map stepOf t1 @ [SStart] =
      setupPlan fl (osGetenv P ''ENABLE_WEBHOOKS'' \<noteq> ''false'')" by blast
    from arg_cong [OF this, of set] have steps: "insert SStart (stepOf ` set t1) =
      set (setupPlan fl (osGetenv P ''ENABLE_WEBHOOKS'' \<noteq> ''false''))" by simp
    have "x \<in> stepOf ` set t1 \<longleftrightarrow> x \<in> set (setupPlan fl (osGetenv P ''ENABLE_WEBHOOKS'' \<noteq> ''false''))" if "x \<noteq> SStart" for x
      using that unfolding steps [symmetric] by simp
    then show "SController k \<in> stepOf ` set t1 \<and>
      (SWebhook k \<in> stepOf ` set t1 \<longleftrightarrow> osGetenv P ''ENABLE_WEBHOOKS'' \<noteq> ''false'')"
      "{SHealthz, SReadyz} \<subseteq> stepOf ` set t1"
      using that(2) by (auto simp: setupPlan_def certSteps_def)
  qed
  have last: "t2 = [] \<and> (\<forall>e \<in> set t1. \<not> wentWrong e)" if "t = t1 @ StartManager a # t2" for t1 a t2
    using follows_started [OF plan [unfolded that]] by blast
  from t plan last parts(1) parts(2) [OF _ insertI1] show ?thesis by (intro exI [of _ t]) simp
qed

section \<open>What the two servers of the manager are given\<close>

text \<open>
  Only HTTP/1.1 is offered unless HTTP/2 was switched on, and the certificates come from the watcher of
  the server's own files, if a path was given.
\<close>

definition certFrom :: "string \<Rightarrow> string \<Rightarrow> string \<Rightarrow> setupEffect list \<Rightarrow> tlsConfig \<Rightarrow> tlsConfig \<Rightarrow> bool" where
  "certFrom path name key pre c c' \<longleftrightarrow>
     (if path = [] then GetCertificate c' = GetCertificate c
      else \<exists>x. WatchCert (filepathJoin path name) (filepathJoin path key) (Inr x) \<in> set pre \<and> GetCertificate c' = Some x)"

definition tlsRight :: "flags \<Rightarrow> managerOptions \<Rightarrow> setupEffect list \<Rightarrow> bool" where
  "tlsRight fl opts pre \<longleftrightarrow> (\<forall>c.
     NextProtos (configure (WebhookTLS opts) c) = (if enableHTTP2 fl then NextProtos c else [''http/1.1'']) \<and>
     NextProtos (configure (MetricsTLS (Metrics opts)) c) = (if enableHTTP2 fl then NextProtos c else [''http/1.1'']) \<and>
     certFrom (webhookCertPath fl) (webhookCertName fl) (webhookCertKey fl) pre c (configure (WebhookTLS opts) c) \<and>
     certFrom (metricsCertPath fl) (metricsCertName fl) (metricsCertKey fl) pre c (configure (MetricsTLS (Metrics opts)) c))"

lemma configure_tls:
  "NextProtos (configure (withWatcher x (tlsOpts fl)) c) = (if enableHTTP2 fl then NextProtos c else [''http/1.1''])"
  "GetCertificate (configure (withWatcher x (tlsOpts fl)) c) = (case x of None \<Rightarrow> GetCertificate c | Some y \<Rightarrow> Some y)"
  by (auto simp: configure_def withWatcher_def tlsOpts_def disableHTTP2_def useWatcher_def split: option.split)

definition managersRight :: "flags \<Rightarrow> setupEffect list \<Rightarrow> setupEffect list \<Rightarrow> bool" where
  "managersRight fl pre t \<longleftrightarrow> (\<forall>t1 opts r t2. t = t1 @ NewManager opts r # t2 \<longrightarrow> tlsRight fl opts (pre @ t1))"

lemma managersRight_simps [simp]:
  "managersRight fl pre []"
  "managersRight fl pre (e # t) \<longleftrightarrow> (\<forall>opts r. e = NewManager opts r \<longrightarrow> tlsRight fl opts pre) \<and> managersRight fl (pre @ [e]) t"
  by (auto simp: managersRight_def Cons_eq_append_conv)

abbreviation safely :: "flags \<Rightarrow> setupEffect list \<Rightarrow> 'w starting \<Rightarrow> bool" where
  "safely fl pre m \<equiv> gives m (\<lambda>_ t. managersRight fl pre t)"

lemma safely_orExit:
  "(\<And>r v. r = Inr v \<Longrightarrow> safely fl (pre @ [mk r]) (k v)) \<Longrightarrow> (\<And>r opts e. mk r = NewManager opts e \<Longrightarrow> tlsRight fl opts pre) \<Longrightarrow>
   safely fl pre (orExit (call mk f) k)"
  unfolding orExit_def
  by (intro gives_bind_call gives_case_sum) (auto intro: gives_return elim: gives_weaken)

lemma safely_add:
  "(\<And>pre. safely fl pre k) \<Longrightarrow> safely fl pre (addController P r c k)"
  "(\<And>pre. safely fl pre k) \<Longrightarrow> safely fl pre (addWebhook P s k)"
  "(\<And>pre. safely fl pre k) \<Longrightarrow> safely fl pre (addWatcher P x k)"
  "safely fl pre (startManager P)"
  unfolding addController_def addWebhook_def addWatcher_def startManager_def
  by (auto intro!: safely_orExit gives_return split: option.split)

lemma safely_watchCerts:
  assumes k: "\<And>x pre'. set pre \<subseteq> set pre' \<Longrightarrow>
     (if path = [] then x = None
      else \<exists>y. x = Some y \<and> WatchCert (filepathJoin path name) (filepathJoin path key) (Inr y) \<in> set pre') \<Longrightarrow>
     safely fl pre' (k x)"
  shows "safely fl pre (watchCerts P path name key k)"
proof (cases "path = []")
  case True
  then show ?thesis using k [of pre None] by (simp add: watchCerts_def)
next
  case False
  then have "safely fl (pre @ [WatchCert (filepathJoin path name) (filepathJoin path key) (Inr v)]) (k (Some v))" for v
    by (intro k) auto
  with False show ?thesis unfolding watchCerts_def by (auto intro!: safely_orExit)
qed

lemma safely_operatorMain: "safely fl [] (operatorMain P fl)"
  unfolding operatorMain_def Let_def
proof (intro safely_watchCerts safely_orExit safely_add)
  fix x pre y pre' opts e r and v :: unit and r' :: "error + unit"
  assume x: "if webhookCertPath fl = [] then x = None
      else \<exists>y. x = Some y \<and> WatchCert (filepathJoin (webhookCertPath fl) (webhookCertName fl))
        (filepathJoin (webhookCertPath fl) (webhookCertKey fl)) (Inr y) \<in> set pre"
    and sub: "set pre \<subseteq> set pre'"
    and y: "if metricsCertPath fl = [] then y = None
      else \<exists>z. y = Some z \<and> WatchCert (filepathJoin (metricsCertPath fl) (metricsCertName fl))
        (filepathJoin (metricsCertPath fl) (metricsCertKey fl)) (Inr z) \<in> set pre'"
    and m: "NewManager (managerOptionsOf fl x y) r' = NewManager opts e"
  from m have opts: "opts = managerOptionsOf fl x y" by simp
  show "tlsRight fl opts (pre' @ [GetConfig r])"
    using x y subsetD [OF sub] unfolding opts tlsRight_def certFrom_def managerOptionsOf_def
    by (auto simp: configure_tls)
qed simp_all

text \<open>
  C35. The manager's servers: whenever \<open>main\<close> makes the manager, the webhook server and the metrics
  server offer HTTP/1.1 only, unless HTTP/2 was switched on by its flag, and each takes its certificates
  from the watcher of its own certificate files, when a path was given for them, and is left as it is otherwise.
\<close>

theorem servers_are_configured:
  assumes "run_state (operatorMain P fl) s = (r, s')" and "trace s' = trace s @ t1 @ NewManager opts err # t2"
  shows "tlsRight fl opts t1"
  using gives_run [OF safely_operatorMain assms(1)] assms(2) by (auto simp: managersRight_def)

text \<open>A platform on which every call works.\<close>

definition calmPlatform :: "nat platform" where
  "calmPlatform = \<lparr>certwatcherNew = (\<lambda>_ _ n. (Inr (Watcher n), Suc n)), getConfig = (\<lambda>n. (Inr (), n)),
     newManager = (\<lambda>_ n. (Inr (), n)), completeController = (\<lambda>_ n. (Inr (), n)), completeWebhook = (\<lambda>_ n. (Inr (), n)),
     mgrAdd = (\<lambda>_ n. (Inr (), n)), addHealthzCheck = (\<lambda>_ n. (Inr (), n)), addReadyzCheck = (\<lambda>_ n. (Inr (), n)),
     mgrStart = (\<lambda>n. (Inr (), n)), osGetenv = (\<lambda>_. [])\<rparr>"

definition certFlags :: flags where
  "certFlags = defaultFlags\<lparr>webhookCertPath := ''/certs/''\<rparr>"

lemma certs_path [simp]: "filepathJoin ''/certs/'' ''tls.crt'' = ''/certs/tls.crt''"
    "filepathJoin ''/certs/'' ''tls.key'' = ''/certs/tls.key''"
  by (simp_all add: filepathJoin_def pathClean_def cleanStep_def)

lemma calm_run:
  "\<exists>t2. trace (snd (run_state (operatorMain calmPlatform certFlags) \<lparr>world = 0, trace = []\<rparr>)) =
     [WatchCert ''/certs/tls.crt'' ''/certs/tls.key'' (Inr (Watcher 0)), GetConfig (Inr ())] @
     NewManager (managerOptionsOf certFlags (Some (Watcher 0)) None) (Inr ()) # t2"
  by (simp add: operatorMain_def watchCerts_def orExit_def addController_def addWebhook_def addWatcher_def startManager_def
      calmPlatform_def certFlags_def defaultFlags_def run_simps)

lemma calm_starts:
  "\<exists>t1 a. trace (snd (run_state (operatorMain calmPlatform certFlags) \<lparr>world = 0, trace = []\<rparr>)) = t1 @ StartManager a # []"
  by (simp add: operatorMain_def watchCerts_def orExit_def addController_def addWebhook_def addWatcher_def startManager_def
      calmPlatform_def certFlags_def defaultFlags_def run_simps)

theorem setup_follows_plan_witness:
  "\<exists>t1 a. trace (snd (run_state (operatorMain calmPlatform certFlags) \<lparr>world = 0, trace = []\<rparr>)) = t1 @ [StartManager a] \<and>
     (\<forall>k \<in> {KServer, KFleet, KGameType, KAutoscaler}. SController k \<in> stepOf ` set t1 \<and> SWebhook k \<in> stepOf ` set t1)"
proof -
  obtain r s' where run: "run_state (operatorMain calmPlatform certFlags) \<lparr>world = 0, trace = []\<rparr> = (r, s')" by fastforce
  obtain t1 a where t1: "trace s' = t1 @ StartManager a # []" using calm_starts run by auto
  have "osGetenv calmPlatform ''ENABLE_WEBHOOKS'' \<noteq> ''false''" by (simp add: calmPlatform_def)
  with setup_follows_plan [OF run] t1
  have "\<forall>k \<in> {KServer, KFleet, KGameType, KAutoscaler}. SController k \<in> stepOf ` set t1 \<and> SWebhook k \<in> stepOf ` set t1"
    by auto
  with t1 run show ?thesis by auto
qed

lemma servers_are_configured_witness:
  "tlsRight certFlags (managerOptionsOf certFlags (Some (Watcher 0)) None)
     [WatchCert ''/certs/tls.crt'' ''/certs/tls.key'' (Inr (Watcher 0)), GetConfig (Inr ())]"
proof -
  obtain r s' where run: "run_state (operatorMain calmPlatform certFlags) \<lparr>world = 0, trace = []\<rparr> = (r, s')" by fastforce
  obtain t2 where "trace s' = [WatchCert ''/certs/tls.crt'' ''/certs/tls.key'' (Inr (Watcher 0)), GetConfig (Inr ())] @
     NewManager (managerOptionsOf certFlags (Some (Watcher 0)) None) (Inr ()) # t2"
    using calm_run run by auto
  with servers_are_configured [OF run] show ?thesis by simp
qed

section \<open>The service\<close>

record 'w svcPlatform =
  inClusterConfig :: "'w \<Rightarrow> (error + unit) \<times> 'w"
  dynamicNewForConfig :: "'w \<Rightarrow> (error + unit) \<times> 'w"
  kubernetesNewForConfig :: "'w \<Rightarrow> (error + unit) \<times> 'w"
  listenAndServe :: "string \<Rightarrow> 'w \<Rightarrow> (error + unit) \<times> 'w"

datatype svcStart =
    InClusterConfig "error + unit"
  | NewDynamicClient "error + unit"
  | NewClientSet "error + unit"
  | ListenAndServe string "error + unit"

text \<open>\<open>log.Fatal\<close> exits with status 1.\<close>

definition CreateApp :: "'w svcPlatform \<Rightarrow> (('w, svcStart) sys, ended) state \<Rightarrow> (('w, svcStart) sys, ended) state" where
  "CreateApp P k =
     orExit (call InClusterConfig (inClusterConfig P)) (\<lambda>_.
     orExit (call NewDynamicClient (dynamicNewForConfig P)) (\<lambda>_.
     orExit (call NewClientSet (kubernetesNewForConfig P)) (\<lambda>_. k)))"

definition serviceMain :: "'w svcPlatform \<Rightarrow> (('w, svcStart) sys, ended) state" where
  "serviceMain P = CreateApp P (orExit (call (ListenAndServe '':8080'') (listenAndServe P '':8080'')) (\<lambda>_. ret Returned))"

text \<open>The service listens only with its two clients made.\<close>

lemma service_listens_with_clients:
  "gives (serviceMain P) (\<lambda>_ t. onlyAfter (\<lambda>e. \<exists>a r. e = ListenAndServe a r)
     (\<lambda>pre. pre = [InClusterConfig (Inr ()), NewDynamicClient (Inr ()), NewClientSet (Inr ())]) [] t)"
  unfolding serviceMain_def CreateApp_def orExit_def by (intro gives_intros) auto

end
