(* ===== verification/Scheme.thy ===== *)
theory Scheme
  imports Startup
begin

text \<open>
  The registration of the types (\<open>api/v1alpha1/groupversion_info.go\<close>, the \<open>init\<close> functions of the four type files
  and that of \<open>cmd/main.go\<close>). The builder and the scheme of the libraries are a parameter; what they promise is
  the locale \<open>scheme_laws\<close>. Over it, every type the operator watches is known to the scheme that the manager gets.
\<close>

section \<open>The code\<close>

record groupVersion =
  Group :: string
  Version :: string

text \<open>A registered Go type: the object or the list of a kind.\<close>

datatype goType = Obj kind | ObjList kind

record ('b, 's) schemeLib =
  newBuilder :: "groupVersion \<Rightarrow> 'b"
  Register :: "goType list \<Rightarrow> 'b \<Rightarrow> 'b"
  addBuilder :: "'b \<Rightarrow> 's \<Rightarrow> error + 's"
  addClientgo :: "'s \<Rightarrow> error + 's"
  NewScheme :: 's

definition GroupVersion :: groupVersion where
  "GroupVersion = \<lparr>Group = ''gameserver.falloria.com'', Version = ''v1alpha1''\<rparr>"

text \<open>The \<open>init\<close> functions run in the order of their files, before that of the main package.\<close>

definition fleet_init :: "('b, 's) schemeLib \<Rightarrow> 'b \<Rightarrow> 'b" where
  "fleet_init L b = Register L [Obj KFleet, ObjList KFleet] b"

definition gametype_init :: "('b, 's) schemeLib \<Rightarrow> 'b \<Rightarrow> 'b" where
  "gametype_init L b = Register L [Obj KGameType, ObjList KGameType] b"

definition autoscaler_init :: "('b, 's) schemeLib \<Rightarrow> 'b \<Rightarrow> 'b" where
  "autoscaler_init L b = Register L [Obj KAutoscaler, ObjList KAutoscaler] b"

definition server_init :: "('b, 's) schemeLib \<Rightarrow> 'b \<Rightarrow> 'b" where
  "server_init L b = Register L [Obj KServer, ObjList KServer] b"

definition SchemeBuilder :: "('b, 's) schemeLib \<Rightarrow> 'b" where
  "SchemeBuilder L = newBuilder L GroupVersion"

definition registeredBuilder :: "('b, 's) schemeLib \<Rightarrow> 'b" where
  "registeredBuilder L = server_init L (autoscaler_init L (gametype_init L (fleet_init L (SchemeBuilder L))))"

text \<open>\<open>AddToScheme\<close> is a method of the builder the pointer refers to, so it adds all that was registered.\<close>

definition AddToScheme :: "('b, 's) schemeLib \<Rightarrow> 's \<Rightarrow> error + 's" where
  "AddToScheme L s = addBuilder L (registeredBuilder L) s"

definition must :: "error + 'a \<Rightarrow> 'a outcome" where
  "must r = (case r of Inl _ \<Rightarrow> Panic | Inr v \<Rightarrow> Ret v)"

definition main_init :: "('b, 's) schemeLib \<Rightarrow> 's outcome" where
  "main_init L = (case must (addClientgo L (NewScheme L)) of
     Panic \<Rightarrow> Panic
   | Ret s \<Rightarrow> must (AddToScheme L s))"

section \<open>What the libraries promise\<close>

text \<open>
  \<open>has b t\<close>: the builder will add the type \<open>t\<close>, under the group and version \<open>of b\<close>. \<open>knows s t\<close>: the group and version
  the scheme knows \<open>t\<close> under. The core group is that of pods.
\<close>

locale scheme_laws =
  fixes L :: "('b, 's) schemeLib" and has :: "'b \<Rightarrow> goType \<Rightarrow> bool" and gvOf :: "'b \<Rightarrow> groupVersion"
    and knows :: "'s \<Rightarrow> goType \<Rightarrow> groupVersion option" and core :: groupVersion
  assumes builder_gv: "gvOf (newBuilder L gv) = gv" "gvOf (Register L ts b) = gvOf b"
    and register_has: "has (Register L ts b) t \<longleftrightarrow> t \<in> set ts \<or> has b t"
    and new_has: "\<not> has (newBuilder L gv) t"
    and added: "addBuilder L b s = Inr s' \<Longrightarrow> knows s' t = (if has b t then Some (gvOf b) else knows s t)"
    and clientgo: "addClientgo L s = Inr s' \<Longrightarrow> knows s' (Obj KPod) = Some core \<and> knows s' (ObjList KPod) = Some core"
begin

lemma registered_has: "has (registeredBuilder L) t \<longleftrightarrow> t \<noteq> Obj KPod \<and> t \<noteq> ObjList KPod"
proof (cases t)
  case (Obj k)
  then show ?thesis
    by (cases k) (simp_all add: registeredBuilder_def SchemeBuilder_def server_init_def autoscaler_init_def gametype_init_def
        fleet_init_def register_has new_has)
next
  case (ObjList k)
  then show ?thesis
    by (cases k) (simp_all add: registeredBuilder_def SchemeBuilder_def server_init_def autoscaler_init_def gametype_init_def
        fleet_init_def register_has new_has)
qed

lemma registered_gv: "gvOf (registeredBuilder L) = GroupVersion"
  by (simp add: registeredBuilder_def SchemeBuilder_def server_init_def autoscaler_init_def gametype_init_def
      fleet_init_def builder_gv)

lemma main_init_knows:
  assumes "main_init L = Ret s"
  shows "knows s t = Some (if t = Obj KPod \<or> t = ObjList KPod then core else GroupVersion)"
proof -
  from assms obtain s1 where s1: "addClientgo L (NewScheme L) = Inr s1" "addBuilder L (registeredBuilder L) s1 = Inr s"
    by (auto simp: main_init_def must_def AddToScheme_def split: sum.splits outcome.splits)
  from added [OF s1(2)] clientgo [OF s1(1)] show ?thesis by (auto simp: registered_has registered_gv)
qed

end

section \<open>The libraries on lists\<close>

text \<open>A builder is a group version with its types, a scheme the list of what it knows, the latest first.\<close>

definition listLib :: "(groupVersion \<times> goType list, (goType \<times> groupVersion) list) schemeLib" where
  "listLib = \<lparr>newBuilder = (\<lambda>gv. (gv, [])), Register = (\<lambda>ts (gv, us). (gv, us @ ts)),
     addBuilder = (\<lambda>(gv, ts) s. Inr (map (\<lambda>t. (t, gv)) ts @ s)),
     addClientgo = (\<lambda>s. Inr ([(Obj KPod, \<lparr>Group = [], Version = ''v1''\<rparr>), (ObjList KPod, \<lparr>Group = [], Version = ''v1''\<rparr>)] @ s)),
     NewScheme = []\<rparr>"

lemma map_of_const: "map_of (map (\<lambda>t. (t, v)) ts) t = (if t \<in> set ts then Some v else None)"
  by (induction ts) auto

interpretation listed: scheme_laws listLib "\<lambda>(_, ts) t. t \<in> set ts" fst map_of "\<lparr>Group = [], Version = ''v1''\<rparr>"
  by unfold_locales (auto simp: listLib_def map_of_const map_add_def split: option.split)

section \<open>Every kind is known\<close>

text \<open>
  When the program starts without a panic, the scheme of its manager knows every kind and its list: those the
  operator defines under its group and version, pods under the core group.
\<close>

theorem kinds_are_known:
  assumes "scheme_laws L has gvOf knows core" and "main_init L = Ret s"
  shows "knows s (Obj k) = Some (if k = KPod then core else GroupVersion) \<and>
    knows s (ObjList k) = Some (if k = KPod then core else GroupVersion)"
  using scheme_laws.main_init_knows [OF assms] by simp

lemma kinds_are_known_witness:
  "\<exists>s. main_init listLib = Ret s \<and> map_of s (ObjList KFleet) = Some GroupVersion \<and>
     map_of s (Obj KPod) = Some \<lparr>Group = [], Version = ''v1''\<rparr>"
proof -
  obtain s where s: "main_init listLib = Ret s"
    by (auto simp: main_init_def must_def AddToScheme_def listLib_def registeredBuilder_def SchemeBuilder_def
        server_init_def autoscaler_init_def gametype_init_def fleet_init_def)
  from kinds_are_known [OF listed.scheme_laws_axioms s, of KFleet] kinds_are_known [OF listed.scheme_laws_axioms s, of KPod]
  show ?thesis using s by auto
qed

end
