(* ===== verification/TestTools.thy ===== *)
theory TestTools
  imports Prelude
begin

text \<open>
  \<open>operator/test/utils\<close>: the helpers of the end-to-end tests. They build manifests and run \<open>kubectl\<close>
  and \<open>kind\<close>; the shell and the file system are a parameter, and every call of them is one entry of
  the trace. Texts are the ASCII texts these programs print.
\<close>

section \<open>Texts\<close>

abbreviation newline :: char where
  "newline \<equiv> CHR 0x0A"

definition quoted :: "string \<Rightarrow> string" where
  "quoted s = CHR 0x22 # s @ [CHR 0x22]"

text \<open>\<open>strings.Split\<close> at a character, \<open>strings.Join\<close>, \<open>strings.Contains\<close>, \<open>strings.Replace\<close> and \<open>strings.TrimSpace\<close>.\<close>

fun splitAt :: "char \<Rightarrow> string \<Rightarrow> string \<Rightarrow> string list" where
  "splitAt sep acc [] = [acc]"
| "splitAt sep acc (c # cs) = (if c = sep then acc # splitAt sep [] cs else splitAt sep (acc @ [c]) cs)"

fun joinWith :: "string \<Rightarrow> string list \<Rightarrow> string" where
  "joinWith sep [] = []"
| "joinWith sep [p] = p"
| "joinWith sep (p # ps) = p @ sep @ joinWith sep ps"

fun startsWith :: "string \<Rightarrow> string \<Rightarrow> bool" where
  "startsWith [] s = True"
| "startsWith (c # cs) [] = False"
| "startsWith (c # cs) (d # ds) \<longleftrightarrow> c = d \<and> startsWith cs ds"

fun contains :: "string \<Rightarrow> string \<Rightarrow> bool" where
  "contains [] p \<longleftrightarrow> p = []"
| "contains (c # cs) p \<longleftrightarrow> startsWith p (c # cs) \<or> contains cs p"

function removeText :: "string \<Rightarrow> string \<Rightarrow> string" where
  "removeText p [] = []"
| "removeText p (c # cs) =
     (if p \<noteq> [] \<and> startsWith p (c # cs) then removeText p (drop (length p) (c # cs)) else c # removeText p cs)"
  by pat_completeness auto
termination
  by (relation "measure (length \<circ> snd)") (auto simp: neq_Nil_conv)

definition isSpace :: "char \<Rightarrow> bool" where
  "isSpace c \<longleftrightarrow> c \<in> set [CHR 0x09, CHR 0x0A, CHR 0x0B, CHR 0x0C, CHR 0x0D, CHR '' '']"

definition TrimSpace :: "string \<Rightarrow> string" where
  "TrimSpace s = rev (dropWhile isSpace (rev (dropWhile isSpace s)))"

text \<open>A text from its lines, each with a newline.\<close>

definition textOf :: "string list \<Rightarrow> string" where
  "textOf ls = concat (map (\<lambda>l. l @ [newline]) ls)"

section \<open>Manifests\<close>

definition CreateServerManifest :: "string \<Rightarrow> string \<Rightarrow> string \<Rightarrow> string" where
  "CreateServerManifest name namespace img = textOf [
     [],
     ''apiVersion: gameserver.falloria.com/v1alpha1'',
     ''kind: Server'',
     ''metadata:'',
     ''  name: '' @ name,
     ''  namespace: '' @ namespace,
     ''spec:'',
     ''  timeout: 5m'',
     ''  allowForceDelete: false'',
     ''  pod:'',
     ''    containers:'',
     ''      - name: gameserver'',
     ''        image: '' @ img,
     ''        ports:'',
     ''          - containerPort: 8081'',
     ''            protocol: TCP'']"

definition CreateFleetManifest :: "string \<Rightarrow> string \<Rightarrow> string \<Rightarrow> goint \<Rightarrow> bool \<Rightarrow> string \<Rightarrow> string" where
  "CreateFleetManifest name namespace img replicas prioritize priority = textOf [
     [],
     ''apiVersion: gameserver.falloria.com/v1alpha1'',
     ''kind: Fleet'',
     ''metadata:'',
     ''  name: '' @ name,
     ''  namespace: '' @ namespace,
     ''spec:'',
     ''  scaling:'',
     ''    replicas: '' @ itoa (sint replicas),
     ''    prioritizeAllowed: '' @ formatBool prioritize,
     ''    agePriority: '' @ priority,
     ''  spec:'',
     ''    timeout: 5m'',
     ''    allowForceDelete: false'',
     ''    pod:'',
     ''      containers:'',
     ''      - name: gameserver'',
     ''        image: '' @ img,
     ''        ports:'',
     ''        - containerPort: 8081'',
     ''          protocol: TCP'']"

definition CreateGameTypeManifest :: "string \<Rightarrow> string \<Rightarrow> string \<Rightarrow> goint \<Rightarrow> bool \<Rightarrow> string \<Rightarrow> string" where
  "CreateGameTypeManifest name namespace img replicas prioritize priority = textOf [
     [],
     ''apiVersion: gameserver.falloria.com/v1alpha1'',
     ''kind: GameType'',
     ''metadata:'',
     ''  name: '' @ name,
     ''  namespace: '' @ namespace,
     ''spec:'',
     ''  fleetSpec:'',
     ''    scaling:'',
     ''      replicas: '' @ itoa (sint replicas),
     ''      prioritizeAllowed: '' @ formatBool prioritize,
     ''      agePriority: '' @ priority,
     ''    spec:'',
     ''      timeout: 5m'',
     ''      allowForceDelete: false'',
     ''      pod:'',
     ''        containers:'',
     ''        - name: gameserver'',
     ''          image: '' @ img,
     ''          ports:'',
     ''          - containerPort: 8081'',
     ''            protocol: TCP'']"

section \<open>Running commands\<close>

record command =
  Argv :: "string list"
  Dir :: string
  EnvAdded :: "string list"
  Deadline :: "nat option"

definition exec :: "string list \<Rightarrow> command" where
  "exec args = \<lparr>Argv = args, Dir = [], EnvAdded = [], Deadline = None\<rparr>"

text \<open>The shell and the file system. A failing command has an output, too.\<close>

record 'w shell =
  osGetwd :: "'w \<Rightarrow> (string \<times> error option) \<times> 'w"
  osChdir :: "string \<Rightarrow> 'w \<Rightarrow> error option \<times> 'w"
  combinedOutput :: "command \<Rightarrow> 'w \<Rightarrow> (string \<times> error option) \<times> 'w"
  osCreateTemp :: "string \<Rightarrow> 'w \<Rightarrow> (error + string) \<times> 'w"
  writeTemp :: "string \<Rightarrow> string \<Rightarrow> 'w \<Rightarrow> error option \<times> 'w"
  closeTemp :: "string \<Rightarrow> 'w \<Rightarrow> error option \<times> 'w"
  osRemove :: "string \<Rightarrow> 'w \<Rightarrow> error option \<times> 'w"
  osLookupEnv :: "string \<Rightarrow> 'w \<Rightarrow> string option \<times> 'w"

datatype toolEffect =
    WorkDir "string \<times> error option"
  | ChangedDir string "error option"
  | Printed string
  | Ran command "string \<times> error option"
  | MadeTemp "error + string"
  | WroteTemp string string "error option"
  | ClosedTemp string "error option"
  | RemovedTemp string "error option"
  | LookedUp string "string option"

type_synonym ('w, 'a) tool = "(('w, toolEffect) sys, 'a) state"

definition GetProjectDir :: "'w shell \<Rightarrow> ('w, string \<times> error option) tool" where
  "GetProjectDir S = do {
     (wd, err) \<leftarrow> call WorkDir (osGetwd S);
     ret (case err of Some e \<Rightarrow> (wd, Some e) | None \<Rightarrow> (removeText ''/test/e2e'' wd, None))
   }"

definition warnError :: "error \<Rightarrow> ('w, unit) tool" where
  "warnError e = emit (Printed (''warning: '' @ errMsg e @ [newline]))"

definition Run :: "'w shell \<Rightarrow> command \<Rightarrow> ('w, string \<times> error option) tool" where
  "Run S cmd = do {
     (dir, _) \<leftarrow> GetProjectDir S;
     c \<leftarrow> call (ChangedDir dir) (osChdir S dir);
     (case c of Some e \<Rightarrow> emit (Printed (''chdir dir: '' @ errMsg e @ [newline])) | None \<Rightarrow> ret ());
     let line = joinWith '' '' (Argv cmd);
     emit (Printed (''running: '' @ line @ [newline]));
     let cmd1 = cmd\<lparr>Dir := dir, EnvAdded := [''GO111MODULE=on'']\<rparr>;
     (output, err) \<leftarrow> call (Ran cmd1) (combinedOutput S cmd1);
     ret (case err of
            Some e \<Rightarrow> (output, Some (newError (line @ '' failed with error: ('' @ errMsg e @ '') '' @ output)))
          | None \<Rightarrow> (output, None))
   }"

section \<open>Pods\<close>

definition GetPodIP :: "'w shell \<Rightarrow> string \<Rightarrow> string \<Rightarrow> ('w, string \<times> error option) tool" where
  "GetPodIP S podName namespace = do {
     (output, err) \<leftarrow> Run S (exec [''kubectl'', ''get'', ''pod'', podName, ''-n'', namespace, ''-o'', ''jsonpath={.status.podIP}'']);
     ret (case err of Some e \<Rightarrow> ([], Some e) | None \<Rightarrow> (output, None))
   }"

definition PodExists :: "'w shell \<Rightarrow> string \<Rightarrow> string \<Rightarrow> ('w, bool \<times> error option) tool" where
  "PodExists S podName namespace = do {
     (output, err) \<leftarrow> Run S (exec [''kubectl'', ''get'', ''pod'', podName, ''-n'', namespace, ''--ignore-not-found'']);
     ret (case err of
            Some e \<Rightarrow> (False, Some (errorf_w ''error checking pod existence: '' e))
          | None \<Rightarrow> (TrimSpace output \<noteq> [], None))
   }"

definition curlPodYaml :: "string \<Rightarrow> string" where
  "curlPodYaml namespace = textOf [
     [],
     ''apiVersion: v1'',
     ''kind: Pod'',
     ''metadata:'',
     ''  name: curl-pod'',
     ''  namespace: '' @ namespace,
     ''spec:'',
     ''  containers:'',
     ''  - name: curl'',
     ''    image: curlimages/curl'',
     ''    command: ['' @ quoted ''sleep'' @ '', '' @ quoted ''300'' @ '']'',
     ''  restartPolicy: Never'']"

definition applyCmd :: "string \<Rightarrow> command" where
  "applyCmd file = exec [''kubectl'', ''apply'', ''-f'', file]"

definition waitCmd :: "string \<Rightarrow> command" where
  "waitCmd namespace = exec [''kubectl'', ''wait'', ''--for=condition=Ready'', ''--timeout=30s'', ''-n'', namespace, ''pod/curl-pod'']"

definition allowPayload :: string where
  "allowPayload = ''{'' @ quoted ''allowed'' @ '':true}''"

definition curlCmd :: "string \<Rightarrow> string \<Rightarrow> command" where
  "curlCmd ip namespace = (exec [''kubectl'', ''exec'', ''-n'', namespace, ''curl-pod'', ''--'',
     ''curl'', ''-X'', ''POST'', ''-H'', ''Content-Type: application/json'', ''-d'', allowPayload,
     ''--connect-timeout'', ''10'', ''--max-time'', ''20'',
     ''http://'' @ ip @ '':'' @ itoa 8080 @ ''/allow_delete''])\<lparr>Deadline := Some 30\<rparr>"

definition deleteCmd :: "string \<Rightarrow> command" where
  "deleteCmd namespace = exec [''kubectl'', ''delete'', ''pod'', ''-n'', namespace, ''curl-pod'', ''--grace-period=0'', ''--force'']"

text \<open>The part of \<open>SendAllowDeleteRequest\<close> after the temporary file was made, which a deferred call removes.\<close>

definition curlFromPod :: "'w shell \<Rightarrow> string \<Rightarrow> string \<Rightarrow> string \<Rightarrow> ('w, error option) tool" where
  "curlFromPod S ip namespace file = do {
     x \<leftarrow> call (WroteTemp file (curlPodYaml namespace)) (writeTemp S file (curlPodYaml namespace));
     case x of Some e \<Rightarrow> ret (Some e) | None \<Rightarrow> do {
     x \<leftarrow> call (ClosedTemp file) (closeTemp S file);
     case x of Some e \<Rightarrow> ret (Some e) | None \<Rightarrow> do {
     (_, x) \<leftarrow> Run S (applyCmd file);
     case x of Some e \<Rightarrow> ret (Some e) | None \<Rightarrow> do {
     (_, x) \<leftarrow> Run S (waitCmd namespace);
     case x of Some e \<Rightarrow> ret (Some e) | None \<Rightarrow> do {
     (_, err) \<leftarrow> Run S (curlCmd ip namespace);
     _ \<leftarrow> Run S (deleteCmd namespace);
     ret err
   }}}}}"

definition SendAllowDeleteRequest :: "'w shell \<Rightarrow> string \<Rightarrow> string \<Rightarrow> ('w, error option) tool" where
  "SendAllowDeleteRequest S ip namespace =
     (if ip = [] then ret (Some (newError ''ip is invalid''))
      else do {
        f \<leftarrow> call MadeTemp (osCreateTemp S ''curl-pod-*.yaml'');
        case f of
          Inl e \<Rightarrow> ret (Some e)
        | Inr file \<Rightarrow> do {
            err \<leftarrow> curlFromPod S ip namespace file;
            _ \<leftarrow> call (RemovedTemp file) (osRemove S file);
            ret err
          }
      })"

section \<open>The cluster's add-ons\<close>

definition prometheusURL :: string where
  "prometheusURL = ''https://github.com/prometheus-operator/prometheus-operator/releases/download/v0.77.1/bundle.yaml''"

definition certmanagerURL :: string where
  "certmanagerURL = ''https://github.com/cert-manager/cert-manager/releases/download/v1.16.3/cert-manager.yaml''"

text \<open>\<open>_, err := Run(cmd); return err\<close> and \<open>if _, err := Run(cmd); err != nil { warnError(err) }\<close>.\<close>

definition runErr :: "'w shell \<Rightarrow> command \<Rightarrow> ('w, error option) tool" where
  "runErr S cmd = do { (_, err) \<leftarrow> Run S cmd; ret err }"

definition runWarn :: "'w shell \<Rightarrow> command \<Rightarrow> ('w, unit) tool" where
  "runWarn S cmd = do { (_, err) \<leftarrow> Run S cmd; case err of Some e \<Rightarrow> warnError e | None \<Rightarrow> ret () }"

definition InstallPrometheusOperator :: "'w shell \<Rightarrow> ('w, error option) tool" where
  "InstallPrometheusOperator S = runErr S (exec [''kubectl'', ''create'', ''-f'', prometheusURL])"

definition UninstallPrometheusOperator :: "'w shell \<Rightarrow> ('w, unit) tool" where
  "UninstallPrometheusOperator S = runWarn S (exec [''kubectl'', ''delete'', ''-f'', prometheusURL])"

definition UninstallCertManager :: "'w shell \<Rightarrow> ('w, unit) tool" where
  "UninstallCertManager S = runWarn S (exec [''kubectl'', ''delete'', ''-f'', certmanagerURL])"

definition InstallCertManager :: "'w shell \<Rightarrow> ('w, error option) tool" where
  "InstallCertManager S = do {
     (_, err) \<leftarrow> Run S (exec [''kubectl'', ''apply'', ''-f'', certmanagerURL]);
     case err of
       Some e \<Rightarrow> ret (Some e)
     | None \<Rightarrow> runErr S (exec [''kubectl'', ''wait'', ''deployment.apps/cert-manager-webhook'',
         ''--for'', ''condition=Available'', ''--namespace'', ''cert-manager'', ''--timeout'', ''5m''])
   }"

fun nonEmptyLines :: "string list \<Rightarrow> string list \<Rightarrow> string list" where
  "nonEmptyLines res [] = res"
| "nonEmptyLines res (l # ls) = nonEmptyLines (if l \<noteq> [] then res @ [l] else res) ls"

definition GetNonEmptyLines :: "string \<Rightarrow> string list" where
  "GetNonEmptyLines output = nonEmptyLines [] (splitAt newline [] output)"

definition anyListed :: "string list \<Rightarrow> string \<Rightarrow> bool" where
  "anyListed crds output =
     list_ex (\<lambda>crd. list_ex (\<lambda>line. contains line crd) (GetNonEmptyLines output)) crds"

definition prometheusCRDs :: "string list" where
  "prometheusCRDs = [''prometheuses.monitoring.coreos.com'', ''prometheusrules.monitoring.coreos.com'',
     ''prometheusagents.monitoring.coreos.com'']"

definition certManagerCRDs :: "string list" where
  "certManagerCRDs = [''certificates.cert-manager.io'', ''issuers.cert-manager.io'', ''clusterissuers.cert-manager.io'',
     ''certificaterequests.cert-manager.io'', ''orders.acme.cert-manager.io'', ''challenges.acme.cert-manager.io'']"

definition IsPrometheusCRDsInstalled :: "'w shell \<Rightarrow> ('w, bool) tool" where
  "IsPrometheusCRDsInstalled S = do {
     (output, err) \<leftarrow> Run S (exec [''kubectl'', ''get'', ''crds'', ''-o'', ''custom-columns=NAME:.metadata.name'']);
     ret (case err of Some e \<Rightarrow> False | None \<Rightarrow> anyListed prometheusCRDs output)
   }"

definition IsCertManagerCRDsInstalled :: "'w shell \<Rightarrow> ('w, bool) tool" where
  "IsCertManagerCRDsInstalled S = do {
     (output, err) \<leftarrow> Run S (exec [''kubectl'', ''get'', ''crds'']);
     ret (case err of Some e \<Rightarrow> False | None \<Rightarrow> anyListed certManagerCRDs output)
   }"

definition LoadImageToKindClusterWithName :: "'w shell \<Rightarrow> string \<Rightarrow> ('w, error option) tool" where
  "LoadImageToKindClusterWithName S img = do {
     v \<leftarrow> call (LookedUp ''KIND_CLUSTER'') (osLookupEnv S ''KIND_CLUSTER'');
     let cluster = (case v of Some c \<Rightarrow> c | None \<Rightarrow> ''kind'');
     runErr S (exec [''kind'', ''load'', ''docker-image'', img, ''--name'', cluster])
   }"

definition IsNotFound :: "string \<Rightarrow> bool" where
  "IsNotFound input = (let trimmed = TrimSpace input in
     contains trimmed ''not found'' \<or> contains trimmed ''NotFound'' \<or> contains trimmed ''No resources found'')"

section \<open>Facts on texts\<close>

lemma startsWith_iff: "startsWith p s \<longleftrightarrow> (\<exists>b. s = p @ b)"
  by (induction p s rule: startsWith.induct) auto

lemma contains_iff: "contains s p \<longleftrightarrow> (\<exists>a b. s = a @ p @ b)"
proof (induction s)
  case (Cons c cs)
  show ?case
    unfolding contains.simps Cons.IH startsWith_iff by (auto simp: Cons_eq_append_conv)
qed auto

lemma contains_rev: "contains (rev s) (rev p) \<longleftrightarrow> contains s p"
  unfolding contains_iff by (metis append.assoc rev_append rev_rev_ident)

lemma contains_dropWhile: "p \<noteq> [] \<Longrightarrow> \<not> Q (hd p) \<Longrightarrow> contains (dropWhile Q s) p \<longleftrightarrow> contains s p"
  by (induction s) (auto simp: neq_Nil_conv)

lemma contains_TrimSpace:
  assumes "p \<noteq> []" and "\<not> isSpace (hd p)" and "\<not> isSpace (last p)"
  shows "contains (TrimSpace s) p \<longleftrightarrow> contains s p"
proof -
  have "contains (TrimSpace s) p \<longleftrightarrow> contains (dropWhile isSpace (rev (dropWhile isSpace s))) (rev p)"
    unfolding TrimSpace_def using contains_rev by (metis rev_rev_ident)
  also have "\<dots> \<longleftrightarrow> contains (rev (dropWhile isSpace s)) (rev p)"
    using assms by (simp add: contains_dropWhile hd_rev)
  also have "\<dots> \<longleftrightarrow> contains s p" using assms by (simp add: contains_rev contains_dropWhile)
  finally show ?thesis .
qed

text \<open>The trimming in \<open>IsNotFound\<close> makes no difference.\<close>

lemma IsNotFound_untrimmed:
  "IsNotFound s \<longleftrightarrow> contains s ''not found'' \<or> contains s ''NotFound'' \<or> contains s ''No resources found''"
  unfolding IsNotFound_def Let_def by (simp add: contains_TrimSpace isSpace_def)

lemma nonEmptyLines_filter: "nonEmptyLines res ls = res @ filter (\<lambda>l. l \<noteq> []) ls"
  by (induction ls arbitrary: res) auto

lemma joinWith_Cons: "ls \<noteq> [] \<Longrightarrow> joinWith sep (l # ls) = l @ sep @ joinWith sep ls"
  by (cases ls) simp_all

lemma splitAt_nonempty: "splitAt sep acc s \<noteq> []"
  by (induction s arbitrary: acc) auto

lemma joinWith_splitAt: "joinWith [sep] (splitAt sep acc s) = acc @ s"
  by (induction s arbitrary: acc) (auto simp: joinWith_Cons splitAt_nonempty)

text \<open>A text without newlines is in the output when it is in one of its lines.\<close>

lemma startsWith_stop: "sep \<notin> set p \<Longrightarrow> startsWith p (a @ sep # b) \<longleftrightarrow> startsWith p a"
  by (induction p a rule: startsWith.induct) auto

lemma contains_stop: "sep \<notin> set p \<Longrightarrow> p \<noteq> [] \<Longrightarrow> contains (a @ sep # b) p \<longleftrightarrow> contains a p \<or> contains b p"
proof (induction a)
  case Nil
  then show ?case by (cases p) auto
next
  case (Cons c a)
  then show ?case using startsWith_stop [of sep p "c # a" b] by auto
qed

lemma contains_joinWith: "sep \<notin> set p \<Longrightarrow> p \<noteq> [] \<Longrightarrow> contains (joinWith [sep] ls) p \<longleftrightarrow> (\<exists>l \<in> set ls. contains l p)"
  by (induction "[sep]" ls rule: joinWith.induct) (auto simp: contains_stop)

lemma GetNonEmptyLines_contains:
  assumes "newline \<notin> set p" and "p \<noteq> []"
  shows "list_ex (\<lambda>line. contains line p) (GetNonEmptyLines output) \<longleftrightarrow> contains output p"
proof -
  have "list_ex (\<lambda>line. contains line p) (GetNonEmptyLines output) \<longleftrightarrow> (\<exists>l \<in> set (splitAt newline [] output). contains l p)"
    using assms(2) by (auto simp: GetNonEmptyLines_def nonEmptyLines_filter list_ex_iff)
  also have "\<dots> \<longleftrightarrow> contains output p"
    using contains_joinWith [OF assms, of "splitAt newline [] output"] joinWith_splitAt [of newline "[]" "output"] by simp
  finally show ?thesis .
qed

lemma anyListed_iff:
  "\<forall>p \<in> set crds. newline \<notin> set p \<and> p \<noteq> [] \<Longrightarrow> anyListed crds output \<longleftrightarrow> (\<exists>p \<in> set crds. contains output p)"
  unfolding anyListed_def list_ex_iff [of _ crds] using GetNonEmptyLines_contains by blast

section \<open>Traces\<close>

fun ranOf :: "toolEffect \<Rightarrow> (string list \<times> bool) list" where
  "ranOf (Ran c r) = [(Argv c, snd r = None)]"
| "ranOf _ = []"

text \<open>The commands that were run, with whether they succeeded.\<close>

abbreviation commands :: "toolEffect list \<Rightarrow> (string list \<times> bool) list" where
  "commands t \<equiv> concat (map ranOf t)"

fun tempEffect :: "toolEffect \<Rightarrow> bool" where
  "tempEffect (MadeTemp _) = True"
| "tempEffect (RemovedTemp _ _) = True"
| "tempEffect _ = False"

definition onlyRan :: "command \<Rightarrow> string \<times> error option \<Rightarrow> toolEffect list \<Rightarrow> bool" where
  "onlyRan c r t \<longleftrightarrow> (\<exists>u d e. t = u @ [Ran d (fst r, e)] \<and> Argv d = Argv c \<and> (snd r = None \<longleftrightarrow> e = None) \<and>
     commands u = [] \<and> \<not> list_ex tempEffect u)"

lemma onlyRan_commands: "onlyRan c r t \<Longrightarrow> commands t = [(Argv c, snd r = None)] \<and> \<not> list_ex tempEffect t"
  unfolding onlyRan_def by auto

lemma gives_Run: "gives (Run S c) (onlyRan c)"
proof -
  have dir: "gives (GetProjectDir S) (\<lambda>r t. commands t = [] \<and> \<not> list_ex tempEffect t)"
    unfolding GetProjectDir_def by (intro gives_intros) auto
  have chdir: "gives (case x of Some e \<Rightarrow> emit (Printed (m e)) | None \<Rightarrow> ret ())
      (\<lambda>r t. commands t = [] \<and> \<not> list_ex tempEffect t)" for x :: "error option" and m
    by (intro gives_intros) auto
  show ?thesis
    unfolding Run_def Let_def
    by (intro gives_bind [OF dir] gives_intros gives_bind [OF chdir]) (auto simp: onlyRan_def split: option.split)
qed

section \<open>The request from a pod\<close>

text \<open>The commands of \<open>SendAllowDeleteRequest\<close>, by how far it came.\<close>

definition curlRuns :: "string \<Rightarrow> string \<Rightarrow> string \<Rightarrow> error option \<Rightarrow> (string list \<times> bool) list \<Rightarrow> bool" where
  "curlRuns ip namespace file err cs \<longleftrightarrow>
     (cs = [] \<and> err \<noteq> None) \<or>
     (cs = [(Argv (applyCmd file), False)] \<and> err \<noteq> None) \<or>
     (cs = [(Argv (applyCmd file), True), (Argv (waitCmd namespace), False)] \<and> err \<noteq> None) \<or>
     (\<exists>gone. cs = [(Argv (applyCmd file), True), (Argv (waitCmd namespace), True),
        (Argv (curlCmd ip namespace), err = None), (Argv (deleteCmd namespace), gone)])"

lemma gives_curlFromPod:
  "gives (curlFromPod S ip namespace file) (\<lambda>err t. curlRuns ip namespace file err (commands t) \<and> \<not> list_ex tempEffect t)"
  unfolding curlFromPod_def
  by (intro gives_intros gives_bind [OF gives_Run]) (auto simp: curlRuns_def dest!: onlyRan_commands)

text \<open>
  The helper asks a sidecar from a pod of its own. Once that pod is ready, it is deleted again, after the request and
  whatever came of it, and the answer is that of the request; the temporary file is removed in any case. But when
  the pod does not get ready it is left behind.
\<close>

theorem allow_request_cleans_up:
  assumes "run_state (SendAllowDeleteRequest S ip namespace) s = (err, s')"
  shows "\<exists>t. trace s' = trace s @ t \<and>
     (ip = [] \<longrightarrow> t = [] \<and> err \<noteq> None) \<and>
     (ip \<noteq> [] \<longrightarrow> (\<exists>e. t = [MadeTemp (Inl e)] \<and> err = Some e) \<or>
       (\<exists>file u x. t = MadeTemp (Inr file) # u @ [RemovedTemp file x] \<and> curlRuns ip namespace file err (commands u)))"
proof -
  have "gives (SendAllowDeleteRequest S ip namespace) (\<lambda>err t.
     (ip = [] \<longrightarrow> t = [] \<and> err \<noteq> None) \<and>
     (ip \<noteq> [] \<longrightarrow> (\<exists>e. t = [MadeTemp (Inl e)] \<and> err = Some e) \<or>
       (\<exists>file u x. t = MadeTemp (Inr file) # u @ [RemovedTemp file x] \<and> curlRuns ip namespace file err (commands u))))"
    unfolding SendAllowDeleteRequest_def
    by (intro gives_intros gives_bind [OF gives_curlFromPod]) auto
  from gives_run [OF this assms] show ?thesis by blast
qed

section \<open>Installed add-ons\<close>

lemma crds_plain:
  "\<forall>p \<in> set prometheusCRDs. newline \<notin> set p \<and> p \<noteq> []" "\<forall>p \<in> set certManagerCRDs. newline \<notin> set p \<and> p \<noteq> []"
  by (simp_all add: prometheusCRDs_def certManagerCRDs_def)

text \<open>An add-on counts as installed when the listing succeeds and one of its definitions occurs in it.\<close>

theorem installed_when_listed:
  "gives (IsPrometheusCRDsInstalled S) (\<lambda>yes t. \<exists>u c output err. t = u @ [Ran c (output, err)] \<and>
     (yes \<longleftrightarrow> err = None \<and> (\<exists>p \<in> set prometheusCRDs. contains output p)))"
  "gives (IsCertManagerCRDsInstalled S) (\<lambda>yes t. \<exists>u c output err. t = u @ [Ran c (output, err)] \<and>
     (yes \<longleftrightarrow> err = None \<and> (\<exists>p \<in> set certManagerCRDs. contains output p)))"
proof -
  show "gives (IsPrometheusCRDsInstalled S) (\<lambda>yes t. \<exists>u c output err. t = u @ [Ran c (output, err)] \<and>
     (yes \<longleftrightarrow> err = None \<and> (\<exists>p \<in> set prometheusCRDs. contains output p)))"
    unfolding IsPrometheusCRDsInstalled_def
    by (intro gives_bind [OF gives_Run] gives_intros) (auto simp: onlyRan_def anyListed_iff [OF crds_plain(1)] split: option.split)
  show "gives (IsCertManagerCRDsInstalled S) (\<lambda>yes t. \<exists>u c output err. t = u @ [Ran c (output, err)] \<and>
     (yes \<longleftrightarrow> err = None \<and> (\<exists>p \<in> set certManagerCRDs. contains output p)))"
    unfolding IsCertManagerCRDsInstalled_def
    by (intro gives_bind [OF gives_Run] gives_intros) (auto simp: onlyRan_def anyListed_iff [OF crds_plain(2)] split: option.split)
qed

end
