(* ===== verification/Codec.thy ===== *)
theory Codec
  imports Json "HOL-Library.Finite_Map" "HOL-Library.List_Lexorder" "HOL-Library.Char_ord"
begin

text \<open>
  The rest of \<open>encoding/json\<close> that the REST service uses: structs with nested structs, pointers
  and maps. A decoder works on the value that is already there, as \<open>Unmarshal\<close> does: a member
  that is absent leaves its field, a repeated member is decoded on top of the first. The flag
  of a decoder says that a member of the wrong type was met; Go skips it, goes on, and reports
  an error at the end. An encoder gives the document or the error of a custom marshaller.
\<close>

type_synonym 'a dec = "json \<Rightarrow> 'a \<Rightarrow> 'a \<times> bool"

section \<open>Decoders\<close>

fun decStr :: "string dec" where
  "decStr (JStr s) x = (s, False)"
| "decStr JNull x = (x, False)"
| "decStr _ x = (x, True)"

fun decBool :: "bool dec" where
  "decBool (JBool b) x = (b, False)"
| "decBool JNull x = (x, False)"
| "decBool _ x = (x, True)"

definition decInt :: "goint dec" where
  "decInt j x = (if j = JNull then (x, False)
     else case asInt j of Some n \<Rightarrow> (n, False) | None \<Rightarrow> (x, True))"

text \<open>An \<open>int32\<close>: the number must fit.\<close>

definition decInt32 :: "int32 dec" where
  "decInt32 j x = (if j = JNull then (x, False)
     else case asInt j of
         Some n \<Rightarrow> if - (2 ^ 31) \<le> sint n \<and> sint n < 2 ^ 31 then (to_int32 n, False) else (x, True)
       | None \<Rightarrow> (x, True))"

text \<open>A pointer: null clears it, anything else is decoded into what it points to.\<close>

definition decPtr :: "'a \<Rightarrow> 'a dec \<Rightarrow> 'a option dec" where
  "decPtr zero d j p =
     (if j = JNull then (None, False)
      else case d j (case p of None \<Rightarrow> zero | Some v \<Rightarrow> v) of (v, b) \<Rightarrow> (Some v, b))"

text \<open>A map of strings: members are added to the map that is there.\<close>

fun decEntries :: "(string \<times> json) list \<Rightarrow> (string, string) fmap \<Rightarrow> (string, string) fmap \<times> bool" where
  "decEntries [] m = (m, False)"
| "decEntries ((k, v) # ms) m =
     (case decStr v [] of (s, b) \<Rightarrow>
      case decEntries ms (fmupd k s m) of (m', b') \<Rightarrow> (m', b \<or> b'))"

fun decMap :: "(string, string) fmap option dec" where
  "decMap JNull m = (None, False)"
| "decMap (JObj ms) m =
     (case decEntries ms (case m of None \<Rightarrow> fmempty | Some m0 \<Rightarrow> m0) of (m', b) \<Rightarrow> (Some m', b))"
| "decMap _ m = (m, True)"

text \<open>
  A struct: the field a member goes to has exactly its name or, failing that, its name up to
  case; a member without a field is ignored.
\<close>

definition findField :: "(string \<times> 'd) list \<Rightarrow> string \<Rightarrow> 'd option" where
  "findField fs k = (case map_of fs k of
       Some d \<Rightarrow> Some d
     | None \<Rightarrow> map_option snd (find (\<lambda>(n, _). sameField k n) fs))"

fun decFields :: "(string \<times> 's dec) list \<Rightarrow> (string \<times> json) list \<Rightarrow> 's \<Rightarrow> 's \<times> bool" where
  "decFields fs [] x = (x, False)"
| "decFields fs ((k, v) # ms) x =
     (case findField fs k of
        None \<Rightarrow> decFields fs ms x
      | Some d \<Rightarrow>
          (case d v x of (x1, b) \<Rightarrow> case decFields fs ms x1 of (x2, b') \<Rightarrow> (x2, b \<or> b')))"

fun decStruct :: "(string \<times> 's dec) list \<Rightarrow> 's dec" where
  "decStruct fs JNull x = (x, False)"
| "decStruct fs (JObj ms) x = decFields fs ms x"
| "decStruct fs _ x = (x, True)"

text \<open>A field of a record, given by its selector and its update.\<close>

definition onField :: "('s \<Rightarrow> 'a) \<Rightarrow> (('a \<Rightarrow> 'a) \<Rightarrow> 's \<Rightarrow> 's) \<Rightarrow> 'a dec \<Rightarrow> 's dec" where
  "onField get upd d j x = (case d j (get x) of (v, b) \<Rightarrow> (upd (\<lambda>_. v) x, b))"

text \<open>\<open>Decode\<close> into a fresh variable of the zero value.\<close>

definition unmarshal :: "'a dec \<Rightarrow> 'a \<Rightarrow> json \<Rightarrow> error + 'a" where
  "unmarshal d zero j = (case d j zero of (x, bad) \<Rightarrow> if bad then Inl typeError else Inr x)"

section \<open>Encoders\<close>

text \<open>The members of an object; \<open>None\<close> is a field left out because it is \<open>omitempty\<close>.\<close>

definition encStruct :: "(string \<times> json option) list \<Rightarrow> json" where
  "encStruct fs = JObj (List.map_filter (\<lambda>(n, v). map_option (\<lambda>j. (n, j)) v) fs)"

definition encInt :: "'n::len word \<Rightarrow> json" where
  "encInt n = JNum (itoa (sint n))"

definition encPtr :: "('a \<Rightarrow> json) \<Rightarrow> 'a option \<Rightarrow> json" where
  "encPtr enc p = (case p of None \<Rightarrow> JNull | Some v \<Rightarrow> enc v)"

definition omitFalse :: "bool \<Rightarrow> json option" where
  "omitFalse b = (if b then Some (JBool b) else None)"

definition omitEmpty :: "string \<Rightarrow> json option" where
  "omitEmpty s = (if s = [] then None else Some (JStr s))"

text \<open>A map is encoded with its keys sorted.\<close>

definition encMap :: "(string, string) fmap option \<Rightarrow> json" where
  "encMap m = encPtr (\<lambda>m. JObj (map (\<lambda>(k, v). (k, JStr v)) (sorted_list_of_fmap m))) m"

section \<open>Codecs\<close>

text \<open>
  What an encoder promises to its decoder: the document is not null, and decoding it into
  the zero value gives back what was encoded.
\<close>

locale json_codec =
  fixes enc :: "'a \<Rightarrow> error + json"
    and dec :: "'a dec"
    and zero :: 'a
  assumes not_null: "enc x = Inr j \<Longrightarrow> j \<noteq> JNull"
    and round_trip: "enc x = Inr j \<Longrightarrow> dec j zero = (x, False)"
begin

lemma unmarshal_marshal: "enc x = Inr j \<Longrightarrow> unmarshal dec zero j = Inr x"
  by (simp add: unmarshal_def round_trip)

text \<open>Through a pointer field.\<close>

lemma pointer: "enc x = Inr j \<Longrightarrow> decPtr zero dec j None = (Some x, False)"
  using not_null by (simp add: decPtr_def round_trip)

text \<open>Encoding loses nothing.\<close>

lemma marshal_inj: "enc x = Inr j \<Longrightarrow> enc y = Inr j \<Longrightarrow> x = y"
  using round_trip [of x j] round_trip [of y j] by auto

end

lemma decStr_basic [simp]: "decStr (JStr s) x = (s, False)" "decBool (JBool b) y = (b, False)"
  by simp_all

lemma decInt_enc [simp]: "decInt (encInt n) x = (n, False)" for n :: goint
  by (simp add: decInt_def encInt_def parse_itoa)

lemma decInt32_enc [simp]: "decInt32 (encInt n) x = (n, False)" for n :: int32
proof -
  have "parseInt64 (itoa (sint n)) = Some (to_int n)"
    using parse_itoa [of "to_int n"] by (simp add: sint_to_int)
  then show ?thesis
    using sint_ge [of n] sint_lt [of n] by (simp add: decInt32_def encInt_def sint_to_int to_int32_to_int)
qed

lemma decEntries_strings:
  "decEntries (map (\<lambda>(k, v). (k, JStr v)) kvs) m = (foldl (\<lambda>m (k, v). fmupd k v m) m kvs, False)"
  by (induction kvs arbitrary: m) auto

lemma foldl_fmupd:
  "distinct (map fst kvs) \<Longrightarrow> fmlookup (foldl (\<lambda>m (k, v). fmupd k v m) m kvs) = fmlookup m ++ map_of kvs"
proof (induction kvs arbitrary: m)
  case Nil
  then show ?case by simp
next
  case (Cons kv kvs)
  obtain k v where kv: "kv = (k, v)" by (cases kv)
  with Cons.prems have "k \<notin> dom (map_of kvs)" "distinct (map fst kvs)"
    by (simp_all add: dom_map_of_conv_image_fst)
  moreover have "fmlookup (fmupd k v m) = (fmlookup m)(k \<mapsto> v)"
    by (rule ext) simp
  moreover have "(fmlookup m)(k \<mapsto> v) ++ map_of kvs = (fmlookup m ++ map_of kvs)(k \<mapsto> v)"
    using \<open>k \<notin> dom (map_of kvs)\<close> by (rule map_add_upd_left)
  ultimately show ?case by (simp only: kv foldl_Cons prod.case Cons.IH map_of.simps map_add_upd fst_conv snd_conv)
qed

lemma decMap_enc [simp]: "decMap (encMap m) None = (m, False)"
proof (cases m)
  case None
  then show ?thesis by (simp add: encMap_def encPtr_def)
next
  case (Some m0)
  have "distinct (map fst (sorted_list_of_fmap m0))"
    by (simp add: sorted_list_of_fmap_def comp_def sorted_list_of_fset.rep_eq)
  then have "foldl (\<lambda>m (k, v). fmupd k v m) fmempty (sorted_list_of_fmap m0) = m0"
    by (intro fmap_ext) (simp add: foldl_fmupd map_add_def split: option.split)
  with Some show ?thesis by (simp add: encMap_def encPtr_def decEntries_strings)
qed

lemma findField_exact [simp]: "map_of fs k = Some d \<Longrightarrow> findField fs k = Some d"
  by (simp add: findField_def)

text \<open>Decoding what a struct was encoded to goes from member to member.\<close>

lemma decStruct_enc [simp]:
  "decStruct fs (encStruct []) x = (x, False)"
  "decStruct fs (encStruct ((n, None) # ms)) x = decStruct fs (encStruct ms) x"
  "decStruct fs (encStruct ((n, Some v) # ms)) x =
     (case findField fs n of
        None \<Rightarrow> decStruct fs (encStruct ms) x
      | Some d \<Rightarrow> case d v x of (x1, b) \<Rightarrow>
          case decStruct fs (encStruct ms) x1 of (x2, b') \<Rightarrow> (x2, b \<or> b'))"
  by (simp_all add: encStruct_def List.map_filter_simps split: option.split)

lemma enc_not_null [simp]: "encStruct fs \<noteq> JNull" "encInt n \<noteq> JNull"
  by (simp_all add: encStruct_def encInt_def)

lemma decPtr_Some [simp]: "j \<noteq> JNull \<Longrightarrow> dec j zero = (x, False) \<Longrightarrow> decPtr zero dec j None = (Some x, False)"
  by (simp add: decPtr_def)

lemma decPtr_null [simp]: "decPtr zero dec JNull p = (None, False)"
  by (simp add: decPtr_def)

text \<open>Members that may have been left out.\<close>

lemma decStruct_omit [simp]:
  "decStruct fs (encStruct ((n, map_option enc p) # ms)) x = (case p of
     None \<Rightarrow> decStruct fs (encStruct ms) x | Some y \<Rightarrow> decStruct fs (encStruct ((n, Some (enc y)) # ms)) x)"
  "decStruct fs (encStruct ((n, omitFalse b) # ms)) x =
     (if b then decStruct fs (encStruct ((n, Some (JBool True)) # ms)) x else decStruct fs (encStruct ms) x)"
  "decStruct fs (encStruct ((n, omitEmpty c) # ms)) x =
     (if c = [] then decStruct fs (encStruct ms) x else decStruct fs (encStruct ((n, Some (JStr c)) # ms)) x)"
  by (cases p; simp add: omitFalse_def omitEmpty_def)+

end
