(* ===== verification/ServiceTypes.thy ===== *)
theory ServiceTypes
  imports Codec
begin

text \<open>
  The types of the REST service, \<open>service/internal/kube\<close>: its own copies of the operator's
  types, with the JSON names of their fields. The codecs follow the struct tags. The types of
  Kubernetes inside them (pod specs and durations) come with codecs of their own, which are
  parameters, as is the conversion into an unstructured object.
\<close>

section \<open>Structs\<close>

record kMetadata =
  kName :: string
  kNamespace :: string
  kLabels :: "(string, string) fmap option"

record kSidecarSettings =
  kPort :: "goint option"
  kSidecarImage :: string
  kLogDebug :: bool

record kGameInfo =
  kCapacity :: "goint option"

record kServerSpec =
  kPod :: podSpec
  kTimeOut :: "duration option"
  kAllowForceDelete :: bool
  kSidecarSettings :: "kSidecarSettings option"
  kGameInfo :: "kGameInfo option"

text \<open>The four resources have the same shape around their specs.\<close>

record 'spec kResource =
  kApiVersion :: string
  kKind :: string
  kMetadata :: kMetadata
  kSpec :: 'spec

type_synonym kServer = "kServerSpec kResource"

record kFleetScaling =
  kReplicas :: int32
  kPrioritizeAllowed :: bool
  kAgePriority :: string

record kFleetSpec =
  kServerSpec :: kServerSpec
  kScaling :: kFleetScaling

type_synonym kFleet = "kFleetSpec kResource"

record kGameTypeSpec =
  kFleetSpec :: kFleetSpec

type_synonym kGameType = "kGameTypeSpec kResource"

record kService =
  kServiceName :: string
  kServiceNamespace :: string
  kServicePort :: goint

record kWebhookAutoscalerSpec =
  kUrl :: "string option"
  kPath :: string
  kService :: kService

record kAutoscalePolicy =
  kPolicyType :: string
  kWebhook :: kWebhookAutoscalerSpec

record kSync =
  kSyncType :: string
  kFixedInterval :: goint

record kGameAutoscalerSpec =
  kGameTypeName :: string
  kAutoscalePolicy :: kAutoscalePolicy
  kSync :: kSync

type_synonym kGameAutoscaler = "kGameAutoscalerSpec kResource"

section \<open>What Kubernetes brings\<close>

record svcLib =
  decPod :: "podSpec dec"
  encPod :: "podSpec \<Rightarrow> error + json"
  zeroPod :: podSpec
  decDuration :: "duration dec"
  encDuration :: "duration \<Rightarrow> json"
  toUnstructured :: "json \<Rightarrow> error + json"

text \<open>The codecs read what they have written.\<close>

definition codec_laws :: "svcLib \<Rightarrow> bool" where
  "codec_laws L \<longleftrightarrow> json_codec (encPod L) (decPod L) (zeroPod L) \<and>
     json_codec (\<lambda>d. Inr (encDuration L d)) (decDuration L) 0"

section \<open>Zero values\<close>

definition zeroMetadata :: kMetadata where
  "zeroMetadata = \<lparr>kName = [], kNamespace = [], kLabels = None\<rparr>"

definition zeroResource :: "'spec \<Rightarrow> 'spec kResource" where
  "zeroResource spec = \<lparr>kApiVersion = [], kKind = [], kMetadata = zeroMetadata, kSpec = spec\<rparr>"

definition zeroSidecarSettings :: kSidecarSettings where
  "zeroSidecarSettings = \<lparr>kPort = None, kSidecarImage = [], kLogDebug = False\<rparr>"

definition zeroServerSpec :: "svcLib \<Rightarrow> kServerSpec" where
  "zeroServerSpec L = \<lparr>kPod = zeroPod L, kTimeOut = None, kAllowForceDelete = False,
     kSidecarSettings = None, kGameInfo = None\<rparr>"

definition zeroFleetSpec :: "svcLib \<Rightarrow> kFleetSpec" where
  "zeroFleetSpec L = \<lparr>kServerSpec = zeroServerSpec L,
     kScaling = \<lparr>kReplicas = 0, kPrioritizeAllowed = False, kAgePriority = []\<rparr>\<rparr>"

definition zeroGameTypeSpec :: "svcLib \<Rightarrow> kGameTypeSpec" where
  "zeroGameTypeSpec L = \<lparr>kFleetSpec = zeroFleetSpec L\<rparr>"

definition zeroGameAutoscalerSpec :: kGameAutoscalerSpec where
  "zeroGameAutoscalerSpec = \<lparr>kGameTypeName = [],
     kAutoscalePolicy = \<lparr>kPolicyType = [], kWebhook = \<lparr>kUrl = None, kPath = [],
       kService = \<lparr>kServiceName = [], kServiceNamespace = [], kServicePort = 0\<rparr>\<rparr>\<rparr>,
     kSync = \<lparr>kSyncType = [], kFixedInterval = 0\<rparr>\<rparr>"

section \<open>Decoding\<close>

definition decMetadata :: "kMetadata dec" where
  "decMetadata = decStruct [(''name'', onField kName kName_update decStr),
     (''namespace'', onField kNamespace kNamespace_update decStr),
     (''labels'', onField kLabels kLabels_update decMap)]"

definition decResource :: "'spec dec \<Rightarrow> 'spec kResource dec" where
  "decResource d = decStruct [(''apiVersion'', onField kApiVersion kApiVersion_update decStr),
     (''kind'', onField kKind kKind_update decStr),
     (''metadata'', onField kMetadata kMetadata_update decMetadata),
     (''spec'', onField kSpec kSpec_update d)]"

definition decSidecarSettings :: "kSidecarSettings dec" where
  "decSidecarSettings = decStruct [(''port'', onField kPort kPort_update (decPtr 0 decInt)),
     (''image'', onField kSidecarImage kSidecarImage_update decStr),
     (''logDebug'', onField kLogDebug kLogDebug_update decBool)]"

definition decGameInfo :: "kGameInfo dec" where
  "decGameInfo = decStruct [(''capacity'', onField kCapacity kCapacity_update (decPtr 0 decInt))]"

definition decServerSpec :: "svcLib \<Rightarrow> kServerSpec dec" where
  "decServerSpec L = decStruct [(''pod'', onField kPod kPod_update (decPod L)),
     (''timeout'', onField kTimeOut kTimeOut_update (decPtr 0 (decDuration L))),
     (''allowForceDelete'', onField kAllowForceDelete kAllowForceDelete_update decBool),
     (''sidecar'', onField kSidecarSettings kSidecarSettings_update (decPtr zeroSidecarSettings decSidecarSettings)),
     (''gameInfo'', onField kGameInfo kGameInfo_update (decPtr \<lparr>kCapacity = None\<rparr> decGameInfo))]"

definition decFleetScaling :: "kFleetScaling dec" where
  "decFleetScaling = decStruct [(''replicas'', onField kReplicas kReplicas_update decInt32),
     (''prioritizeAllowed'', onField kPrioritizeAllowed kPrioritizeAllowed_update decBool),
     (''agePriority'', onField kAgePriority kAgePriority_update decStr)]"

definition decFleetSpec :: "svcLib \<Rightarrow> kFleetSpec dec" where
  "decFleetSpec L = decStruct [(''spec'', onField kServerSpec kServerSpec_update (decServerSpec L)),
     (''scaling'', onField kScaling kScaling_update decFleetScaling)]"

definition decGameTypeSpec :: "svcLib \<Rightarrow> kGameTypeSpec dec" where
  "decGameTypeSpec L = decStruct [(''fleetSpec'', onField kFleetSpec kFleetSpec_update (decFleetSpec L))]"

definition decService :: "kService dec" where
  "decService = decStruct [(''name'', onField kServiceName kServiceName_update decStr),
     (''namespace'', onField kServiceNamespace kServiceNamespace_update decStr),
     (''port'', onField kServicePort kServicePort_update decInt)]"

definition decWebhookAutoscalerSpec :: "kWebhookAutoscalerSpec dec" where
  "decWebhookAutoscalerSpec = decStruct [(''url'', onField kUrl kUrl_update (decPtr [] decStr)),
     (''path'', onField kPath kPath_update decStr),
     (''service'', onField kService kService_update decService)]"

definition decAutoscalePolicy :: "kAutoscalePolicy dec" where
  "decAutoscalePolicy = decStruct [(''type'', onField kPolicyType kPolicyType_update decStr),
     (''webhook'', onField kWebhook kWebhook_update decWebhookAutoscalerSpec)]"

definition decSync :: "kSync dec" where
  "decSync = decStruct [(''type'', onField kSyncType kSyncType_update decStr),
     (''fixedInterval'', onField kFixedInterval kFixedInterval_update decInt)]"

definition decGameAutoscalerSpec :: "kGameAutoscalerSpec dec" where
  "decGameAutoscalerSpec = decStruct [(''gameTypeName'', onField kGameTypeName kGameTypeName_update decStr),
     (''policy'', onField kAutoscalePolicy kAutoscalePolicy_update decAutoscalePolicy),
     (''sync'', onField kSync kSync_update decSync)]"

section \<open>Encoding\<close>

definition encMetadata :: "kMetadata \<Rightarrow> json" where
  "encMetadata m = encStruct [(''name'', Some (JStr (kName m))),
     (''namespace'', Some (JStr (kNamespace m))), (''labels'', Some (encMap (kLabels m)))]"

definition encResource :: "('spec \<Rightarrow> error + json) \<Rightarrow> 'spec kResource \<Rightarrow> error + json" where
  "encResource enc r = (case enc (kSpec r) of
       Inl e \<Rightarrow> Inl e
     | Inr spec \<Rightarrow> Inr (encStruct [(''apiVersion'', Some (JStr (kApiVersion r))),
         (''kind'', Some (JStr (kKind r))), (''metadata'', Some (encMetadata (kMetadata r))),
         (''spec'', Some spec)]))"

definition encSidecarSettings :: "kSidecarSettings \<Rightarrow> json" where
  "encSidecarSettings s = encStruct [(''port'', map_option encInt (kPort s)),
     (''image'', omitEmpty (kSidecarImage s)), (''logDebug'', omitFalse (kLogDebug s))]"

definition encGameInfo :: "kGameInfo \<Rightarrow> json" where
  "encGameInfo g = encStruct [(''capacity'', map_option encInt (kCapacity g))]"

definition encServerSpec :: "svcLib \<Rightarrow> kServerSpec \<Rightarrow> error + json" where
  "encServerSpec L s = (case encPod L (kPod s) of
       Inl e \<Rightarrow> Inl e
     | Inr p \<Rightarrow> Inr (encStruct [(''pod'', Some p),
         (''timeout'', Some (encPtr (encDuration L) (kTimeOut s))),
         (''allowForceDelete'', omitFalse (kAllowForceDelete s)),
         (''sidecar'', map_option encSidecarSettings (kSidecarSettings s)),
         (''gameInfo'', map_option encGameInfo (kGameInfo s))]))"

definition encFleetScaling :: "kFleetScaling \<Rightarrow> json" where
  "encFleetScaling s = encStruct [(''replicas'', Some (encInt (kReplicas s))),
     (''prioritizeAllowed'', Some (JBool (kPrioritizeAllowed s))), (''agePriority'', Some (JStr (kAgePriority s)))]"

definition encFleetSpec :: "svcLib \<Rightarrow> kFleetSpec \<Rightarrow> error + json" where
  "encFleetSpec L s = (case encServerSpec L (kServerSpec s) of
       Inl e \<Rightarrow> Inl e
     | Inr spec \<Rightarrow> Inr (encStruct [(''spec'', Some spec), (''scaling'', Some (encFleetScaling (kScaling s)))]))"

definition encGameTypeSpec :: "svcLib \<Rightarrow> kGameTypeSpec \<Rightarrow> error + json" where
  "encGameTypeSpec L s = (case encFleetSpec L (kFleetSpec s) of
       Inl e \<Rightarrow> Inl e
     | Inr spec \<Rightarrow> Inr (encStruct [(''fleetSpec'', Some spec)]))"

definition encService :: "kService \<Rightarrow> json" where
  "encService s = encStruct [(''name'', Some (JStr (kServiceName s))),
     (''namespace'', Some (JStr (kServiceNamespace s))), (''port'', Some (encInt (kServicePort s)))]"

definition encWebhookAutoscalerSpec :: "kWebhookAutoscalerSpec \<Rightarrow> json" where
  "encWebhookAutoscalerSpec s = encStruct [(''url'', Some (encPtr JStr (kUrl s))),
     (''path'', Some (JStr (kPath s))), (''service'', Some (encService (kService s)))]"

definition encAutoscalePolicy :: "kAutoscalePolicy \<Rightarrow> json" where
  "encAutoscalePolicy p = encStruct [(''type'', Some (JStr (kPolicyType p))),
     (''webhook'', Some (encWebhookAutoscalerSpec (kWebhook p)))]"

definition encSync :: "kSync \<Rightarrow> json" where
  "encSync s = encStruct [(''type'', Some (JStr (kSyncType s))), (''fixedInterval'', Some (encInt (kFixedInterval s)))]"

definition encGameAutoscalerSpec :: "kGameAutoscalerSpec \<Rightarrow> error + json" where
  "encGameAutoscalerSpec s = Inr (encStruct [(''gameTypeName'', Some (JStr (kGameTypeName s))),
     (''policy'', Some (encAutoscalePolicy (kAutoscalePolicy s))), (''sync'', Some (encSync (kSync s)))])"

section \<open>Round trips\<close>

text \<open>A struct decodes to the record it was encoded from, one field after the other.\<close>

lemma dec_encSidecarSettings [simp]: "decSidecarSettings (encSidecarSettings s) zeroSidecarSettings = (s, False)"
  by (cases s) (simp add: decSidecarSettings_def encSidecarSettings_def zeroSidecarSettings_def onField_def
      split: option.split)

lemma dec_encGameInfo [simp]: "decGameInfo (encGameInfo s) \<lparr>kCapacity = None\<rparr> = (s, False)"
  by (cases s) (simp add: decGameInfo_def encGameInfo_def onField_def split: option.split)

lemma dec_encFleetScaling [simp]: "decFleetScaling (encFleetScaling s) x = (s, False)"
  by (cases s; cases x) (simp add: decFleetScaling_def encFleetScaling_def onField_def)

lemma dec_encService [simp]: "decService (encService s) x = (s, False)"
  by (cases s; cases x) (simp add: decService_def encService_def onField_def)

lemma dec_encSync [simp]: "decSync (encSync s) x = (s, False)"
  by (cases s; cases x) (simp add: decSync_def encSync_def onField_def)

lemma decUrl [simp]: "decPtr [] decStr (encPtr JStr p) None = (p, False)"
  by (cases p) (simp_all add: encPtr_def)

lemma dec_encMetadata [simp]: "decMetadata (encMetadata m) zeroMetadata = (m, False)"
  by (cases m) (simp add: decMetadata_def encMetadata_def zeroMetadata_def onField_def)

lemma enc_structs_not_null [simp]:
  "encSidecarSettings a \<noteq> JNull" "encGameInfo b \<noteq> JNull" "encMetadata c \<noteq> JNull"
  by (simp_all add: encSidecarSettings_def encGameInfo_def encMetadata_def)

text \<open>The autoscaler's spec has no foreign types in it.\<close>

interpretation scalerSpec: json_codec encGameAutoscalerSpec decGameAutoscalerSpec zeroGameAutoscalerSpec
proof
  fix s j
  assume j: "encGameAutoscalerSpec s = Inr j"
  from j show "j \<noteq> JNull" by (auto simp: encGameAutoscalerSpec_def)
  from j show "decGameAutoscalerSpec j zeroGameAutoscalerSpec = (s, False)"
    by (cases s) (auto simp: encGameAutoscalerSpec_def decGameAutoscalerSpec_def zeroGameAutoscalerSpec_def
        decAutoscalePolicy_def encAutoscalePolicy_def decWebhookAutoscalerSpec_def encWebhookAutoscalerSpec_def onField_def)
qed

text \<open>A codec of specs gives one of resources.\<close>

lemma resource_codec:
  assumes "json_codec enc dec zero"
  shows "json_codec (encResource enc) (decResource dec) (zeroResource zero)"
proof
  fix r j
  assume "encResource enc r = Inr j"
  then obtain spec where spec: "enc (kSpec r) = Inr spec"
    and j: "j = encStruct [(''apiVersion'', Some (JStr (kApiVersion r))), (''kind'', Some (JStr (kKind r))),
      (''metadata'', Some (encMetadata (kMetadata r))), (''spec'', Some spec)]"
    by (auto simp: encResource_def split: sum.splits)
  from j show "j \<noteq> JNull" by simp
  from json_codec.round_trip [OF assms spec] show "decResource dec j (zeroResource zero) = (r, False)"
    unfolding j by (cases r) (simp add: decResource_def zeroResource_def onField_def)
qed

lemma serverSpec_codec:
  assumes "codec_laws L"
  shows "json_codec (encServerSpec L) (decServerSpec L) (zeroServerSpec L)"
proof
  fix s j
  assume "encServerSpec L s = Inr j"
  then obtain p where p: "encPod L (kPod s) = Inr p"
    and j: "j = encStruct [(''pod'', Some p), (''timeout'', Some (encPtr (encDuration L) (kTimeOut s))),
         (''allowForceDelete'', omitFalse (kAllowForceDelete s)),
         (''sidecar'', map_option encSidecarSettings (kSidecarSettings s)),
         (''gameInfo'', map_option encGameInfo (kGameInfo s))]"
    by (auto simp: encServerSpec_def split: sum.splits)
  from j show "j \<noteq> JNull" by simp
  from assms have pod: "decPod L p (zeroPod L) = (kPod s, False)"
    using p by (auto simp: codec_laws_def dest: json_codec.round_trip)
  from assms have d: "json_codec (\<lambda>d. Inr (encDuration L d)) (decDuration L) 0" by (simp add: codec_laws_def)
  have dur: "decPtr 0 (decDuration L) (encPtr (encDuration L) t) None = (t, False)" for t
    using json_codec.pointer [OF d] by (cases t) (simp_all add: encPtr_def)
  from pod show "decServerSpec L j (zeroServerSpec L) = (s, False)"
    unfolding j by (cases s) (simp add: decServerSpec_def zeroServerSpec_def onField_def dur split: option.split)
qed

lemma fleetSpec_codec:
  assumes "codec_laws L"
  shows "json_codec (encFleetSpec L) (decFleetSpec L) (zeroFleetSpec L)"
proof
  fix s j
  assume "encFleetSpec L s = Inr j"
  then obtain p where p: "encServerSpec L (kServerSpec s) = Inr p"
    and j: "j = encStruct [(''spec'', Some p), (''scaling'', Some (encFleetScaling (kScaling s)))]"
    by (auto simp: encFleetSpec_def split: sum.splits)
  from j show "j \<noteq> JNull" by simp
  from json_codec.round_trip [OF serverSpec_codec [OF assms] p]
  show "decFleetSpec L j (zeroFleetSpec L) = (s, False)"
    unfolding j by (cases s) (simp add: decFleetSpec_def zeroFleetSpec_def onField_def)
qed

lemma gameTypeSpec_codec:
  assumes "codec_laws L"
  shows "json_codec (encGameTypeSpec L) (decGameTypeSpec L) (zeroGameTypeSpec L)"
proof
  fix s j
  assume "encGameTypeSpec L s = Inr j"
  then obtain p where p: "encFleetSpec L (kFleetSpec s) = Inr p" and j: "j = encStruct [(''fleetSpec'', Some p)]"
    by (auto simp: encGameTypeSpec_def split: sum.splits)
  from j show "j \<noteq> JNull" by simp
  from json_codec.round_trip [OF fleetSpec_codec [OF assms] p]
  show "decGameTypeSpec L j (zeroGameTypeSpec L) = (s, False)"
    unfolding j by (cases s) (simp add: decGameTypeSpec_def zeroGameTypeSpec_def onField_def)
qed

text \<open>The four resources.\<close>

abbreviation "encServer L \<equiv> encResource (encServerSpec L)"
abbreviation "decServer L \<equiv> decResource (decServerSpec L)"
abbreviation "encFleet L \<equiv> encResource (encFleetSpec L)"
abbreviation "decFleet L \<equiv> decResource (decFleetSpec L)"
abbreviation "encGameType L \<equiv> encResource (encGameTypeSpec L)"
abbreviation "decGameType L \<equiv> decResource (decGameTypeSpec L)"
abbreviation "encGameAutoscaler \<equiv> encResource encGameAutoscalerSpec"
abbreviation "decGameAutoscaler \<equiv> decResource decGameAutoscalerSpec"

interpretation scaler: json_codec encGameAutoscaler decGameAutoscaler "zeroResource zeroGameAutoscalerSpec"
  by (rule resource_codec) unfold_locales

end
