(* ===== verification/ServiceKube.thy ===== *)
theory ServiceKube
  imports ServiceTypes
begin

text \<open>
  The cluster operations of the REST service, \<open>service/internal/kube\<close>: creating and deleting
  the four resources through the dynamic client, the forced deletions, the labels of pods. The
  dynamic client, the client set and the HTTP client are the parameter \<open>cluster\<close>.
\<close>

section \<open>Clients\<close>

record gvr =
  Group :: string
  Version :: string
  Resource :: string

text \<open>What the service reads of an unstructured object of a list.\<close>

record dynObject =
  GetName :: string
  GetNamespace :: string
  GetLabels :: labels

record 'w cluster =
  dynCreate :: "gvr \<Rightarrow> string \<Rightarrow> json \<Rightarrow> 'w \<Rightarrow> error option \<times> 'w"
  dynDelete :: "gvr \<Rightarrow> string \<Rightarrow> string \<Rightarrow> 'w \<Rightarrow> error option \<times> 'w"
  dynList :: "gvr \<Rightarrow> string \<Rightarrow> 'w \<Rightarrow> (error + dynObject list) \<times> 'w"
  podGet :: "string \<Rightarrow> string \<Rightarrow> 'w \<Rightarrow> (error + pod) \<times> 'w"
  podUpdate :: "string \<Rightarrow> pod \<Rightarrow> 'w \<Rightarrow> error option \<times> 'w"
  svcHttp :: "httpRequest \<Rightarrow> 'w \<Rightarrow> (error + httpResponse) \<times> 'w"

datatype svcEffect =
    Created gvr string json "error option"
  | Deleted gvr string string "error option"
  | Listed gvr string "error + dynObject list"
  | PodRead string string "error + pod"
  | PodWritten string pod "error option"
  | Sent httpRequest "error + httpResponse"

type_synonym 'w svc = "('w, svcEffect) sys"

abbreviation DynCreate :: "'w cluster \<Rightarrow> gvr \<Rightarrow> string \<Rightarrow> json \<Rightarrow> ('w svc, error option) state" where
  "DynCreate K g ns doc \<equiv> call (Created g ns doc) (dynCreate K g ns doc)"

abbreviation DynDelete :: "'w cluster \<Rightarrow> gvr \<Rightarrow> string \<Rightarrow> string \<Rightarrow> ('w svc, error option) state" where
  "DynDelete K g ns name \<equiv> call (Deleted g ns name) (dynDelete K g ns name)"

abbreviation DynList :: "'w cluster \<Rightarrow> gvr \<Rightarrow> string \<Rightarrow> ('w svc, error + dynObject list) state" where
  "DynList K g ns \<equiv> call (Listed g ns) (dynList K g ns)"

abbreviation PodGet :: "'w cluster \<Rightarrow> string \<Rightarrow> string \<Rightarrow> ('w svc, error + pod) state" where
  "PodGet K ns name \<equiv> call (PodRead ns name) (podGet K ns name)"

abbreviation PodUpdate :: "'w cluster \<Rightarrow> string \<Rightarrow> pod \<Rightarrow> ('w svc, error option) state" where
  "PodUpdate K ns p \<equiv> call (PodWritten ns p) (podUpdate K ns p)"

abbreviation SvcDo :: "'w cluster \<Rightarrow> httpRequest \<Rightarrow> ('w svc, error + httpResponse) state" where
  "SvcDo K q \<equiv> call (Sent q) (svcHttp K q)"

section \<open>Names\<close>

definition crdGroup :: string where "crdGroup = ''gameserver.falloria.com''"
definition crdVersion :: string where "crdVersion = ''v1alpha1''"
definition scalerResourceName :: string where "scalerResourceName = ''gameautoscalers''"
definition gameResourceName :: string where "gameResourceName = ''gametypes''"
definition fleetResourceName :: string where "fleetResourceName = ''fleets''"
definition serverResourceName :: string where "serverResourceName = ''servers''"

definition ServerGCR :: gvr where
  "ServerGCR = \<lparr>Group = crdGroup, Version = crdVersion, Resource = serverResourceName\<rparr>"

definition FleetGCR :: gvr where
  "FleetGCR = \<lparr>Group = crdGroup, Version = crdVersion, Resource = fleetResourceName\<rparr>"

definition GameGCR :: gvr where
  "GameGCR = \<lparr>Group = crdGroup, Version = crdVersion, Resource = gameResourceName\<rparr>"

section \<open>Into unstructured objects\<close>

text \<open>
  The API version and the kind are stored into the object that the caller passed, so the
  caller sees them afterwards.
\<close>

definition serverToUnstructured :: "svcLib \<Rightarrow> kServer \<Rightarrow> (error + json) \<times> kServer" where
  "serverToUnstructured L s =
     (let s1 = s\<lparr>kApiVersion := crdGroup @ ''/'' @ crdVersion, kKind := gameResourceName\<rparr>
      in (case encServer L s1 of Inl e \<Rightarrow> Inl e | Inr bytes \<Rightarrow> toUnstructured L bytes, s1))"

definition fleetToUnstructured :: "svcLib \<Rightarrow> kFleet \<Rightarrow> (error + json) \<times> kFleet" where
  "fleetToUnstructured L f =
     (let f1 = f\<lparr>kApiVersion := crdGroup @ ''/'' @ crdVersion, kKind := fleetResourceName\<rparr>
      in (case encFleet L f1 of Inl e \<Rightarrow> Inl e | Inr bytes \<Rightarrow> toUnstructured L bytes, f1))"

definition gametypeToUnstructured :: "svcLib \<Rightarrow> kGameType \<Rightarrow> (error + json) \<times> kGameType" where
  "gametypeToUnstructured L g =
     (let g1 = g\<lparr>kApiVersion := crdGroup @ ''/'' @ crdVersion, kKind := gameResourceName\<rparr>
      in (case encGameType L g1 of Inl e \<Rightarrow> Inl e | Inr bytes \<Rightarrow> toUnstructured L bytes, g1))"

definition scalerToUnstructured :: "svcLib \<Rightarrow> kGameAutoscaler \<Rightarrow> (error + json) \<times> kGameAutoscaler" where
  "scalerToUnstructured L a =
     (let a1 = a\<lparr>kApiVersion := crdGroup @ ''/'' @ crdVersion, kKind := scalerResourceName\<rparr>
      in (case encGameAutoscaler a1 of Inl e \<Rightarrow> Inl e | Inr bytes \<Rightarrow> toUnstructured L bytes, a1))"

section \<open>Creating\<close>

text \<open>Each gives the error, if any, and the object with what was stored into it.\<close>

definition kubeCreateServer :: "svcLib \<Rightarrow> 'w cluster \<Rightarrow> kServer \<Rightarrow> ('w svc, error option \<times> kServer) state" where
  "kubeCreateServer L K s =
     (case serverToUnstructured L s of
        (Inl e, s1) \<Rightarrow> ret (Some e, s1)
      | (Inr obj, s1) \<Rightarrow> do { err \<leftarrow> DynCreate K ServerGCR (kNamespace (kMetadata s)) obj; ret (err, s1) })"

definition kubeCreateFleet :: "svcLib \<Rightarrow> 'w cluster \<Rightarrow> kFleet \<Rightarrow> ('w svc, error option \<times> kFleet) state" where
  "kubeCreateFleet L K f =
     (case fleetToUnstructured L f of
        (Inl e, f1) \<Rightarrow> ret (Some e, f1)
      | (Inr obj, f1) \<Rightarrow> do { err \<leftarrow> DynCreate K FleetGCR (kNamespace (kMetadata f)) obj; ret (err, f1) })"

definition kubeCreateGame :: "svcLib \<Rightarrow> 'w cluster \<Rightarrow> kGameType \<Rightarrow> ('w svc, error option \<times> kGameType) state" where
  "kubeCreateGame L K g =
     (case gametypeToUnstructured L g of
        (Inl e, g1) \<Rightarrow> ret (Some e, g1)
      | (Inr obj, g1) \<Rightarrow> do { err \<leftarrow> DynCreate K GameGCR (kNamespace (kMetadata g)) obj; ret (err, g1) })"

text \<open>Scalers are created and deleted under the resource of servers.\<close>

definition kubeCreateScaler ::
  "svcLib \<Rightarrow> 'w cluster \<Rightarrow> kGameAutoscaler \<Rightarrow> ('w svc, error option \<times> kGameAutoscaler) state" where
  "kubeCreateScaler L K a =
     (case scalerToUnstructured L a of
        (Inl e, a1) \<Rightarrow> ret (Some e, a1)
      | (Inr obj, a1) \<Rightarrow> do { err \<leftarrow> DynCreate K ServerGCR (kNamespace (kMetadata a)) obj; ret (err, a1) })"

section \<open>Deleting\<close>

text \<open>
  \<open>NewRequest\<close> and \<open>Do\<close> are one call: an address that does not parse is one of its errors.
  The status of the response is not looked at.
\<close>

definition sendDeleteAllowed :: "'w cluster \<Rightarrow> string \<Rightarrow> string \<Rightarrow> ('w svc, error option) state" where
  "sendDeleteAllowed K name namespace = do {
     r \<leftarrow> PodGet K namespace (name @ ''-pod'');
     case r of
       Inl e \<Rightarrow> ret (Some e)
     | Inr pod \<Rightarrow> do {
         resp \<leftarrow> SvcDo K \<lparr>Method = ''POST'', RequestUrl = ''http://'' @ PodIP pod @ '':8080/allow_delete'',
                          RequestBody = Some (JObj [(''allowed'', JBool True)])\<rparr>;
         ret (case resp of Inl e \<Rightarrow> Some e | Inr _ \<Rightarrow> None)
       }
   }"

definition kubeDeleteServer :: "'w cluster \<Rightarrow> kMetadata \<Rightarrow> bool \<Rightarrow> ('w svc, error option) state" where
  "kubeDeleteServer K metadata force = do {
     err \<leftarrow> DynDelete K ServerGCR (kNamespace metadata) (kName metadata);
     case err of
       Some e \<Rightarrow> ret (Some e)
     | None \<Rightarrow> if force then sendDeleteAllowed K (kName metadata) (kNamespace metadata) else ret None
   }"

text \<open>The loop over what is listed: the first error ends it.\<close>

fun allowServers :: "'w cluster \<Rightarrow> string \<Rightarrow> dynObject list \<Rightarrow> ('w svc, error option) state" where
  "allowServers K fleet [] = ret None"
| "allowServers K fleet (server # rest) =
     (if lookupLabel (GetLabels server) ''fleet'' \<noteq> Some fleet then allowServers K fleet rest
      else do {
        err \<leftarrow> sendDeleteAllowed K (GetName server) (GetNamespace server);
        case err of Some e \<Rightarrow> ret (Some e) | None \<Rightarrow> allowServers K fleet rest
      })"

definition forceDeleteFleet :: "'w cluster \<Rightarrow> kMetadata \<Rightarrow> ('w svc, error option) state" where
  "forceDeleteFleet K metadata = do {
     r \<leftarrow> DynList K FleetGCR (kNamespace metadata);
     case r of Inl e \<Rightarrow> ret (Some e) | Inr items \<Rightarrow> allowServers K (kName metadata) items
   }"

definition kubeDeleteFleet :: "'w cluster \<Rightarrow> kMetadata \<Rightarrow> bool \<Rightarrow> ('w svc, error option) state" where
  "kubeDeleteFleet K metadata force = do {
     err \<leftarrow> DynDelete K FleetGCR (kNamespace metadata) (kName metadata);
     case err of
       Some e \<Rightarrow> ret (Some e)
     | None \<Rightarrow> if force then forceDeleteFleet K metadata else ret None
   }"

text \<open>Every fleet that matches makes a deletion, of the name of the game.\<close>

fun removeFleets :: "'w cluster \<Rightarrow> kMetadata \<Rightarrow> bool \<Rightarrow> dynObject list \<Rightarrow> ('w svc, error option) state" where
  "removeFleets K metadata force [] = ret None"
| "removeFleets K metadata force (fleet # rest) =
     (if lookupLabel (GetLabels fleet) ''type'' \<noteq> Some (kName metadata) then removeFleets K metadata force rest
      else do {
        err \<leftarrow> kubeDeleteFleet K metadata force;
        case err of Some e \<Rightarrow> ret (Some e) | None \<Rightarrow> removeFleets K metadata force rest
      })"

definition removeFleetsForGame :: "'w cluster \<Rightarrow> kMetadata \<Rightarrow> bool \<Rightarrow> ('w svc, error option) state" where
  "removeFleetsForGame K metadata force = do {
     r \<leftarrow> DynList K FleetGCR (kNamespace metadata);
     case r of Inl e \<Rightarrow> ret (Some e) | Inr items \<Rightarrow> removeFleets K metadata force items
   }"

definition kubeDeleteGame :: "'w cluster \<Rightarrow> kMetadata \<Rightarrow> bool \<Rightarrow> ('w svc, error option) state" where
  "kubeDeleteGame K metadata force = do {
     err \<leftarrow> DynDelete K GameGCR (kNamespace metadata) (kName metadata);
     case err of
       Some e \<Rightarrow> ret (Some e)
     | None \<Rightarrow> if force then removeFleetsForGame K metadata force else ret None
   }"

definition kubeDeleteScaler :: "'w cluster \<Rightarrow> kMetadata \<Rightarrow> ('w svc, error option) state" where
  "kubeDeleteScaler K metadata = DynDelete K ServerGCR (kNamespace metadata) (kName metadata)"

section \<open>Labels of pods\<close>

text \<open>\<open>maps.Copy\<close>: storing into a nil map panics, copying nothing into it does not.\<close>

definition copyLabels :: "labels \<Rightarrow> (string, string) fmap option \<Rightarrow> labels outcome" where
  "copyLabels labels src =
     (case src of
        None \<Rightarrow> Ret labels
      | Some m \<Rightarrow>
          if m = fmempty then Ret labels
          else (case labels of None \<Rightarrow> Panic | Some l \<Rightarrow> Ret (Some (l ++ fmlookup m))))"

definition kubeAddPodLabels :: "'w cluster \<Rightarrow> kMetadata \<Rightarrow> ('w svc, error option outcome) state" where
  "kubeAddPodLabels K metadata = do {
     r \<leftarrow> PodGet K (kNamespace metadata) (kName metadata @ ''-pod'');
     case r of
       Inl e \<Rightarrow> ret (Ret (Some e))
     | Inr p \<Rightarrow>
         (case copyLabels (Labels (pod_meta p)) (kLabels metadata) of
            Panic \<Rightarrow> ret Panic
          | Ret l \<Rightarrow> do {
              err \<leftarrow> PodUpdate K (kNamespace metadata) (p\<lparr>pod_meta := (pod_meta p)\<lparr>Labels := l\<rparr>\<rparr>);
              ret (Ret err)
            })
   }"

definition kubeRemovePodLabel :: "'w cluster \<Rightarrow> kMetadata \<Rightarrow> string \<Rightarrow> ('w svc, error option) state" where
  "kubeRemovePodLabel K metadata key = do {
     r \<leftarrow> PodGet K (kNamespace metadata) (kName metadata @ ''-pod'');
     case r of
       Inl e \<Rightarrow> ret (Some e)
     | Inr p \<Rightarrow>
         let labels = map_option (\<lambda>l. l(key := None)) (Labels (pod_meta p))
         in PodUpdate K (kNamespace metadata) (p\<lparr>pod_meta := (pod_meta p)\<lparr>Labels := labels\<rparr>\<rparr>)
   }"

end
