(* ===== verification/ServiceHandlers.thy ===== *)
theory ServiceHandlers
  imports ServiceKube HttpServer
begin

text \<open>
  The handlers and routes of the REST service, \<open>service/internal/handlers\<close> and
  \<open>service/internal/routes\<close>. A handler gives the response as it stands when it returns, or a
  panic, which \<open>net/http\<close> turns into an aborted connection.
\<close>

type_synonym 'w svcHandler = "incoming \<Rightarrow> writer \<Rightarrow> ('w svc, writer outcome) state"

section \<open>Requests\<close>

text \<open>\<open>CreateServerRequest\<close> and its likes have one pointer, under their own member name.\<close>

record 'a createRequest =
  payload :: "'a option"

definition decCreateRequest :: "string \<Rightarrow> 'a dec \<Rightarrow> 'a \<Rightarrow> 'a createRequest dec" where
  "decCreateRequest member d zero = decStruct [(member, onField payload payload_update (decPtr zero d))]"

record deleteObjectRequest =
  reqMetadata :: "kMetadata option"
  reqForce :: bool

definition decDeleteObjectRequest :: "deleteObjectRequest dec" where
  "decDeleteObjectRequest = decStruct
     [(''metadata'', onField reqMetadata reqMetadata_update (decPtr zeroMetadata decMetadata)),
      (''force'', onField reqForce reqForce_update decBool)]"

record addPodLabelsRequest =
  addMetadata :: "kMetadata option"

definition decAddPodLabelsRequest :: "addPodLabelsRequest dec" where
  "decAddPodLabelsRequest = decStruct
     [(''metadata'', onField addMetadata addMetadata_update (decPtr zeroMetadata decMetadata))]"

record removePodLabelRequest =
  remMetadata :: "kMetadata option"
  remLabel :: "string option"

definition decRemovePodLabelRequest :: "removePodLabelRequest dec" where
  "decRemovePodLabelRequest = decStruct
     [(''metadata'', onField remMetadata remMetadata_update (decPtr zeroMetadata decMetadata)),
      (''label'', onField remLabel remLabel_update (decPtr [] decStr))]"

text \<open>Reading and decoding the body.\<close>

definition decodeBody :: "'a dec \<Rightarrow> 'a \<Rightarrow> incoming \<Rightarrow> error + 'a" where
  "decodeBody d zero r = (case InBody r of Inl e \<Rightarrow> Inl e | Inr doc \<Rightarrow> unmarshal d zero doc)"

section \<open>Replies\<close>

text \<open>The map with the two members, encoded with its keys sorted.\<close>

definition errorBody :: "string \<Rightarrow> error \<Rightarrow> json" where
  "errorBody msg e = JObj [(''error'', JStr (errMsg e)), (''message'', JStr msg)]"

text \<open>The body is written first, then the status.\<close>

definition replyError :: "string \<Rightarrow> error \<Rightarrow> writer \<Rightarrow> writer" where
  "replyError msg e w =
     (let (ok, w1) = WriteBody (errorBody msg e) w
      in if \<not> ok then w1 else WriteHeader StatusInternalServerError w1)"

definition replyCreated :: "error + json \<Rightarrow> writer \<Rightarrow> writer" where
  "replyCreated jsonData w =
     (case jsonData of
        Inl e \<Rightarrow> WriteHeader StatusInternalServerError w
      | Inr doc \<Rightarrow>
          (let (ok, w1) = WriteBody doc w in if \<not> ok then w1 else WriteHeader StatusOK w1))"

section \<open>Handlers\<close>

text \<open>The body the four creating handlers share.\<close>

definition createHandler ::
  "string \<Rightarrow> string \<Rightarrow> 'a dec \<Rightarrow> 'a \<Rightarrow> ('a \<Rightarrow> error + json) \<Rightarrow>
     ('a \<Rightarrow> ('w svc, error option \<times> 'a) state) \<Rightarrow> 'w svcHandler" where
  "createHandler msg member d zero enc create r w =
     (let w1 = setContentType ''application/json'' w
      in case decodeBody (decCreateRequest member d zero) \<lparr>payload = None\<rparr> r of
          Inl e \<Rightarrow> ret (Ret (WriteHeader StatusBadRequest w1))
        | Inr request \<Rightarrow>
            (case payload request of
               None \<Rightarrow> ret (Ret (WriteHeader StatusBadRequest w1))
             | Some x \<Rightarrow> do {
                 (err, x1) \<leftarrow> create x;
                 case err of
                   Some e \<Rightarrow> ret (Ret (replyError msg e w1))
                 | None \<Rightarrow> ret (Ret (replyCreated (enc x1) w1))
               }))"

definition CreateServerHandler :: "svcLib \<Rightarrow> 'w cluster \<Rightarrow> 'w svcHandler" where
  "CreateServerHandler L K = createHandler ''Error creating server'' ''server''
     (decServer L) (zeroResource (zeroServerSpec L)) (encServer L) (kubeCreateServer L K)"

definition CreateFleetHandler :: "svcLib \<Rightarrow> 'w cluster \<Rightarrow> 'w svcHandler" where
  "CreateFleetHandler L K = createHandler ''Error creating fleet'' ''fleet''
     (decFleet L) (zeroResource (zeroFleetSpec L)) (encFleet L) (kubeCreateFleet L K)"

definition CreateGameHandler :: "svcLib \<Rightarrow> 'w cluster \<Rightarrow> 'w svcHandler" where
  "CreateGameHandler L K = createHandler ''Error creating game'' ''game''
     (decGameType L) (zeroResource (zeroGameTypeSpec L)) (encGameType L) (kubeCreateGame L K)"

definition CreateScalerHandler :: "svcLib \<Rightarrow> 'w cluster \<Rightarrow> 'w svcHandler" where
  "CreateScalerHandler L K = createHandler ''Error creating scaler'' ''scaler''
     decGameAutoscaler (zeroResource zeroGameAutoscalerSpec) encGameAutoscaler (kubeCreateScaler L K)"

text \<open>What the four deleting handlers share, up to how an error is answered.\<close>

definition deleteHandler ::
  "(error \<Rightarrow> writer \<Rightarrow> writer) \<Rightarrow> (kMetadata \<Rightarrow> bool \<Rightarrow> ('w svc, error option) state) \<Rightarrow> 'w svcHandler" where
  "deleteHandler onError delete r w =
     (let w1 = setContentType ''application/json'' w
      in case decodeBody decDeleteObjectRequest \<lparr>reqMetadata = None, reqForce = False\<rparr> r of
          Inl e \<Rightarrow> ret (Ret (WriteHeader StatusBadRequest w1))
        | Inr request \<Rightarrow>
            (case reqMetadata request of
               None \<Rightarrow> ret (Ret (WriteHeader StatusBadRequest w1))
             | Some metadata \<Rightarrow> do {
                 err \<leftarrow> delete metadata (reqForce request);
                 case err of
                   Some e \<Rightarrow> ret (Ret (onError e w1))
                 | None \<Rightarrow> ret (Ret (WriteHeader StatusOK w1))
               }))"

text \<open>Only this handler sends the status before the body.\<close>

definition DeleteServerHandler :: "'w cluster \<Rightarrow> 'w svcHandler" where
  "DeleteServerHandler K = deleteHandler
     (\<lambda>e w. snd (WriteBody (errorBody ''Error deleting server'' e) (WriteHeader StatusInternalServerError w)))
     (kubeDeleteServer K)"

definition DeleteFleetHandler :: "'w cluster \<Rightarrow> 'w svcHandler" where
  "DeleteFleetHandler K = deleteHandler (replyError ''Error deleting fleet'') (kubeDeleteFleet K)"

definition DeleteGameHandler :: "'w cluster \<Rightarrow> 'w svcHandler" where
  "DeleteGameHandler K = deleteHandler (replyError ''Error deleting game'') (kubeDeleteGame K)"

definition DeleteScalerHandler :: "'w cluster \<Rightarrow> 'w svcHandler" where
  "DeleteScalerHandler K = deleteHandler (replyError ''Error deleting scaler'') (\<lambda>m _. kubeDeleteScaler K m)"

definition AddPodLabelHandler :: "'w cluster \<Rightarrow> 'w svcHandler" where
  "AddPodLabelHandler K r w =
     (let w1 = setContentType ''application/json'' w
      in case decodeBody decAddPodLabelsRequest \<lparr>addMetadata = None\<rparr> r of
          Inl e \<Rightarrow> ret (Ret (WriteHeader StatusBadRequest w1))
        | Inr request \<Rightarrow>
            (case addMetadata request of
               None \<Rightarrow> ret (Ret (WriteHeader StatusBadRequest w1))
             | Some metadata \<Rightarrow> andThen (kubeAddPodLabels K metadata) (\<lambda>err. ret (Ret (case err of
                   Some e \<Rightarrow> replyError ''Error adding pod labels'' e w1
                 | None \<Rightarrow> w1)))))"

definition RemovePodLabelHandler :: "'w cluster \<Rightarrow> 'w svcHandler" where
  "RemovePodLabelHandler K r w =
     (let w1 = setContentType ''application/json'' w
      in case decodeBody decRemovePodLabelRequest \<lparr>remMetadata = None, remLabel = None\<rparr> r of
          Inl e \<Rightarrow> ret (Ret (WriteHeader StatusBadRequest w1))
        | Inr request \<Rightarrow>
            (case (remMetadata request, remLabel request) of
               (Some metadata, Some label) \<Rightarrow> do {
                 err \<leftarrow> kubeRemovePodLabel K metadata label;
                 ret (Ret (case err of
                     Some e \<Rightarrow> replyError ''Error removing pod label'' e w1
                   | None \<Rightarrow> w1))
               }
             | _ \<Rightarrow> ret (Ret (WriteHeader StatusBadRequest w1))))"

definition HealthHandler :: "'w svcHandler" where
  "HealthHandler r w = ret (Ret (WriteHeader StatusOK w))"

section \<open>Routes\<close>

definition serviceRoutes :: "svcLib \<Rightarrow> 'w cluster \<Rightarrow> (pattern \<times> 'w svcHandler) list" where
  "serviceRoutes L K =
     [((Some ''POST'', ''/server''), CreateServerHandler L K),
      ((Some ''DELETE'', ''/server''), DeleteServerHandler K),
      ((Some ''POST'', ''/server/pod/labels''), AddPodLabelHandler K),
      ((Some ''DELETE'', ''/server/pod/labels''), RemovePodLabelHandler K),
      ((Some ''POST'', ''/fleet''), CreateFleetHandler L K),
      ((Some ''DELETE'', ''/fleet''), DeleteFleetHandler K),
      ((Some ''POST'', ''/game''), CreateGameHandler L K),
      ((Some ''DELETE'', ''/game''), DeleteGameHandler K),
      ((Some ''POST'', ''/scaler''), CreateScalerHandler L K),
      ((Some ''DELETE'', ''/scaler''), DeleteScalerHandler K),
      ((None, ''/health''), HealthHandler)]"

definition serveService :: "svcLib \<Rightarrow> 'w cluster \<Rightarrow> incoming \<Rightarrow> bool \<Rightarrow> ('w svc, writer outcome) state" where
  "serveService L K r b =
     (case route (serviceRoutes L K) (InMethod r) (InPath r) of
        Inl code \<Rightarrow> ret (Ret (WriteHeader code (newWriter b)))
      | Inr h \<Rightarrow> h r (newWriter b))"

section \<open>What creating does\<close>

text \<open>
  The contract the four creating operations share: the object is stamped with its API version
  and kind, encoded, and sent to one resource in its namespace; nothing else is called.
\<close>

definition createsOnce ::
  "('a \<Rightarrow> error + json) \<Rightarrow> (json \<Rightarrow> error + json) \<Rightarrow> gvr \<Rightarrow> string \<Rightarrow> 'a \<Rightarrow> error option \<Rightarrow> svcEffect list \<Rightarrow> bool" where
  "createsOnce enc conv g ns x err t \<longleftrightarrow>
     (case enc x of
        Inl e \<Rightarrow> t = [] \<and> err = Some e
      | Inr j \<Rightarrow> (case conv j of Inl e \<Rightarrow> t = [] \<and> err = Some e | Inr obj \<Rightarrow> t = [Created g ns obj err]))"

text \<open>What the body of a request asks for; \<open>None\<close> is a bad request.\<close>

definition requested :: "('q \<Rightarrow> 'm option) \<Rightarrow> error + 'q \<Rightarrow> ('q \<times> 'm) option" where
  "requested sel x = (case x of Inl _ \<Rightarrow> None | Inr q \<Rightarrow> map_option (Pair q) (sel q))"

abbreviation createAsked :: "string \<Rightarrow> 'a dec \<Rightarrow> 'a \<Rightarrow> incoming \<Rightarrow> ('a createRequest \<times> 'a) option" where
  "createAsked member d zero r \<equiv> requested payload (decodeBody (decCreateRequest member d zero) \<lparr>payload = None\<rparr> r)"

abbreviation deleteAsked :: "incoming \<Rightarrow> (deleteObjectRequest \<times> kMetadata) option" where
  "deleteAsked r \<equiv> requested reqMetadata (decodeBody decDeleteObjectRequest \<lparr>reqMetadata = None, reqForce = False\<rparr> r)"

locale creator =
  fixes create :: "'spec kResource \<Rightarrow> ('w svc, error option \<times> 'spec kResource) state"
    and enc :: "'spec kResource \<Rightarrow> error + json"
    and conv :: "json \<Rightarrow> error + json"
    and g :: gvr
    and stamp :: "'spec kResource \<Rightarrow> 'spec kResource"
  assumes creates: "gives (create x) (\<lambda>(err, x1) t. x1 = stamp x \<and>
      createsOnce enc conv g (kNamespace (kMetadata x)) (stamp x) err t)"
begin

text \<open>
  The handler answers 200 or 400, never 500: what was sent could be encoded, so that encoding it
  again for the answer succeeds, and an error of the creation is written as a body first.
\<close>

lemma handler:
  assumes "sentStatus w = None"
  shows "gives (createHandler msg member d zero enc create r w) (\<lambda>out t. \<exists>w'. out = Ret w' \<and>
    (case createAsked member d zero r of
       None \<Rightarrow> t = [] \<and> finalStatus w' = 400
     | Some (_, x) \<Rightarrow> finalStatus w' = 200 \<and>
         (\<exists>err. createsOnce enc conv g (kNamespace (kMetadata x)) (stamp x) err t)))"
  unfolding createHandler_def Let_def
  using assms
  by (intro gives_intros gives_bind [OF creates])
    (auto simp: requested_def StatusBadRequest_def replyError_def replyCreated_def createsOnce_def Let_def finalStatus_def
      WriteBody_def StatusOK_def split: sum.splits option.splits)

end

text \<open>The API version and the kind that is stored into an object.\<close>

definition stampAs :: "string \<Rightarrow> 'spec kResource \<Rightarrow> 'spec kResource" where
  "stampAs kind x = x\<lparr>kApiVersion := ''gameserver.falloria.com/v1alpha1'', kKind := kind\<rparr>"

lemmas kube_names = crdGroup_def crdVersion_def scalerResourceName_def gameResourceName_def fleetResourceName_def
  serverResourceName_def

lemma unstructured_simps:
  "serverToUnstructured L s = (case encServer L (stampAs ''gametypes'' s) of Inl e \<Rightarrow> Inl e | Inr j \<Rightarrow> toUnstructured L j,
     stampAs ''gametypes'' s)"
  "fleetToUnstructured L f = (case encFleet L (stampAs ''fleets'' f) of Inl e \<Rightarrow> Inl e | Inr j \<Rightarrow> toUnstructured L j,
     stampAs ''fleets'' f)"
  "gametypeToUnstructured L g = (case encGameType L (stampAs ''gametypes'' g) of Inl e \<Rightarrow> Inl e | Inr j \<Rightarrow> toUnstructured L j,
     stampAs ''gametypes'' g)"
  "scalerToUnstructured L a = (case encGameAutoscaler (stampAs ''gameautoscalers'' a) of Inl e \<Rightarrow> Inl e | Inr j \<Rightarrow> toUnstructured L j,
     stampAs ''gameautoscalers'' a)"
  by (simp_all add: serverToUnstructured_def fleetToUnstructured_def gametypeToUnstructured_def
      scalerToUnstructured_def stampAs_def kube_names Let_def)

interpretation serverCreator: creator "kubeCreateServer L K" "encServer L" "toUnstructured L" ServerGCR "stampAs ''gametypes''"
  for L :: svcLib and K :: "'w cluster"
  by unfold_locales (auto simp: kubeCreateServer_def unstructured_simps createsOnce_def intro!: gives_intros split: sum.split)

interpretation fleetCreator: creator "kubeCreateFleet L K" "encFleet L" "toUnstructured L" FleetGCR "stampAs ''fleets''"
  for L :: svcLib and K :: "'w cluster"
  by unfold_locales (auto simp: kubeCreateFleet_def unstructured_simps createsOnce_def intro!: gives_intros split: sum.split)

interpretation gameCreator: creator "kubeCreateGame L K" "encGameType L" "toUnstructured L" GameGCR "stampAs ''gametypes''"
  for L :: svcLib and K :: "'w cluster"
  by unfold_locales (auto simp: kubeCreateGame_def unstructured_simps createsOnce_def intro!: gives_intros split: sum.split)

interpretation scalerCreator: creator "kubeCreateScaler L K" encGameAutoscaler "toUnstructured L" ServerGCR "stampAs ''gameautoscalers''"
  for L :: svcLib and K :: "'w cluster"
  by unfold_locales (auto simp: kubeCreateScaler_def unstructured_simps createsOnce_def intro!: gives_intros split: sum.split)

section \<open>What deleting does\<close>

fun svcFailed :: "svcEffect \<Rightarrow> bool" where
  "svcFailed (Created _ _ _ err) \<longleftrightarrow> err \<noteq> None"
| "svcFailed (Deleted _ _ _ err) \<longleftrightarrow> err \<noteq> None"
| "svcFailed (Listed _ _ (Inl _)) \<longleftrightarrow> True"
| "svcFailed (Listed _ _ (Inr _)) \<longleftrightarrow> False"
| "svcFailed (PodRead _ _ (Inl _)) \<longleftrightarrow> True"
| "svcFailed (PodRead _ _ (Inr _)) \<longleftrightarrow> False"
| "svcFailed (PodWritten _ _ err) \<longleftrightarrow> err \<noteq> None"
| "svcFailed (Sent _ (Inl _)) \<longleftrightarrow> True"
| "svcFailed (Sent _ (Inr _)) \<longleftrightarrow> False"

text \<open>An operation reports an error exactly when one of its calls failed.\<close>

definition reports :: "error option \<Rightarrow> svcEffect list \<Rightarrow> bool" where
  "reports err t \<longleftrightarrow> (err \<noteq> None \<longleftrightarrow> (\<exists>e \<in> set t. svcFailed e))"

lemma gives_sendDeleteAllowed: "gives (sendDeleteAllowed K name ns) reports"
  unfolding sendDeleteAllowed_def by (intro gives_intros) (auto simp: reports_def split: sum.splits)

text \<open>Two operations of which the second follows when the first reported nothing.\<close>

lemma gives_chain:
  assumes "gives m reports" and "gives n reports"
  shows "gives (do { err \<leftarrow> m; case err of Some e \<Rightarrow> ret (Some e) | None \<Rightarrow> n }) reports"
  by (intro gives_intros gives_bind [OF assms(1)] gives_weaken [OF assms(2)]) (auto simp: reports_def)

lemma gives_delete_call: "gives (DynDelete K g ns name) reports"
  by (intro gives_intros) (simp_all add: reports_def)

lemma gives_none: "gives (ret None) reports"
  by (intro gives_intros) (simp_all add: reports_def)

lemma gives_kubeDeleteServer: "gives (kubeDeleteServer K m force) reports"
  unfolding kubeDeleteServer_def
  by (intro gives_chain gives_delete_call) (auto intro: gives_sendDeleteAllowed gives_none)

lemma gives_allowServers: "gives (allowServers K fleet items) reports"
  by (induction items) (auto intro!: gives_none gives_chain gives_sendDeleteAllowed)

lemma gives_listing:
  assumes "\<And>items. gives (f items) reports"
  shows "gives (do { r \<leftarrow> DynList K g ns; case r of Inl e \<Rightarrow> ret (Some e) | Inr items \<Rightarrow> f items }) reports"
proof (rule gives_bind_call)
  fix r
  show "gives (case r of Inl e \<Rightarrow> ret (Some e) | Inr items \<Rightarrow> f items) (\<lambda>err t. reports err (Listed g ns r # t))"
  proof (cases r)
    case (Inl e)
    then show ?thesis by (auto intro!: gives_return simp: reports_def)
  next
    case (Inr items)
    then show ?thesis using gives_weaken [OF assms] by (simp add: reports_def)
  qed
qed

lemma gives_kubeDeleteFleet: "gives (kubeDeleteFleet K m force) reports"
  unfolding kubeDeleteFleet_def forceDeleteFleet_def
  by (intro gives_chain gives_delete_call) (auto intro: gives_listing gives_allowServers gives_none)

lemma gives_removeFleets: "gives (removeFleets K m force items) reports"
  by (induction items) (auto intro!: gives_none gives_chain gives_kubeDeleteFleet)

lemma gives_kubeDeleteGame: "gives (kubeDeleteGame K m force) reports"
  unfolding kubeDeleteGame_def removeFleetsForGame_def
  by (intro gives_chain gives_delete_call) (auto intro: gives_listing gives_removeFleets gives_none)

lemma gives_kubeDeleteScaler: "gives (kubeDeleteScaler K m) reports"
  unfolding kubeDeleteScaler_def by (rule gives_delete_call)

lemmas gives_kubeDeletes = gives_kubeDeleteServer gives_kubeDeleteFleet gives_kubeDeleteGame gives_kubeDeleteScaler

lemma gives_deleteHandler:
  assumes "\<And>m f. gives (delete m f) reports"
  shows "gives (deleteHandler onError delete r w) (\<lambda>out t. \<exists>w'. out = Ret w' \<and>
    (case deleteAsked r of
       None \<Rightarrow> t = [] \<and> w' = WriteHeader StatusBadRequest (setContentType ''application/json'' w)
     | Some (q, m) \<Rightarrow> \<exists>err. reports err t \<and> w' = (case err of
           Some e \<Rightarrow> onError e (setContentType ''application/json'' w)
         | None \<Rightarrow> WriteHeader StatusOK (setContentType ''application/json'' w))))"
  unfolding deleteHandler_def Let_def
  by (intro gives_intros gives_bind [OF assms]) (auto simp: requested_def split: sum.splits option.splits)

section \<open>Statuses\<close>

text \<open>
  The status is one of five; status 500 is answered only when \<open>honest\<close> holds, and then exactly
  when a call failed; a status of 400 or 404 or 405 means that nothing was called.
\<close>

definition statusSpec :: "bool \<Rightarrow> writer outcome \<Rightarrow> svcEffect list \<Rightarrow> bool" where
  "statusSpec honest out t \<longleftrightarrow>
     (\<forall>w. out = Ret w \<longrightarrow> finalStatus w \<in> {200, 400, 404, 405, 500} \<and>
        (finalStatus w = 500 \<longleftrightarrow> honest \<and> (\<exists>e \<in> set t. svcFailed e)) \<and>
        (finalStatus w \<in> {400, 404, 405} \<longrightarrow> t = []))"

lemma final_replyError [simp]: "sentStatus w = None \<Longrightarrow> finalStatus (replyError msg e w) = 200"
  by (simp add: replyError_def WriteBody_def Let_def finalStatus_def)

lemma final_status_simps [simp]:
  "sentStatus w = None \<Longrightarrow> finalStatus (WriteHeader c w) = c"
  "sentStatus w = None \<Longrightarrow> finalStatus w = 200"
  "finalStatus (setContentType ct w) = finalStatus w"
  "sentStatus (setContentType ct w) = sentStatus w"
  by (simp_all add: finalStatus_def)

lemma creator_status:
  assumes "creator create enc conv g stamp" and "sentStatus w = None"
  shows "gives (createHandler msg member d zero enc create r w) (statusSpec False)"
  by (rule gives_weaken [OF creator.handler [OF assms]], cases "createAsked member d zero r")
    (auto simp: statusSpec_def)

lemma quiet_delete_status:
  assumes "\<And>m f. gives (delete m f) reports" and "sentStatus w = None"
    and "\<And>e w. sentStatus w = None \<Longrightarrow> finalStatus (onError e w) = 200"
  shows "gives (deleteHandler onError delete r w) (statusSpec False)"
  by (rule gives_weaken [OF gives_deleteHandler [OF assms(1)]], cases "deleteAsked r")
    (auto simp: statusSpec_def assms(2,3) StatusBadRequest_def StatusOK_def split: option.split_asm)

lemma server_delete_status:
  assumes "sentStatus w = None"
  shows "gives (DeleteServerHandler K r w) (statusSpec True)"
  unfolding DeleteServerHandler_def
  by (rule gives_weaken [OF gives_deleteHandler [OF gives_kubeDeleteServer]], cases "deleteAsked r")
    (auto simp: statusSpec_def reports_def assms StatusBadRequest_def StatusOK_def StatusInternalServerError_def
      WriteBody_def Let_def finalStatus_def split: option.split_asm if_splits)

lemma label_status:
  assumes "sentStatus w = None"
  shows "gives (AddPodLabelHandler K r w) (statusSpec False)" "gives (RemovePodLabelHandler K r w) (statusSpec False)"
proof -
  have add: "gives (kubeAddPodLabels K m) (\<lambda>_ _. True)" for m
    unfolding kubeAddPodLabels_def by (intro gives_intros) auto
  have remove: "gives (kubeRemovePodLabel K m key) (\<lambda>_ _. True)" for m key
    unfolding kubeRemovePodLabel_def Let_def by (intro gives_intros) auto
  show "gives (AddPodLabelHandler K r w) (statusSpec False)"
    unfolding AddPodLabelHandler_def Let_def
    by (intro gives_intros gives_andThen [OF add])
      (auto simp: statusSpec_def assms StatusBadRequest_def split: option.split)
  show "gives (RemovePodLabelHandler K r w) (statusSpec False)"
    unfolding RemovePodLabelHandler_def Let_def
    by (intro gives_intros gives_bind [OF remove])
      (auto simp: statusSpec_def assms StatusBadRequest_def split: option.split)
qed

lemma health_status: "sentStatus w = None \<Longrightarrow> gives (HealthHandler r w) (statusSpec False)"
  by (auto simp: HealthHandler_def statusSpec_def StatusOK_def intro!: gives_return)

lemma route_status:
  assumes "((pm, p), h) \<in> set (serviceRoutes L K)" and "sentStatus w = None"
  shows "gives (h r w) (statusSpec (pm = Some ''DELETE'' \<and> p = ''/server''))"
  using assms(1) unfolding serviceRoutes_def
  by (auto simp: CreateServerHandler_def CreateFleetHandler_def CreateGameHandler_def CreateScalerHandler_def
      DeleteFleetHandler_def DeleteGameHandler_def DeleteScalerHandler_def assms(2)
      intro!: creator_status serverCreator.creator_axioms fleetCreator.creator_axioms gameCreator.creator_axioms
        scalerCreator.creator_axioms quiet_delete_status gives_kubeDeletes server_delete_status label_status health_status)

lemma serve_status: "gives (serveService L K r b) (statusSpec (InMethod r = ''DELETE'' \<and> InPath r = ''/server''))"
proof (cases "route (serviceRoutes L K) (InMethod r) (InPath r)")
  case (Inl c)
  from route_Inl [OF this] Inl show ?thesis
    by (auto simp: serveService_def statusSpec_def intro!: gives_return)
next
  case (Inr h)
  from route_Inr [OF this] obtain pm where pm: "((pm, InPath r), h) \<in> set (serviceRoutes L K)"
    "methodMatches pm (InMethod r)" by blast
  then have "pm = Some ''DELETE'' \<and> InPath r = ''/server'' \<longleftrightarrow> InMethod r = ''DELETE'' \<and> InPath r = ''/server''"
    by (auto simp: serviceRoutes_def methodMatches_def)
  with route_status [OF pm(1), of "newWriter b"] Inr show ?thesis by (simp add: serveService_def)
qed

end
