(* ===== verification/Service.thy ===== *)
theory Service
  imports ServiceHandlers SidecarClient
begin

text \<open>
  The properties of the REST service, and of the service together with the operator and the
  sidecar. The concrete cluster of the witnesses is the store of the operator's theories, seen
  through the service's clients.
\<close>

section \<open>A concrete cluster\<close>

text \<open>The kinds the resource definitions declare (\<open>config/crd/bases\<close>).\<close>

definition crdKinds :: "(string \<times> string) list" where
  "crdKinds = [(''servers'', ''Server''), (''fleets'', ''Fleet''), (''gametypes'', ''GameType''),
     (''gametypeautoscalers'', ''GameTypeAutoscaler'')]"

fun kindMember :: "json \<Rightarrow> string option" where
  "kindMember (JObj ms) = (case map_of ms ''kind'' of Some (JStr k) \<Rightarrow> Some k | _ \<Rightarrow> None)"
| "kindMember _ = None"

text \<open>The API server refuses an object whose kind is not that of the resource it is sent to.\<close>

definition checksKind :: "'w cluster \<Rightarrow> bool" where
  "checksKind K \<longleftrightarrow> (\<forall>g k ns doc w. map_of crdKinds (Resource g) = Some k \<longrightarrow> kindMember doc \<noteq> Some k \<longrightarrow>
     fst (dynCreate K g ns doc w) \<noteq> None)"

text \<open>An unstructured object has the content of the document it was read from.\<close>

definition keepsContent :: "svcLib \<Rightarrow> bool" where
  "keepsContent L \<longleftrightarrow> (\<forall>j obj. toUnstructured L j = Inr obj \<longrightarrow> obj = j)"

definition itemOf :: "objectMeta \<Rightarrow> dynObject" where
  "itemOf m = \<lparr>GetName = Name m, GetNamespace = Namespace m, GetLabels = Labels m\<rparr>"

definition namedType :: "string \<Rightarrow> string \<Rightarrow> gameType" where
  "namedType ns name = \<lparr>gametype_meta = metaOf ns name, FleetSpec = fleet_spec (fleetOf (metaOf ns name) 0 False []),
     gametype_status = \<lparr>GameTypeConditions = [], CurrentFleetName = [], CurrentFleetReplicas = 0\<rparr>\<rparr>"

text \<open>What is created is checked for its kind only: no run of the service reads it back.\<close>

definition storeCluster :: "store cluster" where
  "storeCluster = \<lparr>
     dynCreate = (\<lambda>g ns doc w. (if kindMember doc = map_of crdKinds (Resource g) then None
        else Some (newError ''the kind in the data does not match''), w)),
     dynDelete = (\<lambda>g ns name w.
        if Resource g = ''servers'' then
          (case deleteObj server_meta setServerMeta w (serverOf (metaOf ns name)) (store_servers w) of
             (r, xs) \<Rightarrow> (errOf r, w\<lparr>store_servers := xs\<rparr>))
        else if Resource g = ''fleets'' then
          (case deleteObj fleet_meta setFleetMeta w (fleetOf (metaOf ns name) 0 False []) (store_fleets w) of
             (r, xs) \<Rightarrow> (errOf r, w\<lparr>store_fleets := xs\<rparr>))
        else if Resource g = ''gametypes'' then
          (case deleteObj gametype_meta setGameTypeMeta w (namedType ns name) (store_gametypes w) of
             (r, xs) \<Rightarrow> (errOf r, w\<lparr>store_gametypes := xs\<rparr>))
        else (Some notFoundErr, w)),
     dynList = (\<lambda>g ns w. (Inr (if Resource g = ''fleets''
        then map itemOf (filter (\<lambda>m. Namespace m = ns) (map (fleet_meta \<circ> snd) (store_fleets w))) else []), w)),
     podGet = (\<lambda>ns name w. (lookupObj (store_pods w) (ns, name), w)),
     podUpdate = (\<lambda>ns p w. case writeObj pod_meta setPodMeta (\<lambda>old new. new\<lparr>Phase := Phase old, PodIP := PodIP old\<rparr>)
          p (store_pods w) of (r, xs) \<Rightarrow> (errOf r, w\<lparr>store_pods := xs\<rparr>)),
     svcHttp = storeHttp\<rparr>"

text \<open>Codecs of pod specs and durations that are good enough for closed examples.\<close>

definition demoSvcLib :: svcLib where
  "demoSvcLib = \<lparr>
     decPod = decStruct [(''rest'', onField PodSpecRest PodSpecRest_update decStr)],
     encPod = (\<lambda>p. if Containers p = [] \<and> ImagePullSecrets p = []
        then Inr (encStruct [(''rest'', Some (JStr (PodSpecRest p)))]) else Inl (newError ''unsupported'')),
     zeroPod = \<lparr>Containers = [], ImagePullSecrets = [], PodSpecRest = []\<rparr>,
     decDuration = (\<lambda>j d. case j of
        JArr (JBool neg # xs) \<Rightarrow> (if neg then - int (length xs) else int (length xs), False) | _ \<Rightarrow> (d, True)),
     encDuration = (\<lambda>d. JArr (JBool (d < 0) # replicate (nat \<bar>d\<bar>) JNull)),
     toUnstructured = Inr\<rparr>"

lemma demoSvcLib_laws: "codec_laws demoSvcLib" "keepsContent demoSvcLib"
proof -
  have "decStruct [(''rest'', onField PodSpecRest PodSpecRest_update decStr)] j
      \<lparr>Containers = [], ImagePullSecrets = [], PodSpecRest = []\<rparr> = (p, False)"
    if "Containers p = []" "ImagePullSecrets p = []" "j = encStruct [(''rest'', Some (JStr (PodSpecRest p)))]" for p :: podSpec and j
    using that by (cases p) (simp add: onField_def)
  then have "json_codec (encPod demoSvcLib) (decPod demoSvcLib) (zeroPod demoSvcLib)"
    by unfold_locales (auto simp: demoSvcLib_def split: if_splits)
  moreover have "json_codec (\<lambda>d. Inr (encDuration demoSvcLib d)) (decDuration demoSvcLib) 0"
    by unfold_locales (auto simp: demoSvcLib_def)
  ultimately show "codec_laws demoSvcLib" by (simp add: codec_laws_def)
  show "keepsContent demoSvcLib" by (simp add: keepsContent_def demoSvcLib_def)
qed

lemma storeCluster_checks: "checksKind storeCluster"
  by (auto simp: checksKind_def storeCluster_def)

section \<open>Properties of the service\<close>

text \<open>
  C28. What the service marshals it can read back: each of the four resources, encoded with the
  names and the omitted members of its struct tags, is decoded to the same value, provided the
  codecs of pod specs and durations read what they wrote.
\<close>

theorem resources_round_trip:
  assumes "codec_laws L"
    and "encServer L s = Inr js" and "encFleet L f = Inr jf" and "encGameType L g = Inr jg"
    and "encGameAutoscaler a = Inr ja"
  shows "unmarshal (decServer L) (zeroResource (zeroServerSpec L)) js = Inr s \<and>
     unmarshal (decFleet L) (zeroResource (zeroFleetSpec L)) jf = Inr f \<and>
     unmarshal (decGameType L) (zeroResource (zeroGameTypeSpec L)) jg = Inr g \<and>
     unmarshal decGameAutoscaler (zeroResource zeroGameAutoscalerSpec) ja = Inr a"
  using assms(2-) scaler.unmarshal_marshal
    json_codec.unmarshal_marshal [OF resource_codec [OF serverSpec_codec [OF assms(1)]]]
    json_codec.unmarshal_marshal [OF resource_codec [OF fleetSpec_codec [OF assms(1)]]]
    json_codec.unmarshal_marshal [OF resource_codec [OF gameTypeSpec_codec [OF assms(1)]]]
  by blast

definition demoKServer :: kServer where
  "demoKServer = \<lparr>kApiVersion = [], kKind = [],
     kMetadata = \<lparr>kName = ''a'', kNamespace = ''ns'', kLabels = None\<rparr>,
     kSpec = \<lparr>kPod = \<lparr>Containers = [], ImagePullSecrets = [], PodSpecRest = ''rest''\<rparr>, kTimeOut = Some 3,
       kAllowForceDelete = True, kSidecarSettings = Some \<lparr>kPort = Some 8080, kSidecarImage = [], kLogDebug = False\<rparr>,
       kGameInfo = None\<rparr>\<rparr>"

theorem resources_round_trip_witness:
  "\<exists>js. encServer demoSvcLib demoKServer = Inr js \<and>
     unmarshal (decServer demoSvcLib) (zeroResource (zeroServerSpec demoSvcLib)) js = Inr demoKServer"
proof -
  obtain js where js: "encServer demoSvcLib demoKServer = Inr js"
    by (simp add: encResource_def encServerSpec_def demoSvcLib_def demoKServer_def)
  let ?f = "zeroFleetSpec demoSvcLib"
  obtain jf where jf: "encFleet demoSvcLib (zeroResource ?f) = Inr jf"
    by (simp add: encResource_def encFleetSpec_def encServerSpec_def zeroFleetSpec_def zeroServerSpec_def
        zeroResource_def demoSvcLib_def)
  obtain jg where jg: "encGameType demoSvcLib (zeroResource (zeroGameTypeSpec demoSvcLib)) = Inr jg"
    by (simp add: encResource_def encGameTypeSpec_def encFleetSpec_def encServerSpec_def zeroGameTypeSpec_def
        zeroFleetSpec_def zeroServerSpec_def zeroResource_def demoSvcLib_def)
  obtain ja where ja: "encGameAutoscaler (zeroResource zeroGameAutoscalerSpec) = Inr ja"
    by (simp add: encResource_def encGameAutoscalerSpec_def)
  from resources_round_trip [OF demoSvcLib_laws(1) js jf jg ja] js show ?thesis by blast
qed

text \<open>
  C27. What the service answers: the status is 200, 400, 404, 405 or 500; the 400s mean that nothing
  was called; and status 500 is given for DELETE /server only, there exactly when a call failed.
  Every other failure is answered with 200, because the body is written before the status.
\<close>

theorem only_server_deletion_reports_500:
  assumes "run_state (serveService L K r b) s = (Ret w, s1)"
  shows "\<exists>t. trace s1 = trace s @ t \<and> finalStatus w \<in> {200, 400, 404, 405, 500} \<and>
     (finalStatus w \<in> {400, 404, 405} \<longrightarrow> t = []) \<and>
     (finalStatus w = 500 \<longleftrightarrow> InMethod r = ''DELETE'' \<and> InPath r = ''/server'' \<and> (\<exists>e \<in> set t. svcFailed e))"
  using gives_run [OF serve_status assms] by (auto simp: statusSpec_def)

definition deleteBody :: "string \<Rightarrow> string \<Rightarrow> bool \<Rightarrow> error + json" where
  "deleteBody ns name force = Inr (JObj [(''metadata'', JObj [(''name'', JStr name), (''namespace'', JStr ns)]),
     (''force'', JBool force)])"

lemma deleteBody_asked:
  "InBody r = deleteBody ns name force \<Longrightarrow>
   deleteAsked r = Some (\<lparr>reqMetadata = Some \<lparr>kName = name, kNamespace = ns, kLabels = None\<rparr>, reqForce = force\<rparr>,
     \<lparr>kName = name, kNamespace = ns, kLabels = None\<rparr>)"
  by (simp add: requested_def decodeBody_def deleteBody_def decDeleteObjectRequest_def unmarshal_def onField_def
      decPtr_def decMetadata_def zeroMetadata_def)

definition deleteReq :: "string \<Rightarrow> string \<Rightarrow> string \<Rightarrow> bool \<Rightarrow> incoming" where
  "deleteReq path ns name force = \<lparr>InMethod = ''DELETE'', InPath = path, InBody = deleteBody ns name force\<rparr>"

lemma serve_deletes:
  "serveService L K (deleteReq ''/server'' ns name force) b = DeleteServerHandler K (deleteReq ''/server'' ns name force) (newWriter b)"
  "serveService L K (deleteReq ''/fleet'' ns name force) b = DeleteFleetHandler K (deleteReq ''/fleet'' ns name force) (newWriter b)"
  "serveService L K (deleteReq ''/game'' ns name force) b = DeleteGameHandler K (deleteReq ''/game'' ns name force) (newWriter b)"
  "serveService L K (deleteReq ''/scaler'' ns name force) b = DeleteScalerHandler K (deleteReq ''/scaler'' ns name force) (newWriter b)"
  by (simp_all add: serveService_def serviceRoutes_def methodMatches_def deleteReq_def)

text \<open>A deletion that was asked for properly: the operation runs, then the answer is written.\<close>

lemma run_deleteHandler:
  assumes "deleteAsked r = Some (q, m)" and "run_state (delete m (reqForce q)) s = (err, s1)"
  shows "run_state (deleteHandler onError delete r w) s = (Ret (case err of
     Some e \<Rightarrow> onError e (setContentType ''application/json'' w)
   | None \<Rightarrow> WriteHeader StatusOK (setContentType ''application/json'' w)), s1)"
proof -
  from assms(1) have "decodeBody decDeleteObjectRequest \<lparr>reqMetadata = None, reqForce = False\<rparr> r = Inr q"
    "reqMetadata q = Some m"
    by (auto simp: requested_def split: sum.split_asm)
  with assms(2) show ?thesis by (cases err) (simp_all add: deleteHandler_def Let_def)
qed

lemma deleteReq_asked:
  "deleteAsked (deleteReq path ns name force) =
     Some (\<lparr>reqMetadata = Some \<lparr>kName = name, kNamespace = ns, kLabels = None\<rparr>, reqForce = force\<rparr>,
       \<lparr>kName = name, kNamespace = ns, kLabels = None\<rparr>)"
  by (rule deleteBody_asked) (simp add: deleteReq_def)

lemmas run_delete = run_deleteHandler [OF deleteReq_asked]

theorem only_server_deletion_reports_500_witness:
  "\<exists>w s1. run_state (serveService demoSvcLib storeCluster (deleteReq ''/server'' ''ns'' ''a'' False) False)
       \<lparr>world = emptyStore, trace = []\<rparr> = (Ret w, s1) \<and> finalStatus w = 500"
proof -
  let ?m = "\<lparr>kName = ''a'', kNamespace = ''ns'', kLabels = None\<rparr>"
  have "run_state (kubeDeleteServer storeCluster ?m False) \<lparr>world = emptyStore, trace = []\<rparr> =
      (Some notFoundErr, \<lparr>world = emptyStore, trace = [Deleted ServerGCR ''ns'' ''a'' (Some notFoundErr)]\<rparr>)"
    by (simp add: kubeDeleteServer_def storeCluster_def run_simps ServerGCR_def kube_names deleteObj_def emptyStore_def)
  then obtain w s1 where run: "run_state (serveService demoSvcLib storeCluster (deleteReq ''/server'' ''ns'' ''a'' False) False)
      \<lparr>world = emptyStore, trace = []\<rparr> = (Ret w, s1)" and tr: "trace s1 = [Deleted ServerGCR ''ns'' ''a'' (Some notFoundErr)]"
    unfolding serve_deletes DeleteServerHandler_def by (simp add: run_delete)
  from only_server_deletion_reports_500 [OF run] tr have "finalStatus w = 500" by (simp add: deleteReq_def)
  with run show ?thesis by blast
qed

text \<open>Creations, and their failures.\<close>

definition allRefused :: "svcEffect list \<Rightarrow> bool" where
  "allRefused t \<longleftrightarrow> (\<forall>g ns doc err. Created g ns doc err \<in> set t \<longrightarrow> err \<noteq> None)"

lemma allRefused_simps [simp]:
  "allRefused []" "allRefused (Created g ns doc err # t) \<longleftrightarrow> err \<noteq> None \<and> allRefused t"
  "allRefused (t @ u) \<longleftrightarrow> allRefused t \<and> allRefused u"
  "allRefused (PodRead ns n r # t) = allRefused t" "allRefused (PodWritten ns p err # t) = allRefused t"
  by (auto simp: allRefused_def)

lemma kind_of_encoded: "encResource enc x = Inr j \<Longrightarrow> kindMember j = Some (kKind x)"
  by (auto simp: encResource_def encStruct_def List.map_filter_simps split: sum.splits)

text \<open>An object stamped with another kind than the resource's is refused.\<close>

lemma gives_refused:
  assumes "checksKind K" and "map_of crdKinds (Resource g) = Some k" and "encResource enc (stampAs k' x) = Inr doc"
    and "k' \<noteq> k"
  shows "gives (DynCreate K g ns doc) (\<lambda>_ t. allRefused t)"
proof (rule gives_call_of)
  fix w r w'
  assume r: "dynCreate K g ns doc w = (r, w')"
  have "kindMember doc \<noteq> Some k"
    using kind_of_encoded [OF assms(3)] assms(4) by (simp add: stampAs_def)
  then have "fst (dynCreate K g ns doc w) \<noteq> None"
    using assms(1,2) unfolding checksKind_def by blast
  with r show "allRefused [Created g ns doc r]" by simp
qed

lemma crd_kinds:
  "map_of crdKinds (Resource ServerGCR) = Some ''Server''" "map_of crdKinds (Resource FleetGCR) = Some ''Fleet''"
  "map_of crdKinds (Resource GameGCR) = Some ''GameType''"
  by (simp_all add: crdKinds_def ServerGCR_def FleetGCR_def GameGCR_def kube_names)

lemma creations_refused:
  assumes "checksKind K" and "keepsContent L"
  shows "gives (kubeCreateServer L K s) (\<lambda>_ t. allRefused t)" "gives (kubeCreateFleet L K f) (\<lambda>_ t. allRefused t)"
    "gives (kubeCreateGame L K g) (\<lambda>_ t. allRefused t)" "gives (kubeCreateScaler L K a) (\<lambda>_ t. allRefused t)"
  unfolding kubeCreateServer_def kubeCreateFleet_def kubeCreateGame_def kubeCreateScaler_def unstructured_simps
  using assms(2)
  by (auto simp: keepsContent_def crd_kinds split: sum.split
      intro!: gives_return gives_bind [OF gives_refused [OF assms(1)]])

lemma gives_create_refused:
  assumes "\<And>x. gives (create x) (\<lambda>_ t. allRefused t)"
  shows "gives (createHandler msg member d zero enc create r w) (\<lambda>_ t. allRefused t)"
  unfolding createHandler_def Let_def by (intro gives_intros gives_bind [OF assms]) auto

lemma gives_labels_refused: "gives (AddPodLabelHandler K r w) (\<lambda>_ t. allRefused t)"
proof -
  have "gives (kubeAddPodLabels K m) (\<lambda>_ t. allRefused t)" for m
    unfolding kubeAddPodLabels_def by (intro gives_intros) auto
  then show ?thesis
    unfolding AddPodLabelHandler_def Let_def by (intro gives_intros gives_andThen) auto
qed

text \<open>
  C26. Through the service nothing is ever created, as long as the API server insists on the kinds
  of the resource definitions: each creation names the kind with the plural of a resource
  (servers even with that of game types), so every creation that a POST sends comes back with an
  error, and still the request is never answered with 500.
\<close>

theorem service_creates_nothing:
  assumes "checksKind K" and "keepsContent L" and "InMethod r = ''POST''"
    and "run_state (serveService L K r b) s = (Ret w, s1)"
  shows "\<exists>t. trace s1 = trace s @ t \<and> finalStatus w \<noteq> 500 \<and>
     (\<forall>g ns doc err. Created g ns doc err \<in> set t \<longrightarrow> err \<noteq> None)"
proof -
  have "gives (serveService L K r b) (\<lambda>_ t. allRefused t)"
  proof (cases "route (serviceRoutes L K) (InMethod r) (InPath r)")
    case (Inl c)
    then show ?thesis by (auto simp: serveService_def intro!: gives_return)
  next
    case (Inr h)
    from route_Inr [OF this] obtain pm where "((pm, InPath r), h) \<in> set (serviceRoutes L K)"
      "methodMatches pm ''POST''" unfolding assms(3) by blast
    then have "gives (h r (newWriter b)) (\<lambda>_ t. allRefused t)"
      by (auto simp: serviceRoutes_def methodMatches_def CreateServerHandler_def CreateFleetHandler_def CreateGameHandler_def
          CreateScalerHandler_def HealthHandler_def
          intro!: gives_create_refused creations_refused [OF assms(1,2)] gives_labels_refused gives_return)
    with Inr show ?thesis by (simp add: serveService_def)
  qed
  from gives_run [OF gives_conj [OF this serve_status] assms(4)] assms(3) show ?thesis
    by (auto simp: allRefused_def statusSpec_def)
qed

text \<open>A request whose body holds a marshalled resource asks for that resource.\<close>

lemma marshalled_asked:
  assumes "json_codec enc dec zero" and "enc x = Inr j" and "InBody r = Inr (encStruct [(member, Some j)])"
  shows "createAsked member dec zero r = Some (\<lparr>payload = Some x\<rparr>, x)"
  using json_codec.pointer [OF assms(1,2)] assms(3)
  by (simp add: requested_def decodeBody_def decCreateRequest_def unmarshal_def onField_def)

definition postServer :: "json \<Rightarrow> incoming" where
  "postServer js = \<lparr>InMethod = ''POST'', InPath = ''/server'', InBody = Inr (encStruct [(''server'', Some js)])\<rparr>"

lemma serve_postServer:
  "serveService L K (postServer js) b = CreateServerHandler L K (postServer js) (newWriter b)"
  by (simp add: serveService_def serviceRoutes_def methodMatches_def postServer_def)

lemma demo_encodes:
  "\<exists>js. encServer demoSvcLib (demoKServer\<lparr>kApiVersion := v, kKind := k\<rparr>) = Inr js"
  by (simp add: encResource_def encServerSpec_def demoSvcLib_def demoKServer_def)

lemma demo_post:
  assumes "encServer demoSvcLib demoKServer = Inr js"
    and "run_state (serveService demoSvcLib storeCluster (postServer js) False) \<lparr>world = emptyStore, trace = []\<rparr> = (out, s1)"
  shows "\<exists>w doc err. out = Ret w \<and> finalStatus w = 200 \<and> trace s1 = [Created ServerGCR ''ns'' doc err]"
proof -
  note asked = marshalled_asked [OF resource_codec [OF serverSpec_codec [OF demoSvcLib_laws(1)]] assms(1),
      where r = "postServer js" and member = "''server''"]
  obtain j2 where j2: "encServer demoSvcLib (stampAs ''gametypes'' demoKServer) = Inr j2"
    using demo_encodes by (auto simp: stampAs_def)
  have "toUnstructured demoSvcLib = Inr" by (simp add: demoSvcLib_def)
  with gives_run [OF serverCreator.handler [of "newWriter False"] assms(2) [unfolded serve_postServer CreateServerHandler_def]]
    asked j2
  show ?thesis by (auto simp: postServer_def createsOnce_def demoKServer_def)
qed

theorem service_creates_nothing_witness:
  "\<exists>js w s1 doc err. encServer demoSvcLib demoKServer = Inr js \<and>
     run_state (serveService demoSvcLib storeCluster (postServer js) False) \<lparr>world = emptyStore, trace = []\<rparr> = (Ret w, s1) \<and>
     finalStatus w = 200 \<and> trace s1 = [Created ServerGCR ''ns'' doc err] \<and> err \<noteq> None"
proof -
  obtain js where js: "encServer demoSvcLib demoKServer = Inr js"
    using demo_encodes [of "[]" "[]"] by (auto simp: demoKServer_def)
  obtain out s1 where run: "run_state (serveService demoSvcLib storeCluster (postServer js) False)
      \<lparr>world = emptyStore, trace = []\<rparr> = (out, s1)" by fastforce
  from demo_post [OF js run] obtain w doc err where
    w: "out = Ret w" "finalStatus w = 200" "trace s1 = [Created ServerGCR ''ns'' doc err]" by blast
  from service_creates_nothing [OF storeCluster_checks demoSvcLib_laws(2) _ run [unfolded w(1)]] w(3)
  have "err \<noteq> None" by (auto simp: postServer_def)
  with js run w show ?thesis by blast
qed

lemma kubeDeleteServer_unforced: "kubeDeleteServer K m False = kubeDeleteScaler K m"
  by (rule state_ext) (simp add: kubeDeleteServer_def kubeDeleteScaler_def run_simps split: prod.split option.split)

text \<open>
  Scalers are looked for among the servers: deleting a scaler does to the cluster exactly what
  deleting the server of that name does without force, so it deletes a server.
\<close>

theorem scaler_deletion_deletes_server:
  "snd (run_state (serveService L K (deleteReq ''/scaler'' ns name force) b) s) =
     snd (run_state (serveService L K (deleteReq ''/server'' ns name False) b) s)"
proof -
  let ?m = "\<lparr>kName = name, kNamespace = ns, kLabels = None\<rparr>"
  obtain err s1 where "run_state (kubeDeleteScaler K ?m) s = (err, s1)" by fastforce
  then show ?thesis
    by (simp add: serve_deletes DeleteScalerHandler_def DeleteServerHandler_def run_delete kubeDeleteServer_unforced)
qed

text \<open>
  C25. Force works through the sidecar: when DELETE /server with force finds the server and its pod,
  and the network brings requests for port 8080 of the pod to its sidecar, the sidecar then
  allows the deletion; and the operator, which asks on the port of the server's settings, is
  told so for a running server without a time-out if that port is 8080.
\<close>

theorem forced_deletion_is_approved:
  assumes "dynDelete K ServerGCR ns name w0 = (None, w1)" and "podGet K ns (name @ ''-pod'') w1 = (Inr p, w2)"
    and "svcHttp K = httpDo X" and "delivers X (buildPodBaseAddress p ''8080'') sidecarServe getS putS"
    and "sidecarPort (server_spec srv) = Ret 8080" and "Phase p = PodRunning" and "TimeOut (server_spec srv) = None"
  shows "\<exists>w s1. run_state (serveService L K (deleteReq ''/server'' ns name True) b) \<lparr>world = w0, trace = t\<rparr> = (Ret w, s1) \<and>
     finalStatus w = 200 \<and> DeleteAllowed (getS (world s1)) \<and>
     (\<forall>st. getS (world st) = getS (world s1) \<longrightarrow> fst (run_state (IsDeletionAllowed X srv p) st) = Ret (Inr True))"
proof -
  let ?q = "\<lparr>Method = ''POST'', RequestUrl = buildPodBaseAddress p ''8080'' @ ''allow_delete'',
      RequestBody = Some (JObj [(''allowed'', JBool True)])\<rparr>"
  obtain a wr where a: "sidecarServe (getS w2) \<lparr>InMethod = ''POST'', InPath = ''/allow_delete'',
      InBody = bodyOf (Some (JObj [(''allowed'', JBool True)]))\<rparr> = (a, wr)" by fastforce
  have flag: "DeleteAllowed a"
    using a by (auto simp: sidecarServe_def sidecar_defs bodyOf_def Let_def split: prod.splits if_splits)
  have "httpDo X ?q w2 = (Inr (answerOf wr), putS a w2)"
    using assms(4) a unfolding delivers_def by (simp add: Let_def)
  moreover have get: "getS (putS a w2) = a" using assms(4) unfolding delivers_def by blast
  ultimately obtain s1 where s1: "run_state (kubeDeleteServer K \<lparr>kName = name, kNamespace = ns, kLabels = None\<rparr> True)
      \<lparr>world = w0, trace = t\<rparr> = (None, s1)" and world: "world s1 = putS a w2"
    using assms(1-3) by (simp add: kubeDeleteServer_def sendDeleteAllowed_def run_simps buildPodBaseAddress_def)
  have "fst (run_state (IsDeletionAllowed X srv p) st) = Ret (Inr True)" if "getS (world st) = a" for st
  proof (cases "AllowForceDelete (server_spec srv)")
    case True
    then show ?thesis using assms(6) by (simp add: IsDeletionAllowed_def)
  next
    case False
    obtain r st' where run: "run_state (askSidecar X srv p) st = (r, st')" by fastforce
    from sc.askSidecar_answer [OF _ assms(5) run] assms(4) itoa_8080 that flag have "r = Ret (Inr True)" by simp
    with run False assms(6,7) show ?thesis by (simp add: IsDeletionAllowed_def)
  qed
  with s1 world get flag show ?thesis
    by (auto simp: serve_deletes DeleteServerHandler_def run_delete StatusOK_def)
qed

theorem forced_deletion_is_approved_witness:
  "\<exists>w s1. run_state (serveService demoSvcLib (storeCluster\<lparr>svcHttp := pipeHttp ''http://1:8080/''\<rparr>)
       (deleteReq ''/server'' ''ns'' ''a'' True) False) \<lparr>world = demoStore False, trace = []\<rparr> = (Ret w, s1) \<and>
     finalStatus w = 200 \<and>
     fst (run_state (IsDeletionAllowed (storeExt\<lparr>httpDo := pipeHttp ''http://1:8080/''\<rparr>) delServer runPod)
        (boot (world s1))) = Ret (Inr True)"
proof -
  let ?K = "storeCluster\<lparr>svcHttp := pipeHttp ''http://1:8080/''\<rparr>"
  have base: "buildPodBaseAddress runPod ''8080'' = ''http://1:8080/''"
    by (simp add: buildPodBaseAddress_def runPod_def podOf_def)
  let ?X = "storeExt\<lparr>httpDo := pipeHttp ''http://1:8080/''\<rparr>"
  have del: "dynDelete ?K ServerGCR ''ns'' ''a'' (demoStore False) = (None, demoStore False)"
    by (simp add: storeCluster_def ServerGCR_def kube_names store_parts)
  have pod: "podGet ?K ''ns'' (''a'' @ ''-pod'') (demoStore False) = (Inr runPod, demoStore False)"
    by (simp add: storeCluster_def store_parts)
  have net: "svcHttp ?K = httpDo ?X" by simp
  have pipe: "delivers ?X (buildPodBaseAddress runPod ''8080'') sidecarServe
      (podApp ''http://1:8080/'') (putApp ''http://1:8080/'')"
    unfolding base by (rule pipe_delivers)
  have srv: "sidecarPort (server_spec delServer) = Ret 8080" "Phase runPod = PodRunning"
    "TimeOut (server_spec delServer) = None"
    by (simp_all add: sidecarPort_def delServer_def serverOf_def plainSpec_def runPod_def podOf_def PodRunning_def)
  from forced_deletion_is_approved [OF del pod net pipe srv, of demoSvcLib False "[]"] obtain w s1 where
    "run_state (serveService demoSvcLib ?K (deleteReq ''/server'' ''ns'' ''a'' True) False)
      \<lparr>world = demoStore False, trace = []\<rparr> = (Ret w, s1)" "finalStatus w = 200"
    "\<forall>st. podApp ''http://1:8080/'' (world st) = podApp ''http://1:8080/'' (world s1) \<longrightarrow>
      fst (run_state (IsDeletionAllowed ?X delServer runPod) st) = Ret (Inr True)" by blast
  then show ?thesis by (intro exI [of _ w] exI [of _ s1]) (simp add: boot_def)
qed

text \<open>Fleets as the operator builds them carry the labels of their game type and \<open>gametype\<close>.\<close>

lemma built_fleet_label:
  "k \<noteq> ''gametype'' \<Longrightarrow> lookupLabel (Labels (fleet_meta (fst (GetFleetObjectForType L g)))) k =
     lookupLabel (Labels (gametype_meta g)) k"
  by (simp add: GetFleetObjectForType_def newMeta_def Let_def)

lemma allowServers_none:
  "\<forall>i \<in> set items. lookupLabel (GetLabels i) ''fleet'' \<noteq> Some fleet \<Longrightarrow> allowServers K fleet items = ret None"
  by (induction items) auto

lemma removeFleets_none:
  "\<forall>i \<in> set items. lookupLabel (GetLabels i) ''type'' \<noteq> Some (kName m) \<Longrightarrow> removeFleets K m force items = ret None"
  by (induction items) auto

text \<open>
  C29. Force is lost on fleets and games: DELETE /fleet with force lists fleets where it should list
  servers, DELETE /game with force looks for the label \<open>type\<close> where the operator writes
  \<open>gametype\<close>. Whatever fleets are listed, as long as the operator built them for game types without
  labels of these names, the whole run is the deletion of the one object and that listing: no
  sidecar is told anything and no fleet is deleted with its game. The same request without force
  leaves the same cluster, but for what the listing does, and both are answered with 200.
\<close>

theorem force_stops_at_fleets:
  assumes "dynDelete K g ns name w0 = (None, w1)" and "dynList K FleetGCR ns w1 = (Inr items, w2)"
    and "\<forall>i \<in> set items. \<exists>L' gt. GetLabels i = Labels (fleet_meta (fst (GetFleetObjectForType L' gt))) \<and>
      lookupLabel (Labels (gametype_meta gt)) ''fleet'' = None \<and> lookupLabel (Labels (gametype_meta gt)) ''type'' = None"
    and "(path, g) \<in> {(''/fleet'', FleetGCR), (''/game'', GameGCR)}"
  shows "(\<exists>w. run_state (serveService L K (deleteReq path ns name True) b) \<lparr>world = w0, trace = t\<rparr> =
       (Ret w, \<lparr>world = w2, trace = t @ [Deleted g ns name None, Listed FleetGCR ns (Inr items)]\<rparr>) \<and> finalStatus w = 200) \<and>
     (\<exists>w. run_state (serveService L K (deleteReq path ns name False) b) \<lparr>world = w0, trace = t\<rparr> =
       (Ret w, \<lparr>world = w1, trace = t @ [Deleted g ns name None]\<rparr>) \<and> finalStatus w = 200)"
proof -
  let ?m = "\<lparr>kName = name, kNamespace = ns, kLabels = None\<rparr>"
  have "\<forall>i \<in> set items. lookupLabel (GetLabels i) ''fleet'' \<noteq> Some name \<and> lookupLabel (GetLabels i) ''type'' \<noteq> Some name"
    using assms(3) by (force simp: built_fleet_label)
  then have "allowServers K name items = ret None" "removeFleets K ?m True items = ret None"
    by (simp_all add: allowServers_none removeFleets_none)
  with assms(1,2) have
    "g = FleetGCR \<Longrightarrow> run_state (kubeDeleteFleet K ?m True) \<lparr>world = w0, trace = t\<rparr> =
      (None, \<lparr>world = w2, trace = t @ [Deleted g ns name None, Listed FleetGCR ns (Inr items)]\<rparr>)"
    "g = GameGCR \<Longrightarrow> run_state (kubeDeleteGame K ?m True) \<lparr>world = w0, trace = t\<rparr> =
      (None, \<lparr>world = w2, trace = t @ [Deleted g ns name None, Listed FleetGCR ns (Inr items)]\<rparr>)"
    "g = FleetGCR \<Longrightarrow> run_state (kubeDeleteFleet K ?m False) \<lparr>world = w0, trace = t\<rparr> =
      (None, \<lparr>world = w1, trace = t @ [Deleted g ns name None]\<rparr>)"
    "g = GameGCR \<Longrightarrow> run_state (kubeDeleteGame K ?m False) \<lparr>world = w0, trace = t\<rparr> =
      (None, \<lparr>world = w1, trace = t @ [Deleted g ns name None]\<rparr>)"
    by (simp_all add: kubeDeleteFleet_def forceDeleteFleet_def kubeDeleteGame_def removeFleetsForGame_def run_simps)
  with assms(4) show ?thesis
    by (auto simp: serve_deletes DeleteFleetHandler_def DeleteGameHandler_def run_delete StatusOK_def)
qed

text \<open>
  The game type \<open>g\<close> with its fleet \<open>f\<close>, of which the server \<open>a\<close> runs and its sidecar does not allow
  the deletion. All of them have finalizers, so a deletion marks them.
\<close>

definition gameFleet :: fleet where
  "gameFleet = fleetOf ((metaOf ''ns'' ''f'')\<lparr>Labels := Some [''gametype'' \<mapsto> ''g''], Finalizers := [''fleets.falloria.com/finalizer'']\<rparr>)
     1 True OldestFirst"

definition gameCluster :: store where
  "gameCluster = (demoStore False)\<lparr>store_gametypes := [((''ns'', ''g''), namedType ''ns'' ''g'')],
     store_fleets := [((''ns'', ''f''), gameFleet)],
     store_servers := [((''ns'', ''a''), serverOf ((metaOf ''ns'' ''a'')\<lparr>Labels := Some [''fleet'' \<mapsto> ''f''],
       Finalizers := [''server.falloria.com/finalizer'']\<rparr>))]\<rparr>"

lemma gameCluster_deletes:
  "\<exists>w1. dynDelete storeCluster FleetGCR ''ns'' ''f'' gameCluster = (None, w1) \<and>
     dynList storeCluster FleetGCR ''ns'' w1 = (Inr [itemOf (fleet_meta gameFleet)], w1) \<and> store_sidecars w1 = store_sidecars gameCluster"
  "\<exists>w1. dynDelete storeCluster GameGCR ''ns'' ''g'' gameCluster = (None, w1) \<and>
     dynList storeCluster FleetGCR ''ns'' w1 = (Inr [itemOf (fleet_meta gameFleet)], w1) \<and> store_fleets w1 = store_fleets gameCluster"
  by (simp_all add: storeCluster_def FleetGCR_def GameGCR_def kube_names store_parts gameCluster_def gameFleet_def itemOf_def namedType_def)

lemma gameFleet_built:
  "\<forall>i \<in> set [itemOf (fleet_meta gameFleet)]. \<exists>L' gt. GetLabels i = Labels (fleet_meta (fst (GetFleetObjectForType L' gt))) \<and>
     lookupLabel (Labels (gametype_meta gt)) ''fleet'' = None \<and> lookupLabel (Labels (gametype_meta gt)) ''type'' = None"
proof -
  have "GetLabels (itemOf (fleet_meta gameFleet)) = Labels (fleet_meta (fst (GetFleetObjectForType storeLib (namedType ''ns'' ''g''))))"
    by (simp add: itemOf_def gameFleet_def fleetOf_def GetFleetObjectForType_def namedType_def metaOf_def newMeta_def withLabel_def Let_def)
  moreover have "lookupLabel (Labels (gametype_meta (namedType ''ns'' ''g''))) k = None" for k
    by (simp add: namedType_def metaOf_def newMeta_def lookupLabel_def)
  ultimately show ?thesis by auto
qed

theorem force_stops_at_fleets_witness:
  "(\<exists>w s1. run_state (serveService demoSvcLib storeCluster (deleteReq ''/fleet'' ''ns'' ''f'' True) False)
       \<lparr>world = gameCluster, trace = []\<rparr> = (Ret w, s1) \<and> finalStatus w = 200 \<and>
     trace s1 = [Deleted FleetGCR ''ns'' ''f'' None, Listed FleetGCR ''ns'' (Inr [itemOf (fleet_meta gameFleet)])] \<and>
     map (DeleteAllowed \<circ> snd) (store_sidecars (world s1)) = [False]) \<and>
   (\<exists>w s1. run_state (serveService demoSvcLib storeCluster (deleteReq ''/game'' ''ns'' ''g'' True) False)
       \<lparr>world = gameCluster, trace = []\<rparr> = (Ret w, s1) \<and> finalStatus w = 200 \<and>
     trace s1 = [Deleted GameGCR ''ns'' ''g'' None, Listed FleetGCR ''ns'' (Inr [itemOf (fleet_meta gameFleet)])] \<and>
     store_fleets (world s1) = [((''ns'', ''f''), gameFleet)])"
proof -
  note force = force_stops_at_fleets [OF _ _ gameFleet_built, of storeCluster _ "''ns''" _ gameCluster]
  obtain w1 where f: "dynDelete storeCluster FleetGCR ''ns'' ''f'' gameCluster = (None, w1)"
    "dynList storeCluster FleetGCR ''ns'' w1 = (Inr [itemOf (fleet_meta gameFleet)], w1)" "store_sidecars w1 = store_sidecars gameCluster"
    using gameCluster_deletes(1) by blast
  obtain w2 where g: "dynDelete storeCluster GameGCR ''ns'' ''g'' gameCluster = (None, w2)"
    "dynList storeCluster FleetGCR ''ns'' w2 = (Inr [itemOf (fleet_meta gameFleet)], w2)" "store_fleets w2 = store_fleets gameCluster"
    using gameCluster_deletes(2) by blast
  have "map (DeleteAllowed \<circ> snd) (store_sidecars w1) = [False]" "store_fleets w2 = [((''ns'', ''f''), gameFleet)]"
    by (simp_all add: f(3) g(3) gameCluster_def demoStore_def)
  with force [OF f(1,2), of "''/fleet''" demoSvcLib False "[]"] force [OF g(1,2), of "''/game''" demoSvcLib False "[]"]
  show ?thesis by auto
qed

text \<open>
  C30. Adding labels to a pod: the labels of the request override those of the pod and the others
  stay, on the pod that is read under the server's name, which alone is written. The store into
  the pod's label map does not panic, because a pod built by the operator has one.
\<close>

theorem added_labels_override:
  assumes "podGet K (kNamespace m) (kName m @ ''-pod'') w = (Inr p, w1)"
    and "GetNewPod L env srv ns = Ret (p0, srv')" and "Labels (pod_meta p) = Labels (pod_meta p0)"
  shows "\<exists>l err s1. run_state (kubeAddPodLabels K m) \<lparr>world = w, trace = t\<rparr> = (Ret err, s1) \<and>
     trace s1 = t @ [PodRead (kNamespace m) (kName m @ ''-pod'') (Inr p),
       PodWritten (kNamespace m) (p\<lparr>pod_meta := (pod_meta p)\<lparr>Labels := l\<rparr>\<rparr>) err] \<and>
     (\<forall>k. lookupLabel l k = (case Option.bind (kLabels m) (\<lambda>n. fmlookup n k) of
        Some v \<Rightarrow> Some v | None \<Rightarrow> lookupLabel (Labels (pod_meta p)) k))"
proof -
  from assms(2,3) obtain pl where pl: "Labels (pod_meta p) = Some pl"
    by (elim GetNewPod_parts) (simp add: withLabel_def)
  let ?l = "case kLabels m of None \<Rightarrow> Some pl | Some n \<Rightarrow> if n = fmempty then Some pl else Some (pl ++ fmlookup n)"
  have "copyLabels (Labels (pod_meta p)) (kLabels m) = Ret ?l"
    by (simp add: copyLabels_def pl split: option.split)
  with assms(1) have "\<exists>err s1. run_state (kubeAddPodLabels K m) \<lparr>world = w, trace = t\<rparr> = (Ret err, s1) \<and>
     trace s1 = t @ [PodRead (kNamespace m) (kName m @ ''-pod'') (Inr p),
       PodWritten (kNamespace m) (p\<lparr>pod_meta := (pod_meta p)\<lparr>Labels := ?l\<rparr>\<rparr>) err]"
    by (simp add: kubeAddPodLabels_def run_simps split: prod.split)
  moreover have "lookupLabel ?l k = (case Option.bind (kLabels m) (\<lambda>n. fmlookup n k) of
        Some v \<Rightarrow> Some v | None \<Rightarrow> lookupLabel (Labels (pod_meta p)) k)" for k
    by (auto simp: lookupLabel_def pl map_add_def split: option.split)
  ultimately show ?thesis by blast
qed

theorem added_labels_override_witness:
  "\<exists>p l err s1. run_state (kubeAddPodLabels storeCluster
       \<lparr>kName = ''a'', kNamespace = ''ns'', kLabels = Some (fmupd ''team'' ''red'' fmempty)\<rparr>)
       \<lparr>world = emptyStore\<lparr>store_pods := [((''ns'', ''a-pod''), p)]\<rparr>, trace = []\<rparr> = (Ret err, s1) \<and>
     trace s1 = [PodRead ''ns'' ''a-pod'' (Inr p), PodWritten ''ns'' (p\<lparr>pod_meta := (pod_meta p)\<lparr>Labels := l\<rparr>\<rparr>) err] \<and>
     lookupLabel l ''team'' = Some ''red'' \<and> lookupLabel l ''server'' = Some ''a''"
proof -
  let ?s = "serverOf (metaOf ''ns'' ''a'')"
  let ?m = "\<lparr>kName = ''a'', kNamespace = ''ns'', kLabels = Some (fmupd ''team'' ''red'' fmempty)\<rparr>"
  have "\<exists>spec. getPodSpec (\<lambda>_. []) ?s = Ret spec"
    by (simp add: getPodSpec_Ret_iff serverOf_def plainSpec_def)
  then obtain p s' where p: "GetNewPod storeLib (\<lambda>_. []) ?s ''ns'' = Ret (p, s')"
    by (auto simp: GetNewPod_def Let_def)
  let ?w = "emptyStore\<lparr>store_pods := [((''ns'', ''a-pod''), p)]\<rparr>"
  have get: "podGet storeCluster (kNamespace ?m) (kName ?m @ ''-pod'') ?w = (Inr p, ?w)"
    by (simp add: storeCluster_def lookupObj_def)
  have "lookupLabel (Labels (pod_meta p)) ''server'' = Some ''a''"
    using p by (elim GetNewPod_parts) (simp add: serverOf_def metaOf_def newMeta_def)
  with added_labels_override [OF get p refl, of "[]"] show ?thesis by force
qed

text \<open>Without a label map the store panics.\<close>

lemma add_labels_panics:
  "podGet K ns (name @ ''-pod'') w = (Inr p, w1) \<Longrightarrow> Labels (pod_meta p) = None \<Longrightarrow> n \<noteq> fmempty \<Longrightarrow>
   run_state (kubeAddPodLabels K \<lparr>kName = name, kNamespace = ns, kLabels = Some n\<rparr>) \<lparr>world = w, trace = t\<rparr> =
     (Panic, \<lparr>world = w1, trace = t @ [PodRead ns (name @ ''-pod'') (Inr p)]\<rparr>)"
  by (simp add: kubeAddPodLabels_def run_simps copyLabels_def)

end
