(* ===== verification/Memory.thy ===== *)
theory Memory
  imports Prelude
begin

text \<open>
  Memory with pointers, for the code whose point is what is shared: a heap of cells, shapes
  (what can be read from a value in a heap, and which cells that takes) with one combinator
  per construct of a type, and what it means for a function to make a deep copy.
\<close>

section \<open>Cells\<close>

type_synonym addr = nat

text \<open>Addresses from \<open>limit\<close> on are free.\<close>

record 'o heap =
  cells :: "addr \<Rightarrow> 'o option"
  limit :: addr

text \<open>
  \<open>new(T)\<close> and \<open>make([]T, n)\<close> take the next address; the cell gets its contents when the
  code has written them. Reading through a pointer that does not lead to a cell of the wanted
  type is a panic.
\<close>

definition reserve :: "('o heap, addr) state" where
  "reserve = State (\<lambda>h. (limit h, h\<lparr>limit := Suc (limit h)\<rparr>))"

definition put :: "addr \<Rightarrow> 'o \<Rightarrow> ('o heap, unit) state" where
  "put a x = State (\<lambda>h. ((), h\<lparr>cells := (cells h)(a := Some x)\<rparr>))"

definition deref :: "('o \<Rightarrow> 'v option) \<Rightarrow> 'o heap \<Rightarrow> addr \<Rightarrow> 'v option" where
  "deref prj h a = (case cells h a of None \<Rightarrow> None | Some x \<Rightarrow> prj x)"

definition load :: "('o \<Rightarrow> 'v option) \<Rightarrow> addr \<Rightarrow> ('o heap, 'v outcome) state" where
  "load prj a = State (\<lambda>h. (case deref prj h a of None \<Rightarrow> Panic | Some v \<Rightarrow> Ret v, h))"

lemma run_memory [run_simps]:
  "run_state reserve h = (limit h, h\<lparr>limit := Suc (limit h)\<rparr>)"
  "run_state (put a x) h = ((), h\<lparr>cells := (cells h)(a := Some x)\<rparr>)"
  "run_state (load prj a) h = (case deref prj h a of None \<Rightarrow> Panic | Some v \<Rightarrow> Ret v, h)"
  by (simp_all add: reserve_def put_def load_def)

section \<open>Copying a pointer, copying a slice\<close>

text \<open>
  The pattern of every pointer field: \<open>nil\<close> stays \<open>nil\<close>, otherwise a new cell is filled by
  \<open>into\<close> from what the old one holds.
\<close>

definition copyNew ::
  "('o \<Rightarrow> 'v option) \<Rightarrow> ('v \<Rightarrow> 'o) \<Rightarrow> ('v \<Rightarrow> ('o heap, 'v outcome) state) \<Rightarrow> addr option \<Rightarrow>
     ('o heap, addr option outcome) state" where
  "copyNew prj mk into p = (case p of
       None \<Rightarrow> ret (Ret None)
     | Some a \<Rightarrow> do {
         out \<leftarrow> reserve;
         andThen (load prj a) (\<lambda>v. andThen (into v) (\<lambda>v'. do {
           put out (mk v');
           ret (Ret (Some out))
         }))
       })"

text \<open>\<open>for i := range *in { (*in)[i].DeepCopyInto(&(*out)[i]) }\<close>\<close>

fun copyAll :: "('v \<Rightarrow> ('s, 'v outcome) state) \<Rightarrow> 'v list \<Rightarrow> ('s, 'v list outcome) state" where
  "copyAll into [] = ret (Ret [])"
| "copyAll into (v # vs) = andThen (into v) (\<lambda>v'. andThen (copyAll into vs) (\<lambda>vs'. ret (Ret (v' # vs'))))"

section \<open>Shapes\<close>

text \<open>
  How values of a type lie in memory: whether every pointer in one leads to a cell of its type
  (\<open>valid\<close>), what one reads from it (\<open>view\<close>), and through which cells: those a deep
  copy must duplicate (\<open>owned\<close>), and those it may leave in common (\<open>shared\<close>).
\<close>

record ('o, 'v, 'a) shape =
  valid :: "'v \<Rightarrow> 'o heap \<Rightarrow> bool"
  view :: "'v \<Rightarrow> 'o heap \<Rightarrow> 'a"
  owned :: "'v \<Rightarrow> 'o heap \<Rightarrow> addr set"
  shared :: "'v \<Rightarrow> 'o heap \<Rightarrow> addr set"

definition reach :: "('o, 'v, 'a) shape \<Rightarrow> 'v \<Rightarrow> 'o heap \<Rightarrow> addr set" where
  "reach S v h = owned S v h \<union> shared S v h"

text \<open>The same reading in two heaps.\<close>

definition sameIn :: "('o, 'v, 'a) shape \<Rightarrow> 'v \<Rightarrow> 'o heap \<Rightarrow> 'o heap \<Rightarrow> bool" where
  "sameIn S v h h' \<longleftrightarrow> valid S v h' \<and> view S v h' = view S v h \<and> owned S v h' = owned S v h \<and>
     shared S v h' = shared S v h"

definition agree :: "addr set \<Rightarrow> 'o heap \<Rightarrow> 'o heap \<Rightarrow> bool" where
  "agree A h h' \<longleftrightarrow> limit h \<le> limit h' \<and> (\<forall>a \<in> A. cells h' a = cells h a)"

text \<open>A shape is sound when its cells are allocated, and nothing else matters.\<close>

definition sound :: "('o, 'v, 'a) shape \<Rightarrow> bool" where
  "sound S \<longleftrightarrow> (\<forall>v h. valid S v h \<longrightarrow> reach S v h \<subseteq> {..<limit h}) \<and>
     (\<forall>v h h'. valid S v h \<longrightarrow> agree (reach S v h) h h' \<longrightarrow> sameIn S v h h')"

definition plain :: "('v \<Rightarrow> 'a) \<Rightarrow> ('o, 'v, 'a) shape" where
  "plain f = \<lparr>valid = (\<lambda>_ _. True), view = (\<lambda>v _. f v), owned = (\<lambda>_ _. {}), shared = (\<lambda>_ _. {})\<rparr>"

definition field :: "('r \<Rightarrow> 'v) \<Rightarrow> ('o, 'v, 'a) shape \<Rightarrow> ('o, 'r, 'a) shape" where
  "field g S = \<lparr>valid = (\<lambda>r. valid S (g r)), view = (\<lambda>r. view S (g r)), owned = (\<lambda>r. owned S (g r)),
     shared = (\<lambda>r. shared S (g r))\<rparr>"

definition together :: "('o, 'v, 'a \<Rightarrow> 'b) shape \<Rightarrow> ('o, 'v, 'a) shape \<Rightarrow> ('o, 'v, 'b) shape" where
  "together S T = \<lparr>valid = (\<lambda>v h. valid S v h \<and> valid T v h), view = (\<lambda>v h. view S v h (view T v h)),
     owned = (\<lambda>v h. owned S v h \<union> owned T v h), shared = (\<lambda>v h. shared S v h \<union> shared T v h)\<rparr>"

definition listOf :: "('o, 'v, 'a) shape \<Rightarrow> ('o, 'v list, 'a list) shape" where
  "listOf S = \<lparr>valid = (\<lambda>vs h. \<forall>v \<in> set vs. valid S v h), view = (\<lambda>vs h. map (\<lambda>v. view S v h) vs),
     owned = (\<lambda>vs h. \<Union>v \<in> set vs. owned S v h), shared = (\<lambda>vs h. \<Union>v \<in> set vs. shared S v h)\<rparr>"

definition pointer :: "('o \<Rightarrow> 'v option) \<Rightarrow> ('o, 'v, 'a) shape \<Rightarrow> ('o, addr option, 'a option) shape" where
  "pointer prj S = \<lparr>
     valid = (\<lambda>p h. case p of None \<Rightarrow> True
        | Some a \<Rightarrow> a < limit h \<and> (case deref prj h a of None \<Rightarrow> False | Some v \<Rightarrow> valid S v h)),
     view = (\<lambda>p h. case p of None \<Rightarrow> None
        | Some a \<Rightarrow> map_option (\<lambda>v. view S v h) (deref prj h a)),
     owned = (\<lambda>p h. case p of None \<Rightarrow> {}
        | Some a \<Rightarrow> insert a (case deref prj h a of None \<Rightarrow> {} | Some v \<Rightarrow> owned S v h)),
     shared = (\<lambda>p h. case p of None \<Rightarrow> {}
        | Some a \<Rightarrow> (case deref prj h a of None \<Rightarrow> {} | Some v \<Rightarrow> shared S v h))\<rparr>"

text \<open>What a copy has in common with its original.\<close>

definition inCommon :: "('o, 'v, 'a) shape \<Rightarrow> ('o, 'v, 'a) shape" where
  "inCommon S = S\<lparr>owned := \<lambda>_ _. {}, shared := reach S\<rparr>"

named_theorems sound_intros \<open>shapes that are sound\<close>
named_theorems copied_intros \<open>copies, constructor by constructor\<close>

lemmas shape_defs = plain_def field_def together_def listOf_def pointer_def inCommon_def

lemma agree_mono: "agree A h h' \<Longrightarrow> B \<subseteq> A \<Longrightarrow> agree B h h'"
  by (auto simp: agree_def)

lemma agree_deref: "agree A h h' \<Longrightarrow> a \<in> A \<Longrightarrow> deref prj h' a = deref prj h a"
  by (simp add: agree_def deref_def)

lemma soundD:
  assumes "sound S" and "valid S v h"
  shows "reach S v h \<subseteq> {..<limit h}" and "agree (reach S v h) h h' \<Longrightarrow> sameIn S v h h'"
  using assms unfolding sound_def by blast+

lemma sound_plain [sound_intros]: "sound (plain f)"
  by (simp add: sound_def sameIn_def reach_def plain_def)

lemma sound_field [sound_intros]:
  assumes S: "sound S"
  shows "sound (field g S)"
proof -
  have "reach (field g S) v h = reach S (g v) h" "sameIn (field g S) v h h' = sameIn S (g v) h h'"
    "valid (field g S) v h = valid S (g v) h" for v h h'
    by (simp_all add: reach_def sameIn_def field_def)
  with soundD [OF S] show ?thesis unfolding sound_def by presburger
qed

lemma sound_together [sound_intros]:
  assumes S: "sound S" and T: "sound T"
  shows "sound (together S T)"
  unfolding sound_def
proof (intro conjI allI impI)
  fix v h h'
  assume v: "valid (together S T) v h"
  then have vs: "valid S v h" "valid T v h" by (simp_all add: together_def)
  from soundD(1) [OF S vs(1)] soundD(1) [OF T vs(2)] show "reach (together S T) v h \<subseteq> {..<limit h}"
    by (auto simp: reach_def together_def)
  assume "agree (reach (together S T) v h) h h'"
  then have "agree (reach S v h) h h'" "agree (reach T v h) h h'"
    by (auto simp: reach_def together_def elim: agree_mono)
  with soundD(2) [OF S vs(1)] soundD(2) [OF T vs(2)] show "sameIn (together S T) v h h'"
    by (simp add: sameIn_def together_def)
qed

lemma sound_listOf [sound_intros]:
  assumes S: "sound S"
  shows "sound (listOf S)"
  unfolding sound_def
proof (intro conjI allI impI)
  fix vs h h'
  assume "valid (listOf S) vs h"
  then have v: "v \<in> set vs \<Longrightarrow> valid S v h" for v by (simp add: listOf_def)
  from soundD(1) [OF S v] show "reach (listOf S) vs h \<subseteq> {..<limit h}"
    unfolding reach_def by (fastforce simp: listOf_def)
  assume "agree (reach (listOf S) vs h) h h'"
  then have "v \<in> set vs \<Longrightarrow> agree (reach S v h) h h'" for v
    by (rule agree_mono) (auto simp: reach_def listOf_def)
  with soundD(2) [OF S v] have "v \<in> set vs \<Longrightarrow> sameIn S v h h'" for v by blast
  then show "sameIn (listOf S) vs h h'"
    by (simp add: sameIn_def listOf_def)
qed

lemma sound_pointer [sound_intros]:
  assumes S: "sound S"
  shows "sound (pointer prj S)"
  unfolding sound_def
proof (intro conjI allI impI)
  fix p h h'
  assume p: "valid (pointer prj S) p h"
  show "reach (pointer prj S) p h \<subseteq> {..<limit h}"
    using p soundD(1) [OF S] by (fastforce simp: reach_def pointer_def split: option.splits)
  assume agree: "agree (reach (pointer prj S) p h) h h'"
  show "sameIn (pointer prj S) p h h'"
  proof (cases p)
    case None
    then show ?thesis by (simp add: sameIn_def pointer_def)
  next
    case (Some a)
    with p obtain v where v: "deref prj h a = Some v" "valid S v h" "a < limit h"
      by (auto simp: pointer_def split: option.splits)
    from agree have "deref prj h' a = deref prj h a" "agree (reach S v h) h h'"
      by (rule agree_deref, use Some v in \<open>simp add: reach_def pointer_def\<close>)
        (rule agree_mono [OF agree], use Some v in \<open>auto simp: reach_def pointer_def\<close>)
    from soundD(2) [OF S v(2) this(2)] have "valid S v h'" "view S v h' = view S v h"
      "owned S v h' = owned S v h" "shared S v h' = shared S v h" by (simp_all add: sameIn_def)
    moreover have "a < limit h'" using agree v(3) by (simp add: agree_def)
    moreover note v(1) \<open>deref prj h' a = deref prj h a\<close>
    ultimately show ?thesis by (simp add: sameIn_def pointer_def Some)
  qed
qed

lemma sound_inCommon [sound_intros]:
  assumes S: "sound S"
  shows "sound (inCommon S)"
proof -
  have "reach (inCommon S) v h = reach S v h" "sameIn S v h h' \<Longrightarrow> sameIn (inCommon S) v h h'"
    "valid (inCommon S) v h = valid S v h" for v h h'
    by (simp_all add: reach_def sameIn_def inCommon_def)
  with soundD [OF S] show ?thesis unfolding sound_def by metis
qed

section \<open>Deep copies\<close>

abbreviation extends :: "'o heap \<Rightarrow> 'o heap \<Rightarrow> bool" where
  "extends h h' \<equiv> agree {..<limit h} h h'"

text \<open>
  In \<open>h'\<close>, \<open>v'\<close> is a deep copy of what \<open>v\<close> was in \<open>h\<close>: it reads the same, its own cells were
  allocated since, and everything that existed is as it was.
\<close>

definition copied :: "('o, 'v, 'a) shape \<Rightarrow> 'o heap \<Rightarrow> 'v \<Rightarrow> 'o heap \<Rightarrow> 'v \<Rightarrow> bool" where
  "copied S h v h' v' \<longleftrightarrow> valid S v h \<and> extends h h' \<and> valid S v' h' \<and> view S v' h' = view S v h \<and>
     owned S v' h' \<subseteq> {limit h..} \<and> shared S v' h' = shared S v h"

definition copier :: "('o, 'v, 'a) shape \<Rightarrow> ('v \<Rightarrow> ('o heap, 'v outcome) state) \<Rightarrow> bool" where
  "copier S f \<longleftrightarrow> (\<forall>v h. valid S v h \<longrightarrow> (\<exists>v' h'. run_state (f v) h = (Ret v', h') \<and> copied S h v h' v'))"

lemma extends_refl [simp]: "extends h h"
  by (simp add: agree_def)

lemma extends_trans: "extends h h1 \<Longrightarrow> extends h1 h2 \<Longrightarrow> extends h h2"
  by (auto simp: agree_def)

lemma sameIn_later: "sound S \<Longrightarrow> valid S v h \<Longrightarrow> extends h h' \<Longrightarrow> sameIn S v h h'"
  by (blast intro: soundD agree_mono)

text \<open>A copy made in between is a copy of the whole stretch.\<close>

lemma copied_window:
  assumes S: "sound S" and v: "valid S v h0" and "extends h0 h1" "copied S h1 v h2 v'" "extends h2 h3"
  shows "copied S h0 v h3 v'"
proof -
  from sameIn_later [OF S v assms(3)] have "view S v h1 = view S v h0" "shared S v h1 = shared S v h0"
    by (simp_all add: sameIn_def)
  moreover from assms(4) have "valid S v' h2" by (simp add: copied_def)
  then have "sameIn S v' h2 h3" using assms(5) by (rule sameIn_later [OF S])
  moreover have "extends h0 h3" using assms(3-5) by (auto simp: copied_def intro: extends_trans)
  moreover have "limit h0 \<le> limit h1" using assms(3) by (simp add: agree_def)
  ultimately show ?thesis using assms(4) v by (auto simp: copied_def sameIn_def)
qed

lemma copied_plain: "extends h h' \<Longrightarrow> f v' = f v \<Longrightarrow> copied (plain f) h v h' v'"
  by (simp add: copied_def plain_def)

lemma copied_field: "copied S h (g v) h' (g v') \<Longrightarrow> copied (field g S) h v h' v'"
  by (simp add: copied_def field_def)

lemma copied_together: "copied S h v h' v' \<Longrightarrow> copied T h v h' v' \<Longrightarrow> copied (together S T) h v h' v'"
  by (auto simp: copied_def together_def)

lemma copied_inCommon: "v' = v \<Longrightarrow> sound S \<Longrightarrow> valid S v h \<Longrightarrow> extends h h' \<Longrightarrow> copied (inCommon S) h v h' v'"
  using sameIn_later [of S v h h'] by (simp add: copied_def inCommon_def sameIn_def reach_def)

lemma copier_plain: "copier (plain f) (\<lambda>v. ret (Ret v))"
  by (auto simp: copier_def intro!: copied_plain)

lemma copierD:
  assumes "copier S f" and "valid S v h"
  obtains v' h' where "run_state (f v) h = (Ret v', h')" "copied S h v h' v'"
  using assms unfolding copier_def by blast

lemma copier_all:
  assumes S: "sound S" and f: "copier S f"
  shows "copier (listOf S) (copyAll f)"
  unfolding copier_def
proof (intro allI impI)
  fix vs h
  assume "valid (listOf S) vs h"
  then show "\<exists>vs' h'. run_state (copyAll f vs) h = (Ret vs', h') \<and> copied (listOf S) h vs h' vs'"
  proof (induction vs arbitrary: h)
    case Nil
    then show ?case by (simp add: copied_def listOf_def)
  next
    case (Cons v vs)
    then have v: "valid S v h" and vs: "valid (listOf S) vs h" by (simp_all add: listOf_def)
    obtain v' h1 where 1: "run_state (f v) h = (Ret v', h1)" "copied S h v h1 v'"
      using f v by (rule copierD)
    from 1(2) have h1: "extends h h1" by (simp add: copied_def)
    with vs have "valid (listOf S) vs h1"
      using sameIn_later [OF sound_listOf [OF S]] by (auto simp: sameIn_def)
    from Cons.IH [OF this] obtain vs' h2 where 2: "run_state (copyAll f vs) h1 = (Ret vs', h2)"
      "copied (listOf S) h1 vs h2 vs'" by blast
    from 2(2) have h2: "extends h1 h2" by (simp add: copied_def)
    have "copied S h v h2 v'" by (rule copied_window [OF S v extends_refl 1(2) h2])
    moreover have "copied (listOf S) h vs h2 vs'"
      by (rule copied_window [OF sound_listOf [OF S] vs h1 2(2) extends_refl])
    ultimately have "copied (listOf S) h (v # vs) h2 (v' # vs')" by (auto simp: copied_def listOf_def)
    with 1 2 show ?case by (simp add: run_simps)
  qed
qed

lemma copier_new:
  assumes S: "sound S" and f: "copier S f" and prj: "\<And>v. prj (mk v) = Some v"
  shows "copier (pointer prj S) (copyNew prj mk f)"
  unfolding copier_def
proof (intro allI impI)
  fix p :: "addr option" and h :: "'a heap"
  assume p: "valid (pointer prj S) p h"
  show "\<exists>p' h'. run_state (copyNew prj mk f p) h = (Ret p', h') \<and> copied (pointer prj S) h p h' p'"
  proof (cases p)
    case None
    then show ?thesis by (simp add: copyNew_def copied_def pointer_def)
  next
    case (Some a)
    let ?h1 = "h\<lparr>limit := Suc (limit h)\<rparr>"
    from Some p obtain v where v: "deref prj h a = Some v" "valid S v h" "a < limit h"
      by (auto simp: pointer_def split: option.splits)
    have h1: "extends h ?h1" by (simp add: agree_def)
    have a1: "deref prj ?h1 a = Some v" using v(1) by (simp add: deref_def)
    from sameIn_later [OF S v(2) h1] have v1: "valid S v ?h1" by (simp add: sameIn_def)
    obtain v' h2 where 2: "run_state (f v) ?h1 = (Ret v', h2)" "copied S ?h1 v h2 v'"
      using f v1 by (rule copierD)
    let ?h3 = "h2\<lparr>cells := (cells h2)(limit h := Some (mk v'))\<rparr>"
    from 2(2) have h2: "extends ?h1 h2" "valid S v' h2" by (simp_all add: copied_def)
    have whole: "copied S h v h2 v'" by (rule copied_window [OF S v(2) h1 2(2) extends_refl])
    have fresh: "limit h \<notin> reach S v' h2"
      using 2(2) whole soundD(1) [OF S v(2)] by (auto simp: copied_def reach_def)
    have "agree (reach S v' h2) h2 ?h3" using fresh by (auto simp: agree_def)
    with soundD(2) [OF S h2(2)] have v3: "sameIn S v' h2 ?h3" by blast
    have h3: "extends h ?h3" using extends_trans [OF h1 h2(1)] by (auto simp: agree_def)
    have new: "limit h < limit ?h3" using h2(1) by (simp add: agree_def)
    have out: "deref prj ?h3 (limit h) = Some v'" by (simp add: deref_def prj)
    have "copied (pointer prj S) h p ?h3 (Some (limit h))"
      using whole v3 h3 new out v p Some by (auto simp: copied_def sameIn_def pointer_def)
    moreover have "run_state (copyNew prj mk f p) h = (Ret (Some (limit h)), ?h3)"
      using Some a1 2(1) by (simp add: copyNew_def run_simps)
    ultimately show ?thesis by blast
  qed
qed

lemma valid_simps [simp]:
  "valid (plain f) v h" "valid (field g S) r h = valid S (g r) h"
  "valid (together T U) w h = (valid T w h \<and> valid U w h)" "valid (inCommon S) x h = valid S x h"
  by (simp_all add: plain_def field_def together_def inCommon_def)

lemma copier_together:
  assumes "copier S f"
  shows "copier (together (plain (\<lambda>_. g)) S) f"
  unfolding copier_def
proof (intro allI impI)
  fix v h
  assume "valid (together (plain (\<lambda>_. g)) S) v h"
  then have "valid S v h" by simp
  with assms obtain v' h' where c: "run_state (f v) h = (Ret v', h')" "copied S h v h' v'" by (rule copierD)
  then have "copied (together (plain (\<lambda>_. g)) S) h v h' v'"
    by (intro copied_together copied_plain) (simp_all add: copied_def)
  with c(1) show "\<exists>v' h'. run_state (f v) h = (Ret v', h') \<and> copied (together (plain (\<lambda>_. g)) S) h v h' v'"
    by blast
qed

section \<open>What a deep copy is good for\<close>

locale deep_copy =
  fixes S :: "('o, 'v, 'a) shape" and f :: "'v \<Rightarrow> ('o heap, 'v outcome) state"
  assumes shape: "sound S" and copies: "copier S f"
begin

lemma returns: "valid S v h \<Longrightarrow> \<exists>v' h'. run_state (f v) h = (Ret v', h')"
  using copies unfolding copier_def by blast

lemma copy_of: "valid S v h \<Longrightarrow> run_state (f v) h = (Ret v', h') \<Longrightarrow> copied S h v h' v'"
  using copies unfolding copier_def by fastforce

text \<open>The copy and its original have only the shared cells in common.\<close>

lemma apart:
  assumes "valid S v h" and "run_state (f v) h = (Ret v', h')"
  shows "reach S v h' \<inter> owned S v' h' = {}"
proof -
  from copy_of [OF assms] have c: "copied S h v h' v'" .
  then have "sameIn S v h h'" using assms(1) by (auto simp: copied_def intro: sameIn_later [OF shape])
  then have "reach S v h' = reach S v h" by (simp add: sameIn_def reach_def)
  then have "a \<in> reach S v h' \<Longrightarrow> a < limit h" for a using soundD(1) [OF shape assms(1)] by auto
  moreover have "a \<in> owned S v' h' \<Longrightarrow> limit h \<le> a" for a using c by (auto simp: copied_def)
  ultimately show ?thesis by fastforce
qed

text \<open>Whatever is written to the copy's own cells, the original reads as it did, and conversely.\<close>

lemma original_unaffected:
  assumes "valid S v h" and "run_state (f v) h = (Ret v', h')" and "agree (- owned S v' h') h' h2"
  shows "view S v h2 = view S v h"
proof -
  from copy_of [OF assms(1,2)] have "extends h h'" by (simp add: copied_def)
  with assms(1) have 1: "sameIn S v h h'" by (rule sameIn_later [OF shape])
  then have v: "valid S v h'" by (simp add: sameIn_def)
  have "agree (reach S v h') h' h2" using apart [OF assms(1,2)] by (auto intro: agree_mono [OF assms(3)])
  with soundD(2) [OF shape v] 1 show ?thesis by (simp add: sameIn_def)
qed

lemma copy_unaffected:
  assumes "valid S v h" and "run_state (f v) h = (Ret v', h')" and "owned S v h \<inter> shared S v h = {}"
    and "agree (- owned S v h) h' h2"
  shows "view S v' h2 = view S v h"
proof -
  from copy_of [OF assms(1,2)] have c: "copied S h v h' v'" .
  then have v': "valid S v' h'" by (simp add: copied_def)
  have "a \<in> owned S v h \<Longrightarrow> a < limit h" for a using soundD(1) [OF shape assms(1)] by (auto simp: reach_def)
  moreover have "a \<in> owned S v' h' \<Longrightarrow> limit h \<le> a" for a using c by (auto simp: copied_def)
  ultimately have "owned S v h \<inter> owned S v' h' = {}" by fastforce
  with c assms(3) have "owned S v h \<inter> reach S v' h' = {}" by (auto simp: copied_def reach_def)
  then have "agree (reach S v' h') h' h2" by (auto intro: agree_mono [OF assms(4)])
  with soundD(2) [OF shape v'] c show ?thesis by (simp add: sameIn_def copied_def)
qed

end

section \<open>Copying the parts of a struct\<close>

text \<open>
  Copying in a row, for the structs: every step copies a part of a value that was there in \<open>h0\<close>,
  and what has been copied stays copied while the rest is.
\<close>

definition makes :: "'o heap \<Rightarrow> 'o heap \<Rightarrow> ('o heap, 'v outcome) state \<Rightarrow> ('o heap \<Rightarrow> 'v \<Rightarrow> bool) \<Rightarrow> bool" where
  "makes h0 h m Q \<longleftrightarrow> (extends h0 h \<longrightarrow> (\<exists>v h'. run_state m h = (Ret v, h') \<and> Q h' v))"

lemma makes_ret: "(extends h0 h \<Longrightarrow> Q h v) \<Longrightarrow> makes h0 h (ret (Ret v)) Q"
  by (simp add: makes_def)

lemma makes_then:
  assumes f: "deep_copy S f" and x: "valid S x h0"
    and g: "\<And>x' h1. extends h h1 \<Longrightarrow> (\<And>h2. extends h1 h2 \<Longrightarrow> copied S h0 x h2 x') \<Longrightarrow> makes h0 h1 (g x') Q"
  shows "makes h0 h (andThen (f x) g) Q"
  unfolding makes_def
proof
  from f have S: "sound S" and c: "copier S f" by (simp_all add: deep_copy_def)
  assume h: "extends h0 h"
  with sameIn_later [OF S x] have "valid S x h" by (simp add: sameIn_def)
  with c obtain x' h1 where run: "run_state (f x) h = (Ret x', h1)" "copied S h x h1 x'" by (rule copierD)
  then have h1: "extends h h1" by (simp add: copied_def)
  have "copied S h0 x h2 x'" if "extends h1 h2" for h2
    by (rule copied_window [OF S x h run(2) that])
  with g [OF h1] extends_trans [OF h h1] run(1)
  show "\<exists>v h'. run_state (andThen (f x) g) h = (Ret v, h') \<and> Q h' v"
    by (simp add: makes_def run_simps)
qed

lemma deep_copyI:
  "sound S \<Longrightarrow> (\<And>v h. valid S v h \<Longrightarrow> makes h h (f v) (copied S h v)) \<Longrightarrow> deep_copy S f"
  by (simp add: deep_copy_def copier_def makes_def)

lemmas struct_intros = makes_ret copied_together copied_field copied_plain copied_inCommon

text \<open>The pieces that are not structs.\<close>

lemma deep_copy_assign: "deep_copy (plain f) (\<lambda>v. ret (Ret v))"
  by (simp add: deep_copy_def sound_plain copier_plain)

lemma deep_copy_all: "deep_copy S f \<Longrightarrow> deep_copy (listOf S) (copyAll f)"
  by (simp add: deep_copy_def sound_listOf copier_all)

lemma deep_copy_new: "deep_copy S f \<Longrightarrow> (\<And>v. prj (mk v) = Some v) \<Longrightarrow> deep_copy (pointer prj S) (copyNew prj mk f)"
  by (simp add: deep_copy_def sound_pointer copier_new)

lemma deep_copy_together: "deep_copy S f \<Longrightarrow> deep_copy (together (plain (\<lambda>_. g)) S) f"
  by (simp add: deep_copy_def sound_together sound_plain copier_together)

end
