(* ===== verification/DeepCopy.thy ===== *)
theory DeepCopy
  imports Memory ApiTypes
begin

text \<open>
  The generated \<open>api/v1alpha1/zz_generated.deepcopy.go\<close>, which the client's cache relies on: every
  object the operator reads is a deep copy of the cached one. The structs are here as they lie in
  memory, with addresses for pointers and slices (a slice is the address of its array); what one
  reads from them are the values of \<open>ApiTypes\<close>. The structs of Kubernetes (\<open>ObjectMeta\<close>,
  \<open>ListMeta\<close>, \<open>PodSpec\<close>, \<open>Condition\<close>) are of a type \<open>'f\<close> with
    copying functions that are
  parameters. A function \<open>DeepCopyInto\<close> is given the value of \<open>*in\<close> and returns that of
    \<open>*out\<close>.
\<close>

section \<open>The structs in memory\<close>

record typeMeta =
  TypeKind :: string
  APIVersion :: string

record sidecarSettingsM =
  PortM :: "addr option"
  SidecarImageM :: "addr option"
  LogDebugM :: bool

record gameInfoM =
  CapacityM :: "addr option"

record 'f serverSpecM =
  PodM :: 'f
  TimeOutM :: "addr option"
  AllowForceDeleteM :: bool
  SidecarSettingsM :: "addr option"
  GameInfoM :: "addr option"

record serverStatusM =
  ServerConditionsM :: "addr option"

record 'f serverM =
  ServerTypeM :: typeMeta
  ServerMetaM :: 'f
  ServerSpecM :: "'f serverSpecM"
  ServerStatusM :: serverStatusM

record 'f fleetSpecM =
  FleetServerSpecM :: "'f serverSpecM"
  ScalingM :: fleetScaling

record fleetStatusM =
  FleetConditionsM :: "addr option"
  CurrentReplicasM :: int32

record 'f fleetM =
  FleetTypeM :: typeMeta
  FleetMetaM :: 'f
  FleetSpecM :: "'f fleetSpecM"
  FleetStatusM :: fleetStatusM

record 'f gameTypeSpecM =
  GameFleetSpecM :: "'f fleetSpecM"

record gameTypeStatusM =
  GameConditionsM :: "addr option"
  CurrentFleetNameM :: string
  CurrentFleetReplicasM :: int32

record 'f gameTypeM =
  GameTypeM :: typeMeta
  GameMetaM :: 'f
  GameSpecM :: "'f gameTypeSpecM"
  GameStatusM :: gameTypeStatusM

record webhookAutoscalerSpecM =
  UrlM :: "addr option"
  PathM :: "addr option"
  ServiceM :: "addr option"

record autoscalePolicyM =
  PolicyTypeM :: string
  WebhookSpecM :: webhookAutoscalerSpecM

record syncM =
  SyncTypeM :: string
  SyncTimeM :: "addr option"

record autoscalerSpecM =
  GameTypeNameM :: string
  AutoscalePolicyM :: autoscalePolicyM
  SyncM :: syncM

text \<open>\<open>GameTypeAutoscalerStatus\<close> has no fields.\<close>

type_synonym autoscalerStatusM = unit

record 'f autoscalerM =
  AutoscalerTypeM :: typeMeta
  AutoscalerMetaM :: 'f
  AutoscalerSpecM :: autoscalerSpecM
  AutoscalerStatusM :: autoscalerStatusM

text \<open>The four list types have the same fields.\<close>

record ('f, 't) objectListM =
  ListTypeM :: typeMeta
  ListMetaM :: 'f
  Items :: "addr option"

text \<open>What a cell can hold; the last is memory of the structs of Kubernetes.\<close>

datatype 'f cell =
    OInt goint | OString string | ODuration duration | OGameInfo gameInfoM
  | OConditions "'f list" | OServers "'f serverM list" | OFleets "'f fleetM list"
  | OGameTypes "'f gameTypeM list" | OAutoscalers "'f autoscalerM list"
  | OSidecarSettings sidecarSettingsM | OServerSpec "'f serverSpecM" | OServerStatus serverStatusM
  | OServer "'f serverM" | OServerList "('f, 'f serverM) objectListM"
  | OFleetScaling fleetScaling | OFleetSpec "'f fleetSpecM" | OFleetStatus fleetStatusM
  | OFleet "'f fleetM" | OFleetList "('f, 'f fleetM) objectListM"
  | OGameTypeSpec "'f gameTypeSpecM" | OGameTypeStatus gameTypeStatusM
  | OGameType "'f gameTypeM" | OGameTypeList "('f, 'f gameTypeM) objectListM"
  | OService service | OWebhookSpec webhookAutoscalerSpecM | OPolicy autoscalePolicyM | OSync syncM
  | OAutoscalerSpec autoscalerSpecM | OAutoscalerStatus autoscalerStatusM
  | OAutoscaler "'f autoscalerM" | OAutoscalerList "('f, 'f autoscalerM) objectListM"
  | OForeign 'f

text \<open>The contents of a cell as a value of one type.\<close>

definition asGoInt :: "'f cell \<Rightarrow> goint option" where
  "asGoInt x = (case x of OInt v \<Rightarrow> Some v | _ \<Rightarrow> None)"

definition asString :: "'f cell \<Rightarrow> string option" where
  "asString x = (case x of OString v \<Rightarrow> Some v | _ \<Rightarrow> None)"

definition asDuration :: "'f cell \<Rightarrow> duration option" where
  "asDuration x = (case x of ODuration v \<Rightarrow> Some v | _ \<Rightarrow> None)"

definition asGameInfo :: "'f cell \<Rightarrow> gameInfoM option" where
  "asGameInfo x = (case x of OGameInfo v \<Rightarrow> Some v | _ \<Rightarrow> None)"

definition asConditions :: "'f cell \<Rightarrow> ('f list) option" where
  "asConditions x = (case x of OConditions v \<Rightarrow> Some v | _ \<Rightarrow> None)"

definition asServers :: "'f cell \<Rightarrow> ('f serverM list) option" where
  "asServers x = (case x of OServers v \<Rightarrow> Some v | _ \<Rightarrow> None)"

definition asFleets :: "'f cell \<Rightarrow> ('f fleetM list) option" where
  "asFleets x = (case x of OFleets v \<Rightarrow> Some v | _ \<Rightarrow> None)"

definition asGameTypes :: "'f cell \<Rightarrow> ('f gameTypeM list) option" where
  "asGameTypes x = (case x of OGameTypes v \<Rightarrow> Some v | _ \<Rightarrow> None)"

definition asAutoscalers :: "'f cell \<Rightarrow> ('f autoscalerM list) option" where
  "asAutoscalers x = (case x of OAutoscalers v \<Rightarrow> Some v | _ \<Rightarrow> None)"

definition asSidecarSettings :: "'f cell \<Rightarrow> sidecarSettingsM option" where
  "asSidecarSettings x = (case x of OSidecarSettings v \<Rightarrow> Some v | _ \<Rightarrow> None)"

definition asServerSpec :: "'f cell \<Rightarrow> ('f serverSpecM) option" where
  "asServerSpec x = (case x of OServerSpec v \<Rightarrow> Some v | _ \<Rightarrow> None)"

definition asServerStatus :: "'f cell \<Rightarrow> serverStatusM option" where
  "asServerStatus x = (case x of OServerStatus v \<Rightarrow> Some v | _ \<Rightarrow> None)"

definition asServer :: "'f cell \<Rightarrow> ('f serverM) option" where
  "asServer x = (case x of OServer v \<Rightarrow> Some v | _ \<Rightarrow> None)"

definition asServerList :: "'f cell \<Rightarrow> (('f, 'f serverM) objectListM) option" where
  "asServerList x = (case x of OServerList v \<Rightarrow> Some v | _ \<Rightarrow> None)"

definition asFleetScaling :: "'f cell \<Rightarrow> fleetScaling option" where
  "asFleetScaling x = (case x of OFleetScaling v \<Rightarrow> Some v | _ \<Rightarrow> None)"

definition asFleetSpec :: "'f cell \<Rightarrow> ('f fleetSpecM) option" where
  "asFleetSpec x = (case x of OFleetSpec v \<Rightarrow> Some v | _ \<Rightarrow> None)"

definition asFleetStatus :: "'f cell \<Rightarrow> fleetStatusM option" where
  "asFleetStatus x = (case x of OFleetStatus v \<Rightarrow> Some v | _ \<Rightarrow> None)"

definition asFleet :: "'f cell \<Rightarrow> ('f fleetM) option" where
  "asFleet x = (case x of OFleet v \<Rightarrow> Some v | _ \<Rightarrow> None)"

definition asFleetList :: "'f cell \<Rightarrow> (('f, 'f fleetM) objectListM) option" where
  "asFleetList x = (case x of OFleetList v \<Rightarrow> Some v | _ \<Rightarrow> None)"

definition asGameTypeSpec :: "'f cell \<Rightarrow> ('f gameTypeSpecM) option" where
  "asGameTypeSpec x = (case x of OGameTypeSpec v \<Rightarrow> Some v | _ \<Rightarrow> None)"

definition asGameTypeStatus :: "'f cell \<Rightarrow> gameTypeStatusM option" where
  "asGameTypeStatus x = (case x of OGameTypeStatus v \<Rightarrow> Some v | _ \<Rightarrow> None)"

definition asGameType :: "'f cell \<Rightarrow> ('f gameTypeM) option" where
  "asGameType x = (case x of OGameType v \<Rightarrow> Some v | _ \<Rightarrow> None)"

definition asGameTypeList :: "'f cell \<Rightarrow> (('f, 'f gameTypeM) objectListM) option" where
  "asGameTypeList x = (case x of OGameTypeList v \<Rightarrow> Some v | _ \<Rightarrow> None)"

definition asService :: "'f cell \<Rightarrow> service option" where
  "asService x = (case x of OService v \<Rightarrow> Some v | _ \<Rightarrow> None)"

definition asWebhookSpec :: "'f cell \<Rightarrow> webhookAutoscalerSpecM option" where
  "asWebhookSpec x = (case x of OWebhookSpec v \<Rightarrow> Some v | _ \<Rightarrow> None)"

definition asPolicy :: "'f cell \<Rightarrow> autoscalePolicyM option" where
  "asPolicy x = (case x of OPolicy v \<Rightarrow> Some v | _ \<Rightarrow> None)"

definition asSync :: "'f cell \<Rightarrow> syncM option" where
  "asSync x = (case x of OSync v \<Rightarrow> Some v | _ \<Rightarrow> None)"

definition asAutoscalerSpec :: "'f cell \<Rightarrow> autoscalerSpecM option" where
  "asAutoscalerSpec x = (case x of OAutoscalerSpec v \<Rightarrow> Some v | _ \<Rightarrow> None)"

definition asAutoscalerStatus :: "'f cell \<Rightarrow> autoscalerStatusM option" where
  "asAutoscalerStatus x = (case x of OAutoscalerStatus v \<Rightarrow> Some v | _ \<Rightarrow> None)"

definition asAutoscaler :: "'f cell \<Rightarrow> ('f autoscalerM) option" where
  "asAutoscaler x = (case x of OAutoscaler v \<Rightarrow> Some v | _ \<Rightarrow> None)"

definition asAutoscalerList :: "'f cell \<Rightarrow> (('f, 'f autoscalerM) objectListM) option" where
  "asAutoscalerList x = (case x of OAutoscalerList v \<Rightarrow> Some v | _ \<Rightarrow> None)"

lemma as_simps [simp]:
  "asGoInt (OInt v_Int) = Some v_Int"
  "asString (OString v_String) = Some v_String"
  "asDuration (ODuration v_Duration) = Some v_Duration"
  "asGameInfo (OGameInfo v_GameInfo) = Some v_GameInfo"
  "asConditions (OConditions v_Conditions) = Some v_Conditions"
  "asServers (OServers v_Servers) = Some v_Servers"
  "asFleets (OFleets v_Fleets) = Some v_Fleets"
  "asGameTypes (OGameTypes v_GameTypes) = Some v_GameTypes"
  "asAutoscalers (OAutoscalers v_Autoscalers) = Some v_Autoscalers"
  "asSidecarSettings (OSidecarSettings v_SidecarSettings) = Some v_SidecarSettings"
  "asServerSpec (OServerSpec v_ServerSpec) = Some v_ServerSpec"
  "asServerStatus (OServerStatus v_ServerStatus) = Some v_ServerStatus"
  "asServer (OServer v_Server) = Some v_Server"
  "asServerList (OServerList v_ServerList) = Some v_ServerList"
  "asFleetScaling (OFleetScaling v_FleetScaling) = Some v_FleetScaling"
  "asFleetSpec (OFleetSpec v_FleetSpec) = Some v_FleetSpec"
  "asFleetStatus (OFleetStatus v_FleetStatus) = Some v_FleetStatus"
  "asFleet (OFleet v_Fleet) = Some v_Fleet"
  "asFleetList (OFleetList v_FleetList) = Some v_FleetList"
  "asGameTypeSpec (OGameTypeSpec v_GameTypeSpec) = Some v_GameTypeSpec"
  "asGameTypeStatus (OGameTypeStatus v_GameTypeStatus) = Some v_GameTypeStatus"
  "asGameType (OGameType v_GameType) = Some v_GameType"
  "asGameTypeList (OGameTypeList v_GameTypeList) = Some v_GameTypeList"
  "asService (OService v_Service) = Some v_Service"
  "asWebhookSpec (OWebhookSpec v_WebhookSpec) = Some v_WebhookSpec"
  "asPolicy (OPolicy v_Policy) = Some v_Policy"
  "asSync (OSync v_Sync) = Some v_Sync"
  "asAutoscalerSpec (OAutoscalerSpec v_AutoscalerSpec) = Some v_AutoscalerSpec"
  "asAutoscalerStatus (OAutoscalerStatus v_AutoscalerStatus) = Some v_AutoscalerStatus"
  "asAutoscaler (OAutoscaler v_Autoscaler) = Some v_Autoscaler"
  "asAutoscalerList (OAutoscalerList v_AutoscalerList) = Some v_AutoscalerList"
  by (simp_all add: asGoInt_def asString_def asDuration_def asGameInfo_def asConditions_def asServers_def
    asFleets_def asGameTypes_def asAutoscalers_def asSidecarSettings_def asServerSpec_def asServerStatus_def
    asServer_def asServerList_def asFleetScaling_def asFleetSpec_def asFleetStatus_def asFleet_def asFleetList_def
    asGameTypeSpec_def asGameTypeStatus_def asGameType_def asGameTypeList_def asService_def asWebhookSpec_def
    asPolicy_def asSync_def asAutoscalerSpec_def asAutoscalerStatus_def asAutoscaler_def asAutoscalerList_def)

section \<open>The copying functions\<close>

type_synonym ('f, 'v) copying = "'v \<Rightarrow> ('f cell heap, 'v outcome) state"
type_synonym 'f pcopying = "addr option \<Rightarrow> ('f cell heap, addr option outcome) state"

text \<open>The \<open>DeepCopyInto\<close> of the structs of Kubernetes.\<close>

record 'f k8s =
  ObjectMetaInto :: "('f, 'f) copying"
  ListMetaInto :: "('f, 'f) copying"
  PodSpecInto :: "('f, 'f) copying"
  ConditionInto :: "('f, 'f) copying"

text \<open>\<open>*out = *in\<close> alone, and a new cell for an assigned value.\<close>

abbreviation assign :: "('f, 'v) copying" where
  "assign v \<equiv> ret (Ret v)"

definition copyInt :: "'f pcopying" where "copyInt = copyNew asGoInt OInt assign"
definition copyString :: "'f pcopying" where "copyString = copyNew asString OString assign"
definition copyDuration :: "'f pcopying" where "copyDuration = copyNew asDuration ODuration assign"

definition copyConditions :: "'f k8s \<Rightarrow> 'f pcopying" where
  "copyConditions F = copyNew asConditions OConditions (copyAll (ConditionInto F))"

text \<open>\<open>Server\<close> and its parts. \<open>GameInfo\<close> stays the pointer it was.\<close>

definition SidecarSettings_DeepCopyInto :: "('f, sidecarSettingsM) copying" where
  "SidecarSettings_DeepCopyInto s =
     andThen (copyInt (PortM s)) (\<lambda>port.
     andThen (copyString (SidecarImageM s)) (\<lambda>image.
     ret (Ret (s\<lparr>PortM := port, SidecarImageM := image\<rparr>))))"

definition SidecarSettings_DeepCopy :: "'f pcopying" where
  "SidecarSettings_DeepCopy = copyNew asSidecarSettings OSidecarSettings SidecarSettings_DeepCopyInto"

definition ServerSpec_DeepCopyInto :: "'f k8s \<Rightarrow> ('f, 'f serverSpecM) copying" where
  "ServerSpec_DeepCopyInto F s =
     andThen (PodSpecInto F (PodM s)) (\<lambda>pod.
     andThen (copyDuration (TimeOutM s)) (\<lambda>timeout.
     andThen (copyNew asSidecarSettings OSidecarSettings SidecarSettings_DeepCopyInto (SidecarSettingsM s)) (\<lambda>sidecar.
     ret (Ret (s\<lparr>PodM := pod, TimeOutM := timeout, SidecarSettingsM := sidecar\<rparr>)))))"

definition ServerSpec_DeepCopy :: "'f k8s \<Rightarrow> 'f pcopying" where
  "ServerSpec_DeepCopy F = copyNew asServerSpec OServerSpec (ServerSpec_DeepCopyInto F)"

definition ServerStatus_DeepCopyInto :: "'f k8s \<Rightarrow> ('f, serverStatusM) copying" where
  "ServerStatus_DeepCopyInto F s =
     andThen (copyConditions F (ServerConditionsM s)) (\<lambda>cs.
     ret (Ret (s\<lparr>ServerConditionsM := cs\<rparr>)))"

definition ServerStatus_DeepCopy :: "'f k8s \<Rightarrow> 'f pcopying" where
  "ServerStatus_DeepCopy F = copyNew asServerStatus OServerStatus (ServerStatus_DeepCopyInto F)"

definition Server_DeepCopyInto :: "'f k8s \<Rightarrow> ('f, 'f serverM) copying" where
  "Server_DeepCopyInto F s =
     andThen (ObjectMetaInto F (ServerMetaM s)) (\<lambda>m.
     andThen (ServerSpec_DeepCopyInto F (ServerSpecM s)) (\<lambda>spec.
     andThen (ServerStatus_DeepCopyInto F (ServerStatusM s)) (\<lambda>status.
     ret (Ret (s\<lparr>ServerTypeM := ServerTypeM s, ServerMetaM := m, ServerSpecM := spec, ServerStatusM := status\<rparr>)))))"

definition Server_DeepCopy :: "'f k8s \<Rightarrow> 'f pcopying" where
  "Server_DeepCopy F = copyNew asServer OServer (Server_DeepCopyInto F)"

definition ServerList_DeepCopyInto :: "'f k8s \<Rightarrow> ('f, ('f, 'f serverM) objectListM) copying" where
  "ServerList_DeepCopyInto F l =
     andThen (ListMetaInto F (ListMetaM l)) (\<lambda>m.
     andThen (copyNew asServers OServers (copyAll (Server_DeepCopyInto F)) (Items l)) (\<lambda>items.
     ret (Ret (l\<lparr>ListTypeM := ListTypeM l, ListMetaM := m, Items := items\<rparr>))))"

definition ServerList_DeepCopy :: "'f k8s \<Rightarrow> 'f pcopying" where
  "ServerList_DeepCopy F = copyNew asServerList OServerList (ServerList_DeepCopyInto F)"

text \<open>\<open>Fleet\<close> and its parts.\<close>

definition FleetScaling_DeepCopyInto :: "('f, fleetScaling) copying" where
  "FleetScaling_DeepCopyInto s = assign s"

definition FleetScaling_DeepCopy :: "'f pcopying" where
  "FleetScaling_DeepCopy = copyNew asFleetScaling OFleetScaling FleetScaling_DeepCopyInto"

definition FleetSpec_DeepCopyInto :: "'f k8s \<Rightarrow> ('f, 'f fleetSpecM) copying" where
  "FleetSpec_DeepCopyInto F s =
     andThen (ServerSpec_DeepCopyInto F (FleetServerSpecM s)) (\<lambda>spec.
     ret (Ret (s\<lparr>FleetServerSpecM := spec, ScalingM := ScalingM s\<rparr>)))"

definition FleetSpec_DeepCopy :: "'f k8s \<Rightarrow> 'f pcopying" where
  "FleetSpec_DeepCopy F = copyNew asFleetSpec OFleetSpec (FleetSpec_DeepCopyInto F)"

definition FleetStatus_DeepCopyInto :: "'f k8s \<Rightarrow> ('f, fleetStatusM) copying" where
  "FleetStatus_DeepCopyInto F s =
     andThen (copyConditions F (FleetConditionsM s)) (\<lambda>cs.
     ret (Ret (s\<lparr>FleetConditionsM := cs\<rparr>)))"

definition FleetStatus_DeepCopy :: "'f k8s \<Rightarrow> 'f pcopying" where
  "FleetStatus_DeepCopy F = copyNew asFleetStatus OFleetStatus (FleetStatus_DeepCopyInto F)"

definition Fleet_DeepCopyInto :: "'f k8s \<Rightarrow> ('f, 'f fleetM) copying" where
  "Fleet_DeepCopyInto F f =
     andThen (ObjectMetaInto F (FleetMetaM f)) (\<lambda>m.
     andThen (FleetSpec_DeepCopyInto F (FleetSpecM f)) (\<lambda>spec.
     andThen (FleetStatus_DeepCopyInto F (FleetStatusM f)) (\<lambda>status.
     ret (Ret (f\<lparr>FleetTypeM := FleetTypeM f, FleetMetaM := m, FleetSpecM := spec, FleetStatusM := status\<rparr>)))))"

definition Fleet_DeepCopy :: "'f k8s \<Rightarrow> 'f pcopying" where
  "Fleet_DeepCopy F = copyNew asFleet OFleet (Fleet_DeepCopyInto F)"

definition FleetList_DeepCopyInto :: "'f k8s \<Rightarrow> ('f, ('f, 'f fleetM) objectListM) copying" where
  "FleetList_DeepCopyInto F l =
     andThen (ListMetaInto F (ListMetaM l)) (\<lambda>m.
     andThen (copyNew asFleets OFleets (copyAll (Fleet_DeepCopyInto F)) (Items l)) (\<lambda>items.
     ret (Ret (l\<lparr>ListTypeM := ListTypeM l, ListMetaM := m, Items := items\<rparr>))))"

definition FleetList_DeepCopy :: "'f k8s \<Rightarrow> 'f pcopying" where
  "FleetList_DeepCopy F = copyNew asFleetList OFleetList (FleetList_DeepCopyInto F)"

text \<open>\<open>GameType\<close> and its parts.\<close>

definition GameTypeSpec_DeepCopyInto :: "'f k8s \<Rightarrow> ('f, 'f gameTypeSpecM) copying" where
  "GameTypeSpec_DeepCopyInto F s =
     andThen (FleetSpec_DeepCopyInto F (GameFleetSpecM s)) (\<lambda>spec.
     ret (Ret (s\<lparr>GameFleetSpecM := spec\<rparr>)))"

definition GameTypeSpec_DeepCopy :: "'f k8s \<Rightarrow> 'f pcopying" where
  "GameTypeSpec_DeepCopy F = copyNew asGameTypeSpec OGameTypeSpec (GameTypeSpec_DeepCopyInto F)"

definition GameTypeStatus_DeepCopyInto :: "'f k8s \<Rightarrow> ('f, gameTypeStatusM) copying" where
  "GameTypeStatus_DeepCopyInto F s =
     andThen (copyConditions F (GameConditionsM s)) (\<lambda>cs.
     ret (Ret (s\<lparr>GameConditionsM := cs\<rparr>)))"

definition GameTypeStatus_DeepCopy :: "'f k8s \<Rightarrow> 'f pcopying" where
  "GameTypeStatus_DeepCopy F = copyNew asGameTypeStatus OGameTypeStatus (GameTypeStatus_DeepCopyInto F)"

definition GameType_DeepCopyInto :: "'f k8s \<Rightarrow> ('f, 'f gameTypeM) copying" where
  "GameType_DeepCopyInto F g =
     andThen (ObjectMetaInto F (GameMetaM g)) (\<lambda>m.
     andThen (GameTypeSpec_DeepCopyInto F (GameSpecM g)) (\<lambda>spec.
     andThen (GameTypeStatus_DeepCopyInto F (GameStatusM g)) (\<lambda>status.
     ret (Ret (g\<lparr>GameTypeM := GameTypeM g, GameMetaM := m, GameSpecM := spec, GameStatusM := status\<rparr>)))))"

definition GameType_DeepCopy :: "'f k8s \<Rightarrow> 'f pcopying" where
  "GameType_DeepCopy F = copyNew asGameType OGameType (GameType_DeepCopyInto F)"

definition GameTypeList_DeepCopyInto :: "'f k8s \<Rightarrow> ('f, ('f, 'f gameTypeM) objectListM) copying" where
  "GameTypeList_DeepCopyInto F l =
     andThen (ListMetaInto F (ListMetaM l)) (\<lambda>m.
     andThen (copyNew asGameTypes OGameTypes (copyAll (GameType_DeepCopyInto F)) (Items l)) (\<lambda>items.
     ret (Ret (l\<lparr>ListTypeM := ListTypeM l, ListMetaM := m, Items := items\<rparr>))))"

definition GameTypeList_DeepCopy :: "'f k8s \<Rightarrow> 'f pcopying" where
  "GameTypeList_DeepCopy F = copyNew asGameTypeList OGameTypeList (GameTypeList_DeepCopyInto F)"

text \<open>\<open>GameTypeAutoscaler\<close> and its parts.\<close>

definition Service_DeepCopyInto :: "('f, service) copying" where
  "Service_DeepCopyInto s = assign s"

definition Service_DeepCopy :: "'f pcopying" where
  "Service_DeepCopy = copyNew asService OService Service_DeepCopyInto"

definition WebhookAutoscalerSpec_DeepCopyInto :: "('f, webhookAutoscalerSpecM) copying" where
  "WebhookAutoscalerSpec_DeepCopyInto w =
     andThen (copyString (UrlM w)) (\<lambda>url.
     andThen (copyString (PathM w)) (\<lambda>path.
     andThen (copyNew asService OService assign (ServiceM w)) (\<lambda>svc.
     ret (Ret (w\<lparr>UrlM := url, PathM := path, ServiceM := svc\<rparr>)))))"

definition WebhookAutoscalerSpec_DeepCopy :: "'f pcopying" where
  "WebhookAutoscalerSpec_DeepCopy = copyNew asWebhookSpec OWebhookSpec WebhookAutoscalerSpec_DeepCopyInto"

definition AutoscalePolicy_DeepCopyInto :: "('f, autoscalePolicyM) copying" where
  "AutoscalePolicy_DeepCopyInto p =
     andThen (WebhookAutoscalerSpec_DeepCopyInto (WebhookSpecM p)) (\<lambda>w.
     ret (Ret (p\<lparr>WebhookSpecM := w\<rparr>)))"

definition AutoscalePolicy_DeepCopy :: "'f pcopying" where
  "AutoscalePolicy_DeepCopy = copyNew asPolicy OPolicy AutoscalePolicy_DeepCopyInto"

definition Sync_DeepCopyInto :: "('f, syncM) copying" where
  "Sync_DeepCopyInto s =
     andThen (copyDuration (SyncTimeM s)) (\<lambda>t.
     ret (Ret (s\<lparr>SyncTimeM := t\<rparr>)))"

definition Sync_DeepCopy :: "'f pcopying" where
  "Sync_DeepCopy = copyNew asSync OSync Sync_DeepCopyInto"

definition GameTypeAutoscalerSpec_DeepCopyInto :: "('f, autoscalerSpecM) copying" where
  "GameTypeAutoscalerSpec_DeepCopyInto s =
     andThen (AutoscalePolicy_DeepCopyInto (AutoscalePolicyM s)) (\<lambda>p.
     andThen (Sync_DeepCopyInto (SyncM s)) (\<lambda>sy.
     ret (Ret (s\<lparr>AutoscalePolicyM := p, SyncM := sy\<rparr>))))"

definition GameTypeAutoscalerSpec_DeepCopy :: "'f pcopying" where
  "GameTypeAutoscalerSpec_DeepCopy = copyNew asAutoscalerSpec OAutoscalerSpec GameTypeAutoscalerSpec_DeepCopyInto"

definition GameTypeAutoscalerStatus_DeepCopyInto :: "('f, autoscalerStatusM) copying" where
  "GameTypeAutoscalerStatus_DeepCopyInto s = assign s"

definition GameTypeAutoscalerStatus_DeepCopy :: "'f pcopying" where
  "GameTypeAutoscalerStatus_DeepCopy =
     copyNew asAutoscalerStatus OAutoscalerStatus GameTypeAutoscalerStatus_DeepCopyInto"

definition GameTypeAutoscaler_DeepCopyInto :: "'f k8s \<Rightarrow> ('f, 'f autoscalerM) copying" where
  "GameTypeAutoscaler_DeepCopyInto F a =
     andThen (ObjectMetaInto F (AutoscalerMetaM a)) (\<lambda>m.
     andThen (GameTypeAutoscalerSpec_DeepCopyInto (AutoscalerSpecM a)) (\<lambda>spec.
     ret (Ret (a\<lparr>AutoscalerTypeM := AutoscalerTypeM a, AutoscalerMetaM := m, AutoscalerSpecM := spec,
       AutoscalerStatusM := AutoscalerStatusM a\<rparr>))))"

definition GameTypeAutoscaler_DeepCopy :: "'f k8s \<Rightarrow> 'f pcopying" where
  "GameTypeAutoscaler_DeepCopy F = copyNew asAutoscaler OAutoscaler (GameTypeAutoscaler_DeepCopyInto F)"

definition GameTypeAutoscalerList_DeepCopyInto :: "'f k8s \<Rightarrow> ('f, ('f, 'f autoscalerM) objectListM) copying" where
  "GameTypeAutoscalerList_DeepCopyInto F l =
     andThen (ListMetaInto F (ListMetaM l)) (\<lambda>m.
     andThen (copyNew asAutoscalers OAutoscalers (copyAll (GameTypeAutoscaler_DeepCopyInto F)) (Items l)) (\<lambda>items.
     ret (Ret (l\<lparr>ListTypeM := ListTypeM l, ListMetaM := m, Items := items\<rparr>))))"

definition GameTypeAutoscalerList_DeepCopy :: "'f k8s \<Rightarrow> 'f pcopying" where
  "GameTypeAutoscalerList_DeepCopy F =
     copyNew asAutoscalerList OAutoscalerList (GameTypeAutoscalerList_DeepCopyInto F)"

section \<open>As objects of the scheme\<close>

text \<open>A non-nil \<open>runtime.Object\<close>: a pointer and its type.\<close>

datatype schemeObject =
    ServerRef addr | ServerListRef addr | FleetRef addr | FleetListRef addr
  | GameTypeRef addr | GameTypeListRef addr | AutoscalerRef addr | AutoscalerListRef addr

text \<open>\<open>if c := in.DeepCopy(); c != nil { return c }; return nil\<close>\<close>

definition asObject :: "(addr \<Rightarrow> schemeObject) \<Rightarrow> 'f pcopying \<Rightarrow> addr option \<Rightarrow>
    ('f cell heap, schemeObject option outcome) state" where
  "asObject tag deepCopy p = andThen (deepCopy p) (\<lambda>c. case c of
       Some a \<Rightarrow> ret (Ret (Some (tag a)))
     | None \<Rightarrow> ret (Ret None))"

definition Server_DeepCopyObject :: "'f k8s \<Rightarrow> addr option \<Rightarrow> ('f cell heap, schemeObject option outcome) state" where
  "Server_DeepCopyObject F = asObject ServerRef (Server_DeepCopy F)"

definition ServerList_DeepCopyObject :: "'f k8s \<Rightarrow> addr option \<Rightarrow> ('f cell heap, schemeObject option outcome) state" where
  "ServerList_DeepCopyObject F = asObject ServerListRef (ServerList_DeepCopy F)"

definition Fleet_DeepCopyObject :: "'f k8s \<Rightarrow> addr option \<Rightarrow> ('f cell heap, schemeObject option outcome) state" where
  "Fleet_DeepCopyObject F = asObject FleetRef (Fleet_DeepCopy F)"

definition FleetList_DeepCopyObject :: "'f k8s \<Rightarrow> addr option \<Rightarrow> ('f cell heap, schemeObject option outcome) state" where
  "FleetList_DeepCopyObject F = asObject FleetListRef (FleetList_DeepCopy F)"

definition GameType_DeepCopyObject :: "'f k8s \<Rightarrow> addr option \<Rightarrow> ('f cell heap, schemeObject option outcome) state" where
  "GameType_DeepCopyObject F = asObject GameTypeRef (GameType_DeepCopy F)"

definition GameTypeList_DeepCopyObject :: "'f k8s \<Rightarrow> addr option \<Rightarrow> ('f cell heap, schemeObject option outcome) state" where
  "GameTypeList_DeepCopyObject F = asObject GameTypeListRef (GameTypeList_DeepCopy F)"

definition GameTypeAutoscaler_DeepCopyObject :: "'f k8s \<Rightarrow> addr option \<Rightarrow> ('f cell heap, schemeObject option outcome) state" where
  "GameTypeAutoscaler_DeepCopyObject F = asObject AutoscalerRef (GameTypeAutoscaler_DeepCopy F)"

definition GameTypeAutoscalerList_DeepCopyObject :: "'f k8s \<Rightarrow> addr option \<Rightarrow> ('f cell heap, schemeObject option outcome) state" where
  "GameTypeAutoscalerList_DeepCopyObject F = asObject AutoscalerListRef (GameTypeAutoscalerList_DeepCopy F)"

section \<open>Shapes\<close>

text \<open>How the structs of Kubernetes lie in memory, and what one reads from them.\<close>

record ('f, 'l) k8sShapes =
  metaShape :: "('f cell, 'f, objectMeta) shape"
  listMetaShape :: "('f cell, 'f, 'l) shape"
  podShape :: "('f cell, 'f, podSpec) shape"
  conditionShape :: "('f cell, 'f, condition) shape"

abbreviation intPointer :: "('f cell, addr option, goint option) shape" where
  "intPointer \<equiv> pointer asGoInt (plain (\<lambda>n. n))"

abbreviation stringPointer :: "('f cell, addr option, string option) shape" where
  "stringPointer \<equiv> pointer asString (plain (\<lambda>t. t))"

abbreviation durationPointer :: "('f cell, addr option, duration option) shape" where
  "durationPointer \<equiv> pointer asDuration (plain (\<lambda>d. d))"

text \<open>A nil slice of conditions reads as the empty list.\<close>

definition conditionsShape :: "('f, 'l) k8sShapes \<Rightarrow> ('f cell, addr option, condition list) shape" where
  "conditionsShape K = together (plain (\<lambda>_ cs. case cs of None \<Rightarrow> [] | Some l \<Rightarrow> l))
     (pointer asConditions (listOf (conditionShape K)))"

definition sidecarShape :: "('f cell, sidecarSettingsM, sidecarSettings) shape" where
  "sidecarShape = together (together
     (plain (\<lambda>s p i. \<lparr>Port = p, SidecarImage = i, LogDebug = LogDebugM s\<rparr>))
     (field PortM intPointer)) (field SidecarImageM stringPointer)"

definition gameInfoShape :: "('f cell, gameInfoM, gameInfo) shape" where
  "gameInfoShape = together (plain (\<lambda>_ c. \<lparr>Capacity = c\<rparr>)) (field CapacityM intPointer)"

definition serverSpecShape :: "('f, 'l) k8sShapes \<Rightarrow> ('f cell, 'f serverSpecM, serverSpec) shape" where
  "serverSpecShape K = together (together (together (together
     (plain (\<lambda>s pod t sc gi. \<lparr>Pod = pod, TimeOut = t, AllowForceDelete = AllowForceDeleteM s,
        SidecarSettings = sc, GameInfo = gi\<rparr>))
     (field PodM (podShape K))) (field TimeOutM durationPointer))
     (field SidecarSettingsM (pointer asSidecarSettings sidecarShape)))
     (field GameInfoM (inCommon (pointer asGameInfo gameInfoShape)))"

definition serverStatusShape :: "('f, 'l) k8sShapes \<Rightarrow> ('f cell, serverStatusM, condition list) shape" where
  "serverStatusShape K = field ServerConditionsM (conditionsShape K)"

definition serverShape :: "('f, 'l) k8sShapes \<Rightarrow> ('f cell, 'f serverM, typeMeta \<times> server) shape" where
  "serverShape K = together (together (together
     (plain (\<lambda>s m sp cs. (ServerTypeM s, \<lparr>server_meta = m, server_spec = sp, server_conditions = cs\<rparr>)))
     (field ServerMetaM (metaShape K))) (field ServerSpecM (serverSpecShape K)))
     (field ServerStatusM (serverStatusShape K))"

definition fleetSpecShape :: "('f, 'l) k8sShapes \<Rightarrow> ('f cell, 'f fleetSpecM, fleetSpec) shape" where
  "fleetSpecShape K = together (plain (\<lambda>s sp. \<lparr>ServerSpec = sp, Scaling = ScalingM s\<rparr>))
     (field FleetServerSpecM (serverSpecShape K))"

definition fleetStatusShape :: "('f, 'l) k8sShapes \<Rightarrow> ('f cell, fleetStatusM, fleetStatus) shape" where
  "fleetStatusShape K = together (plain (\<lambda>s cs. \<lparr>FleetConditions = cs, CurrentReplicas = CurrentReplicasM s\<rparr>))
     (field FleetConditionsM (conditionsShape K))"

definition fleetShape :: "('f, 'l) k8sShapes \<Rightarrow> ('f cell, 'f fleetM, typeMeta \<times> fleet) shape" where
  "fleetShape K = together (together (together
     (plain (\<lambda>f m sp st. (FleetTypeM f, \<lparr>fleet_meta = m, fleet_spec = sp, fleet_status = st\<rparr>)))
     (field FleetMetaM (metaShape K))) (field FleetSpecM (fleetSpecShape K)))
     (field FleetStatusM (fleetStatusShape K))"

definition gameTypeSpecShape :: "('f, 'l) k8sShapes \<Rightarrow> ('f cell, 'f gameTypeSpecM, fleetSpec) shape" where
  "gameTypeSpecShape K = field GameFleetSpecM (fleetSpecShape K)"

definition gameTypeStatusShape :: "('f, 'l) k8sShapes \<Rightarrow> ('f cell, gameTypeStatusM, gameTypeStatus) shape" where
  "gameTypeStatusShape K = together
     (plain (\<lambda>s cs. \<lparr>GameTypeConditions = cs, CurrentFleetName = CurrentFleetNameM s,
        CurrentFleetReplicas = CurrentFleetReplicasM s\<rparr>))
     (field GameConditionsM (conditionsShape K))"

definition gameTypeShape :: "('f, 'l) k8sShapes \<Rightarrow> ('f cell, 'f gameTypeM, typeMeta \<times> gameType) shape" where
  "gameTypeShape K = together (together (together
     (plain (\<lambda>g m sp st. (GameTypeM g, \<lparr>gametype_meta = m, FleetSpec = sp, gametype_status = st\<rparr>)))
     (field GameMetaM (metaShape K))) (field GameSpecM (gameTypeSpecShape K)))
     (field GameStatusM (gameTypeStatusShape K))"

definition webhookSpecShape :: "('f cell, webhookAutoscalerSpecM, webhookAutoscalerSpec) shape" where
  "webhookSpecShape = together (together (together
     (plain (\<lambda>_ u p s. \<lparr>Url = u, Path = p, Service = s\<rparr>))
     (field UrlM stringPointer)) (field PathM stringPointer)) (field ServiceM (pointer asService (plain (\<lambda>s. s))))"

definition policyShape :: "('f cell, autoscalePolicyM, autoscalePolicy) shape" where
  "policyShape = together (plain (\<lambda>p w. \<lparr>PolicyType = PolicyTypeM p, WebhookSpec = w\<rparr>))
     (field WebhookSpecM webhookSpecShape)"

definition syncShape :: "('f cell, syncM, sync) shape" where
  "syncShape = together (plain (\<lambda>s t. \<lparr>SyncType = SyncTypeM s, SyncTime = t\<rparr>)) (field SyncTimeM durationPointer)"

definition autoscalerSpecShape :: "('f cell, autoscalerSpecM, string \<times> autoscalePolicy \<times> sync) shape" where
  "autoscalerSpecShape = together (together (plain (\<lambda>s p sy. (GameTypeNameM s, p, sy)))
     (field AutoscalePolicyM policyShape)) (field SyncM syncShape)"

definition autoscalerShape :: "('f, 'l) k8sShapes \<Rightarrow> ('f cell, 'f autoscalerM, typeMeta \<times> gameTypeAutoscaler) shape" where
  "autoscalerShape K = together (together
     (plain (\<lambda>a m sp. (AutoscalerTypeM a, case sp of (n, p, sy) \<Rightarrow>
        \<lparr>autoscaler_meta = m, GameTypeName = n, AutoscalePolicy = p, Sync = sy\<rparr>)))
     (field AutoscalerMetaM (metaShape K))) (field AutoscalerSpecM autoscalerSpecShape)"

definition listShape ::
  "('f, 'l) k8sShapes \<Rightarrow> ('f cell \<Rightarrow> 't list option) \<Rightarrow> ('f cell, 't, 'a) shape \<Rightarrow>
     ('f cell, ('f, 't) objectListM, typeMeta \<times> 'l \<times> 'a list option) shape" where
  "listShape K prj S = together (together (plain (\<lambda>l m xs. (ListTypeM l, m, xs)))
     (field ListMetaM (listMetaShape K))) (field Items (pointer prj (listOf S)))"

lemmas type_shapes = conditionsShape_def sidecarShape_def gameInfoShape_def serverSpecShape_def serverStatusShape_def
  serverShape_def fleetSpecShape_def fleetStatusShape_def fleetShape_def gameTypeSpecShape_def gameTypeStatusShape_def
  gameTypeShape_def webhookSpecShape_def policyShape_def syncShape_def autoscalerSpecShape_def autoscalerShape_def
  listShape_def

section \<open>Deep copies of every type\<close>

text \<open>
  The contract of the structs of Kubernetes: their own \<open>DeepCopyInto\<close> make deep copies that leave
  nothing in common.
\<close>

locale k8s_memory =
  fixes F :: "'f k8s" and K :: "('f, 'l) k8sShapes"
  assumes meta: "deep_copy (metaShape K) (ObjectMetaInto F)"
    and listMeta: "deep_copy (listMetaShape K) (ListMetaInto F)"
    and podSpec: "deep_copy (podShape K) (PodSpecInto F)"
    and cond: "deep_copy (conditionShape K) (ConditionInto F)"
begin

lemma k8s_sound [sound_intros]:
  "sound (metaShape K)" "sound (listMetaShape K)" "sound (podShape K)" "sound (conditionShape K)"
  using meta listMeta podSpec cond by (simp_all add: deep_copy_def)

lemma shapes_sound [sound_intros]:
  "sound (conditionsShape K)" "sound sidecarShape" "sound gameInfoShape" "sound (serverSpecShape K)"
  "sound (serverStatusShape K)" "sound (serverShape K)" "sound (fleetSpecShape K)" "sound (fleetStatusShape K)"
  "sound (fleetShape K)" "sound (gameTypeSpecShape K)" "sound (gameTypeStatusShape K)" "sound (gameTypeShape K)"
  "sound webhookSpecShape" "sound policyShape" "sound syncShape" "sound autoscalerSpecShape"
  "sound (autoscalerShape K)" "sound S \<Longrightarrow> sound (listShape K prj S)"
  unfolding type_shapes by (intro sound_intros | assumption)+

lemmas k8s_copies = meta listMeta podSpec cond

lemma pointer_copies:
  "deep_copy intPointer copyInt" "deep_copy stringPointer copyString" "deep_copy durationPointer copyDuration"
  "deep_copy (pointer asService (plain (\<lambda>s. s))) (copyNew asService OService assign)"
  unfolding copyInt_def copyString_def copyDuration_def
  by (rule deep_copy_new [OF deep_copy_assign], simp)+

lemma conditions_copy: "deep_copy (conditionsShape K) (copyConditions F)"
  unfolding conditionsShape_def copyConditions_def
  by (intro deep_copy_together deep_copy_new deep_copy_all cond as_simps)

lemmas copy_steps = k8s_copies [THEN makes_then] pointer_copies [THEN makes_then] conditions_copy [THEN makes_then]

lemma sidecar_copy: "deep_copy sidecarShape SidecarSettings_DeepCopyInto"
  unfolding SidecarSettings_DeepCopyInto_def sidecarShape_def
  by (intro deep_copyI copy_steps struct_intros sound_intros; simp; blast intro: extends_trans)

lemma sidecar_pointer_copy:
  "deep_copy (pointer asSidecarSettings sidecarShape) (copyNew asSidecarSettings OSidecarSettings SidecarSettings_DeepCopyInto)"
  by (intro deep_copy_new sidecar_copy as_simps)

lemma serverSpec_copy: "deep_copy (serverSpecShape K) (ServerSpec_DeepCopyInto F)"
  unfolding ServerSpec_DeepCopyInto_def serverSpecShape_def
  by (intro deep_copyI copy_steps sidecar_pointer_copy [THEN makes_then] struct_intros sound_intros; simp; blast intro: extends_trans)

lemma serverStatus_copy: "deep_copy (serverStatusShape K) (ServerStatus_DeepCopyInto F)"
  unfolding ServerStatus_DeepCopyInto_def serverStatusShape_def
  by (intro deep_copyI copy_steps struct_intros sound_intros; simp; blast intro: extends_trans)

lemma server_copy: "deep_copy (serverShape K) (Server_DeepCopyInto F)"
  unfolding Server_DeepCopyInto_def serverShape_def
  by (intro deep_copyI copy_steps serverSpec_copy [THEN makes_then] serverStatus_copy [THEN makes_then] struct_intros sound_intros; simp; blast intro: extends_trans)

lemma fleetScaling_copy: "deep_copy (plain f) FleetScaling_DeepCopyInto"
  unfolding FleetScaling_DeepCopyInto_def
  by (intro deep_copyI copy_steps struct_intros sound_intros; simp; blast intro: extends_trans)

lemma fleetSpec_copy: "deep_copy (fleetSpecShape K) (FleetSpec_DeepCopyInto F)"
  unfolding FleetSpec_DeepCopyInto_def fleetSpecShape_def
  by (intro deep_copyI copy_steps serverSpec_copy [THEN makes_then] struct_intros sound_intros; simp; blast intro: extends_trans)

lemma fleetStatus_copy: "deep_copy (fleetStatusShape K) (FleetStatus_DeepCopyInto F)"
  unfolding FleetStatus_DeepCopyInto_def fleetStatusShape_def
  by (intro deep_copyI copy_steps struct_intros sound_intros; simp; blast intro: extends_trans)

lemma fleet_copy: "deep_copy (fleetShape K) (Fleet_DeepCopyInto F)"
  unfolding Fleet_DeepCopyInto_def fleetShape_def
  by (intro deep_copyI copy_steps fleetSpec_copy [THEN makes_then] fleetStatus_copy [THEN makes_then] struct_intros sound_intros; simp; blast intro: extends_trans)

lemma gameTypeSpec_copy: "deep_copy (gameTypeSpecShape K) (GameTypeSpec_DeepCopyInto F)"
  unfolding GameTypeSpec_DeepCopyInto_def gameTypeSpecShape_def
  by (intro deep_copyI copy_steps fleetSpec_copy [THEN makes_then] struct_intros sound_intros; simp; blast intro: extends_trans)

lemma gameTypeStatus_copy: "deep_copy (gameTypeStatusShape K) (GameTypeStatus_DeepCopyInto F)"
  unfolding GameTypeStatus_DeepCopyInto_def gameTypeStatusShape_def
  by (intro deep_copyI copy_steps struct_intros sound_intros; simp; blast intro: extends_trans)

lemma gameType_copy: "deep_copy (gameTypeShape K) (GameType_DeepCopyInto F)"
  unfolding GameType_DeepCopyInto_def gameTypeShape_def
  by (intro deep_copyI copy_steps gameTypeSpec_copy [THEN makes_then] gameTypeStatus_copy [THEN makes_then] struct_intros sound_intros; simp; blast intro: extends_trans)

lemma service_copy: "deep_copy (plain f) Service_DeepCopyInto"
  unfolding Service_DeepCopyInto_def
  by (intro deep_copyI copy_steps struct_intros sound_intros; simp; blast intro: extends_trans)

lemma webhookSpec_copy: "deep_copy webhookSpecShape WebhookAutoscalerSpec_DeepCopyInto"
  unfolding WebhookAutoscalerSpec_DeepCopyInto_def webhookSpecShape_def
  by (intro deep_copyI copy_steps struct_intros sound_intros; simp; blast intro: extends_trans)

lemma policy_copy: "deep_copy policyShape AutoscalePolicy_DeepCopyInto"
  unfolding AutoscalePolicy_DeepCopyInto_def policyShape_def
  by (intro deep_copyI copy_steps webhookSpec_copy [THEN makes_then] struct_intros sound_intros; simp; blast intro: extends_trans)

lemma sync_copy: "deep_copy syncShape Sync_DeepCopyInto"
  unfolding Sync_DeepCopyInto_def syncShape_def
  by (intro deep_copyI copy_steps struct_intros sound_intros; simp; blast intro: extends_trans)

lemma autoscalerSpec_copy: "deep_copy autoscalerSpecShape GameTypeAutoscalerSpec_DeepCopyInto"
  unfolding GameTypeAutoscalerSpec_DeepCopyInto_def autoscalerSpecShape_def
  by (intro deep_copyI copy_steps policy_copy [THEN makes_then] sync_copy [THEN makes_then] struct_intros sound_intros; simp; blast intro: extends_trans)

lemma autoscaler_copy: "deep_copy (autoscalerShape K) (GameTypeAutoscaler_DeepCopyInto F)"
  unfolding GameTypeAutoscaler_DeepCopyInto_def autoscalerShape_def
  by (intro deep_copyI copy_steps autoscalerSpec_copy [THEN makes_then] struct_intros sound_intros; simp; blast intro: extends_trans)

text \<open>The four lists, whose items are copied one by one.\<close>

lemma list_copy:
  assumes "deep_copy S f" and "\<And>v. prj (mk v) = Some v"
  shows "deep_copy (listShape K prj S) (\<lambda>l. andThen (ListMetaInto F (ListMetaM l)) (\<lambda>m.
     andThen (copyNew prj mk (copyAll f) (Items l)) (\<lambda>items.
     ret (Ret (l\<lparr>ListTypeM := ListTypeM l, ListMetaM := m, Items := items\<rparr>)))))"
proof -
  have items: "deep_copy (pointer prj (listOf S)) (copyNew prj mk (copyAll f))"
    by (intro deep_copy_new deep_copy_all assms)
  have "sound S" using assms(1) by (simp add: deep_copy_def)
  then show ?thesis
    unfolding listShape_def
    by (intro deep_copyI copy_steps items [THEN makes_then] struct_intros sound_intros; simp; blast intro: extends_trans)
qed

lemma lists_copy:
  "deep_copy (listShape K asServers (serverShape K)) (ServerList_DeepCopyInto F)"
  "deep_copy (listShape K asFleets (fleetShape K)) (FleetList_DeepCopyInto F)"
  "deep_copy (listShape K asGameTypes (gameTypeShape K)) (GameTypeList_DeepCopyInto F)"
  "deep_copy (listShape K asAutoscalers (autoscalerShape K)) (GameTypeAutoscalerList_DeepCopyInto F)"
  using list_copy [OF server_copy as_simps(6)] list_copy [OF fleet_copy as_simps(7)]
    list_copy [OF gameType_copy as_simps(8)] list_copy [OF autoscaler_copy as_simps(9)]
  by (simp_all add: ServerList_DeepCopyInto_def [abs_def] FleetList_DeepCopyInto_def [abs_def]
      GameTypeList_DeepCopyInto_def [abs_def] GameTypeAutoscalerList_DeepCopyInto_def [abs_def])

text \<open>The pointers to the four resources.\<close>

lemma resources_copy:
  "deep_copy (pointer asServer (serverShape K)) (Server_DeepCopy F)"
  "deep_copy (pointer asFleet (fleetShape K)) (Fleet_DeepCopy F)"
  "deep_copy (pointer asGameType (gameTypeShape K)) (GameType_DeepCopy F)"
  "deep_copy (pointer asAutoscaler (autoscalerShape K)) (GameTypeAutoscaler_DeepCopy F)"
  unfolding Server_DeepCopy_def Fleet_DeepCopy_def GameType_DeepCopy_def GameTypeAutoscaler_DeepCopy_def
  by (intro deep_copy_new server_copy fleet_copy gameType_copy autoscaler_copy as_simps)+

end

section \<open>Structs of Kubernetes with memory of their own\<close>

text \<open>
  An instance of the contract: the labels of an object's metadata lie in a cell, which
  \<open>ObjectMeta.DeepCopyInto\<close> duplicates; the other structs hold no pointers.
\<close>

record foreign =
  MetaPart :: objectMeta
  LabelsCell :: "addr option"
  PodPart :: podSpec
  ConditionPart :: condition

definition blank :: foreign where
  "blank = \<lparr>MetaPart = newMeta, LabelsCell = None,
     PodPart = \<lparr>Containers = [], ImagePullSecrets = [], PodSpecRest = []\<rparr>,
     ConditionPart = \<lparr>CondType = [], CondStatus = [], LastTransitionTime = Time 0, CondReason = [], CondMessage = []\<rparr>\<rparr>"

text \<open>The cell of a map of labels.\<close>

definition labelsCell :: "(string \<rightharpoonup> string) \<Rightarrow> foreign cell" where
  "labelsCell l = OForeign (blank\<lparr>MetaPart := newMeta\<lparr>Labels := Some l\<rparr>\<rparr>)"

definition asLabels :: "foreign cell \<Rightarrow> labels" where
  "asLabels x = (case x of OForeign v \<Rightarrow> Labels (MetaPart v) | _ \<Rightarrow> None)"

definition copyMeta :: "(foreign, foreign) copying" where
  "copyMeta v = andThen (copyNew asLabels labelsCell assign (LabelsCell v)) (\<lambda>p. ret (Ret (v\<lparr>LabelsCell := p\<rparr>)))"

definition demoCopies :: "foreign k8s" where
  "demoCopies = \<lparr>ObjectMetaInto = copyMeta, ListMetaInto = assign, PodSpecInto = assign, ConditionInto = assign\<rparr>"

definition demoMetaShape :: "(foreign cell, foreign, objectMeta) shape" where
  "demoMetaShape = together (plain (\<lambda>v l. (MetaPart v)\<lparr>Labels := l\<rparr>))
     (field LabelsCell (pointer asLabels (plain (\<lambda>l. l))))"

definition demoShapes :: "(foreign, unit) k8sShapes" where
  "demoShapes = \<lparr>metaShape = demoMetaShape, listMetaShape = plain (\<lambda>_. ()), podShape = plain PodPart,
     conditionShape = plain ConditionPart\<rparr>"

lemma copyMeta_copy: "deep_copy demoMetaShape copyMeta"
proof -
  have labels: "deep_copy (pointer asLabels (plain (\<lambda>l. l))) (copyNew asLabels labelsCell assign)"
    by (intro deep_copy_new deep_copy_assign) (simp add: asLabels_def labelsCell_def)
  show ?thesis
    unfolding demoMetaShape_def copyMeta_def
    by (intro deep_copyI labels [THEN makes_then] struct_intros sound_intros; simp)
qed

interpretation demo: k8s_memory demoCopies demoShapes
  by (rule k8s_memory.intro) (simp_all add: demoCopies_def demoShapes_def copyMeta_copy deep_copy_assign [unfolded id_def])

section \<open>What the copies are good for\<close>

text \<open>
  \<open>f p\<close> returns a copy that reads as what \<open>p\<close> points to, nothing that existed has changed, and
  whatever is written later to the copy's own cells, \<open>p\<close> reads as it did.
\<close>

definition independentCopy ::
  "('o, addr option, 'a) shape \<Rightarrow> (addr option \<Rightarrow> ('o heap, addr option outcome) state) \<Rightarrow> addr option \<Rightarrow> 'o heap \<Rightarrow> bool" where
  "independentCopy S f p h \<longleftrightarrow> (\<exists>p' h'. run_state (f p) h = (Ret p', h') \<and>
     view S p' h' = view S p h \<and> extends h h' \<and> owned S p' h' \<subseteq> {limit h..} \<and>
     (\<forall>h2. agree (- owned S p' h') h' h2 \<longrightarrow> view S p h2 = view S p h))"

lemma deep_copy_independent:
  assumes "deep_copy S f" and "valid S p h"
  shows "independentCopy S f p h"
proof -
  from deep_copy.returns [OF assms] obtain p' h' where run: "run_state (f p) h = (Ret p', h')" by blast
  from deep_copy.copy_of [OF assms run] deep_copy.original_unaffected [OF assms run] run
  show ?thesis unfolding independentCopy_def copied_def by blast
qed

text \<open>
  A heap with one object of each kind, all with the same label. The server has a capacity in cell 0
  and a condition; the fleet, its list and the game type have the same server specification.
\<close>

definition demoMetaM :: foreign where
  "demoMetaM = blank\<lparr>MetaPart := newMeta\<lparr>Name := ''a''\<rparr>, LabelsCell := Some 2\<rparr>"

definition demoSpecM :: "foreign serverSpecM" where
  "demoSpecM = \<lparr>PodM = blank, TimeOutM = Some 3, AllowForceDeleteM = False, SidecarSettingsM = Some 4, GameInfoM = Some 1\<rparr>"

definition demoServerM :: "foreign serverM" where
  "demoServerM = \<lparr>ServerTypeM = \<lparr>TypeKind = ''Server'', APIVersion = ''v1alpha1''\<rparr>, ServerMetaM = demoMetaM,
     ServerSpecM = demoSpecM, ServerStatusM = \<lparr>ServerConditionsM = Some 6\<rparr>\<rparr>"

definition demoFleetM :: "foreign fleetM" where
  "demoFleetM = \<lparr>FleetTypeM = \<lparr>TypeKind = ''Fleet'', APIVersion = ''v1alpha1''\<rparr>, FleetMetaM = demoMetaM,
     FleetSpecM = \<lparr>FleetServerSpecM = demoSpecM,
       ScalingM = \<lparr>Replicas = 2, PrioritizeAllowed = True, AgePriority = OldestFirst\<rparr>\<rparr>,
     FleetStatusM = \<lparr>FleetConditionsM = None, CurrentReplicasM = 2\<rparr>\<rparr>"

definition demoGameM :: "foreign gameTypeM" where
  "demoGameM = \<lparr>GameTypeM = \<lparr>TypeKind = ''GameType'', APIVersion = ''v1alpha1''\<rparr>, GameMetaM = demoMetaM,
     GameSpecM = \<lparr>GameFleetSpecM = FleetSpecM demoFleetM\<rparr>,
     GameStatusM = \<lparr>GameConditionsM = None, CurrentFleetNameM = ''f'', CurrentFleetReplicasM = 2\<rparr>\<rparr>"

definition demoScalerM :: "foreign autoscalerM" where
  "demoScalerM = \<lparr>AutoscalerTypeM = \<lparr>TypeKind = ''GameTypeAutoscaler'', APIVersion = ''v1alpha1''\<rparr>,
     AutoscalerMetaM = demoMetaM,
     AutoscalerSpecM = \<lparr>GameTypeNameM = ''g'',
       AutoscalePolicyM = \<lparr>PolicyTypeM = Webhook, WebhookSpecM = \<lparr>UrlM = Some 5, PathM = None, ServiceM = None\<rparr>\<rparr>,
       SyncM = \<lparr>SyncTypeM = FixedInterval, SyncTimeM = Some 3\<rparr>\<rparr>,
     AutoscalerStatusM = ()\<rparr>"

definition demoListM :: "addr \<Rightarrow> (foreign, 't) objectListM" where
  "demoListM a = \<lparr>ListTypeM = \<lparr>TypeKind = ''List'', APIVersion = ''v1alpha1''\<rparr>, ListMetaM = blank, Items = Some a\<rparr>"

definition demoHeap :: "foreign cell heap" where
  "demoHeap = \<lparr>cells = (\<lambda>a. if 19 \<le> a then None else [
     Some (OInt 10), Some (OGameInfo \<lparr>CapacityM = Some 0\<rparr>), Some (labelsCell [''fleet'' \<mapsto> ''f'']),
     Some (ODuration 5), Some (OSidecarSettings \<lparr>PortM = Some 0, SidecarImageM = None, LogDebugM = False\<rparr>),
     Some (OString ''url''), Some (OConditions [blank]),
     Some (OServer demoServerM), Some (OFleet demoFleetM), Some (OGameType demoGameM), Some (OAutoscaler demoScalerM),
     Some (OServers [demoServerM, demoServerM]), Some (OFleets [demoFleetM]), Some (OGameTypes [demoGameM]),
     Some (OAutoscalers [demoScalerM]),
     Some (OServerList (demoListM 11)), Some (OFleetList (demoListM 12)), Some (OGameTypeList (demoListM 13)),
     Some (OAutoscalerList (demoListM 14))] ! a), limit = 19\<rparr>"

lemmas demo_parts = demoHeap_def demoMetaM_def demoSpecM_def demoServerM_def demoFleetM_def demoGameM_def demoScalerM_def
  demoListM_def demoShapes_def demoMetaShape_def

lemma demo_valid:
  "valid (pointer asServer (serverShape demoShapes)) (Some 7) demoHeap"
  "valid (pointer asFleet (fleetShape demoShapes)) (Some 8) demoHeap"
  "valid (pointer asGameType (gameTypeShape demoShapes)) (Some 9) demoHeap"
  "valid (pointer asAutoscaler (autoscalerShape demoShapes)) (Some 10) demoHeap"
  "valid (pointer asServerList (listShape demoShapes asServers (serverShape demoShapes))) (Some 15) demoHeap"
  "valid (pointer asFleetList (listShape demoShapes asFleets (fleetShape demoShapes))) (Some 16) demoHeap"
  "valid (pointer asGameTypeList (listShape demoShapes asGameTypes (gameTypeShape demoShapes))) (Some 17) demoHeap"
  "valid (pointer asAutoscalerList (listShape demoShapes asAutoscalers (autoscalerShape demoShapes))) (Some 18) demoHeap"
  by (simp_all add: demo_parts type_shapes shape_defs deref_def asLabels_def labelsCell_def blank_def)

text \<open>
  C9. The generated copies are deep: for valid pointers (or nil) to a server, a fleet, a game type and an
  autoscaler, \<open>DeepCopy\<close> returns and never panics, the copy has the contents of the original, its cells are
  new but for those of \<open>GameInfo\<close>, and later writes to them never show in the original.
\<close>

theorem copies_are_independent:
  assumes "k8s_memory F K"
    and "valid (pointer asServer (serverShape K)) s h" and "valid (pointer asFleet (fleetShape K)) f h"
    and "valid (pointer asGameType (gameTypeShape K)) g h" and "valid (pointer asAutoscaler (autoscalerShape K)) a h"
  shows "independentCopy (pointer asServer (serverShape K)) (Server_DeepCopy F) s h \<and>
    independentCopy (pointer asFleet (fleetShape K)) (Fleet_DeepCopy F) f h \<and>
    independentCopy (pointer asGameType (gameTypeShape K)) (GameType_DeepCopy F) g h \<and>
    independentCopy (pointer asAutoscaler (autoscalerShape K)) (GameTypeAutoscaler_DeepCopy F) a h"
  using assms(2-5) by (intro conjI deep_copy_independent k8s_memory.resources_copy [OF assms(1)])

lemma copies_are_independent_witness:
  "independentCopy (pointer asServer (serverShape demoShapes)) (Server_DeepCopy demoCopies) (Some 7) demoHeap \<and>
   independentCopy (pointer asFleet (fleetShape demoShapes)) (Fleet_DeepCopy demoCopies) (Some 8) demoHeap"
  using copies_are_independent [OF demo.k8s_memory_axioms demo_valid(1-4)] by blast

text \<open>As objects of the scheme: a nil pointer becomes a nil object, any other the copy, with its type.\<close>

definition copiedObject ::
  "(addr \<Rightarrow> schemeObject) \<Rightarrow> ('f cell, addr option, 'a) shape \<Rightarrow>
     (addr option \<Rightarrow> ('f cell heap, schemeObject option outcome) state) \<Rightarrow> addr option \<Rightarrow> 'f cell heap \<Rightarrow> bool" where
  "copiedObject tag S f p h \<longleftrightarrow> (\<exists>p' h'. run_state (f p) h = (Ret (map_option tag p'), h') \<and>
     (p' = None \<longleftrightarrow> p = None) \<and> copied S h p h' p')"

lemma copiedObject_asObject:
  assumes "deep_copy (pointer prj S) (copyNew prj mk into)" and "valid (pointer prj S) p h"
  shows "copiedObject tag (pointer prj S) (asObject tag (copyNew prj mk into)) p h"
proof -
  from deep_copy.returns [OF assms] obtain p' h' where run: "run_state (copyNew prj mk into p) h = (Ret p', h')" by blast
  from run have "p' = None \<longleftrightarrow> p = None"
    by (auto simp: copyNew_def run_simps split: option.splits outcome.splits prod.splits)
  with run deep_copy.copy_of [OF assms run] show ?thesis
    unfolding copiedObject_def by (intro exI [of _ p'] exI [of _ h']) (simp add: asObject_def run_simps split: option.split)
qed

text \<open>
  C34. The lists are copied item by item: \<open>DeepCopyObject\<close> of a valid pointer to a list of servers, fleets,
  game types or autoscalers returns the list's object with the same items, all of them copies.
\<close>

theorem lists_are_copied:
  assumes "k8s_memory F K"
    and "valid (pointer asServerList (listShape K asServers (serverShape K))) s h"
    and "valid (pointer asFleetList (listShape K asFleets (fleetShape K))) f h"
    and "valid (pointer asGameTypeList (listShape K asGameTypes (gameTypeShape K))) g h"
    and "valid (pointer asAutoscalerList (listShape K asAutoscalers (autoscalerShape K))) a h"
  shows
    "copiedObject ServerListRef (pointer asServerList (listShape K asServers (serverShape K)))
       (ServerList_DeepCopyObject F) s h \<and>
     copiedObject FleetListRef (pointer asFleetList (listShape K asFleets (fleetShape K)))
       (FleetList_DeepCopyObject F) f h \<and>
     copiedObject GameTypeListRef (pointer asGameTypeList (listShape K asGameTypes (gameTypeShape K)))
       (GameTypeList_DeepCopyObject F) g h \<and>
     copiedObject AutoscalerListRef (pointer asAutoscalerList (listShape K asAutoscalers (autoscalerShape K)))
       (GameTypeAutoscalerList_DeepCopyObject F) a h"
  unfolding ServerList_DeepCopyObject_def FleetList_DeepCopyObject_def GameTypeList_DeepCopyObject_def
    GameTypeAutoscalerList_DeepCopyObject_def ServerList_DeepCopy_def FleetList_DeepCopy_def GameTypeList_DeepCopy_def
    GameTypeAutoscalerList_DeepCopy_def
  using assms(2-5)
  by (intro conjI copiedObject_asObject deep_copy_new k8s_memory.lists_copy [OF assms(1)] as_simps)

lemma lists_are_copied_witness:
  "copiedObject ServerListRef (pointer asServerList (listShape demoShapes asServers (serverShape demoShapes)))
     (ServerList_DeepCopyObject demoCopies) (Some 15) demoHeap"
  using lists_are_copied [OF demo.k8s_memory_axioms demo_valid(5-8)] by blast

text \<open>
  C36. The copies are not deep enough: a copied server specification has the very pointer of its
  original to \<open>GameInfo\<close>, so storing a capacity through the copy changes the original. (The generated
  file predates that field.)
\<close>

theorem game_info_is_shared:
  assumes "k8s_memory F K" and "valid (serverSpecShape K) s h" and "run_state (ServerSpec_DeepCopyInto F s) h = (Ret s', h')"
    and "GameInfoM s' = Some a" and "deref asGameInfo h' a = Some \<lparr>CapacityM = Some c\<rparr>"
  shows "GameInfo (view (serverSpecShape K) s (snd (run_state (put c (OInt n)) h'))) = Some \<lparr>Capacity = Some n\<rparr>"
proof -
  have same: "GameInfoM s' = GameInfoM s"
    using assms(3) by (auto simp: ServerSpec_DeepCopyInto_def run_simps split: prod.splits outcome.splits)
  have c: "a \<noteq> c"
  proof
    assume "a = c"
    moreover have "copied (serverSpecShape K) h s h' s'"
      using deep_copy.copy_of [OF k8s_memory.serverSpec_copy [OF assms(1)] assms(2,3)] .
    then have "valid (serverSpecShape K) s' h'" by (simp add: copied_def)
    ultimately show False
      using assms(4,5) by (auto simp: serverSpecShape_def gameInfoShape_def pointer_def deref_def asGameInfo_def asGoInt_def
          split: option.splits cell.splits)
  qed
  then have "deref asGameInfo (snd (run_state (put c (OInt n)) h')) a = Some \<lparr>CapacityM = Some c\<rparr>"
    using assms(5) by (simp add: run_simps deref_def)
  with assms(4) same show ?thesis
    by (simp add: serverSpecShape_def gameInfoShape_def shape_defs run_simps reach_def deref_def)
qed

lemma demo_spec_run:
  "\<exists>s' h'. run_state (ServerSpec_DeepCopyInto demoCopies demoSpecM) demoHeap = (Ret s', h') \<and>
     GameInfoM s' = Some 1 \<and> deref asGameInfo h' 1 = Some \<lparr>CapacityM = Some 0\<rparr>"
  by (simp add: ServerSpec_DeepCopyInto_def SidecarSettings_DeepCopyInto_def copyDuration_def copyInt_def copyString_def
      copyNew_def demoCopies_def demoHeap_def demoSpecM_def run_simps deref_def)

lemma game_info_is_shared_witness:
  "\<exists>h'. GameInfo (view (serverSpecShape demoShapes) demoSpecM (snd (run_state (put 0 (OInt 99)) h'))) =
     Some \<lparr>Capacity = Some 99\<rparr>"
proof -
  obtain s' h' where run: "run_state (ServerSpec_DeepCopyInto demoCopies demoSpecM) demoHeap = (Ret s', h')"
    "GameInfoM s' = Some 1" "deref asGameInfo h' 1 = Some \<lparr>CapacityM = Some 0\<rparr>"
    using demo_spec_run by blast
  have "valid (serverSpecShape demoShapes) demoSpecM demoHeap"
    by (simp add: demo_parts type_shapes shape_defs deref_def)
  from game_info_is_shared [OF demo.k8s_memory_axioms this run] show ?thesis by blast
qed

end
