(* ===== verification/Spec2Isabelle.thy ===== *)
theory Spec2Isabelle
  imports ServerController FleetController GameTypeController Autoscaler Webhooks System Rescale Events Scheme TestTools Service Startup DeepCopy Store
begin

text \<open>
  Fallernetes runs game servers on Kubernetes and lets a game server say when it may be shut down.
  Its Go code has three modules. The \<^emph>\<open>operator\<close> (\<open>src/operator\<close>) watches four kinds of custom
  resources: a game type keeps a fleet, a fleet keeps a number of servers, a server keeps one pod, and
  an autoscaler sets the number of servers of a game type. The \<^emph>\<open>sidecar\<close> (\<open>src/sidecar\<close>) runs in
  every pod next to the game; it stores two flags, set by the game server and read by the
  operator before it deletes a pod. The \<^emph>\<open>service\<close> (\<open>src/service\<close>) is a small REST front to the cluster.

  \<^bold>\<open>The model.\<close> Code that talks to the outside is a state transformer (\<open>State_Monad\<close>) over a
  world and a trace: every call of the API server, every HTTP request, every event and every reading of the
  clock appends one entry to the trace, with what was answered. The API server, the network and the clock are
  parameters (\<open>api\<close> and \<open>ext\<close> of \<open>Client\<close>): functions of a world of any type, about which
  the definitions assume nothing. What \<open>controller-runtime\<close> computes without the network (finalizer
  lists, owner references) is the parameter \<open>lib\<close>; the laws some theorems assume of these
  parameters are the documented ones (\<open>finalizer_laws\<close>, \<open>status_laws\<close>,
  \<open>controller_law\<close>). \<open>Store\<close> is a concrete world, an
  API server that keeps objects with versions, finalizers and deletion timestamps, and the witnesses run on it.
  A nil dereference is the outcome \<open>Panic\<close>, an error a value of \<open>error + 'a\<close>; machine
  integers keep their width (\<open>int32\<close>, \<open>goint\<close>); pointers and maps that may be nil are options.

  \<^bold>\<open>Theories.\<close> In the order of the code's layers:
  \<^item> \<open>Prelude\<close>: integers, errors, outcomes, the effect monad, and the trace logic \<open>gives m Q\<close> (every run of
    \<open>m\<close> extends the trace by some \<open>t\<close> with \<open>Q\<close> of the result and \<open>t\<close>) with one composition
    rule per construct, collected in \<open>gives_intros\<close>.
  \<^item> \<open>ApiTypes\<close> (\<open>api/v1alpha1\<close>), \<open>Client\<close> (the calls the operator makes), \<open>Json\<close> and
    \<open>HttpServer\<close> (what the code uses of \<open>encoding/json\<close> and \<open>net/http\<close>), \<open>Store\<close> (the concrete world).
  \<^item> \<open>Sidecar\<close> (\<open>src/sidecar\<close>): the two flags, their four handlers, the routes, the logging wrapper.
  \<^item> \<open>SidecarClient\<close> (\<open>utils/sidecar_requests.go\<close>, \<open>utils/server_communication.go\<close>): the deletion
    check, and its composition with the sidecar of \<open>Sidecar\<close> through the locale \<open>sidecar_api\<close>.
  \<^item> \<open>Selection\<close> and \<open>FleetDeletion\<close> (\<open>utils/fleet_deletion.go\<close>): which server a fleet removes.
    The locales \<open>age_order\<close> and \<open>server_order\<close> state what the oldest-first and the newest-first
    loop share, \<open>fleet_checker\<close> what the choice needs of a deletion check.
  \<^item> \<open>Builders\<close> (\<open>utils/pod.go\<close>, \<open>utils/server.go\<close>, \<open>utils/gametype.go\<close>): the objects that are created.
  \<^item> \<open>ServerController\<close>, \<open>FleetController\<close>, \<open>GameTypeController\<close>, \<open>Autoscaler\<close>
    (\<open>internal/controller\<close>): the four reconcilers, each handler with all its branches. Their interfaces are the
    locales \<open>deletion_checker\<close> and \<open>scale_webhook\<close>.
  \<^item> \<open>Webhooks\<close> (\<open>internal/webhook/v1alpha1\<close>): defaulting and validation at admission, and what a reconcile
    may rely on for a server that went through it.
  \<^item> \<open>Replay\<close> and \<open>System\<close>: the four reconcilers together. \<open>Replay\<close> shows that a reconcile changes the
    world only by the calls its trace shows; \<open>System\<close> has the histories of a whole operator (\<open>history\<close>: reconciles
    of any objects in any order, with steps of the environment between them) and the locale
    \<open>api_contract\<close>, what the operator needs of an API server, interpreted on the one of \<open>Store\<close>.
    \<open>Convergence\<close>: a fleet over repeated reconciles, on the locale \<open>fleet_world\<close>,
    and the end of a fleet that is deleted, on its extension \<open>fleet_teardown\<close>.
  \<^item> \<open>Ownership\<close>: the form of everything the operator creates, over any history, on the locale
    \<open>named_fleets\<close>.
  \<^item> \<open>Rollout\<close>: a game type over repeated reconciles. \<open>typeStep\<close> is the abstract specification of a
    reconcile on the multiset of its fleets, the locale \<open>type_world\<close> the API server it needs.
    \<open>Rescale\<close>: how a change of the wanted count travels through one reconcile to the fleet, on the
    locale \<open>spec_world\<close>.
  \<^item> \<open>Memory\<close> and \<open>DeepCopy\<close> (\<open>api/v1alpha1/zz_generated.deepcopy.go\<close>): a heap with pointers, shapes that say
    what is read from a value and which cells that takes, and the copying functions of all types. Their values
    are those of \<open>ApiTypes\<close>, which is why the rest of the model can do without a heap: an object that was read
    is the reader's own. The locale \<open>deep_copy\<close> is what a copying function promises, \<open>k8s_memory\<close> what the
    structs of Kubernetes do.
  \<^item> \<open>Startup\<close> (\<open>cmd/main.go\<close> of the operator and of the service): from the flags to the running manager.
  \<^item> \<open>Scheme\<close> (\<open>groupversion_info.go\<close> and the \<open>init\<close> functions): the registration of the types, on the locale
    \<open>scheme_laws\<close>. \<open>Events\<close> (\<open>utils/events.go\<close>): the declared reasons, and that no others are reported.
  \<^item> \<open>TestTools\<close> (\<open>test/utils\<close>): the helpers of the end-to-end tests over a shell.
  \<^item> \<open>Codec\<close>, \<open>ServiceTypes\<close>, \<open>ServiceKube\<close>, \<open>ServiceHandlers\<close>, \<open>Service\<close>
    (\<open>src/service/internal\<close>): the JSON codecs of structs (locale \<open>json_codec\<close>), the service's types, its
    operations on the cluster, its handlers and routes (locale \<open>creator\<close> for what the four creations
    share), and its properties, some of them together with the sidecar and the operator. The
    service has its own effects (\<open>svcEffect\<close>); its clients are the parameter \<open>cluster\<close>.

  \<^bold>\<open>What the theorems show.\<close> The safety theorems of the controllers speak of every trace a
  reconcile can leave, whatever the API server answers and whatever else changes the
  cluster meanwhile. The theorems of \<open>System\<close> lift them to histories: an object that carries the operator's
  finalizer stays until the operator had the right to let it go; a fleet reaches its
  target and a deleted one goes; the fleets of a game are replaced until one with the right pod is left. Within a reconcile, a pod is only released after the deletion check said yes, a server only after its pod, under the key that was read; a
  fleet and a game type only after a listing found nothing left, and what is written back is the object that was read
  with nothing but its finalizer gone; a fleet scales toward its target and deletes
  only its own servers; a game type retires only its oldest fleet. The functional ones
  fix what is chosen, created and sent. The composition theorems connect the
  modules: the answer the operator acts on is the flag last posted to the sidecar, the sidecar
  listens on the port the operator asks on, the names of game, fleet and server reach the containers.
  The copies are equal and independent, but for the field the generated code does not know; the
  operator's start follows a plan or stops at the first failure.
  Others record behaviour that a user of the code should know, such as a missing pod blocking a deletion.

  \<^bold>\<open>Bounds and fuel.\<close> No definition uses fuel: every loop of the code runs over a list or a
  count and is structural recursion. The work queue that repeats reconciles is the freedom of
  \<open>history\<close> to take any step next; its delays and its rate limits are not modelled.

  \<^bold>\<open>Not modelled.\<close> The parsing of the command line and logging to the console. Handlers of one
  sidecar run one after the other. Bodies are JSON documents, not their texts. A slice in \<open>Memory\<close> is its array,
  without spare capacity.
\<close>

section \<open>Properties that span components\<close>

text \<open>
  C23. From game to pod, the labels arrive: a pod built for a server that was built for a fleet that
  was built for a game type (whatever the API server fills in besides the labels) carries the
  labels \<open>gametype\<close>, \<open>fleet\<close> and \<open>server\<close> with the three names, and each of its containers,
  the sidecar included, sees them as GAME\_NAME, FLEET\_NAME and SERVER\_NAME.
\<close>

theorem names_reach_the_pod:
  assumes "Labels (fleet_meta f) = Labels (fleet_meta (fst (GetFleetObjectForType L g)))"
    and "Labels (server_meta s) = Labels (server_meta (fst (CreateServerForFleet L f ns)))"
    and "GetNewPod L env s ns = Ret (p, s')"
  shows "lookupLabel (Labels (pod_meta p)) ''gametype'' = Some (Name (gametype_meta g)) \<and>
     lookupLabel (Labels (pod_meta p)) ''fleet'' = Some (Name (fleet_meta f)) \<and>
     lookupLabel (Labels (pod_meta p)) ''server'' = Some (Name (server_meta s)) \<and>
     (\<forall>c \<in> set (Containers (pod_spec p)). {envValue ''GAME_NAME'' (Name (gametype_meta g)),
        envValue ''FLEET_NAME'' (Name (fleet_meta f)), envValue ''SERVER_NAME'' (Name (server_meta s))} \<subseteq> set (Env c))"
proof -
  have s: "lookupLabel (Labels (server_meta s)) ''gametype'' = Some (Name (gametype_meta g))"
    "lookupLabel (Labels (server_meta s)) ''fleet'' = Some (Name (fleet_meta f))"
    by (simp_all add: assms(1,2) CreateServerForFleet_def GetFleetObjectForType_def Let_def newMeta_def)
  from assms(3) obtain spec where spec: "getPodSpec env s = Ret spec" "pod_spec p = spec"
    "Labels (pod_meta p) = withLabel (Labels (server_meta s)) ''server'' (Name (server_meta s))"
    by (elim GetNewPod_parts)
  from spec(1) have "\<forall>c \<in> set (Containers spec). \<exists>c0. c = addServerEnv s c0"
    by (elim getPodSpec_containers) auto
  with s spec show ?thesis by (auto simp: addServerEnv_def labelEnv_def)
qed

definition demoFleetOf :: fleet where
  "demoFleetOf = (let f = fst (GetFleetObjectForType storeLib demoType) in f\<lparr>fleet_meta := (fleet_meta f)\<lparr>Name := ''f''\<rparr>\<rparr>)"

definition demoServerOf :: server where
  "demoServerOf = (let s = fst (CreateServerForFleet storeLib demoFleetOf ''ns'') in s\<lparr>server_meta := (server_meta s)\<lparr>Name := ''a''\<rparr>\<rparr>)"

lemma demoServerOf_builds: "\<exists>p s'. GetNewPod storeLib (\<lambda>_. []) demoServerOf ''ns'' = Ret (p, s')"
proof -
  have "sidecarReady demoServerOf"
    by (simp add: sidecarReady_def demoServerOf_def CreateServerForFleet_def demoFleetOf_def GetFleetObjectForType_def
        demoType_def plainSpec_def Let_def)
  from ready_getPodSpec [OF this, of "\<lambda>_. []"] show ?thesis by (auto simp: GetNewPod_def Let_def)
qed

theorem names_reach_the_pod_witness:
  "\<exists>p s'. GetNewPod storeLib (\<lambda>_. []) demoServerOf ''ns'' = Ret (p, s') \<and>
     lookupLabel (Labels (pod_meta p)) ''gametype'' = Some ''g''"
proof -
  obtain p s' where p: "GetNewPod storeLib (\<lambda>_. []) demoServerOf ''ns'' = Ret (p, s')"
    using demoServerOf_builds by blast
  have "lookupLabel (Labels (pod_meta p)) ''gametype'' = Some (Name (gametype_meta demoType))"
    using names_reach_the_pod [where f = demoFleetOf and g = demoType, OF _ _ p]
    by (simp add: demoFleetOf_def demoServerOf_def Let_def)
  with p show ?thesis by (simp add: demoType_def metaOf_def)
qed

text \<open>The environment a container starts with: of several entries of a name the last counts.\<close>

definition envOf :: "container \<Rightarrow> string \<Rightarrow> string" where
  "envOf c k = (case map_of (rev (map (\<lambda>e. (EnvName e, EnvValue e)) (Env c))) k of None \<Rightarrow> [] | Some v \<Rightarrow> v)"

text \<open>
  C24. Operator and sidecar agree on the port: the sidecar container of a pod, started with the
  environment the pod gives it, listens on the port the operator will ask on, with both flags
  cleared. The port declared for the container is 8080 all the same.
\<close>

theorem sidecar_listens_where_asked:
  assumes "GetNewPod L env s ns = Ret (p, s')"
  shows "\<exists>portNo c. sidecarPort (server_spec s) = Ret portNo \<and> Containers (pod_spec p) \<noteq> [] \<and>
     c = last (Containers (pod_spec p)) \<and>
     sidecarMain (envOf c) = Some \<lparr>DeleteAllowed = False, ShutdownRequested = False, AppPort = portNo\<rparr> \<and>
     map ContainerPort (Ports c) = [8080]"
proof -
  from assms obtain spec where spec: "getPodSpec env s = Ret spec" "pod_spec p = spec" by (elim GetNewPod_parts)
  from spec(1) obtain st portNo img where st: "SidecarSettings (server_spec s) = Some st" "Port st = Some portNo"
    "Containers spec = map (addServerEnv s)
       (Containers (Pod (server_spec s)) @ [sidecarContainer img portNo (LogDebug st)])"
    by (elim getPodSpec_containers)
  let ?c = "addServerEnv s (sidecarContainer img portNo (LogDebug st))"
  have port: "envOf ?c ''PORT'' = itoa (sint portNo)"
    by (simp add: envOf_def addServerEnv_def sidecarContainer_def envValue_def envField_def labelEnv_def capacityEnv_def
        split: option.split)
  have "itoa (sint portNo) \<noteq> []"
    using parse_itoa [of portNo] by (auto simp: parseInt64_def)
  with port have "sidecarMain (envOf ?c) = Some \<lparr>DeleteAllowed = False, ShutdownRequested = False, AppPort = portNo\<rparr>"
    by (simp add: sidecarMain_def parse_itoa)
  with st spec(2) show ?thesis by (auto simp: sidecarPort_def sidecarContainer_def)
qed

theorem sidecar_listens_where_asked_witness:
  "\<exists>p s' portNo. GetNewPod storeLib (\<lambda>_. []) demoServerOf ''ns'' = Ret (p, s') \<and>
     sidecarPort (server_spec demoServerOf) = Ret portNo"
proof -
  obtain p s' where p: "GetNewPod storeLib (\<lambda>_. []) demoServerOf ''ns'' = Ret (p, s')"
    using demoServerOf_builds by blast
  with sidecar_listens_where_asked [OF p] show ?thesis by blast
qed

end
